(* ===== verification/Fluoride_Prelude.thy ===== *)
theory Fluoride_Prelude
  imports Main "HOL-Library.Word" "HOL-Library.Monad_Syntax"
begin

unbundle bit_operations_syntax

text \<open>
  Shared ground of the development: the machine integer types of the C++ sources, the
  reading of an aborting or undefined step as the value \<open>None\<close>, total-correctness
  reasoning for such steps (\<open>ok\<close>), loops over a fixed list of indices (\<open>foreach\<close>), and
  the generic list and word lemmas the components use.

  Every operation of the model that the code can leave by a failed
  \<^verbatim>\<open>log::assert_that\<close>, a null dereference or an out-of-range array access has an
  \<open>option\<close> result; \<open>None\<close> stands for exactly these outcomes.
\<close>

section \<open>Types\<close>

type_synonym u8 = "8 word"
type_synonym u16 = "16 word"
type_synonym u32 = "32 word"

section \<open>Collections\<close>

named_theorems ok_intros \<open>introduction rules for total correctness of a step\<close>
named_theorems st_simps \<open>equations for reading one component after writing another\<close>

section \<open>Steps that may abort\<close>

text \<open>\<open>ok m P\<close>: the step \<open>m\<close> does not abort and its result satisfies \<open>P\<close>.\<close>

definition ok :: "'a option \<Rightarrow> ('a \<Rightarrow> bool) \<Rightarrow> bool" where
  "ok m P = (case m of None \<Rightarrow> False | Some x \<Rightarrow> P x)"

text \<open>\<open>lib m Q\<close>: if the step \<open>m\<close> does not abort, its result satisfies \<open>Q\<close>.\<close>

definition lib :: "'a option \<Rightarrow> ('a \<Rightarrow> bool) \<Rightarrow> bool" where
  "lib m Q \<longleftrightarrow> (\<forall>x. m = Some x \<longrightarrow> Q x)"

text \<open>A \<^verbatim>\<open>for\<close> loop over a list of indices whose body threads a state and may abort.\<close>

fun foreach :: "('i \<Rightarrow> 's \<Rightarrow> 's option) \<Rightarrow> 'i list \<Rightarrow> 's \<Rightarrow> 's option" where
  "foreach f [] s = Some s"
| "foreach f (i # is) s = f i s \<bind> foreach f is"

definition next_from :: "nat \<Rightarrow> nat \<Rightarrow> nat \<Rightarrow> nat list" where
  "next_from N n j = map (\<lambda>i. ((if j \<ge> N then 0 else j) + i) mod N) [0..<n]"

lemma ok_Some [simp]: "ok (Some x) P = P x"
  by (simp add: ok_def)

lemma ok_None [simp]: "\<not> ok None P"
  by (simp add: ok_def)

lemma ok_bind [simp]: "ok (m \<bind> f) P = ok m (\<lambda>x. ok (f x) P)"
  by (cases m) simp_all

lemma ok_if [simp]: "ok (if c then a else b) P = (if c then ok a P else ok b P)"
  by simp

lemma ok_weaken: "ok m Q \<Longrightarrow> (\<And>x. Q x \<Longrightarrow> P x) \<Longrightarrow> ok m P"
  by (cases m) simp_all

lemma ok_bindI: "ok m Q \<Longrightarrow> (\<And>x. Q x \<Longrightarrow> ok (f x) P) \<Longrightarrow> ok (m \<bind> f) P"
  by (cases m) simp_all

lemma ok_conj: "ok m P \<Longrightarrow> ok m Q \<Longrightarrow> ok m (\<lambda>x. P x \<and> Q x)"
  by (cases m) simp_all

lemma ok_iff: "ok m P \<longleftrightarrow> (\<exists>x. m = Some x \<and> P x)"
  by (cases m) simp_all

lemma ok_not_None: "ok m P \<Longrightarrow> m \<noteq> None"
  by (cases m) simp_all

lemma foreach_append: "foreach f (is @ js) s = foreach f is s \<bind> foreach f js"
  by (induction "is" arbitrary: s) (auto split: Option.bind_splits)

text \<open>The loop rule: an invariant that every iteration keeps holds at the end.\<close>

lemma ok_foreach:
  assumes "I s" and "\<And>i s. i \<in> set is \<Longrightarrow> I s \<Longrightarrow> ok (f i s) I"
  shows "ok (foreach f is s) I"
  using assms
proof (induction "is" arbitrary: s)
  case Nil
  then show ?case by simp
next
  case (Cons i "is")
  have "ok (f i s) I" using Cons.prems by simp
  then show ?case
    using Cons.IH Cons.prems(2) by (auto simp: ok_iff)
qed

text \<open>The same with an invariant that knows the index.\<close>

lemma ok_foreach_upt:
  assumes "I 0 s" and "\<And>i s. i < n \<Longrightarrow> I i s \<Longrightarrow> ok (f i s) (I (Suc i))"
  shows "ok (foreach f [0..<n] s) (I n)"
  using assms
proof (induction n)
  case (Suc n)
  have "ok (foreach f [0..<n] s) (I n)" by (rule Suc.IH) (use Suc.prems in auto)
  then have "ok (foreach f [0..<n] s \<bind> foreach f [n]) (I (Suc n))"
    by (rule ok_bindI) (use Suc.prems(2) in \<open>simp add: ok_bindI\<close>)
  then show ?case by (simp add: foreach_append del: ok_bind)
qed simp

section \<open>Lists and words\<close>

lemma find_SomeD: "find P xs = Some x \<Longrightarrow> x \<in> set xs \<and> P x"
  by (auto simp: find_Some_iff)

lemma nth_list_update_if:
  "i < length xs \<Longrightarrow> xs[i := x] ! j = (if i = j then x else xs ! j)"
  by (simp add: nth_list_update)

text \<open>Facts about bytes that are checked value by value.\<close>

lemma upto_255: "[0..255] =
    [(0::int), 1, 2, 3, 4, 5, 6, 7, 8, 9, 10, 11, 12, 13, 14, 15, 16, 17, 18, 19, 20, 21, 22, 23,
     24, 25, 26, 27, 28, 29, 30, 31, 32, 33, 34, 35, 36, 37, 38, 39, 40, 41, 42, 43, 44,
     45, 46, 47, 48, 49, 50, 51, 52, 53, 54, 55, 56, 57, 58, 59, 60, 61, 62, 63, 64, 65,
     66, 67, 68, 69, 70, 71, 72, 73, 74, 75, 76, 77, 78, 79, 80, 81, 82, 83, 84, 85, 86,
     87, 88, 89, 90, 91, 92, 93, 94, 95, 96, 97, 98, 99, 100, 101, 102, 103, 104, 105,
     106, 107, 108, 109, 110, 111, 112, 113, 114, 115, 116, 117, 118, 119, 120, 121, 122,
     123, 124, 125, 126, 127, 128, 129, 130, 131, 132, 133, 134, 135, 136, 137, 138, 139,
     140, 141, 142, 143, 144, 145, 146, 147, 148, 149, 150, 151, 152, 153, 154, 155, 156,
     157, 158, 159, 160, 161, 162, 163, 164, 165, 166, 167, 168, 169, 170, 171, 172, 173,
     174, 175, 176, 177, 178, 179, 180, 181, 182, 183, 184, 185, 186, 187, 188, 189, 190,
     191, 192, 193, 194, 195, 196, 197, 198, 199, 200, 201, 202, 203, 204, 205, 206, 207,
     208, 209, 210, 211, 212, 213, 214, 215, 216, 217, 218, 219, 220, 221, 222, 223, 224,
     225, 226, 227, 228, 229, 230, 231, 232, 233, 234, 235, 236, 237, 238, 239, 240, 241,
     242, 243, 244, 245, 246, 247, 248, 249, 250, 251, 252, 253, 254, 255]"
  by code_simp

lemma u8_all:
  assumes "list_all (\<lambda>k. P (word_of_int k :: u8)) [0..255]"
  shows "P x"
proof -
  have "uint x < 256" by (rule order.strict_trans2 [OF unsigned_less]) simp
  then have "uint x \<in> set [0..255]" by simp
  with assms have "P (word_of_int (uint x))" unfolding list_all_iff by (rule bspec)
  then show ?thesis by simp
qed

section \<open>Going round a pool\<close>

text \<open>
  The allocators search a pool of \<open>N\<close> blocks from index \<open>j\<close> on and wrap at the end: these are
  the indices they look at in \<open>n\<close> turns. In \<open>N\<close> turns they see every block.
\<close>

lemma next_from_Suc: "0 < N \<Longrightarrow> next_from N (Suc n) j = (let j' = if j \<ge> N then 0 else j in j' # next_from N n (j' + 1))"
proof -
  assume "0 < N"
  have "next_from N (Suc n) j = map (\<lambda>i. ((if j \<ge> N then 0 else j) + i) mod N) (0 # map Suc [0..<n])"
    by (simp only: next_from_def upt_conv_Cons [of 0 "Suc n"] map_Suc_upt zero_less_Suc)
  moreover have "(j + Suc i) mod N = ((if N \<le> Suc j then 0 else Suc j) + i) mod N" if "j < N" for i j
  proof (cases "Suc j = N")
    case True
    then have "j + Suc i = i + N" by simp
    with True show ?thesis by (simp only: mod_add_self2) simp
  qed (use that in simp)
  ultimately show ?thesis using \<open>0 < N\<close> by (auto simp: next_from_def Let_def not_le)
qed

lemma mod_cover: "j < N \<Longrightarrow> k < N \<Longrightarrow> \<exists>i<N. k = (j + i) mod N" for j k N :: nat
  by (rule exI [of _ "if j \<le> k then k - j else k + N - j"]) auto

lemma set_next_from: "0 < N \<Longrightarrow> set (next_from N N j) = {..<N}"
  using mod_cover [of "if j \<ge> N then 0 else j" N]
  by (auto simp only: next_from_def set_map set_upt image_iff lessThan_iff mod_less_divisor
      atLeastLessThan_iff split: if_splits) (auto simp: Bex_def)

section \<open>Arithmetic\<close>

lemma div_mult_lower: "0 < n \<Longrightarrow> n \<le> N \<Longrightarrow> N < 2 * (N div n * n)" for n N :: nat
proof -
  assume "0 < n" "n \<le> N"
  then have "1 \<le> N div n" by (simp add: div_greater_zero_iff Suc_leI)
  then have "n \<le> N div n * n" by simp
  moreover have "N < N div n * n + n" using \<open>0 < n\<close> by (metis add_less_cancel_left div_mult_mod_eq mod_less_divisor)
  ultimately show ?thesis by linarith
qed

lemma div_less_by_one: "0 < n \<Longrightarrow> a + n \<le> b \<Longrightarrow> a div n < b div n" for a b n :: nat
  by (metis Suc_le_eq add.commute div_add_self1 div_le_mono less_numeral_extra(3) plus_1_eq_Suc)

section \<open>Bits of words\<close>

lemma bit_dbl: "bit (x * 2 :: 'a::len word) n \<longleftrightarrow> 0 < n \<and> n < LENGTH('a) \<and> bit x (n - 1)"
  using bit_double_iff [of x n] by (auto simp: mult.commute)

lemma less_bitD:
  assumes "unat (x :: 'a::len word) < 2 ^ k" and "bit x n" shows "n < k"
proof (rule ccontr)
  assume "\<not> n < k"
  have "take_bit k (unat x) = unat x" using assms(1) by (simp add: take_bit_nat_eq_self_iff)
  moreover have "bit (unat x) n" using assms(2) by (simp add: bit_unsigned_iff bit_imp_le_length)
  ultimately show False using \<open>\<not> n < k\<close> by (metis bit_take_bit_iff)
qed

lemma unat_of_nat_small: "n < 2 ^ LENGTH('a) \<Longrightarrow> unat (word_of_nat n :: 'a::len word) = n"
  by (simp add: unsigned_of_nat take_bit_nat_eq_self)

lemma join_bytes:
  "ucast (ucast (n AND 0xFF) :: u8) + push_bit 8 (ucast (ucast (drop_bit 8 n) :: u8)) = (n :: u16)"
proof -
  have m: "n AND 0xFF = take_bit 8 n" by (simp add: take_bit_eq_mask mask_numeral)
  show ?thesis unfolding m
    apply (subst disjunctive_add) apply (auto simp: bit_simps)[1]
    by (rule bit_word_eqI) (auto simp: bit_simps)
qed

lemma and_low: "unat (x :: 'a::len word) < 2 ^ k \<Longrightarrow> x AND mask k = x"
  by (rule bit_word_eqI) (auto simp: bit_simps dest: less_bitD)

lemma and_low_u8:
  "x < 64 \<Longrightarrow> x AND 0x3F = (x :: u8)" "x < 8 \<Longrightarrow> x AND 7 = (x :: u8)" 
  using and_low [of x 6] and_low [of x 3] by (simp_all add: word_less_nat_alt mask_numeral)

lemma unat_pred_less: "w \<noteq> 0 \<Longrightarrow> unat (w - 1) < unat w"
  by (simp add: unat_minus_one unat_gt_0)

section \<open>Steps that keep an invariant\<close>

lemma lib_simps [simp]: "lib None Q" "lib (Some x) Q \<longleftrightarrow> Q x"
  by (simp_all add: lib_def)

lemma lib_bindI: "lib m Q \<Longrightarrow> (\<And>x. Q x \<Longrightarrow> lib (f x) R) \<Longrightarrow> lib (m \<bind> f) R"
  by (cases m) simp_all

lemma lib_bind_eqI: "(\<And>x. m = Some x \<Longrightarrow> lib (f x) R) \<Longrightarrow> lib (m \<bind> f) R"
  by (cases m) simp_all

lemma lib_ifI: "lib a R \<Longrightarrow> lib b R \<Longrightarrow> lib (if c then a else b) R"
  by simp

lemma lib_weaken: "lib m Q \<Longrightarrow> (\<And>x. Q x \<Longrightarrow> R x) \<Longrightarrow> lib m R"
  by (simp add: lib_def)

lemma lib_foreach: "(\<And>x s. x \<in> set xs \<Longrightarrow> I s \<Longrightarrow> lib (f x s) I) \<Longrightarrow> I s \<Longrightarrow> lib (foreach f xs s) I"
  by (induction xs arbitrary: s) (auto intro: lib_bindI)

end
