(* ===== verification/Rfc_Types.thy ===== *)
theory Rfc_Types
  imports Fluoride_Prelude
begin

text \<open>
  Data of the RFCOMM layer (\<^verbatim>\<open>system/stack/rfcomm/rfc_int.h\<close>, \<^verbatim>\<open>port_int.h\<close>,
  \<^verbatim>\<open>rfc_event.h\<close>, \<^verbatim>\<open>rfc_state.h\<close>, \<^verbatim>\<open>system/stack/include/rfcdefs.h\<close>,
  \<^verbatim>\<open>port_api.h\<close>): the protocol constants, the states and events of the two state
  machines, the port and multiplexer control blocks, and the global control block
  \<open>rfc_st\<close> with the trace \<open>out\<close> of calls made into the other layers.

  A pointer to a control block is the index of the block in its pool. A queue or an
  alarm that the code keeps behind a pointer has an explicit null value.
\<close>

section \<open>Constants\<close>

abbreviation (input) MAX_RFC_PORTS :: nat where "MAX_RFC_PORTS \<equiv> 30"
abbreviation (input) MAX_BD_CONNECTIONS :: nat where "MAX_BD_CONNECTIONS \<equiv> 16"
abbreviation (input) RFCOMM_MAX_SCN :: u8 where "RFCOMM_MAX_SCN \<equiv> 30"
abbreviation (input) RFCOMM_MAX_DLCI :: nat where "RFCOMM_MAX_DLCI \<equiv> 61"
abbreviation (input) RFCOMM_MX_DLCI :: u8 where "RFCOMM_MX_DLCI \<equiv> 0"
abbreviation (input) RFCOMM_DEFAULT_MTU :: u16 where "RFCOMM_DEFAULT_MTU \<equiv> 127"
abbreviation (input) RFCOMM_MIN_MTU :: u16 where "RFCOMM_MIN_MTU \<equiv> 23"
abbreviation (input) RFCOMM_MAX_MTU :: u16 where "RFCOMM_MAX_MTU \<equiv> 32767"
abbreviation (input) L2CAP_MTU_SIZE :: nat where "L2CAP_MTU_SIZE \<equiv> 1691"
abbreviation (input) L2CAP_DEFAULT_MTU :: u16 where "L2CAP_DEFAULT_MTU \<equiv> 672"
abbreviation (input) L2CAP_MIN_OFFSET :: nat where "L2CAP_MIN_OFFSET \<equiv> 13"
abbreviation (input) L2CAP_PKT_OVERHEAD :: nat where "L2CAP_PKT_OVERHEAD \<equiv> 4"
abbreviation (input) RFCOMM_CTRL_FRAME_LEN :: nat where "RFCOMM_CTRL_FRAME_LEN \<equiv> 3"
abbreviation (input) RFCOMM_MIN_OFFSET :: nat where "RFCOMM_MIN_OFFSET \<equiv> 5"
abbreviation (input) RFCOMM_DATA_OVERHEAD :: nat where "RFCOMM_DATA_OVERHEAD \<equiv> 6"
abbreviation (input) RFCOMM_DATA_BUF_SIZE :: nat where "RFCOMM_DATA_BUF_SIZE \<equiv> 4112"
abbreviation (input) BT_HDR_SIZE :: nat where "BT_HDR_SIZE \<equiv> 8"
abbreviation (input) BTA_RFC_MTU_SIZE :: nat where "BTA_RFC_MTU_SIZE \<equiv> 1672"

abbreviation (input) RFCOMM_SABME :: u8 where "RFCOMM_SABME \<equiv> 0x2F"
abbreviation (input) RFCOMM_UA :: u8 where "RFCOMM_UA \<equiv> 0x63"
abbreviation (input) RFCOMM_DM :: u8 where "RFCOMM_DM \<equiv> 0x0F"
abbreviation (input) RFCOMM_DISC :: u8 where "RFCOMM_DISC \<equiv> 0x43"
abbreviation (input) RFCOMM_UIH :: u8 where "RFCOMM_UIH \<equiv> 0xEF"
abbreviation (input) RFCOMM_EA :: u8 where "RFCOMM_EA \<equiv> 0x01"
abbreviation (input) RFCOMM_CR_MASK :: u8 where "RFCOMM_CR_MASK \<equiv> 0x02"
abbreviation (input) RFCOMM_PF :: u8 where "RFCOMM_PF \<equiv> 0x10"

abbreviation (input) RFCOMM_MX_PN :: u8 where "RFCOMM_MX_PN \<equiv> 0x80"
abbreviation (input) RFCOMM_MX_TEST :: u8 where "RFCOMM_MX_TEST \<equiv> 0x20"
abbreviation (input) RFCOMM_MX_FCON :: u8 where "RFCOMM_MX_FCON \<equiv> 0xA0"
abbreviation (input) RFCOMM_MX_FCOFF :: u8 where "RFCOMM_MX_FCOFF \<equiv> 0x60"
abbreviation (input) RFCOMM_MX_MSC :: u8 where "RFCOMM_MX_MSC \<equiv> 0xE0"
abbreviation (input) RFCOMM_MX_NSC :: u8 where "RFCOMM_MX_NSC \<equiv> 0x10"
abbreviation (input) RFCOMM_MX_RPN :: u8 where "RFCOMM_MX_RPN \<equiv> 0x90"
abbreviation (input) RFCOMM_MX_RLS :: u8 where "RFCOMM_MX_RLS \<equiv> 0x50"

abbreviation (input) RFCOMM_PN_CONV_LAYER_TYPE_1 :: u8 where "RFCOMM_PN_CONV_LAYER_TYPE_1 \<equiv> 0"
abbreviation (input) RFCOMM_PN_CONV_LAYER_CBFC_I :: u8 where "RFCOMM_PN_CONV_LAYER_CBFC_I \<equiv> 0xF0"
abbreviation (input) RFCOMM_PN_CONV_LAYER_CBFC_R :: u8 where "RFCOMM_PN_CONV_LAYER_CBFC_R \<equiv> 0xE0"
abbreviation (input) RFCOMM_K_MAX :: u16 where "RFCOMM_K_MAX \<equiv> 7"

abbreviation (input) RFCOMM_MSC_FC :: u8 where "RFCOMM_MSC_FC \<equiv> 0x02"
abbreviation (input) RFCOMM_MSC_RTC :: u8 where "RFCOMM_MSC_RTC \<equiv> 0x04"
abbreviation (input) RFCOMM_MSC_RTR :: u8 where "RFCOMM_MSC_RTR \<equiv> 0x08"
abbreviation (input) RFCOMM_MSC_IC :: u8 where "RFCOMM_MSC_IC \<equiv> 0x40"
abbreviation (input) RFCOMM_MSC_DV :: u8 where "RFCOMM_MSC_DV \<equiv> 0x80"
abbreviation (input) MODEM_SIGNAL_DTRDSR :: u8 where "MODEM_SIGNAL_DTRDSR \<equiv> 0x01"
abbreviation (input) MODEM_SIGNAL_RTSCTS :: u8 where "MODEM_SIGNAL_RTSCTS \<equiv> 0x02"
abbreviation (input) MODEM_SIGNAL_RI :: u8 where "MODEM_SIGNAL_RI \<equiv> 0x04"
abbreviation (input) MODEM_SIGNAL_DCD :: u8 where "MODEM_SIGNAL_DCD \<equiv> 0x08"

abbreviation (input) RFCOMM_FC_RTR :: u8 where "RFCOMM_FC_RTR \<equiv> 0x0C"
abbreviation (input) RFCOMM_FC_RTC :: u8 where "RFCOMM_FC_RTC \<equiv> 0x30"
abbreviation (input) RFCOMM_RPN_PM_RTR :: u16 where "RFCOMM_RPN_PM_RTR \<equiv> 0x0C00"
abbreviation (input) RFCOMM_RPN_PM_RTC :: u16 where "RFCOMM_RPN_PM_RTC \<equiv> 0x3000"
abbreviation (input) RFCOMM_RPN_PM_MASK :: u16 where "RFCOMM_RPN_PM_MASK \<equiv> 0x3F7F"

abbreviation (input) RFC_RSP_PN :: u8 where "RFC_RSP_PN \<equiv> 0x01"
abbreviation (input) RFC_RSP_RPN_REPLY :: u8 where "RFC_RSP_RPN_REPLY \<equiv> 0x02"
abbreviation (input) RFC_RSP_RPN :: u8 where "RFC_RSP_RPN \<equiv> 0x04"
abbreviation (input) RFC_RSP_MSC :: u8 where "RFC_RSP_MSC \<equiv> 0x08"
abbreviation (input) RFC_RSP_RLS :: u8 where "RFC_RSP_RLS \<equiv> 0x10"

abbreviation (input) PORT_CTRL_REQ_SENT :: u8 where "PORT_CTRL_REQ_SENT \<equiv> 0x01"
abbreviation (input) PORT_CTRL_REQ_CONFIRMED :: u8 where "PORT_CTRL_REQ_CONFIRMED \<equiv> 0x02"
abbreviation (input) PORT_CTRL_IND_RECEIVED :: u8 where "PORT_CTRL_IND_RECEIVED \<equiv> 0x04"
abbreviation (input) PORT_CTRL_IND_RESPONDED :: u8 where "PORT_CTRL_IND_RESPONDED \<equiv> 0x08"

abbreviation (input) PORT_RX_BUF_LOW_WM :: nat where "PORT_RX_BUF_LOW_WM \<equiv> 8"
abbreviation (input) PORT_RX_BUF_HIGH_WM :: nat where "PORT_RX_BUF_HIGH_WM \<equiv> 10"
abbreviation (input) PORT_RX_BUF_CRITICAL_WM :: nat where "PORT_RX_BUF_CRITICAL_WM \<equiv> 15"
abbreviation (input) PORT_RX_LOW_WM :: nat where "PORT_RX_LOW_WM \<equiv> BTA_RFC_MTU_SIZE * PORT_RX_BUF_LOW_WM"
abbreviation (input) PORT_RX_HIGH_WM :: nat where "PORT_RX_HIGH_WM \<equiv> BTA_RFC_MTU_SIZE * PORT_RX_BUF_HIGH_WM"
abbreviation (input) PORT_RX_CRITICAL_WM :: nat where
  "PORT_RX_CRITICAL_WM \<equiv> BTA_RFC_MTU_SIZE * PORT_RX_BUF_CRITICAL_WM"
abbreviation (input) PORT_TX_BUF_HIGH_WM :: nat where "PORT_TX_BUF_HIGH_WM \<equiv> 10"
abbreviation (input) PORT_TX_BUF_CRITICAL_WM :: nat where "PORT_TX_BUF_CRITICAL_WM \<equiv> 15"
abbreviation (input) PORT_TX_HIGH_WM :: nat where "PORT_TX_HIGH_WM \<equiv> BTA_RFC_MTU_SIZE * PORT_TX_BUF_HIGH_WM"
abbreviation (input) PORT_TX_CRITICAL_WM :: nat where
  "PORT_TX_CRITICAL_WM \<equiv> BTA_RFC_MTU_SIZE * PORT_TX_BUF_CRITICAL_WM"

abbreviation (input) PORT_EV_RXCHAR :: u32 where "PORT_EV_RXCHAR \<equiv> 0x1"
abbreviation (input) PORT_EV_RXFLAG :: u32 where "PORT_EV_RXFLAG \<equiv> 0x2"
abbreviation (input) PORT_EV_TXEMPTY :: u32 where "PORT_EV_TXEMPTY \<equiv> 0x4"
abbreviation (input) PORT_EV_CTS :: u32 where "PORT_EV_CTS \<equiv> 0x8"
abbreviation (input) PORT_EV_DSR :: u32 where "PORT_EV_DSR \<equiv> 0x10"
abbreviation (input) PORT_EV_RLSD :: u32 where "PORT_EV_RLSD \<equiv> 0x20"
abbreviation (input) PORT_EV_BREAK :: u32 where "PORT_EV_BREAK \<equiv> 0x40"
abbreviation (input) PORT_EV_ERR :: u32 where "PORT_EV_ERR \<equiv> 0x80"
abbreviation (input) PORT_EV_RING :: u32 where "PORT_EV_RING \<equiv> 0x100"
abbreviation (input) PORT_EV_CONNECTED :: u32 where "PORT_EV_CONNECTED \<equiv> 0x200"
abbreviation (input) PORT_EV_CTSS :: u32 where "PORT_EV_CTSS \<equiv> 0x400"
abbreviation (input) PORT_EV_DSRS :: u32 where "PORT_EV_DSRS \<equiv> 0x800"
abbreviation (input) PORT_EV_RLSDS :: u32 where "PORT_EV_RLSDS \<equiv> 0x1000"
abbreviation (input) PORT_EV_OVERRUN :: u32 where "PORT_EV_OVERRUN \<equiv> 0x2000"
abbreviation (input) PORT_EV_TXCHAR :: u32 where "PORT_EV_TXCHAR \<equiv> 0x4000"
abbreviation (input) PORT_EV_CONNECT_ERR :: u32 where "PORT_EV_CONNECT_ERR \<equiv> 0x8000"
abbreviation (input) PORT_EV_FC :: u32 where "PORT_EV_FC \<equiv> 0x10000"
abbreviation (input) PORT_EV_FCS :: u32 where "PORT_EV_FCS \<equiv> 0x20000"

abbreviation (input) PORT_DTRDSR_ON :: u8 where "PORT_DTRDSR_ON \<equiv> 0x01"
abbreviation (input) PORT_CTSRTS_ON :: u8 where "PORT_CTSRTS_ON \<equiv> 0x02"
abbreviation (input) PORT_RING_ON :: u8 where "PORT_RING_ON \<equiv> 0x04"
abbreviation (input) PORT_DCD_ON :: u8 where "PORT_DCD_ON \<equiv> 0x08"
abbreviation (input) PORT_ERR_BREAK :: u8 where "PORT_ERR_BREAK \<equiv> 0x01"
abbreviation (input) PORT_ERR_OVERRUN :: u8 where "PORT_ERR_OVERRUN \<equiv> 0x02"
abbreviation (input) LINE_STATUS_OVERRUN :: u8 where "LINE_STATUS_OVERRUN \<equiv> 0x02"
abbreviation (input) LINE_STATUS_FAILED :: u8 where "LINE_STATUS_FAILED \<equiv> 0x10"

abbreviation (input) RFC_T1_TIMEOUT :: nat where "RFC_T1_TIMEOUT \<equiv> 20"
abbreviation (input) RFC_PORT_T1_TIMEOUT :: nat where "RFC_PORT_T1_TIMEOUT \<equiv> 60"
abbreviation (input) RFC_T2_TIMEOUT :: nat where "RFC_T2_TIMEOUT \<equiv> 20"
abbreviation (input) RFC_DISC_TIMEOUT :: nat where "RFC_DISC_TIMEOUT \<equiv> 3"
abbreviation (input) RFCOMM_CONN_TIMEOUT :: nat where "RFCOMM_CONN_TIMEOUT \<equiv> 120"
abbreviation (input) RFC_MCB_INIT_INACT_TIMER :: nat where "RFC_MCB_INIT_INACT_TIMER \<equiv> 60"
abbreviation (input) RFC_MCB_RELEASE_INACT_TIMER :: nat where "RFC_MCB_RELEASE_INACT_TIMER \<equiv> 20"

abbreviation (input) RFCOMM_SUCCESS :: u16 where "RFCOMM_SUCCESS \<equiv> 0"
abbreviation (input) RFCOMM_ERROR :: u16 where "RFCOMM_ERROR \<equiv> 1"
abbreviation (input) RFCOMM_SECURITY_ERR :: u16 where "RFCOMM_SECURITY_ERR \<equiv> 112"

section \<open>States, events, results\<close>

datatype tRFC_MX_STATE =
    RFC_MX_STATE_IDLE
  | RFC_MX_STATE_WAIT_CONN_CNF
  | RFC_MX_STATE_CONFIGURE
  | RFC_MX_STATE_SABME_WAIT_UA
  | RFC_MX_STATE_WAIT_SABME
  | RFC_MX_STATE_CONNECTED
  | RFC_MX_STATE_DISC_WAIT_UA

datatype tRFC_PORT_STATE =
    RFC_STATE_CLOSED
  | RFC_STATE_SABME_WAIT_UA
  | RFC_STATE_ORIG_WAIT_SEC_CHECK
  | RFC_STATE_TERM_WAIT_SEC_CHECK
  | RFC_STATE_OPENED
  | RFC_STATE_DISC_WAIT_UA

datatype tPORT_CONNECTION_STATE =
    PORT_CONNECTION_STATE_CLOSED
  | PORT_CONNECTION_STATE_OPENING
  | PORT_CONNECTION_STATE_OPENED
  | PORT_CONNECTION_STATE_CLOSING

datatype port_fc = PORT_FC_UNDEFINED | PORT_FC_TS710 | PORT_FC_CREDIT

datatype tPORT_RESULT =
    PORT_SUCCESS | PORT_UNKNOWN_ERROR | PORT_ALREADY_OPENED | PORT_CMD_PENDING
  | PORT_APP_NOT_REGISTERED | PORT_NO_MEM | PORT_NO_RESOURCES | PORT_BAD_BD_ADDR
  | PORT_BAD_HANDLE | PORT_NOT_OPENED | PORT_LINE_ERR | PORT_START_FAILED
  | PORT_PAR_NEG_FAILED | PORT_PORT_NEG_FAILED | PORT_SEC_FAILED
  | PORT_PEER_CONNECTION_FAILED | PORT_PEER_FAILED | PORT_PEER_TIMEOUT | PORT_CLOSED
  | PORT_TX_FULL | PORT_LOCAL_CLOSED | PORT_LOCAL_TIMEOUT | PORT_TX_QUEUE_DISABLED
  | PORT_PAGE_TIMEOUT | PORT_INVALID_SCN | PORT_ERR_MAX

text \<open>
  A stack buffer: \<open>bh_payload\<close> holds the \<^verbatim>\<open>len\<close> bytes that start \<open>bh_offset\<close> bytes into
  the data area. Prepending a header consumes offset; writing in front of the data area
  is an abort.
\<close>

record BT_HDR =
  bh_offset :: nat
  bh_layer_specific :: u16
  bh_payload :: "u8 list"

definition bh_len :: "BT_HDR \<Rightarrow> u16" where
  "bh_len b = word_of_nat (length (bh_payload b))"

record tL2CAP_CFG_INFO =
  cfg_mtu_present :: bool
  cfg_mtu :: u16

datatype tRFC_EVENT =
    RFC_EVENT_SABME | RFC_EVENT_UA | RFC_EVENT_DM | RFC_EVENT_DISC | RFC_EVENT_UIH
  | RFC_EVENT_TIMEOUT | RFC_EVENT_BAD_FRAME

text \<open>The events carry what the code passes through the \<^verbatim>\<open>void*\<close> argument.\<close>

datatype tRFC_MX_EVENT =
    RFC_MX_EVENT_SABME | RFC_MX_EVENT_UA | RFC_MX_EVENT_DM | RFC_MX_EVENT_DISC
  | RFC_MX_EVENT_UIH | RFC_MX_EVENT_TIMEOUT | RFC_MX_EVENT_START_REQ
  | RFC_MX_EVENT_START_RSP u16 | RFC_MX_EVENT_CLOSE_REQ | RFC_MX_EVENT_CONN_CNF u16
  | RFC_MX_EVENT_CONN_IND | RFC_MX_EVENT_CONF_CNF u16
  | RFC_MX_EVENT_CONF_IND tL2CAP_CFG_INFO | RFC_MX_EVENT_QOS_VIOLATION_IND
  | RFC_MX_EVENT_DISC_IND

datatype tRFC_PORT_EVENT =
    RFC_PORT_EVENT_SABME | RFC_PORT_EVENT_UA | RFC_PORT_EVENT_DM | RFC_PORT_EVENT_DISC
  | RFC_PORT_EVENT_UIH BT_HDR | RFC_PORT_EVENT_TIMEOUT | RFC_PORT_EVENT_OPEN
  | RFC_PORT_EVENT_ESTABLISH_RSP u16 | RFC_PORT_EVENT_CLOSE | RFC_PORT_EVENT_CLEAR
  | RFC_PORT_EVENT_DATA BT_HDR | RFC_PORT_EVENT_SEC_COMPLETE bool

section \<open>Control blocks\<close>

type_synonym RawAddress = "48 word"

abbreviation (input) kEmpty :: RawAddress where "kEmpty \<equiv> 0"
abbreviation (input) kAny :: RawAddress where "kAny \<equiv> 0xFFFFFFFFFFFF"

text \<open>An alarm pointer: null, an alarm that is not running, one armed for some seconds.\<close>

datatype alarm = NoAlarm | Stopped | Armed nat

text \<open>Callbacks of the application are known by a number.\<close>

type_synonym callback = nat

record PortSettings =
  baud_rate :: u8
  byte_size :: u8
  stop_bits :: u8
  parity :: u8
  parity_type :: u8
  fc_type :: u8
  rx_char1 :: u8
  xon_char :: u8
  xoff_char :: u8

record tPORT_DATA =
  queue :: "BT_HDR list option"
  peer_fc :: bool
  user_fc :: bool
  queue_size :: u32

record tPORT_CTRL =
  modem_signal :: u8
  break_signal :: u8
  discard_buffers :: u8
  break_signal_seq :: u8
  ctrl_fc :: bool

record tRFC_MCB =
  mcb_timer :: alarm
  cmd_q :: "BT_HDR list option"
  port_handles :: "nat list"
  mcb_bd_addr :: RawAddress
  lcid :: u16
  peer_l2cap_mtu :: u16
  mcb_state :: tRFC_MX_STATE
  is_initiator :: bool
  restart_required :: bool
  peer_ready :: bool
  flow :: port_fc
  l2cap_congested :: bool
  is_disc_initiator :: bool
  pending_lcid :: u16
  pending_configure_complete :: bool
  pending_cfg_info :: tL2CAP_CFG_INFO

text \<open>The port control block, with the fields of the nested \<^verbatim>\<open>tRFC_PORT rfc\<close> inlined.\<close>

record tPORT =
  handle :: nat
  in_use :: bool
  port_state :: tPORT_CONNECTION_STATE
  scn :: u8
  uuid :: u16
  bd_addr :: RawAddress
  is_server :: bool
  dlci :: u8
  line_status :: u8
  default_signal_state :: u8
  mtu :: u16
  peer_mtu :: u16
  tx :: tPORT_DATA
  rx :: tPORT_DATA
  user_port_settings :: PortSettings
  peer_port_settings :: PortSettings
  local_ctrl :: tPORT_CTRL
  peer_ctrl :: tPORT_CTRL
  port_ctrl :: u8
  rx_flag_ev_pending :: bool
  rfc_state :: tRFC_PORT_STATE
  expected_rsp :: u8
  p_mcb :: "nat option"
  port_timer :: alarm
  ev_mask :: u32
  p_callback :: "callback option"
  p_mgmt_callback :: "callback option"
  p_data_callback :: "callback option"
  p_data_co_callback :: "callback option"
  credit_tx :: u16
  credit_rx :: u16
  credit_rx_max :: u16
  credit_rx_low :: u16
  rx_buf_critical :: u16
  keep_port_handle :: bool
  keep_mtu :: u16
  sec_mask :: u16

text \<open>The frame being decoded; the variants of the C union are separate fields.\<close>

record MX_FRAME =
  f_dlci :: u8
  f_type :: u8
  f_cr :: u8
  f_ea :: u8
  f_pf :: u8
  f_credit :: u8
  pn_frame_type :: u8
  pn_conv_layer :: u8
  pn_priority :: u8
  pn_t1 :: u8
  pn_mtu :: u16
  pn_n2 :: u8
  pn_k :: u8
  test_data_len :: u16
  msc_signals :: u8
  msc_break_present :: u8
  msc_break_duration :: u8
  nsc_ea :: u8
  nsc_cr :: u8
  nsc_type :: u8
  rpn_is_request :: bool
  rpn_baud_rate :: u8
  rpn_byte_size :: u8
  rpn_stop_bits :: u8
  rpn_parity :: u8
  rpn_parity_type :: u8
  rpn_fc_type :: u8
  rpn_xon_char :: u8
  rpn_xoff_char :: u8
  rpn_param_mask :: u16
  rls_line_status :: u8

section \<open>Calls into other layers\<close>

datatype rfc_out =
    L2CA_ConnectReq RawAddress
  | L2CA_DisconnectReq u16
  | L2CA_DataWrite u16 "u8 list"
  | Btm_sec_mx_access_request RawAddress bool u16 nat
  | Btm_sec_abort_access_req RawAddress
  | Port_callback callback u32 nat
  | Mgmt_callback callback tPORT_RESULT nat
  | Data_callback callback nat "u8 list"
  | Data_co_callback callback nat "u8 list"

text \<open>
  What the other layers answer: the channel id that \<^verbatim>\<open>L2CA_ConnectReq\<close> returns (0 for
  failure), the packet size of \<^verbatim>\<open>BTM_GetMaxPacketSize\<close>, the build flag, the boot time,
  and the application's call-out callback: its answer to incoming data, the bytes it has to
  send (\<open>None\<close> when the query fails), and whether reading so many of them succeeds.
\<close>

record rfc_env =
  connect_req_lcid :: "RawAddress \<Rightarrow> u16"
  max_packet_size :: "RawAddress \<Rightarrow> u16"
  always_disc_initiator :: bool
  boottime_ms :: nat
  co_incoming :: "callback \<Rightarrow> nat \<Rightarrow> u8 list \<Rightarrow> bool"
  co_outgoing :: "callback \<Rightarrow> nat \<Rightarrow> u8 list option"
  co_read_ok :: "callback \<Rightarrow> nat \<Rightarrow> nat \<Rightarrow> bool"

record rfc_st =
  ports :: "tPORT list"
  rfc_mcb :: "tRFC_MCB list"
  rx_frame :: MX_FRAME
  peer_rx_disabled :: bool
  last_mux :: nat
  last_port_index :: nat
  rfc_lcid_mcb :: "(u16 \<times> nat option) list"
  out :: "rfc_out list"

end
