(* ===== verification/Rfc_Fcs.thy ===== *)
theory Rfc_Fcs
  imports Rfc_Types
begin

text \<open>
  The frame check sequence of RFCOMM (\<^verbatim>\<open>rfc_utils.cc\<close>): the table, the calculation
  over a frame header and the check of a received byte. The table is compared with the
  bitwise division by the reversed polynomial of GSM 07.10, the check is shown to accept
  exactly the calculated byte, and every change of a single byte is shown to be detected.
\<close>

section \<open>Definitions\<close>

definition rfc_crctable :: "u8 list" where
  "rfc_crctable =
    [0x00, 0x91, 0xE3, 0x72, 0x07, 0x96, 0xE4, 0x75, 0x0E, 0x9F, 0xED, 0x7C, 0x09,
     0x98, 0xEA, 0x7B, 0x1C, 0x8D, 0xFF, 0x6E, 0x1B, 0x8A, 0xF8, 0x69, 0x12, 0x83,
     0xF1, 0x60, 0x15, 0x84, 0xF6, 0x67, 0x38, 0xA9, 0xDB, 0x4A, 0x3F, 0xAE, 0xDC,
     0x4D, 0x36, 0xA7, 0xD5, 0x44, 0x31, 0xA0, 0xD2, 0x43, 0x24, 0xB5, 0xC7, 0x56,
     0x23, 0xB2, 0xC0, 0x51, 0x2A, 0xBB, 0xC9, 0x58, 0x2D, 0xBC, 0xCE, 0x5F, 0x70,
     0xE1, 0x93, 0x02, 0x77, 0xE6, 0x94, 0x05, 0x7E, 0xEF, 0x9D, 0x0C, 0x79, 0xE8,
     0x9A, 0x0B, 0x6C, 0xFD, 0x8F, 0x1E, 0x6B, 0xFA, 0x88, 0x19, 0x62, 0xF3, 0x81,
     0x10, 0x65, 0xF4, 0x86, 0x17, 0x48, 0xD9, 0xAB, 0x3A, 0x4F, 0xDE, 0xAC, 0x3D,
     0x46, 0xD7, 0xA5, 0x34, 0x41, 0xD0, 0xA2, 0x33, 0x54, 0xC5, 0xB7, 0x26, 0x53,
     0xC2, 0xB0, 0x21, 0x5A, 0xCB, 0xB9, 0x28, 0x5D, 0xCC, 0xBE, 0x2F, 0xE0, 0x71,
     0x03, 0x92, 0xE7, 0x76, 0x04, 0x95, 0xEE, 0x7F, 0x0D, 0x9C, 0xE9, 0x78, 0x0A,
     0x9B, 0xFC, 0x6D, 0x1F, 0x8E, 0xFB, 0x6A, 0x18, 0x89, 0xF2, 0x63, 0x11, 0x80,
     0xF5, 0x64, 0x16, 0x87, 0xD8, 0x49, 0x3B, 0xAA, 0xDF, 0x4E, 0x3C, 0xAD, 0xD6,
     0x47, 0x35, 0xA4, 0xD1, 0x40, 0x32, 0xA3, 0xC4, 0x55, 0x27, 0xB6, 0xC3, 0x52,
     0x20, 0xB1, 0xCA, 0x5B, 0x29, 0xB8, 0xCD, 0x5C, 0x2E, 0xBF, 0x90, 0x01, 0x73,
     0xE2, 0x97, 0x06, 0x74, 0xE5, 0x9E, 0x0F, 0x7D, 0xEC, 0x99, 0x08, 0x7A, 0xEB,
     0x8C, 0x1D, 0x6F, 0xFE, 0x8B, 0x1A, 0x68, 0xF9, 0x82, 0x13, 0x61, 0xF0, 0x85,
     0x14, 0x66, 0xF7, 0xA8, 0x39, 0x4B, 0xDA, 0xAF, 0x3E, 0x4C, 0xDD, 0xA6, 0x37,
     0x45, 0xD4, 0xA1, 0x30, 0x42, 0xD3, 0xB4, 0x25, 0x57, 0xC6, 0xB3, 0x22, 0x50,
     0xC1, 0xBA, 0x2B, 0x59, 0xC8, 0xBD, 0x2C, 0x5E, 0xCF]"

text \<open>The loop \<^verbatim>\<open>while (len--) fcs = rfc_crctable[fcs ^ *p++]\<close>.\<close>

fun rfc_fcs_loop :: "u8 \<Rightarrow> u8 list \<Rightarrow> u8" where
  "rfc_fcs_loop fcs [] = fcs"
| "rfc_fcs_loop fcs (b # bs) = rfc_fcs_loop (rfc_crctable ! unat (fcs XOR b)) bs"

definition rfc_calc_fcs :: "nat \<Rightarrow> u8 list \<Rightarrow> u8" where
  "rfc_calc_fcs len p = 0xFF - rfc_fcs_loop 0xFF (take len p)"

definition rfc_check_fcs :: "nat \<Rightarrow> u8 list \<Rightarrow> u8 \<Rightarrow> bool" where
  "rfc_check_fcs len p received_fcs =
     (let fcs = rfc_fcs_loop 0xFF (take len p) in
      rfc_crctable ! unat (fcs XOR received_fcs) = 0xCF)"

text \<open>Reference: division by the reversed polynomial, one bit at a time.\<close>

definition crc_bit :: "u8 \<Rightarrow> u8" where
  "crc_bit x = (if x AND 1 = 1 then drop_bit 1 x XOR 0xE0 else drop_bit 1 x)"

definition crc_byte :: "u8 \<Rightarrow> u8" where
  "crc_byte x = (crc_bit ^^ 8) x"

text \<open>The polynomial has its top bit set, so a step can be undone.\<close>

definition crc_bit_inv :: "u8 \<Rightarrow> u8" where
  "crc_bit_inv y = (if y AND 0x80 = 0 then push_bit 1 y else push_bit 1 (y XOR 0xE0) OR 1)"

section \<open>The table\<close>

lemma length_rfc_crctable [simp]: "length rfc_crctable = 256"
  by (simp add: rfc_crctable_def)

lemma crc_byte_unfold:
  "crc_byte x = crc_bit (crc_bit (crc_bit (crc_bit (crc_bit (crc_bit (crc_bit (crc_bit x)))))))"
  by (simp add: crc_byte_def numeral_eq_Suc)

lemma crctable_map: "rfc_crctable = map (\<lambda>k. crc_byte (word_of_int k)) [0..255]"
  unfolding rfc_crctable_def upto_255 list.map crc_byte_unfold
  by (simp add: crc_bit_def)

lemma crctable_nth: "rfc_crctable ! unat (x :: u8) = crc_byte x"
proof -
  have "uint x < 256" and "unat x < 256"
    by (rule order.strict_trans2 [OF unsigned_less], simp)+
  then show ?thesis by (simp add: crctable_map nth_upto)
qed

lemma crc_bit_inv: "crc_bit_inv (crc_bit x) = x"
  by (rule u8_all, unfold upto_255 list.pred_inject) (simp add: crc_bit_inv_def crc_bit_def)

lemma inj_crc_byte: "inj crc_byte"
proof -
  have "inj crc_bit" by (rule inj_on_inverseI [of _ crc_bit_inv]) (rule crc_bit_inv)
  then have "inj (crc_bit ^^ n)" for n by (induction n) (auto intro: inj_compose)
  then show ?thesis by (simp add: crc_byte_def [abs_def])
qed

section \<open>Calculation and check\<close>

lemma rfc_fcs_loop_append: "rfc_fcs_loop c (bs @ ds) = rfc_fcs_loop (rfc_fcs_loop c bs) ds"
  by (induction bs arbitrary: c) simp_all

lemma xor_left_cancel: "(a :: u8) XOR b = a XOR c \<longleftrightarrow> b = c"
  by (metis bit.xor_left_self)

lemma fcs_step_inj: "rfc_crctable ! unat (x :: u8) = rfc_crctable ! unat (y :: u8) \<longleftrightarrow> x = y"
  using inj_crc_byte by (auto simp: crctable_nth inj_eq)

text \<open>For fixed bytes the loop is a permutation of the running value.\<close>

lemma rfc_fcs_loop_inj: "rfc_fcs_loop c bs = rfc_fcs_loop d bs \<longleftrightarrow> c = d"
proof (induction bs arbitrary: c d)
  case Nil
  show ?case by simp
next
  case (Cons b bs)
  have "c XOR b = d XOR b \<longleftrightarrow> c = d" by (metis xor.commute xor_left_cancel)
  with Cons show ?case by (simp add: fcs_step_inj)
qed

lemma xor_ones_iff: "(c :: u8) XOR f = 0xFF \<longleftrightarrow> f = 0xFF - c"
proof -
  have ones: "(0xFF :: u8) = - 1" by simp
  have "c XOR f = - 1 \<longleftrightarrow> f = c XOR - 1"
    by (metis bit.xor_left_self)
  also have "c XOR - 1 = - 1 - c"
    by (simp add: not_eq_complement)
  finally show ?thesis by (simp only: ones)
qed

lemma check_fcs_iff: "rfc_check_fcs n p f \<longleftrightarrow> f = rfc_calc_fcs n p"
proof -
  have "rfc_crctable ! unat (0xFF :: u8) = 0xCF"
    unfolding crctable_nth by (simp add: crc_byte_unfold crc_bit_def)
  then have "rfc_check_fcs n p f \<longleftrightarrow> rfc_fcs_loop 0xFF (take n p) XOR f = 0xFF"
    unfolding rfc_check_fcs_def Let_def by (metis fcs_step_inj)
  then show ?thesis by (simp add: xor_ones_iff rfc_calc_fcs_def)
qed

lemma fcs_loop_one_byte:
  assumes "b \<noteq> b'"
  shows "rfc_fcs_loop c (xs @ b # ys) \<noteq> rfc_fcs_loop c (xs @ b' # ys)"
  using assms by (simp add: rfc_fcs_loop_append rfc_fcs_loop_inj fcs_step_inj xor_left_cancel)

section \<open>Properties\<close>

text \<open>C11: the table of \<^verbatim>\<open>rfc_utils.cc\<close> is the division of a byte by the reversed GSM 07.10
  polynomial, carried out bit by bit, and a received check byte is accepted exactly when it
  is the byte \<^verbatim>\<open>rfc_calc_fcs\<close> computes for the same header.\<close>

theorem rfc_fcs_exact:
  "rfc_crctable ! unat x = crc_byte x \<and> (rfc_check_fcs n p f \<longleftrightarrow> f = rfc_calc_fcs n p)"
  by (simp add: crctable_nth check_fcs_iff)

text \<open>C12: a header in which exactly one byte was changed in transit is never accepted with
  the check byte of the original header.\<close>

theorem rfc_fcs_detects_byte_error:
  assumes "b \<noteq> b'" and "n = length (xs @ b # ys)"
  shows "\<not> rfc_check_fcs n (xs @ b' # ys) (rfc_calc_fcs n (xs @ b # ys))"
proof -
  have "rfc_fcs_loop 0xFF (xs @ b # ys) \<noteq> rfc_fcs_loop 0xFF (xs @ b' # ys)"
    using assms(1) by (rule fcs_loop_one_byte)
  then show ?thesis
    using assms(2) by (simp add: check_fcs_iff rfc_calc_fcs_def)
qed

theorem rfc_fcs_detects_byte_error_witness:
  "\<not> rfc_check_fcs 3 [0x0B, 0x3E, 0x01] (rfc_calc_fcs 3 [0x0B, 0x3F, 0x01])"
  using rfc_fcs_detects_byte_error [of "0x3F" "0x3E" 3 "[0x0B]" "[0x01]"] by simp

end
