(* ===== verification/Rfc_State.thy ===== *)
theory Rfc_State
  imports Rfc_Fcs "HOL-Library.AList"
begin

text \<open>
  Access to the control blocks of RFCOMM and the operations on a single block: the zeroed
  blocks that \<^verbatim>\<open>memset\<close> leaves, reading and writing through a pointer, the timers
  (\<^verbatim>\<open>rfc_utils.cc\<close>), the channel table \<^verbatim>\<open>rfc_lcid_mcb\<close> (\<^verbatim>\<open>rfc_l2cap_if.cc\<close>), the lookup of
  ports (\<^verbatim>\<open>port_utils.cc\<close>) and the command queue of a multiplexer (\<^verbatim>\<open>rfc_check_send_cmd\<close>).

  Which pointers the code may follow is the invariant of the whole layer, in \<open>Rfc_Wf\<close>.
\<close>

section \<open>Zeroed blocks and access\<close>

definition zero_cfg :: tL2CAP_CFG_INFO where
  "zero_cfg = \<lparr>cfg_mtu_present = False, cfg_mtu = 0\<rparr>"

definition zero_settings :: PortSettings where
  "zero_settings = \<lparr>baud_rate = 0, byte_size = 0, stop_bits = 0, parity = 0, parity_type = 0,
     fc_type = 0, rx_char1 = 0, xon_char = 0, xoff_char = 0\<rparr>"

definition zero_data :: tPORT_DATA where
  "zero_data = \<lparr>queue = None, peer_fc = False, user_fc = False, queue_size = 0\<rparr>"

definition zero_ctrl :: tPORT_CTRL where
  "zero_ctrl = \<lparr>modem_signal = 0, break_signal = 0, discard_buffers = 0, break_signal_seq = 0,
     ctrl_fc = False\<rparr>"

definition zero_mcb :: tRFC_MCB where
  "zero_mcb = \<lparr>mcb_timer = NoAlarm, cmd_q = None, port_handles = replicate 62 0,
     mcb_bd_addr = 0, lcid = 0, peer_l2cap_mtu = 0, mcb_state = RFC_MX_STATE_IDLE,
     is_initiator = False, restart_required = False, peer_ready = False,
     flow = PORT_FC_UNDEFINED, l2cap_congested = False, is_disc_initiator = False,
     pending_lcid = 0, pending_configure_complete = False, pending_cfg_info = zero_cfg\<rparr>"

definition zero_port :: tPORT where
  "zero_port = \<lparr>handle = 0, in_use = False, port_state = PORT_CONNECTION_STATE_CLOSED, scn = 0,
     uuid = 0, bd_addr = 0, is_server = False, dlci = 0, line_status = 0,
     default_signal_state = 0, mtu = 0, peer_mtu = 0, tx = zero_data, rx = zero_data,
     user_port_settings = zero_settings, peer_port_settings = zero_settings,
     local_ctrl = zero_ctrl, peer_ctrl = zero_ctrl, port_ctrl = 0, rx_flag_ev_pending = False,
     rfc_state = RFC_STATE_CLOSED, expected_rsp = 0, p_mcb = None, port_timer = NoAlarm,
     ev_mask = 0, p_callback = None, p_mgmt_callback = None, p_data_callback = None,
     p_data_co_callback = None, credit_tx = 0, credit_rx = 0, credit_rx_max = 0,
     credit_rx_low = 0, rx_buf_critical = 0, keep_port_handle = False, keep_mtu = 0,
     sec_mask = 0\<rparr>"

definition zero_frame :: MX_FRAME where
  "zero_frame = \<lparr>f_dlci = 0, f_type = 0, f_cr = 0, f_ea = 0, f_pf = 0, f_credit = 0,
     pn_frame_type = 0, pn_conv_layer = 0, pn_priority = 0, pn_t1 = 0, pn_mtu = 0, pn_n2 = 0,
     pn_k = 0, test_data_len = 0, msc_signals = 0, msc_break_present = 0,
     msc_break_duration = 0, nsc_ea = 0, nsc_cr = 0, nsc_type = 0, rpn_is_request = False,
     rpn_baud_rate = 0, rpn_byte_size = 0, rpn_stop_bits = 0, rpn_parity = 0,
     rpn_parity_type = 0, rpn_fc_type = 0, rpn_xon_char = 0, rpn_xoff_char = 0,
     rpn_param_mask = 0, rls_line_status = 0\<rparr>"

text \<open>
  \<^verbatim>\<open>RFCOMM_Init\<close> (\<^verbatim>\<open>port_api.cc\<close>): everything zeroed, the channel table emptied. The static
  index of \<^verbatim>\<open>port_allocate_port\<close> starts at zero.
\<close>

definition RFCOMM_Init :: rfc_st where
  "RFCOMM_Init = \<lparr>ports = replicate MAX_RFC_PORTS zero_port,
     rfc_mcb = replicate MAX_BD_CONNECTIONS zero_mcb, rx_frame = zero_frame,
     peer_rx_disabled = False, last_mux = MAX_BD_CONNECTIONS, last_port_index = 0,
     rfc_lcid_mcb = [], out = []\<rparr>"

text \<open>An environment in which every connection request gets a channel.\<close>

definition idle_env :: rfc_env where
  "idle_env = \<lparr>connect_req_lcid = (\<lambda>_. 0x41), max_packet_size = (\<lambda>_. 1021), always_disc_initiator = False,
     boottime_ms = 0, co_incoming = (\<lambda>_ _ _. True), co_outgoing = (\<lambda>_ _. None), co_read_ok = (\<lambda>_ _ _. True)\<rparr>"

definition mget :: "nat \<Rightarrow> rfc_st \<Rightarrow> tRFC_MCB option" where
  "mget m s = (if m < length (rfc_mcb s) then Some (rfc_mcb s ! m) else None)"

definition pget :: "nat \<Rightarrow> rfc_st \<Rightarrow> tPORT option" where
  "pget p s = (if p < length (ports s) then Some (ports s ! p) else None)"

definition mupd :: "nat \<Rightarrow> (tRFC_MCB \<Rightarrow> tRFC_MCB) \<Rightarrow> rfc_st \<Rightarrow> rfc_st" where
  "mupd m f s = s\<lparr>rfc_mcb := (rfc_mcb s)[m := f (rfc_mcb s ! m)]\<rparr>"

definition pupd :: "nat \<Rightarrow> (tPORT \<Rightarrow> tPORT) \<Rightarrow> rfc_st \<Rightarrow> rfc_st" where
  "pupd p f s = s\<lparr>ports := (ports s)[p := f (ports s ! p)]\<rparr>"

definition emit :: "rfc_out \<Rightarrow> rfc_st \<Rightarrow> rfc_st" where
  "emit a s = s\<lparr>out := out s @ [a]\<rparr>"

section \<open>Timers\<close>

text \<open>\<^verbatim>\<open>alarm_set_on_mloop\<close> asserts a non-null alarm; \<^verbatim>\<open>alarm_cancel\<close> accepts null.\<close>

definition alarm_set :: "alarm \<Rightarrow> nat \<Rightarrow> alarm option" where
  "alarm_set a secs = (case a of NoAlarm \<Rightarrow> None | _ \<Rightarrow> Some (Armed secs))"

definition alarm_cancel :: "alarm \<Rightarrow> alarm" where
  "alarm_cancel a = (case a of NoAlarm \<Rightarrow> NoAlarm | _ \<Rightarrow> Stopped)"

definition rfc_timer_start :: "nat \<Rightarrow> nat \<Rightarrow> rfc_st \<Rightarrow> rfc_st option" where
  "rfc_timer_start m secs s = do {
     c \<leftarrow> mget m s;
     a \<leftarrow> alarm_set (mcb_timer c) secs;
     Some (mupd m (mcb_timer_update (\<lambda>_. a)) s)
   }"

definition rfc_timer_stop :: "nat \<Rightarrow> rfc_st \<Rightarrow> rfc_st option" where
  "rfc_timer_stop m s = do {
     c \<leftarrow> mget m s;
     Some (mupd m (mcb_timer_update alarm_cancel) s)
   }"

definition rfc_port_timer_start :: "nat \<Rightarrow> nat \<Rightarrow> rfc_st \<Rightarrow> rfc_st option" where
  "rfc_port_timer_start p secs s = do {
     c \<leftarrow> pget p s;
     a \<leftarrow> alarm_set (port_timer c) secs;
     Some (pupd p (port_timer_update (\<lambda>_. a)) s)
   }"

definition rfc_port_timer_stop :: "nat \<Rightarrow> rfc_st \<Rightarrow> rfc_st option" where
  "rfc_port_timer_stop p s = do {
     c \<leftarrow> pget p s;
     Some (pupd p (port_timer_update alarm_cancel) s)
   }"

section \<open>The channel table\<close>

definition lcid_lookup :: "u16 \<Rightarrow> rfc_st \<Rightarrow> nat option" where
  "lcid_lookup l s = (case map_of (rfc_lcid_mcb s) l of Some (Some m) \<Rightarrow> Some m | _ \<Rightarrow> None)"

definition rfc_save_lcid_mcb :: "nat option \<Rightarrow> u16 \<Rightarrow> rfc_st \<Rightarrow> rfc_st" where
  "rfc_save_lcid_mcb m l s = s\<lparr>rfc_lcid_mcb := AList.update l m (rfc_lcid_mcb s)\<rparr>"

definition rfc_find_lcid_mcb :: "u16 \<Rightarrow> rfc_st \<Rightarrow> nat option option" where
  "rfc_find_lcid_mcb l s = (case lcid_lookup l s of
       None \<Rightarrow> Some None
     | Some m \<Rightarrow> do {
         c \<leftarrow> mget m s;
         Some (if lcid c \<noteq> l then None else Some m)
       })"

section \<open>The command queue\<close>

text \<open>The loop of \<^verbatim>\<open>rfc_check_send_cmd\<close>, by recursion on the queue it empties.\<close>

fun rfc_drain :: "nat \<Rightarrow> BT_HDR list \<Rightarrow> rfc_st \<Rightarrow> rfc_st" where
  "rfc_drain m [] s = s"
| "rfc_drain m (p # ps) s =
     (if l2cap_congested (rfc_mcb s ! m) then s
      else rfc_drain m ps
             (emit (L2CA_DataWrite (lcid (rfc_mcb s ! m)) (bh_payload p))
               (mupd m (cmd_q_update (\<lambda>_. Some ps)) s)))"

definition rfc_check_send_cmd :: "nat \<Rightarrow> BT_HDR option \<Rightarrow> rfc_st \<Rightarrow> rfc_st option" where
  "rfc_check_send_cmd m p_buf s = do {
     c \<leftarrow> mget m s;
     s \<leftarrow> (case p_buf of
         None \<Rightarrow> Some s
       | Some b \<Rightarrow> do {
           q \<leftarrow> cmd_q c;
           Some (mupd m (cmd_q_update (\<lambda>_. Some (q @ [b]))) s)
         });
     c \<leftarrow> mget m s;
     Some (rfc_drain m (case cmd_q c of None \<Rightarrow> [] | Some q \<Rightarrow> q) s)
   }"

text \<open>What the command queue promises: everything queued goes out in order, or waits.\<close>

definition cmd_sent :: "nat \<Rightarrow> tRFC_MCB \<Rightarrow> BT_HDR list \<Rightarrow> rfc_st \<Rightarrow> rfc_st" where
  "cmd_sent m c q s = (if l2cap_congested c then mupd m (cmd_q_update (\<lambda>_. Some q)) s
      else (mupd m (cmd_q_update (\<lambda>_. Some [])) s)
             \<lparr>out := out s @ map (\<lambda>p. L2CA_DataWrite (lcid c) (bh_payload p)) q\<rparr>)"

text \<open>The calls of the management callbacks, in the order they were made.\<close>

definition mgmt_calls :: "rfc_st \<Rightarrow> rfc_out list" where
  "mgmt_calls s = filter (\<lambda>a. case a of Mgmt_callback _ _ _ \<Rightarrow> True | _ \<Rightarrow> False) (out s)"

text \<open>A multiplexer block with its timer and its command queue.\<close>

definition has_res :: "tRFC_MCB \<Rightarrow> bool" where
  "has_res c \<longleftrightarrow> mcb_timer c \<noteq> NoAlarm \<and> cmd_q c \<noteq> None"

section \<open>Reading after writing\<close>

lemma mupd_simps [simp]:
  "ports (mupd m f s) = ports s" "rx_frame (mupd m f s) = rx_frame s"
  "peer_rx_disabled (mupd m f s) = peer_rx_disabled s" "last_mux (mupd m f s) = last_mux s"
  "last_port_index (mupd m f s) = last_port_index s"
  "rfc_lcid_mcb (mupd m f s) = rfc_lcid_mcb s" "out (mupd m f s) = out s"
  "length (rfc_mcb (mupd m f s)) = length (rfc_mcb s)"
  "pget p (mupd m f s) = pget p s"
  by (simp_all add: mupd_def pget_def)

lemma pupd_simps [simp]:
  "rfc_mcb (pupd p f s) = rfc_mcb s" "rx_frame (pupd p f s) = rx_frame s"
  "peer_rx_disabled (pupd p f s) = peer_rx_disabled s" "last_mux (pupd p f s) = last_mux s"
  "last_port_index (pupd p f s) = last_port_index s"
  "rfc_lcid_mcb (pupd p f s) = rfc_lcid_mcb s" "out (pupd p f s) = out s"
  "length (ports (pupd p f s)) = length (ports s)"
  "mget m (pupd p f s) = mget m s"
  by (simp_all add: pupd_def mget_def)

lemma emit_simps [simp]:
  "ports (emit a s) = ports s" "rfc_mcb (emit a s) = rfc_mcb s" "rx_frame (emit a s) = rx_frame s"
  "peer_rx_disabled (emit a s) = peer_rx_disabled s" "last_mux (emit a s) = last_mux s"
  "last_port_index (emit a s) = last_port_index s"
  "rfc_lcid_mcb (emit a s) = rfc_lcid_mcb s" "out (emit a s) = out s @ [a]"
  "mget m (emit a s) = mget m s" "pget p (emit a s) = pget p s"
  by (simp_all add: emit_def mget_def pget_def)

lemma mget_mupd [simp]: "mget m' (mupd m f s) = (if m = m' then map_option f (mget m s) else mget m' s)"
  by (simp add: mget_def mupd_def)

lemma pget_pupd [simp]: "pget p' (pupd p f s) = (if p = p' then map_option f (pget p s) else pget p' s)"
  by (simp add: pget_def pupd_def)

lemma nth_mupd: "m < length (rfc_mcb s) \<Longrightarrow> rfc_mcb (mupd m f s) ! k =
    (if m = k then f (rfc_mcb s ! m) else rfc_mcb s ! k)"
  by (simp add: mupd_def)

lemma nth_pupd: "p < length (ports s) \<Longrightarrow> ports (pupd p f s) ! k =
    (if p = k then f (ports s ! p) else ports s ! k)"
  by (simp add: pupd_def)

lemma pupd_eqI: "pget p s = Some c \<Longrightarrow> f c = g c \<Longrightarrow> pupd p f s = pupd p g s"
  by (auto simp: pupd_def pget_def split: if_splits)

lemma pupd_pupd: "pupd p f (pupd p g s) = pupd p (f \<circ> g) s"
  by (cases "p < length (ports s)") (simp_all add: pupd_def list_update_beyond)

lemma emit_pupd: "pupd p f (emit a s) = emit a (pupd p f s)"
  by (simp add: emit_def pupd_def)

lemma pupd_id: "pget p s = Some c \<Longrightarrow> f c = c \<Longrightarrow> pupd p f s = s"
  by (auto simp: pupd_def pget_def split: if_splits)

lemma mget_SomeD: "mget m s = Some c \<Longrightarrow> m < length (rfc_mcb s) \<and> c = rfc_mcb s ! m"
  by (simp add: mget_def split: if_splits)

lemma pget_SomeD: "pget p s = Some c \<Longrightarrow> p < length (ports s) \<and> c = ports s ! p"
  by (simp add: pget_def split: if_splits)

lemma lcid_lookup_save [simp]:
  "lcid_lookup l (rfc_save_lcid_mcb m l' s) = (if l = l' then m else lcid_lookup l s)"
  by (auto simp: lcid_lookup_def rfc_save_lcid_mcb_def update_conv split: option.splits)

lemma nth_mupd': "rfc_mcb (mupd m f s) ! k = (if m = k \<and> m < length (rfc_mcb s) then f (rfc_mcb s ! m) else rfc_mcb s ! k)"
  by (cases "m < length (rfc_mcb s)") (auto simp: mupd_def nth_list_update list_update_beyond)

lemma ports_pupd: "ports (pupd p f s) = (ports s)[p := f (ports s ! p)]"
  by (simp add: pupd_def)

lemma pget_Init: "p < 30 \<Longrightarrow> pget p RFCOMM_Init = Some zero_port"
  by (simp add: pget_def RFCOMM_Init_def del: replicate.simps)

lemma mget_Init: "m < 16 \<Longrightarrow> mget m RFCOMM_Init = Some zero_mcb"
  by (simp add: mget_def RFCOMM_Init_def del: replicate.simps)

lemma alarm_cancel_idem [simp]: "alarm_cancel (alarm_cancel a) = alarm_cancel a"
  by (simp add: alarm_cancel_def split: alarm.split)

lemma rfc_timer_start_eq:
  "mget m s = Some c \<Longrightarrow> mcb_timer c \<noteq> NoAlarm \<Longrightarrow>
   rfc_timer_start m t s = Some (mupd m (mcb_timer_update (\<lambda>_. Armed t)) s)"
  by (simp add: rfc_timer_start_def alarm_set_def split: alarm.splits)

lemma rfc_timer_stop_eq:
  "mget m s = Some c \<Longrightarrow> rfc_timer_stop m s = Some (mupd m (mcb_timer_update alarm_cancel) s)"
  by (simp add: rfc_timer_stop_def)

lemma lcid_lookup_upd [simp]: "lcid_lookup l (s\<lparr>ports := x\<rparr>) = lcid_lookup l s"
  "lcid_lookup l (s\<lparr>rfc_mcb := y\<rparr>) = lcid_lookup l s"
  by (simp_all add: lcid_lookup_def)

section \<open>The command queue is a queue\<close>

lemma mupd_mupd [simp]: "mupd m f (mupd m g s) = mupd m (f \<circ> g) s"
  by (cases "m < length (rfc_mcb s)") (simp_all add: mupd_def list_update_beyond)

lemma mupd_id: "m < length (rfc_mcb s) \<Longrightarrow> f (rfc_mcb s ! m) = rfc_mcb s ! m \<Longrightarrow> mupd m f s = s"
  by (simp add: mupd_def)

lemma mupd_out [simp]: "mupd m f (s\<lparr>out := x\<rparr>) = (mupd m f s)\<lparr>out := x\<rparr>"
  by (simp add: mupd_def)

lemma rfc_drain_sends:
  assumes "m < length (rfc_mcb s)" "\<not> l2cap_congested (rfc_mcb s ! m)" "cmd_q (rfc_mcb s ! m) = Some q"
  shows "rfc_drain m q s = (mupd m (cmd_q_update (\<lambda>_. Some [])) s)
     \<lparr>out := out s @ map (\<lambda>p. L2CA_DataWrite (lcid (rfc_mcb s ! m)) (bh_payload p)) q\<rparr>"
  using assms
proof (induction q arbitrary: s)
  case Nil
  then show ?case by (simp add: mupd_id)
next
  case (Cons p q)
  let ?s = "emit (L2CA_DataWrite (lcid (rfc_mcb s ! m)) (bh_payload p)) (mupd m (cmd_q_update (\<lambda>_. Some q)) s)"
  have "rfc_drain m (p # q) s = rfc_drain m q ?s" using Cons.prems by simp
  also have "\<dots> = (mupd m (cmd_q_update (\<lambda>_. Some [])) ?s)
     \<lparr>out := out ?s @ map (\<lambda>p. L2CA_DataWrite (lcid (rfc_mcb ?s ! m)) (bh_payload p)) q\<rparr>"
    by (rule Cons.IH) (use Cons.prems in \<open>simp_all add: nth_mupd\<close>)
  also have "\<dots> = (mupd m (cmd_q_update (\<lambda>_. Some [])) s)
     \<lparr>out := out s @ map (\<lambda>p. L2CA_DataWrite (lcid (rfc_mcb s ! m)) (bh_payload p)) (p # q)\<rparr>"
    using Cons.prems by (simp add: emit_def nth_mupd comp_def)
  finally show ?case .
qed

lemma rfc_drain_congested: "l2cap_congested (rfc_mcb s ! m) \<Longrightarrow> rfc_drain m q s = s"
  by (cases q) simp_all

lemma check_send_cmd_eq:
  assumes "mget m s = Some c" "cmd_q c = Some q"
  shows "rfc_check_send_cmd m (Some b) s = Some (cmd_sent m c (q @ [b]) s)"
     "rfc_check_send_cmd m None s = Some (cmd_sent m c q s)"
  using assms by (auto simp: rfc_check_send_cmd_def cmd_sent_def mget_def nth_mupd rfc_drain_sends rfc_drain_congested comp_def mupd_id split: if_splits)

lemma mget_cmd_sent [simp]:
  "mget k (cmd_sent m c q s) = (if k = m then map_option (cmd_q_update (\<lambda>_. Some (if l2cap_congested c then q else []))) (mget m s) else mget k s)"
  "ports (cmd_sent m c q s) = ports s" "pget p (cmd_sent m c q s) = pget p s"
  "out (cmd_sent m c q s) = (if l2cap_congested c then out s
     else out s @ map (\<lambda>p. L2CA_DataWrite (lcid c) (bh_payload p)) q)"
  by (auto simp: cmd_sent_def mget_def mupd_def pget_def)

lemma cmd_sent_cong: "l2cap_congested c = l2cap_congested c' \<Longrightarrow> lcid c = lcid c' \<Longrightarrow> cmd_sent m c q s = cmd_sent m c' q s"
  by (simp add: cmd_sent_def)

lemma rfc_mcb_cmd_sent: "rfc_mcb (cmd_sent m c q s) = rfc_mcb (mupd m (cmd_q_update (\<lambda>_. Some (if l2cap_congested c then q else []))) s)"
  by (simp add: cmd_sent_def)

lemma lcid_table_cmd_sent [simp]: "rfc_lcid_mcb (cmd_sent m c q s) = rfc_lcid_mcb s"
  by (simp add: cmd_sent_def)

lemma mgmt_calls_simps [simp]:
  "mgmt_calls (mupd m f s) = mgmt_calls s" "mgmt_calls (pupd p g s) = mgmt_calls s"
  "mgmt_calls (cmd_sent m c q s) = mgmt_calls s"
  "mgmt_calls (emit a s) = mgmt_calls s @ (case a of Mgmt_callback _ _ _ \<Rightarrow> [a] | _ \<Rightarrow> [])"
  by (auto simp: mgmt_calls_def cmd_sent_def filter_empty_conv split: rfc_out.split)

section \<open>Properties\<close>

lemma cmd_sent_pupd: "pupd p f (cmd_sent m c q s) = cmd_sent m c q (pupd p f s)"
  by (simp add: cmd_sent_def pupd_def mupd_def)



end
