(* ===== verification/Rfc_Frames.thy ===== *)
theory Rfc_Frames
  imports Rfc_State
begin

text \<open>
  The frames of RFCOMM (\<^verbatim>\<open>rfc_ts_frames.cc\<close>): building and sending the TS 07.10 frames and
  the messages of the multiplexer control channel, parsing a received frame
  (\<^verbatim>\<open>rfc_parse_data\<close>), and decoding a control message (the first half of
  \<^verbatim>\<open>rfc_process_mx_message\<close>; its dispatch is in \<open>Rfc_Port_Fsm\<close>).

  Reading a byte past the end of the received data is the value \<open>None\<close>.
\<close>

section \<open>Building frames\<close>

definition RFCOMM_CR :: "bool \<Rightarrow> bool \<Rightarrow> u8" where
  "RFCOMM_CR initiator is_command =
     (if (initiator \<and> is_command) \<or> (\<not> initiator \<and> \<not> is_command) then 2 else 0)"

definition RFCOMM_I_CR :: "bool \<Rightarrow> u8" where
  "RFCOMM_I_CR is_command = (if is_command then 0x02 else 0x00)"

definition RFCOMM_FRAME_IS_CMD :: "bool \<Rightarrow> u8 \<Rightarrow> bool" where
  "RFCOMM_FRAME_IS_CMD initiator cr \<longleftrightarrow> (initiator \<and> cr = 0) \<or> (\<not> initiator \<and> cr \<noteq> 0)"

definition RFCOMM_FRAME_IS_RSP :: "bool \<Rightarrow> u8 \<Rightarrow> bool" where
  "RFCOMM_FRAME_IS_RSP initiator cr \<longleftrightarrow> (initiator \<and> cr \<noteq> 0) \<or> (\<not> initiator \<and> cr = 0)"

definition RFCOMM_VALID_DLCI :: "u8 \<Rightarrow> bool" where
  "RFCOMM_VALID_DLCI d \<longleftrightarrow> d = 0 \<or> (2 \<le> d \<and> d \<le> 61)"

definition addr_field :: "u8 \<Rightarrow> u8 \<Rightarrow> u8" where
  "addr_field cr d = RFCOMM_EA OR cr OR push_bit 2 d"

definition cmd_buf :: "nat \<Rightarrow> u8 list \<Rightarrow> BT_HDR" where
  "cmd_buf off bs = \<lparr>bh_offset = off, bh_layer_specific = 0, bh_payload = bs\<rparr>"

text \<open>The four bytes of SABME, UA, DM and DISC: address, control, length 0, check.\<close>

definition ctrl_frame :: "u8 \<Rightarrow> u8 \<Rightarrow> u8 \<Rightarrow> u8 list" where
  "ctrl_frame cr d ctl = (let h = [addr_field cr d, ctl, RFCOMM_EA OR 0] in h @ [rfc_calc_fcs 3 h])"

definition rfc_send_sabme :: "nat \<Rightarrow> u8 \<Rightarrow> rfc_st \<Rightarrow> rfc_st option" where
  "rfc_send_sabme m d s = do {
     c \<leftarrow> mget m s;
     rfc_check_send_cmd m (Some (cmd_buf L2CAP_MIN_OFFSET
       (ctrl_frame (RFCOMM_CR (is_initiator c) True) d (RFCOMM_SABME OR RFCOMM_PF)))) s
   }"

definition rfc_send_ua :: "nat \<Rightarrow> u8 \<Rightarrow> rfc_st \<Rightarrow> rfc_st option" where
  "rfc_send_ua m d s = do {
     c \<leftarrow> mget m s;
     rfc_check_send_cmd m (Some (cmd_buf L2CAP_MIN_OFFSET
       (ctrl_frame (RFCOMM_CR (is_initiator c) False) d (RFCOMM_UA OR RFCOMM_PF)))) s
   }"

definition rfc_send_dm :: "nat \<Rightarrow> u8 \<Rightarrow> bool \<Rightarrow> rfc_st \<Rightarrow> rfc_st option" where
  "rfc_send_dm m d pf s = do {
     c \<leftarrow> mget m s;
     rfc_check_send_cmd m (Some (cmd_buf L2CAP_MIN_OFFSET
       (ctrl_frame (RFCOMM_CR (is_initiator c) False) d (RFCOMM_DM OR (if pf then RFCOMM_PF else 0))))) s
   }"

definition rfc_send_disc :: "nat \<Rightarrow> u8 \<Rightarrow> rfc_st \<Rightarrow> rfc_st option" where
  "rfc_send_disc m d s = do {
     c \<leftarrow> mget m s;
     rfc_check_send_cmd m (Some (cmd_buf L2CAP_MIN_OFFSET
       (ctrl_frame (RFCOMM_CR (is_initiator c) True) d (RFCOMM_DISC OR RFCOMM_PF)))) s
   }"

text \<open>
  A UIH frame: the length takes one or two bytes, and credits, when there are any, are
  announced by the P bit and follow the length. The check covers the first two bytes.
\<close>

definition uih_header :: "u8 \<Rightarrow> u8 \<Rightarrow> u8 \<Rightarrow> u16 \<Rightarrow> u8 list" where
  "uih_header cr d credits len =
     [addr_field cr d, RFCOMM_UIH OR (if credits \<noteq> 0 then RFCOMM_PF else 0)] @
     (if len \<le> 127 then [RFCOMM_EA OR ucast (push_bit 1 len)]
      else [ucast (push_bit 1 (len AND 0x7F)), ucast (drop_bit 7 len)]) @
     (if credits \<noteq> 0 then [credits] else [])"

definition uih_frame :: "u8 \<Rightarrow> u8 \<Rightarrow> u8 \<Rightarrow> u8 list \<Rightarrow> u8 list" where
  "uih_frame cr d credits data =
     (let h = uih_header cr d credits (word_of_nat (length data)) in
      h @ data @ [rfc_calc_fcs 2 h])"

definition rfc_send_buf_uih :: "nat \<Rightarrow> u8 \<Rightarrow> BT_HDR \<Rightarrow> rfc_st \<Rightarrow> rfc_st option" where
  "rfc_send_buf_uih m d b s = do {
     c \<leftarrow> mget m s;
     let cr = RFCOMM_CR (is_initiator c) True;
     let credits = (if d \<noteq> 0 then ucast (bh_layer_specific b) else 0);
     let need = RFCOMM_CTRL_FRAME_LEN + (if bh_len b > 127 then 1 else 0)
                + (if credits \<noteq> 0 then 1 else 0);
     if bh_offset b < need then None else do {
       let b = b\<lparr>bh_offset := bh_offset b - need, bh_payload := uih_frame cr d credits (bh_payload b)\<rparr>;
       if d = RFCOMM_MX_DLCI then rfc_check_send_cmd m (Some b) s
       else Some (emit (L2CA_DataWrite (lcid c) (bh_payload b)) s)
     }
   }"

text \<open>Messages of the control channel. All go out as UIH frames on DLCI 0.\<close>

abbreviation (input) MX_OFFSET :: nat where "MX_OFFSET \<equiv> L2CAP_MIN_OFFSET + RFCOMM_CTRL_FRAME_LEN"

definition pn_bytes :: "u8 \<Rightarrow> bool \<Rightarrow> u8 \<Rightarrow> u16 \<Rightarrow> u8 \<Rightarrow> u8 \<Rightarrow> u8 list" where
  "pn_bytes d is_command priority n1 cl k =
     [RFCOMM_EA OR RFCOMM_I_CR is_command OR RFCOMM_MX_PN, RFCOMM_EA OR push_bit 1 8,
      d, 0 OR cl, if is_command then 0 else priority, 0,
      ucast (n1 AND 0xFF), ucast (drop_bit 8 n1), 0, k]"

definition rfc_send_pn :: "nat \<Rightarrow> u8 \<Rightarrow> bool \<Rightarrow> u16 \<Rightarrow> u8 \<Rightarrow> u8 \<Rightarrow> rfc_st \<Rightarrow> rfc_st option" where
  "rfc_send_pn m d is_command n1 cl k s =
     rfc_send_buf_uih m RFCOMM_MX_DLCI
       (cmd_buf MX_OFFSET (pn_bytes d is_command (pn_priority (rx_frame s)) n1 cl k)) s"

definition fcon_bytes :: "bool \<Rightarrow> u8 list" where
  "fcon_bytes is_command =
     [RFCOMM_EA OR RFCOMM_I_CR is_command OR RFCOMM_MX_FCON, RFCOMM_EA OR push_bit 1 0]"

definition rfc_send_fcon :: "nat \<Rightarrow> bool \<Rightarrow> rfc_st \<Rightarrow> rfc_st option" where
  "rfc_send_fcon m is_command s =
     rfc_send_buf_uih m RFCOMM_MX_DLCI (cmd_buf MX_OFFSET (fcon_bytes is_command)) s"

definition fcoff_bytes :: "bool \<Rightarrow> u8 list" where
  "fcoff_bytes is_command =
     [RFCOMM_EA OR RFCOMM_I_CR is_command OR RFCOMM_MX_FCOFF, RFCOMM_EA OR push_bit 1 0]"

definition rfc_send_fcoff :: "nat \<Rightarrow> bool \<Rightarrow> rfc_st \<Rightarrow> rfc_st option" where
  "rfc_send_fcoff m is_command s =
     rfc_send_buf_uih m RFCOMM_MX_DLCI (cmd_buf MX_OFFSET (fcoff_bytes is_command)) s"

definition msc_bytes :: "u8 \<Rightarrow> bool \<Rightarrow> tPORT_CTRL \<Rightarrow> u8 list" where
  "msc_bytes d is_command p_pars =
     (let signals = modem_signal p_pars;
          break_duration = break_signal p_pars;
          len = (if break_duration \<noteq> 0 then 3 else 2) in
      [RFCOMM_EA OR RFCOMM_I_CR is_command OR RFCOMM_MX_MSC, RFCOMM_EA OR push_bit 1 len,
       RFCOMM_EA OR RFCOMM_CR_MASK OR push_bit 2 d,
       RFCOMM_EA OR (if ctrl_fc p_pars then RFCOMM_MSC_FC else 0) OR
       (if signals AND MODEM_SIGNAL_DTRDSR \<noteq> 0 then RFCOMM_MSC_RTC else 0) OR
       (if signals AND MODEM_SIGNAL_RTSCTS \<noteq> 0 then RFCOMM_MSC_RTR else 0) OR
       (if signals AND MODEM_SIGNAL_RI \<noteq> 0 then RFCOMM_MSC_IC else 0) OR
       (if signals AND MODEM_SIGNAL_DCD \<noteq> 0 then RFCOMM_MSC_DV else 0)] @
      (if break_duration \<noteq> 0 then [RFCOMM_EA OR 0x02 OR push_bit 4 break_duration] else []))"

definition rfc_send_msc :: "nat \<Rightarrow> u8 \<Rightarrow> bool \<Rightarrow> tPORT_CTRL \<Rightarrow> rfc_st \<Rightarrow> rfc_st option" where
  "rfc_send_msc m d is_command p_pars s =
     rfc_send_buf_uih m RFCOMM_MX_DLCI (cmd_buf MX_OFFSET (msc_bytes d is_command p_pars)) s"

definition rls_bytes :: "u8 \<Rightarrow> bool \<Rightarrow> u8 \<Rightarrow> u8 list" where
  "rls_bytes d is_command status =
     [RFCOMM_EA OR RFCOMM_I_CR is_command OR RFCOMM_MX_RLS, RFCOMM_EA OR push_bit 1 2,
      RFCOMM_EA OR RFCOMM_CR_MASK OR push_bit 2 d, 0x01 OR status]"

definition rfc_send_rls :: "nat \<Rightarrow> u8 \<Rightarrow> bool \<Rightarrow> u8 \<Rightarrow> rfc_st \<Rightarrow> rfc_st option" where
  "rfc_send_rls m d is_command status s =
     rfc_send_buf_uih m RFCOMM_MX_DLCI (cmd_buf MX_OFFSET (rls_bytes d is_command status)) s"

definition rfc_send_nsc :: "nat \<Rightarrow> rfc_st \<Rightarrow> rfc_st option" where
  "rfc_send_nsc m s =
     rfc_send_buf_uih m RFCOMM_MX_DLCI (cmd_buf MX_OFFSET
       [RFCOMM_EA OR RFCOMM_I_CR False OR RFCOMM_MX_NSC, RFCOMM_EA OR push_bit 1 1,
        f_ea (rx_frame s) OR push_bit 1 (f_cr (rx_frame s)) OR f_type (rx_frame s)]) s"

definition rpn_bytes :: "u8 \<Rightarrow> bool \<Rightarrow> PortSettings option \<Rightarrow> u16 \<Rightarrow> u8 list" where
  "rpn_bytes d is_command p_settings pmask =
     (RFCOMM_EA OR RFCOMM_I_CR is_command OR RFCOMM_MX_RPN) #
     (case p_settings of
        None \<Rightarrow> [RFCOMM_EA OR push_bit 1 1, RFCOMM_EA OR RFCOMM_CR_MASK OR push_bit 2 d]
      | Some ps \<Rightarrow>
          [RFCOMM_EA OR push_bit 1 8, RFCOMM_EA OR RFCOMM_CR_MASK OR push_bit 2 d,
           baud_rate ps,
           push_bit 0 (byte_size ps) OR push_bit 2 (stop_bits ps) OR push_bit 3 (parity ps) OR
             push_bit 4 (parity_type ps),
           fc_type ps, xon_char ps, xoff_char ps,
           ucast (pmask AND 0xFF), ucast (drop_bit 8 pmask)])"

definition rfc_send_rpn ::
    "nat \<Rightarrow> u8 \<Rightarrow> bool \<Rightarrow> PortSettings option \<Rightarrow> u16 \<Rightarrow> rfc_st \<Rightarrow> rfc_st option" where
  "rfc_send_rpn m d is_command p_settings pmask s =
     rfc_send_buf_uih m RFCOMM_MX_DLCI (cmd_buf MX_OFFSET (rpn_bytes d is_command p_settings pmask)) s"

text \<open>A buffer without room for the headers is copied to one that has it.\<close>

definition rfc_send_test :: "nat \<Rightarrow> bool \<Rightarrow> BT_HDR \<Rightarrow> rfc_st \<Rightarrow> rfc_st option" where
  "rfc_send_test m is_command b s = (
     let room = L2CAP_MIN_OFFSET + RFCOMM_MIN_OFFSET + 2;
         b = (if bh_offset b < room then b\<lparr>bh_offset := room\<rparr> else b) in
     rfc_send_buf_uih m RFCOMM_MX_DLCI
       (b\<lparr>bh_offset := bh_offset b - 2,
          bh_payload := [RFCOMM_EA OR RFCOMM_I_CR is_command OR RFCOMM_MX_TEST,
                         RFCOMM_EA OR ucast (push_bit 1 (bh_len b))] @ bh_payload b\<rparr>) s)"

definition credit_frame :: "u8 \<Rightarrow> u8 \<Rightarrow> u8 \<Rightarrow> u8 list" where
  "credit_frame cr d credit =
     (let h = [addr_field cr d, RFCOMM_UIH OR RFCOMM_PF, RFCOMM_EA OR 0, credit] in
      h @ [rfc_calc_fcs 2 h])"

definition rfc_send_credit :: "nat \<Rightarrow> u8 \<Rightarrow> u8 \<Rightarrow> rfc_st \<Rightarrow> rfc_st option" where
  "rfc_send_credit m d credit s = do {
     c \<leftarrow> mget m s;
     rfc_check_send_cmd m (Some (cmd_buf L2CAP_MIN_OFFSET
       (credit_frame (RFCOMM_CR (is_initiator c) True) d credit))) s
   }"

section \<open>Parsing a frame\<close>

definition rd :: "u8 list \<Rightarrow> nat \<Rightarrow> u8 option" where
  "rd bs i = (if i < length bs then Some (bs ! i) else None)"

text \<open>The length check and the \<^verbatim>\<open>switch\<close> on the frame type; \<open>i\<close> is the read position.\<close>

definition rfc_parse_type ::
    "tRFC_MCB \<Rightarrow> u8 list \<Rightarrow> nat \<Rightarrow> u16 \<Rightarrow> MX_FRAME \<Rightarrow> BT_HDR \<Rightarrow>
      (tRFC_EVENT \<times> MX_FRAME \<times> BT_HDR) option" where
  "rfc_parse_type c bs i len fr b =
     (if bh_len b \<noteq> len then Some (RFC_EVENT_BAD_FRAME, fr, b) else do {
       fcs \<leftarrow> rd bs (i + unat len);
       let ini = is_initiator c;
       let ev =
         (if f_type fr = RFCOMM_SABME then
            if RFCOMM_FRAME_IS_RSP ini (f_cr fr) \<or> f_pf fr = 0 \<or> len \<noteq> 0 \<or>
               \<not> RFCOMM_VALID_DLCI (f_dlci fr) \<or> \<not> rfc_check_fcs RFCOMM_CTRL_FRAME_LEN bs fcs
            then RFC_EVENT_BAD_FRAME else RFC_EVENT_SABME
          else if f_type fr = RFCOMM_UA then
            if RFCOMM_FRAME_IS_CMD ini (f_cr fr) \<or> f_pf fr = 0 \<or> len \<noteq> 0 \<or>
               \<not> RFCOMM_VALID_DLCI (f_dlci fr) \<or> \<not> rfc_check_fcs RFCOMM_CTRL_FRAME_LEN bs fcs
            then RFC_EVENT_BAD_FRAME else RFC_EVENT_UA
          else if f_type fr = RFCOMM_DM then
            if RFCOMM_FRAME_IS_CMD ini (f_cr fr) \<or> len \<noteq> 0 \<or>
               \<not> RFCOMM_VALID_DLCI (f_dlci fr) \<or> \<not> rfc_check_fcs RFCOMM_CTRL_FRAME_LEN bs fcs
            then RFC_EVENT_BAD_FRAME else RFC_EVENT_DM
          else if f_type fr = RFCOMM_DISC then
            if RFCOMM_FRAME_IS_RSP ini (f_cr fr) \<or> f_pf fr = 0 \<or> len \<noteq> 0 \<or>
               \<not> RFCOMM_VALID_DLCI (f_dlci fr) \<or> \<not> rfc_check_fcs RFCOMM_CTRL_FRAME_LEN bs fcs
            then RFC_EVENT_BAD_FRAME else RFC_EVENT_DISC
          else if f_type fr = RFCOMM_UIH then
            if \<not> RFCOMM_VALID_DLCI (f_dlci fr) then RFC_EVENT_BAD_FRAME
            else if \<not> rfc_check_fcs 2 bs fcs then RFC_EVENT_BAD_FRAME
            else RFC_EVENT_UIH
          else RFC_EVENT_BAD_FRAME);
       Some (ev, fr, b)
     })"

definition rfc_parse_data ::
    "tRFC_MCB \<Rightarrow> MX_FRAME \<Rightarrow> BT_HDR \<Rightarrow> (tRFC_EVENT \<times> MX_FRAME \<times> BT_HDR) option" where
  "rfc_parse_data c fr b = (let bs = bh_payload b in
     if length bs < RFCOMM_CTRL_FRAME_LEN then Some (RFC_EVENT_BAD_FRAME, fr, b) else do {
       b0 \<leftarrow> rd bs 0;
       let fr = fr\<lparr>f_cr := drop_bit 1 (b0 AND RFCOMM_CR_MASK), f_dlci := drop_bit 2 b0\<rparr>;
       b1 \<leftarrow> rd bs 1;
       if b0 AND RFCOMM_EA = 0
       then Some (RFC_EVENT_BAD_FRAME, fr\<lparr>f_dlci := f_dlci fr + push_bit 6 b1\<rparr>, b)
       else do {
         let fr = fr\<lparr>f_type := b1 AND NOT 0x10, f_pf := drop_bit 4 (b1 AND 0x10)\<rparr>;
         b2 \<leftarrow> rd bs 2;
         let eal = b2 AND RFCOMM_EA;
         let len = (ucast (drop_bit 1 b2) :: u16);
         if eal = 0 \<and> \<not> length bs > RFCOMM_CTRL_FRAME_LEN then Some (RFC_EVENT_BAD_FRAME, fr, b)
         else do {
           len \<leftarrow> (if eal = 0 then do { b3 \<leftarrow> rd bs 3; Some (len + push_bit 7 (ucast b3)) }
                  else Some len);
           let n = 3 + (if eal = 0 then 1 else 0);
           if length bs < n + 1 then Some (RFC_EVENT_BAD_FRAME, fr, b) else do {
             let b = b\<lparr>bh_offset := bh_offset b + n,
                       bh_payload := take (length bs - (n + 1)) (drop n bs)\<rparr>;
             if flow c = PORT_FC_CREDIT \<and> f_type fr = RFCOMM_UIH \<and> f_dlci fr \<noteq> RFCOMM_MX_DLCI \<and>
                f_pf fr = 1
             then if bh_payload b = [] then Some (RFC_EVENT_BAD_FRAME, fr, b)
                  else do {
                    cred \<leftarrow> rd bs n;
                    rfc_parse_type c bs (n + 1) len (fr\<lparr>f_credit := cred\<rparr>)
                      (b\<lparr>bh_offset := bh_offset b + 1, bh_payload := tl (bh_payload b)\<rparr>)
                  }
             else rfc_parse_type c bs n len (fr\<lparr>f_credit := 0\<rparr>) b
           }
         }
       }
     })"

section \<open>Decoding a control message\<close>

text \<open>
  What \<^verbatim>\<open>rfc_process_mx_message\<close> does once the message is decoded: nothing, a reply
  that the command is not supported, or one of the handlers.
\<close>

datatype mx_action =
    MxDrop
  | MxNotSupported bool
  | MxPn bool
  | MxTest bool BT_HDR
  | MxFcon bool
  | MxFcoff bool
  | MxMsc bool
  | MxNsc
  | MxRpn bool bool
  | MxRls bool

definition rfc_mx_decode_pn ::
    "u8 list \<Rightarrow> nat \<Rightarrow> u16 \<Rightarrow> bool \<Rightarrow> MX_FRAME \<Rightarrow> (mx_action \<times> MX_FRAME) option" where
  "rfc_mx_decode_pn bs i len is_command fr =
     (if len \<noteq> 8 then Some (MxNotSupported is_command, fr) else do {
       d0 \<leftarrow> rd bs i; d1 \<leftarrow> rd bs (i + 1); d2 \<leftarrow> rd bs (i + 2); d3 \<leftarrow> rd bs (i + 3);
       d4 \<leftarrow> rd bs (i + 4); d5 \<leftarrow> rd bs (i + 5); d6 \<leftarrow> rd bs (i + 6); d7 \<leftarrow> rd bs (i + 7);
       let fr = fr\<lparr>f_dlci := d0 AND 0x3F, pn_frame_type := d1 AND 0x0F, pn_conv_layer := d1 AND 0xF0,
                   pn_priority := d2 AND 0x3F, pn_t1 := d3,
                   pn_mtu := ucast d4 + push_bit 8 (ucast d5), pn_n2 := d6, pn_k := d7 AND 0x07\<rparr>;
       if f_dlci fr = 0 \<or> \<not> RFCOMM_VALID_DLCI (f_dlci fr) \<or> pn_mtu fr < RFCOMM_MIN_MTU \<or>
          pn_mtu fr > RFCOMM_MAX_MTU
       then Some (MxNotSupported is_command, fr)
       else Some (MxPn is_command, fr)
     })"

definition rfc_mx_decode_msc ::
    "u8 list \<Rightarrow> nat \<Rightarrow> u16 \<Rightarrow> bool \<Rightarrow> MX_FRAME \<Rightarrow> (mx_action \<times> MX_FRAME) option" where
  "rfc_mx_decode_msc bs i len is_command fr =
     (if len \<noteq> 3 \<and> len \<noteq> 2 then Some (MxDrop, fr) else do {
       d0 \<leftarrow> rd bs i;
       let ea = d0 AND RFCOMM_EA;
       let cr = drop_bit 1 (d0 AND RFCOMM_CR_MASK);
       let fr = fr\<lparr>f_dlci := drop_bit 2 d0\<rparr>;
       if ea = 0 \<or> cr = 0 \<or> f_dlci fr = 0 \<or> \<not> RFCOMM_VALID_DLCI (f_dlci fr)
       then Some (MxNotSupported is_command, fr)
       else do {
         d1 \<leftarrow> rd bs (i + 1);
         if len = 3 then do {
           d2 \<leftarrow> rd bs (i + 2);
           Some (MxMsc is_command, fr\<lparr>msc_signals := d1, msc_break_present := d2 AND 0x02,
                                     msc_break_duration := drop_bit 4 (d2 AND 0xF0)\<rparr>)
         } else Some (MxMsc is_command, fr\<lparr>msc_signals := d1, msc_break_present := 0,
                                     msc_break_duration := 0\<rparr>)
       }
     })"

definition rfc_mx_decode_rpn ::
    "u8 list \<Rightarrow> nat \<Rightarrow> u16 \<Rightarrow> bool \<Rightarrow> MX_FRAME \<Rightarrow> (mx_action \<times> MX_FRAME) option" where
  "rfc_mx_decode_rpn bs i len is_command fr =
     (if len \<noteq> 1 \<and> len \<noteq> 8 then Some (MxNotSupported is_command, fr) else do {
       d0 \<leftarrow> rd bs i;
       let ea = d0 AND RFCOMM_EA;
       let cr = drop_bit 1 (d0 AND RFCOMM_CR_MASK);
       let fr = fr\<lparr>f_dlci := drop_bit 2 d0\<rparr>;
       if ea = 0 \<or> cr = 0 \<or> f_dlci fr = 0 \<or> \<not> RFCOMM_VALID_DLCI (f_dlci fr)
       then Some (MxNotSupported is_command, fr)
       else if len = 1 then Some (MxRpn is_command True, fr\<lparr>rpn_is_request := True\<rparr>)
       else do {
         d1 \<leftarrow> rd bs (i + 1); d2 \<leftarrow> rd bs (i + 2); d3 \<leftarrow> rd bs (i + 3); d4 \<leftarrow> rd bs (i + 4);
         d5 \<leftarrow> rd bs (i + 5); d6 \<leftarrow> rd bs (i + 6); d7 \<leftarrow> rd bs (i + 7);
         Some (MxRpn is_command False,
           fr\<lparr>rpn_is_request := False, rpn_baud_rate := d1,
              rpn_byte_size := d2 AND 0x03, rpn_stop_bits := drop_bit 2 d2 AND 0x01,
              rpn_parity := drop_bit 3 d2 AND 0x01, rpn_parity_type := drop_bit 4 d2 AND 0x03,
              rpn_fc_type := d3 AND 0x3F, rpn_xon_char := d4, rpn_xoff_char := d5,
              rpn_param_mask := (ucast d6 + push_bit 8 (ucast d7)) AND RFCOMM_RPN_PM_MASK\<rparr>)
       }
     })"

definition rfc_mx_decode_rls ::
    "u8 list \<Rightarrow> nat \<Rightarrow> u16 \<Rightarrow> bool \<Rightarrow> MX_FRAME \<Rightarrow> (mx_action \<times> MX_FRAME) option" where
  "rfc_mx_decode_rls bs i len is_command fr =
     (if len \<noteq> 2 then Some (MxNotSupported is_command, fr) else do {
       d0 \<leftarrow> rd bs i;
       let ea = d0 AND RFCOMM_EA;
       let cr = drop_bit 1 (d0 AND RFCOMM_CR_MASK);
       d1 \<leftarrow> rd bs (i + 1);
       let fr = fr\<lparr>f_dlci := drop_bit 2 d0, rls_line_status := d1 AND NOT 0x01\<rparr>;
       if ea = 0 \<or> cr = 0 \<or> f_dlci fr = 0 \<or> \<not> RFCOMM_VALID_DLCI (f_dlci fr)
       then Some (MxNotSupported is_command, fr)
       else Some (MxRls is_command, fr)
     })"

text \<open>
  The header of a message and the \<^verbatim>\<open>switch\<close> on its type. \<^verbatim>\<open>mx_len\<close> is a byte: the second
  length byte is shifted left by seven and added to it modulo 256.
\<close>

definition rfc_mx_decode_type ::
    "BT_HDR \<Rightarrow> nat \<Rightarrow> u16 \<Rightarrow> bool \<Rightarrow> MX_FRAME \<Rightarrow> (mx_action \<times> MX_FRAME) option" where
  "rfc_mx_decode_type b i len is_command fr = (let bs = bh_payload b in
     if f_type fr = RFCOMM_MX_PN then rfc_mx_decode_pn bs i len is_command fr
     else if f_type fr = RFCOMM_MX_TEST then
       if len = 0 then Some (MxNotSupported is_command, fr)
       else Some (MxTest is_command (b\<lparr>bh_offset := bh_offset b + 2, bh_payload := drop 2 bs\<rparr>),
                  fr\<lparr>test_data_len := len\<rparr>)
     else if f_type fr = RFCOMM_MX_FCON then
       if len \<noteq> 0 then Some (MxNotSupported is_command, fr) else Some (MxFcon is_command, fr)
     else if f_type fr = RFCOMM_MX_FCOFF then
       if len \<noteq> 0 then Some (MxNotSupported is_command, fr) else Some (MxFcoff is_command, fr)
     else if f_type fr = RFCOMM_MX_MSC then rfc_mx_decode_msc bs i len is_command fr
     else if f_type fr = RFCOMM_MX_NSC then
       if len \<noteq> 1 \<or> \<not> is_command then Some (MxNotSupported is_command, fr)
       else do {
         d0 \<leftarrow> rd bs i;
         Some (MxNsc, fr\<lparr>nsc_ea := d0 AND RFCOMM_EA, nsc_cr := drop_bit 1 (d0 AND RFCOMM_CR_MASK),
                          nsc_type := drop_bit 2 d0\<rparr>)
       }
     else if f_type fr = RFCOMM_MX_RPN then rfc_mx_decode_rpn bs i len is_command fr
     else if f_type fr = RFCOMM_MX_RLS then rfc_mx_decode_rls bs i len is_command fr
     else Some (MxNotSupported is_command, fr))"

definition rfc_mx_decode :: "MX_FRAME \<Rightarrow> BT_HDR \<Rightarrow> (mx_action \<times> MX_FRAME) option" where
  "rfc_mx_decode fr b = (let bs = bh_payload b in
     if length bs < 2 then Some (MxDrop, fr) else do {
       b0 \<leftarrow> rd bs 0;
       let fr = fr\<lparr>f_ea := b0 AND RFCOMM_EA, f_cr := drop_bit 1 (b0 AND RFCOMM_CR_MASK),
                   f_type := b0 AND NOT 0x03\<rparr>;
       if f_ea fr = 0 then Some (MxDrop, fr) else do {
         let is_command = (f_cr fr \<noteq> 0);
         b1 \<leftarrow> rd bs 1;
         let mx_len = drop_bit 1 b1;
         if b1 AND RFCOMM_EA = 0 \<and> length bs < 3 then Some (MxDrop, fr) else do {
           mx_len \<leftarrow> (if b1 AND RFCOMM_EA = 0 then do { b2 \<leftarrow> rd bs 2; Some (mx_len + push_bit 7 b2) }
                     else Some mx_len);
           let i = (if b1 AND RFCOMM_EA = 0 then 3 else 2);
           let len = (word_of_nat (length bs - i) :: u16);
           if ucast mx_len \<noteq> len then Some (MxDrop, fr)
           else rfc_mx_decode_type b i len is_command fr
         }
       }
     })"

text \<open>What an accepted frame is.\<close>

definition accepted :: "u8 list \<Rightarrow> tRFC_EVENT \<Rightarrow> MX_FRAME \<Rightarrow> u8 list \<Rightarrow> bool" where
  "accepted bs ev fr data \<longleftrightarrow>
    (\<exists>h fcs. bs = h @ data @ [fcs] \<and> 3 \<le> length h \<and> length h \<le> 5 \<and>
       fcs = rfc_calc_fcs (if ev = RFC_EVENT_UIH then 2 else 3) bs \<and> RFCOMM_VALID_DLCI (f_dlci fr) \<and>
       (ev \<noteq> RFC_EVENT_UIH \<longrightarrow> data = []))"

text \<open>What a decoded control message promises its handler.\<close>

definition mx_sound :: "u8 list \<Rightarrow> mx_action \<Rightarrow> MX_FRAME \<Rightarrow> bool" where
  "mx_sound bs a fr = (case a of
       MxPn _ \<Rightarrow> RFCOMM_VALID_DLCI (f_dlci fr) \<and> f_dlci fr \<noteq> 0 \<and> pn_mtu fr \<in> {RFCOMM_MIN_MTU..RFCOMM_MAX_MTU} \<and> pn_k fr \<le> 7
     | MxMsc _ \<Rightarrow> RFCOMM_VALID_DLCI (f_dlci fr) \<and> f_dlci fr \<noteq> 0
     | MxRpn _ _ \<Rightarrow> RFCOMM_VALID_DLCI (f_dlci fr) \<and> f_dlci fr \<noteq> 0
     | MxRls _ \<Rightarrow> RFCOMM_VALID_DLCI (f_dlci fr) \<and> f_dlci fr \<noteq> 0
     | MxTest _ b \<Rightarrow> bh_payload b = drop 2 bs \<and> bh_payload b \<noteq> []
     | _ \<Rightarrow> True)"

text \<open>The receiving end: parse the frame, decode the message on DLCI 0.\<close>

definition peer_mx :: "tRFC_MCB \<Rightarrow> MX_FRAME \<Rightarrow> u8 list \<Rightarrow> (mx_action \<times> MX_FRAME) option" where
  "peer_mx c fr bs = do {
     (ev, fr, b) \<leftarrow> rfc_parse_data c fr (cmd_buf 0 bs);
     if ev = RFC_EVENT_UIH \<and> f_dlci fr = RFCOMM_MX_DLCI then rfc_mx_decode fr b else None
   }"

section \<open>Parsing is safe and undoes building\<close>

lemma addr_dec:
  assumes "d < 64" "cr = 0 \<or> cr = 2"
  shows "drop_bit 2 (addr_field cr d) = d" "addr_field cr d AND 1 = 1"
    "drop_bit 1 (addr_field cr d AND 2) = drop_bit 1 cr"
proof -
  have *: "\<And>n. bit d n \<Longrightarrow> n < 6" using less_bitD [of d 6] assms(1) by (simp add: word_less_nat_alt)
  show "drop_bit 2 (addr_field cr d) = d" 
    apply (rule bit_word_eqI)
    using assms(2) * by (fastforce simp: addr_field_def bit_simps bit_dbl dest: )
  show "addr_field cr d AND 1 = 1"
    by (rule bit_word_eqI) (auto simp: addr_field_def bit_simps bit_dbl)
  show "drop_bit 1 (addr_field cr d AND 2) = drop_bit 1 cr"
    apply (rule bit_word_eqI) using assms(2) by (auto simp: addr_field_def bit_simps bit_dbl)
qed

lemma len1:
  assumes "len \<le> (127::u16)"
  shows "(1 OR ucast (push_bit 1 len) :: u8) AND 1 = 1"
   "(ucast (drop_bit 1 (1 OR ucast (push_bit 1 len) :: u8)) :: u16) = len"
proof -
  have "unat len < 2 ^ 7" using assms by (simp add: word_le_nat_alt)
  then have *: "\<And>n. bit len n \<Longrightarrow> n < 7" by (rule less_bitD)
  show "(1 OR ucast (push_bit 1 len) :: u8) AND 1 = 1"
    by (rule bit_word_eqI) (auto simp: bit_simps bit_dbl)
  show "(ucast (drop_bit 1 (1 OR ucast (push_bit 1 len) :: u8)) :: u16) = len"
    by (rule bit_word_eqI) (auto simp: bit_simps bit_dbl dest: *)
qed

lemma len2:
  assumes "len < (32768::u16)"
  shows "(ucast (push_bit 1 (len AND 0x7F)) :: u8) AND 1 = 0"
   "(ucast (drop_bit 1 (ucast (push_bit 1 (len AND 0x7F)) :: u8)) :: u16) + push_bit 7 (ucast (ucast (drop_bit 7 len) :: u8)) = len"
proof -
  have *: "\<And>n. bit len n \<Longrightarrow> n < 15" using less_bitD [of len 15] assms by (simp add: word_less_nat_alt)
  have m: "len AND 0x7F = take_bit 7 len" by (simp add: take_bit_eq_mask mask_numeral)
  show "(ucast (push_bit 1 (len AND 0x7F)) :: u8) AND 1 = 0"
    unfolding m by (rule bit_word_eqI) (auto simp: bit_simps bit_dbl simp del: push_bit_take_bit)
  show "(ucast (drop_bit 1 (ucast (push_bit 1 (len AND 0x7F)) :: u8)) :: u16) + push_bit 7 (ucast (ucast (drop_bit 7 len) :: u8)) = len"
    unfolding m
    apply (subst disjunctive_add)
     apply (auto simp: bit_simps bit_dbl)[1]
    by (rule bit_word_eqI) (auto simp: bit_simps bit_dbl dest: *, metis le_add_diff_inverse not_less)
qed

lemma ok_rd [simp]: "ok (rd bs i) P \<longleftrightarrow> i < length bs \<and> P (bs ! i)"
  by (simp add: rd_def)

lemma split_frame: "length bs = n + k + 1 \<Longrightarrow> bs = take n bs @ take k (drop n bs) @ [bs ! (n + k)]"
  by (metis add.commute append.assoc append_take_drop_id  hd_drop_conv_nth length_drop lessI plus_1_eq_Suc  take_Suc_conv_app_nth take_add take_all_iff le_refl)

lemma parse_type_wp:
  assumes "length bs = i + length (bh_payload b) + 1" "bh_payload b = take (length (bh_payload b)) (drop i bs)"
    "length (bh_payload b) < 65536" "3 \<le> i" "i \<le> 5"
  shows "ok (rfc_parse_type c bs i len fr b) (\<lambda>(ev, fr', b'). fr' = fr \<and> b' = b \<and> (ev \<noteq> RFC_EVENT_BAD_FRAME \<longrightarrow> accepted bs ev fr (bh_payload b)))"
proof (cases "bh_len b = len")
  case True
  then have l: "unat len = length (bh_payload b)" using assms(3) by (auto simp: bh_len_def unat_of_nat_small)
  have s: "bs = take i bs @ bh_payload b @ [bs ! (i + length (bh_payload b))]"
    using split_frame [OF assms(1)] assms(2) by simp
  have "len \<noteq> 0 \<or> bh_payload b = []" using l by auto
  have acc: "accepted bs ev fr (bh_payload b)" if "bs ! (i + unat len) = rfc_calc_fcs (if ev = RFC_EVENT_UIH then 2 else 3) bs"
    "RFCOMM_VALID_DLCI (f_dlci fr)" "ev \<noteq> RFC_EVENT_UIH \<longrightarrow> len = 0" for ev
    unfolding accepted_def using s that l assms by (intro exI [of _ "take i bs"] exI [of _ "bs ! (i + unat len)"]) auto
  show ?thesis using True assms(1) l
    by (auto simp: rfc_parse_type_def Let_def check_fcs_iff intro!: acc)
next
  case False
  then show ?thesis by (simp add: rfc_parse_type_def)
qed

lemma parse_data_wp:
  assumes "length (bh_payload b) < 65536"
  shows "ok (rfc_parse_data c fr b) (\<lambda>(ev, fr', b'). (ev \<noteq> RFC_EVENT_BAD_FRAME \<longrightarrow>
     accepted (bh_payload b) ev fr' (bh_payload b') \<and> f_dlci fr' = drop_bit 2 (bh_payload b ! 0)))"
proof -
  let ?bs = "bh_payload b"
  have W: "ok (rfc_parse_type c ?bs i len fr1 b1) (\<lambda>(ev, fr', b'). ev \<noteq> RFC_EVENT_BAD_FRAME \<longrightarrow>
     accepted ?bs ev fr' (bh_payload b') \<and> f_dlci fr' = drop_bit 2 (?bs ! 0))"
    if "length ?bs = i + length (bh_payload b1) + 1" "bh_payload b1 = take (length (bh_payload b1)) (drop i ?bs)"
     "3 \<le> i" "i \<le> 5" "f_dlci fr1 = drop_bit 2 (?bs ! 0)" for i len fr1 b1
    by (rule ok_weaken [OF parse_type_wp]) (use that assms in auto)
  show ?thesis
    unfolding rfc_parse_data_def Let_def
    by (auto simp del: One_nat_def simp: min_def tl_take tl_drop drop_Suc [symmetric] intro!: W)
qed

lemma valid_dlci_less: "RFCOMM_VALID_DLCI d \<Longrightarrow> d < 64"
  by (auto simp: RFCOMM_VALID_DLCI_def word_le_nat_alt word_less_nat_alt)

lemma calc_fcs_app: "n \<le> length h \<Longrightarrow> rfc_calc_fcs n (h @ xs) = rfc_calc_fcs n h"
  by (simp add: rfc_calc_fcs_def)

lemma ctrl_roundtrip:
  assumes d: "RFCOMM_VALID_DLCI d" and i: "is_initiator c = (\<not> ini)"
  shows
  "ok (rfc_parse_data c fr (cmd_buf off (ctrl_frame (RFCOMM_CR ini True) d (RFCOMM_SABME OR RFCOMM_PF))))
     (\<lambda>(ev, fr', b'). ev = RFC_EVENT_SABME \<and> f_dlci fr' = d \<and> bh_payload b' = [])"
  "ok (rfc_parse_data c fr (cmd_buf off (ctrl_frame (RFCOMM_CR ini True) d (RFCOMM_DISC OR RFCOMM_PF))))
     (\<lambda>(ev, fr', b'). ev = RFC_EVENT_DISC \<and> f_dlci fr' = d \<and> bh_payload b' = [])"
  "ok (rfc_parse_data c fr (cmd_buf off (ctrl_frame (RFCOMM_CR ini False) d (RFCOMM_UA OR RFCOMM_PF))))
     (\<lambda>(ev, fr', b'). ev = RFC_EVENT_UA \<and> f_dlci fr' = d \<and> bh_payload b' = [])"
  "ok (rfc_parse_data c fr (cmd_buf off (ctrl_frame (RFCOMM_CR ini False) d (RFCOMM_DM OR (if pf then RFCOMM_PF else 0)))))
     (\<lambda>(ev, fr', b'). ev = RFC_EVENT_DM \<and> f_dlci fr' = d \<and> f_pf fr' = of_bool pf \<and> bh_payload b' = [])"
proof -
  have d': "d < 64" using d by (auto simp: RFCOMM_VALID_DLCI_def word_le_nat_alt word_less_nat_alt)
  note a = addr_dec [OF d', of 2] addr_dec [OF d', of 0] addr_dec(3) [OF d', of 2, simplified] addr_dec(3) [OF d', of 0, simplified]
  note b = rfc_parse_data_def rfc_parse_type_def Let_def ctrl_frame_def cmd_buf_def RFCOMM_CR_def bh_len_def
     RFCOMM_FRAME_IS_CMD_def RFCOMM_FRAME_IS_RSP_def check_fcs_iff d i a
  have f: "rfc_calc_fcs 3 [x,y,z,w] = rfc_calc_fcs 3 [x,y,z]" for x y z w by (simp add: rfc_calc_fcs_def)
  show "ok (rfc_parse_data c fr (cmd_buf off (ctrl_frame (RFCOMM_CR ini True) d (RFCOMM_SABME OR RFCOMM_PF))))
     (\<lambda>(ev, fr', b'). ev = RFC_EVENT_SABME \<and> f_dlci fr' = d \<and> bh_payload b' = [])"
    by (cases ini) (simp_all add: b f)
  show "ok (rfc_parse_data c fr (cmd_buf off (ctrl_frame (RFCOMM_CR ini True) d (RFCOMM_DISC OR RFCOMM_PF))))
     (\<lambda>(ev, fr', b'). ev = RFC_EVENT_DISC \<and> f_dlci fr' = d \<and> bh_payload b' = [])"
    by (cases ini) (simp_all add: b f)
  show "ok (rfc_parse_data c fr (cmd_buf off (ctrl_frame (RFCOMM_CR ini False) d (RFCOMM_UA OR RFCOMM_PF))))
     (\<lambda>(ev, fr', b'). ev = RFC_EVENT_UA \<and> f_dlci fr' = d \<and> bh_payload b' = [])"
    by (cases ini) (simp_all add: b f)
  show "ok (rfc_parse_data c fr (cmd_buf off (ctrl_frame (RFCOMM_CR ini False) d (RFCOMM_DM OR (if pf then RFCOMM_PF else 0)))))
     (\<lambda>(ev, fr', b'). ev = RFC_EVENT_DM \<and> f_dlci fr' = d \<and> f_pf fr' = of_bool pf \<and> bh_payload b' = [])"
    by (cases ini; cases pf) (simp_all add: b f)
qed

lemma uih_roundtrip:
  assumes d: "RFCOMM_VALID_DLCI d" and cr: "cr = 0 \<or> cr = 2" and l: "length data < 32768"
    and k: "credits \<noteq> 0 \<longrightarrow> d \<noteq> 0 \<and> flow c = PORT_FC_CREDIT"
  shows "ok (rfc_parse_data c fr (b\<lparr>bh_payload := uih_frame cr d credits data\<rparr>))
     (\<lambda>(ev, fr', b'). ev = RFC_EVENT_UIH \<and> f_dlci fr' = d \<and> f_credit fr' = credits \<and> bh_payload b' = data)"
proof -
  let ?len = "word_of_nat (length data) :: u16"
  have ul: "unat ?len = length data" using l by (simp add: unat_of_nat_small)
  note a = addr_dec [OF valid_dlci_less [OF d] cr]
  note defs = rfc_parse_data_def rfc_parse_type_def Let_def uih_frame_def uih_header_def bh_len_def check_fcs_iff rfc_calc_fcs_def
  show ?thesis
  proof (cases "?len \<le> 127")
    case True
    note L = len1 [OF True] len1 [OF True, simplified]
    show ?thesis using k d by (cases "credits = 0") (simp_all add: defs True a L ul)
  next
    case False
    have "?len < 32768" using l by (simp add: word_less_nat_alt ul)
    note L = len2 [OF this] len2 [OF this, simplified]
    show ?thesis using k d by (cases "credits = 0") (simp_all add: defs False a L ul)
  qed
qed

lemmas mx_defs = rfc_mx_decode_def rfc_mx_decode_type_def Let_def RFCOMM_I_CR_def

lemma pn_roundtrip:
  assumes "RFCOMM_VALID_DLCI d" "d \<noteq> 0" "23 \<le> n1" "n1 \<le> 32767" "cl AND 0xF0 = cl" "k < 8" "prio < 64"
  shows "ok (rfc_mx_decode fr (b\<lparr>bh_payload := pn_bytes d ic prio n1 cl k\<rparr>))
    (\<lambda>(a, fr'). a = MxPn ic \<and> f_dlci fr' = d \<and> pn_conv_layer fr' = cl \<and> pn_mtu fr' = n1 \<and> pn_k fr' = k \<and>
       pn_priority fr' = (if ic then 0 else prio))"
  using assms join_bytes [of n1] valid_dlci_less [OF assms(1)]
  by (cases ic) (simp_all add: mx_defs pn_bytes_def rfc_mx_decode_pn_def and_low_u8 not_less)

lemma dlci_field:
  assumes "d < (64::u8)"
  shows "drop_bit 2 (RFCOMM_EA OR RFCOMM_CR_MASK OR push_bit 2 d) = d"
    "(RFCOMM_EA OR RFCOMM_CR_MASK OR push_bit 2 d) AND 1 = 1"
    "drop_bit 1 ((RFCOMM_EA OR RFCOMM_CR_MASK OR push_bit 2 d) AND 2) = 1"
  using addr_dec [OF assms, of 2] by (simp_all add: addr_field_def)

lemma rls_roundtrip:
  assumes "RFCOMM_VALID_DLCI d" "d \<noteq> 0" 
  shows "ok (rfc_mx_decode fr (b\<lparr>bh_payload := rls_bytes d ic status\<rparr>))
    (\<lambda>(a, fr'). a = MxRls ic \<and> f_dlci fr' = d \<and> rls_line_status fr' = status AND NOT 1)"
proof -
  have "(1 OR status) AND NOT 1 = status AND NOT 1" by (rule bit_word_eqI) (auto simp: bit_simps)
  then show ?thesis
  using assms dlci_field [OF valid_dlci_less [OF assms(1)]] dlci_field [OF valid_dlci_less [OF assms(1)], simplified]
  by (cases ic) (simp_all add: mx_defs rls_bytes_def rfc_mx_decode_rls_def)
qed

lemma msc_roundtrip:
  assumes "RFCOMM_VALID_DLCI d" "d \<noteq> 0" "break_signal p < 16"
  shows "ok (rfc_mx_decode fr (b\<lparr>bh_payload := msc_bytes d ic p\<rparr>))
    (\<lambda>(a, fr'). a = MxMsc ic \<and> f_dlci fr' = d \<and>
        (msc_signals fr' AND RFCOMM_MSC_FC \<noteq> 0 \<longleftrightarrow> ctrl_fc p) \<and>
        (msc_signals fr' AND RFCOMM_MSC_RTC \<noteq> 0 \<longleftrightarrow> modem_signal p AND MODEM_SIGNAL_DTRDSR \<noteq> 0) \<and>
        (msc_signals fr' AND RFCOMM_MSC_RTR \<noteq> 0 \<longleftrightarrow> modem_signal p AND MODEM_SIGNAL_RTSCTS \<noteq> 0) \<and>
        (msc_signals fr' AND RFCOMM_MSC_IC \<noteq> 0 \<longleftrightarrow> modem_signal p AND MODEM_SIGNAL_RI \<noteq> 0) \<and>
        (msc_signals fr' AND RFCOMM_MSC_DV \<noteq> 0 \<longleftrightarrow> modem_signal p AND MODEM_SIGNAL_DCD \<noteq> 0) \<and>
        (msc_break_present fr' \<noteq> 0 \<longleftrightarrow> break_signal p \<noteq> 0) \<and> msc_break_duration fr' = break_signal p)"
proof -
  have B: "drop_bit 4 ((1 OR 2 OR push_bit 4 x) AND 0xF0) = x" "(1 OR 2 OR push_bit 4 x) AND 2 = 2" if "x < 16" for x :: u8
    subgoal
    proof -
      have m: "(0xF0 :: u8) = push_bit 4 (mask 4)" by (simp add: mask_numeral)
      have "unat x < 2 ^ 4" using that by (simp add: word_less_nat_alt)
      note * = less_bitD [OF this]
      show ?thesis unfolding m by (rule bit_word_eqI) (auto simp: bit_simps dest: *)
    qed
    subgoal by (rule bit_word_eqI) (auto simp: bit_simps)
    done
  note dl = dlci_field [OF valid_dlci_less [OF assms(1)]] dlci_field [OF valid_dlci_less [OF assms(1)], simplified]
  show ?thesis
    using assms(1,2)
    by (cases ic; cases "break_signal p = 0"; cases "modem_signal p AND MODEM_SIGNAL_DTRDSR = 0"; cases "modem_signal p AND MODEM_SIGNAL_RTSCTS = 0"; cases "modem_signal p AND MODEM_SIGNAL_RI = 0"; cases "modem_signal p AND MODEM_SIGNAL_DCD = 0"; cases "ctrl_fc p")
      (simp_all add: mx_defs msc_bytes_def rfc_mx_decode_msc_def dl B [OF assms(3)] B [OF assms(3), simplified])
qed

lemma rpn_roundtrip:
  assumes "RFCOMM_VALID_DLCI d" "d \<noteq> 0" "byte_size p < 4" "stop_bits p < 2" "parity p < 2" "parity_type p < 4" "fc_type p < 64"
    "pm AND 0x3F7F = pm"
  shows "ok (rfc_mx_decode fr (b\<lparr>bh_payload := rpn_bytes d ic (Some p) pm\<rparr>))
    (\<lambda>(a, fr'). a = MxRpn ic False \<and> f_dlci fr' = d \<and> rpn_baud_rate fr' = baud_rate p \<and>
        rpn_byte_size fr' = byte_size p \<and> rpn_stop_bits fr' = stop_bits p \<and> rpn_parity fr' = parity p \<and>
        rpn_parity_type fr' = parity_type p \<and> rpn_fc_type fr' = fc_type p \<and>
        rpn_xon_char fr' = xon_char p \<and> rpn_xoff_char fr' = xoff_char p \<and> rpn_param_mask fr' = pm)"
  "ok (rfc_mx_decode fr (b\<lparr>bh_payload := rpn_bytes d ic None pm\<rparr>))
    (\<lambda>(a, fr'). a = MxRpn ic True \<and> f_dlci fr' = d)"
proof -
  note dl = dlci_field [OF valid_dlci_less [OF assms(1)]] dlci_field [OF valid_dlci_less [OF assms(1)], simplified]
  let ?f = "push_bit 0 (byte_size p) OR push_bit 2 (stop_bits p) OR push_bit 3 (parity p) OR push_bit 4 (parity_type p)"
  have m: "(3::u8) = mask 2" "(1 :: u8) = mask 1" by (simp_all add: mask_numeral)
  have u: "unat (byte_size p) < 2 ^ 2" "unat (stop_bits p) < 2 ^ 1" "unat (parity p) < 2 ^ 1" "unat (parity_type p) < 2 ^ 2"
    using assms(3-6) by (simp_all add: word_less_nat_alt)
  note D = less_bitD [OF u(1)] less_bitD [OF u(2)] less_bitD [OF u(3)] less_bitD [OF u(4)]
  have f: "?f AND 3 = byte_size p" "drop_bit 2 ?f AND 1 = stop_bits p" "drop_bit 3 ?f AND 1 = parity p" "drop_bit 4 ?f AND 3 = parity_type p"
    unfolding m by (rule bit_word_eqI, auto simp: bit_simps simp del: mask_1 dest: D)+
  show "ok (rfc_mx_decode fr (b\<lparr>bh_payload := rpn_bytes d ic (Some p) pm\<rparr>))
    (\<lambda>(a, fr'). a = MxRpn ic False \<and> f_dlci fr' = d \<and> rpn_baud_rate fr' = baud_rate p \<and>
        rpn_byte_size fr' = byte_size p \<and> rpn_stop_bits fr' = stop_bits p \<and> rpn_parity fr' = parity p \<and>
        rpn_parity_type fr' = parity_type p \<and> rpn_fc_type fr' = fc_type p \<and>
        rpn_xon_char fr' = xon_char p \<and> rpn_xoff_char fr' = xoff_char p \<and> rpn_param_mask fr' = pm)"
    using assms(1,2,7,8) join_bytes [of pm] by (cases ic) (simp_all add: mx_defs rpn_bytes_def rfc_mx_decode_rpn_def dl f f [simplified] and_low_u8)
  show "ok (rfc_mx_decode fr (b\<lparr>bh_payload := rpn_bytes d ic None pm\<rparr>))
    (\<lambda>(a, fr'). a = MxRpn ic True \<and> f_dlci fr' = d)"
    using assms(1,2) by (cases ic) (simp_all add: mx_defs rpn_bytes_def rfc_mx_decode_rpn_def dl)
qed

lemma fc_roundtrip:
  "ok (rfc_mx_decode fr (b\<lparr>bh_payload := fcon_bytes ic\<rparr>)) (\<lambda>(a, fr'). a = MxFcon ic)"
  "ok (rfc_mx_decode fr (b\<lparr>bh_payload := fcoff_bytes ic\<rparr>)) (\<lambda>(a, fr'). a = MxFcoff ic)"
  by (cases ic; simp add: mx_defs fcon_bytes_def fcoff_bytes_def)+

lemma word_of_nat_le: "word_of_nat n = (k :: u16) \<Longrightarrow> unat k \<le> n"
  by (auto simp: unsigned_of_nat)

lemma cmd_sent_now:
  assumes "\<not> l2cap_congested c"
  shows "out (cmd_sent m c q s) = out s @ map (\<lambda>p. L2CA_DataWrite (lcid c) (bh_payload p)) q"
  using assms by (simp add: cmd_sent_def)

lemma ctrl_frame_sent:
  assumes "mget m s = Some c" and "cmd_q c = Some []" and "\<not> l2cap_congested c"
  shows "ok (rfc_send_sabme m d s) (\<lambda>s'. out s' = out s @ [L2CA_DataWrite (lcid c) (ctrl_frame (RFCOMM_CR (is_initiator c) True) d (RFCOMM_SABME OR RFCOMM_PF))])"
  "ok (rfc_send_disc m d s) (\<lambda>s'. out s' = out s @ [L2CA_DataWrite (lcid c) (ctrl_frame (RFCOMM_CR (is_initiator c) True) d (RFCOMM_DISC OR RFCOMM_PF))])"
  "ok (rfc_send_ua m d s) (\<lambda>s'. out s' = out s @ [L2CA_DataWrite (lcid c) (ctrl_frame (RFCOMM_CR (is_initiator c) False) d (RFCOMM_UA OR RFCOMM_PF))])"
  "ok (rfc_send_dm m d pf s) (\<lambda>s'. out s' = out s @ [L2CA_DataWrite (lcid c) (ctrl_frame (RFCOMM_CR (is_initiator c) False) d (RFCOMM_DM OR (if pf then RFCOMM_PF else 0)))])"
  using assms by (simp_all add: rfc_send_sabme_def rfc_send_disc_def rfc_send_ua_def rfc_send_dm_def check_send_cmd_eq cmd_sent_now cmd_buf_def)

lemma mx_frame_sent:
  assumes "mget m s = Some c" and "cmd_q c = Some []" and "\<not> l2cap_congested c" and "length bs < 128"
  shows "ok (rfc_send_buf_uih m RFCOMM_MX_DLCI (cmd_buf MX_OFFSET bs) s)
     (\<lambda>s'. out s' = out s @ [L2CA_DataWrite (lcid c) (uih_frame (RFCOMM_CR (is_initiator c) True) 0 0 bs)])"
  using assms by (auto simp: rfc_send_buf_uih_def check_send_cmd_eq cmd_sent_now cmd_buf_def)


lemma peer_mx_uih:
  assumes "cr = 0 \<or> cr = 2" and "length bs < 32768"
    and "\<And>fr b. ok (rfc_mx_decode fr (b\<lparr>bh_payload := bs\<rparr>)) P"
  shows "ok (peer_mx c fr (uih_frame cr 0 0 bs)) P"
proof -
  have *: "ok (rfc_parse_data c fr (cmd_buf 0 (uih_frame cr 0 0 bs)))
     (\<lambda>(ev, fr', b'). ev = RFC_EVENT_UIH \<and> f_dlci fr' = 0 \<and> f_credit fr' = 0 \<and> bh_payload b' = bs)"
    using uih_roundtrip [of 0 cr bs 0 c fr "cmd_buf 0 []"] assms(1,2) by (simp add: RFCOMM_VALID_DLCI_def cmd_buf_def)
  have "ok (rfc_mx_decode fr' b') P" if "bh_payload b' = bs" for fr' b'
    using assms(3) [of fr' b'] that by auto
  then show ?thesis
    unfolding peer_mx_def ok_bind by (auto intro: ok_weaken [OF *])
qed

lemma decode_pn_wp:
  assumes "i + unat len \<le> length bs"
  shows "ok (rfc_mx_decode_pn bs i len ic fr) (\<lambda>(a, fr'). mx_sound bs a fr')"
proof (cases "len = 8")
  case True
  have k: "x AND 7 \<le> (7 :: u8)" for x by (rule word_and_le1)
  show ?thesis using assms True by (simp add: rfc_mx_decode_pn_def Let_def k mx_sound_def not_less)
qed (simp add: rfc_mx_decode_pn_def mx_sound_def)

lemma decode_msc_wp:
  assumes "i + unat len \<le> length bs"
  shows "ok (rfc_mx_decode_msc bs i len ic fr) (\<lambda>(a, fr'). mx_sound bs a fr')"
  using assms by (cases "len = 3"; cases "len = 2") (simp_all add: rfc_mx_decode_msc_def Let_def mx_sound_def)

lemma decode_rpn_wp:
  assumes "i + unat len \<le> length bs"
  shows "ok (rfc_mx_decode_rpn bs i len ic fr) (\<lambda>(a, fr'). mx_sound bs a fr')"
  using assms by (cases "len = 1"; cases "len = 8") (simp_all add: rfc_mx_decode_rpn_def Let_def mx_sound_def)

lemma decode_rls_wp:
  assumes "i + unat len \<le> length bs"
  shows "ok (rfc_mx_decode_rls bs i len ic fr) (\<lambda>(a, fr'). mx_sound bs a fr')"
  using assms by (cases "len = 2") (simp_all add: rfc_mx_decode_rls_def Let_def mx_sound_def)

lemma decode_type_wp:
  assumes "i + unat len \<le> length (bh_payload b)" "2 \<le> i"
  shows "ok (rfc_mx_decode_type b i len ic fr) (\<lambda>(a, fr'). mx_sound (bh_payload b) a fr')"
proof -
  have n: "\<not> length (bh_payload b) \<le> 2" if "len \<noteq> 0"
    using that assms unat_eq_zero [of len] by linarith
  have s: "mx_sound bs (MxNotSupported x) fr" "mx_sound bs (MxFcon x) fr" "mx_sound bs (MxFcoff x) fr" "mx_sound bs MxNsc fr" for bs x fr
    by (simp_all add: mx_sound_def)
  have r: "i < length (bh_payload b)" if "len = 1" using assms that by simp
  note w = rfc_mx_decode_type_def Let_def decode_pn_wp decode_msc_wp decode_rpn_wp decode_rls_wp s
  consider "len = 0" | "len = 1" | "len \<noteq> 0" "len \<noteq> 1" by blast
  then show ?thesis
    using assms by cases (simp_all add: w n, simp_all add: mx_sound_def n)
qed

lemma mx_decode_wp:
  "ok (rfc_mx_decode fr b) (\<lambda>(a, fr'). mx_sound (bh_payload b) a fr')"
proof -
  let ?bs = "bh_payload b"
  have T: "ok (rfc_mx_decode_type b i (word_of_nat (length ?bs - i)) ic fr) (\<lambda>(a, fr'). mx_sound ?bs a fr')"
    if "2 \<le> i" "i \<le> length ?bs" for i ic fr
    by (rule decode_type_wp) (use that word_of_nat_le [OF refl, of "length ?bs - i"] in \<open>auto simp del: of_nat_diff\<close>)
  have D: "mx_sound ?bs MxDrop fr" for fr by (simp add: mx_sound_def)
  show ?thesis unfolding rfc_mx_decode_def Let_def by (auto simp del: of_nat_diff simp: T D)
qed

section \<open>Properties\<close>



text \<open>C10: decoding a message of the control channel never reads outside the message, and a
  message handed to a handler names a valid DLCI other than the control channel; a PN message
  carries a frame size between the minimum and the maximum and at most seven initial credits,
  and a TEST message has data.\<close>

theorem rfc_mx_decode_sound:
  "\<exists>a fr'. rfc_mx_decode fr b = Some (a, fr') \<and> mx_sound (bh_payload b) a fr'"
  using mx_decode_wp [of fr b] by (auto simp: ok_iff)

text \<open>C14: what \<^verbatim>\<open>rfc_send_sabme\<close>, \<^verbatim>\<open>rfc_send_disc\<close>, \<^verbatim>\<open>rfc_send_ua\<close> and \<^verbatim>\<open>rfc_send_dm\<close> hand to
  L2CAP is parsed by the other end of the multiplexer, which has the opposite role, as the
  same frame for the same DLCI.\<close>

theorem rfc_ctrl_frames_understood:
  assumes "mget m s = Some c" and "cmd_q c = Some []" and "\<not> l2cap_congested c"
    and "RFCOMM_VALID_DLCI d" and "is_initiator peer = (\<not> is_initiator c)"
    and "(send, ev) \<in> {(rfc_send_sabme m d, RFC_EVENT_SABME), (rfc_send_disc m d, RFC_EVENT_DISC),
           (rfc_send_ua m d, RFC_EVENT_UA), (rfc_send_dm m d pf, RFC_EVENT_DM)}"
  shows "\<exists>s' bs fr' b'. send s = Some s' \<and> out s' = out s @ [L2CA_DataWrite (lcid c) bs] \<and>
    rfc_parse_data peer fr (cmd_buf off bs) = Some (ev, fr', b') \<and> f_dlci fr' = d \<and> bh_payload b' = []"
  using assms(6) ctrl_frame_sent [OF assms(1-3), of d]  ctrl_roundtrip [OF assms(4,5), of fr off]
  by (fastforce simp: ok_iff)

theorem rfc_ctrl_frames_understood_witness:
  "\<exists>s' bs fr' b'. rfc_send_sabme 0 4
       (mupd 0 (\<lambda>c. c\<lparr>cmd_q := Some [], is_initiator := True, lcid := 0x41\<rparr>) RFCOMM_Init) = Some s' \<and>
     out s' = [L2CA_DataWrite 0x41 bs] \<and>
     rfc_parse_data zero_mcb zero_frame (cmd_buf 9 bs) = Some (RFC_EVENT_SABME, fr', b') \<and>
     f_dlci fr' = 4 \<and> bh_payload b' = []"
  using rfc_ctrl_frames_understood [of 0 "mupd 0 (\<lambda>c. c\<lparr>cmd_q := Some [], is_initiator := True, lcid := 0x41\<rparr>) RFCOMM_Init"
      "zero_mcb\<lparr>cmd_q := Some [], is_initiator := True, lcid := 0x41\<rparr>" 4 zero_mcb "rfc_send_sabme 0 4" RFC_EVENT_SABME False zero_frame 9]
  by (simp add: mget_def RFCOMM_Init_def zero_mcb_def RFCOMM_VALID_DLCI_def mupd_def)

text \<open>C13: a data frame built by \<^verbatim>\<open>rfc_send_buf_uih\<close>, with or without credits and with a
  one or two byte length, is parsed by the other end as the same data and the same credits,
  for every payload below 32768 bytes.\<close>

theorem rfc_uih_understood:
  assumes "mget m s = Some c" and "RFCOMM_VALID_DLCI d" and "d \<noteq> 0" and "5 \<le> bh_offset b"
    and "length (bh_payload b) < 32768" and "flow peer = PORT_FC_CREDIT"
  shows "\<exists>s' bs fr' b'. rfc_send_buf_uih m d b s = Some s' \<and>
    out s' = out s @ [L2CA_DataWrite (lcid c) bs] \<and>
    rfc_parse_data peer fr (cmd_buf off bs) = Some (RFC_EVENT_UIH, fr', b') \<and>
    f_dlci fr' = d \<and> f_credit fr' = ucast (bh_layer_specific b) \<and> bh_payload b' = bh_payload b"
proof -
  let ?cr = "RFCOMM_CR (is_initiator c) True" and ?k = "ucast (bh_layer_specific b) :: u8"
  let ?bs = "uih_frame ?cr d ?k (bh_payload b)"
  have "rfc_send_buf_uih m d b s = Some (emit (L2CA_DataWrite (lcid c) ?bs) s)"
    using assms(1,3,4) by (simp add: rfc_send_buf_uih_def Let_def)
  moreover have "ok (rfc_parse_data peer fr (cmd_buf off ?bs)) (\<lambda>(ev, fr', b'). ev = RFC_EVENT_UIH \<and>
      f_dlci fr' = d \<and> f_credit fr' = ?k \<and> bh_payload b' = bh_payload b)"
    using uih_roundtrip [OF assms(2) _ assms(5), of ?cr ?k peer fr "cmd_buf off []"] assms(3,6)
    by (simp add: cmd_buf_def RFCOMM_CR_def)
  ultimately show ?thesis by (auto simp: ok_iff)
qed

theorem rfc_uih_understood_witness:
  "\<exists>s' bs fr' b'. rfc_send_buf_uih 0 4 \<lparr>bh_offset = 18, bh_layer_specific = 7, bh_payload = replicate 200 0x55\<rparr>
       RFCOMM_Init = Some s' \<and> out s' = [L2CA_DataWrite 0 bs] \<and>
    rfc_parse_data (zero_mcb\<lparr>flow := PORT_FC_CREDIT\<rparr>) zero_frame (cmd_buf 9 bs) = Some (RFC_EVENT_UIH, fr', b') \<and>
    f_dlci fr' = 4 \<and> f_credit fr' = 7 \<and> bh_payload b' = replicate 200 0x55"
  using rfc_uih_understood [of 0 RFCOMM_Init zero_mcb 4 "\<lparr>bh_offset = 18, bh_layer_specific = 7, bh_payload = replicate 200 0x55\<rparr>"
     "zero_mcb\<lparr>flow := PORT_FC_CREDIT\<rparr>" zero_frame 9]
  by (simp add: mget_def RFCOMM_Init_def zero_mcb_def RFCOMM_VALID_DLCI_def)

text \<open>C15: the parameters of a PN command or response sent by \<^verbatim>\<open>rfc_send_pn\<close> (DLCI, frame size,
  convergence layer, initial credits) are the ones the other end decodes.\<close>

theorem rfc_pn_understood:
  assumes "mget m s = Some c" and "cmd_q c = Some []" and "\<not> l2cap_congested c"
    and "RFCOMM_VALID_DLCI d" and "d \<noteq> 0" and "RFCOMM_MIN_MTU \<le> n1" and "n1 \<le> RFCOMM_MAX_MTU"
    and "cl AND 0xF0 = cl" and "k < 8" and "pn_priority (rx_frame s) < 64"
  shows "\<exists>s' bs fr'. rfc_send_pn m d is_cmd n1 cl k s = Some s' \<and>
    out s' = out s @ [L2CA_DataWrite (lcid c) bs] \<and> peer_mx peer fr bs = Some (MxPn is_cmd, fr') \<and>
    f_dlci fr' = d \<and> pn_mtu fr' = n1 \<and> pn_conv_layer fr' = cl \<and> pn_k fr' = k"
proof -
  let ?bs = "pn_bytes d is_cmd (pn_priority (rx_frame s)) n1 cl k"
  have l: "length ?bs = 10" by (simp add: pn_bytes_def)
  have "ok (peer_mx peer fr (uih_frame (RFCOMM_CR (is_initiator c) True) 0 0 ?bs))
      (\<lambda>(a, fr'). a = MxPn is_cmd \<and> f_dlci fr' = d \<and> pn_mtu fr' = n1 \<and> pn_conv_layer fr' = cl \<and> pn_k fr' = k)"
    by (rule peer_mx_uih [OF _ _ ok_weaken [OF pn_roundtrip [OF assms(4-10)]]]) (auto simp: l RFCOMM_CR_def)
  then show ?thesis
    using mx_frame_sent [OF assms(1-3), of ?bs] by (auto simp: ok_iff l rfc_send_pn_def)
qed

theorem rfc_pn_understood_witness:
  "\<exists>s' bs fr'. rfc_send_pn 0 4 True 672 0xF0 7 (mupd 0 (cmd_q_update (\<lambda>_. Some [])) RFCOMM_Init) = Some s' \<and>
    out s' = [L2CA_DataWrite 0 bs] \<and> peer_mx zero_mcb zero_frame bs = Some (MxPn True, fr') \<and>
    f_dlci fr' = 4 \<and> pn_mtu fr' = 672 \<and> pn_conv_layer fr' = 0xF0 \<and> pn_k fr' = 7"
  using rfc_pn_understood [of 0 "mupd 0 (cmd_q_update (\<lambda>_. Some [])) RFCOMM_Init" "zero_mcb\<lparr>cmd_q := Some []\<rparr>"
    4 672 "0xF0" 7 True zero_mcb zero_frame]
  by (simp add: mget_def RFCOMM_Init_def zero_mcb_def zero_frame_def RFCOMM_VALID_DLCI_def mupd_def)

end
