(* ===== verification/Rfc_Utils.thy ===== *)
theory Rfc_Utils
  imports Rfc_Frames
begin

text \<open>
  Multiplexer and port control blocks (\<^verbatim>\<open>rfc_utils.cc\<close>, \<^verbatim>\<open>port_utils.cc\<close>): allocation,
  lookup and release, selection of the frame size and the receive credits, and closing a
  port. \<^verbatim>\<open>rfc_check_mcb_active\<close> sends the event \<open>RFC_MX_EVENT_CLOSE_REQ\<close> to the multiplexer
  machine; what the machine does on it is \<open>rfc_mx_sm_close_req\<close>, and \<open>Rfc_Mx_Fsm\<close> proves that
  the whole machine does the same.
\<close>

section \<open>Multiplexer control blocks\<close>

text \<open>The second loop of \<^verbatim>\<open>rfc_alloc_multiplexer_channel\<close>: \<open>n\<close> turns left, next index \<open>j\<close>.\<close>

fun rfc_alloc_scan :: "nat \<Rightarrow> nat \<Rightarrow> rfc_st \<Rightarrow> nat option" where
  "rfc_alloc_scan 0 j s = None"
| "rfc_alloc_scan (Suc n) j s =
     (let j = (if j \<ge> MAX_BD_CONNECTIONS then 0 else j) in
      if mcb_state (rfc_mcb s ! j) = RFC_MX_STATE_IDLE then Some j
      else rfc_alloc_scan n (j + 1) s)"

definition rfc_alloc_multiplexer_channel ::
    "RawAddress \<Rightarrow> bool \<Rightarrow> rfc_st \<Rightarrow> (nat option \<times> rfc_st) option" where
  "rfc_alloc_multiplexer_channel addr initiator s =
     (case find (\<lambda>i. mcb_state (rfc_mcb s ! i) \<noteq> RFC_MX_STATE_IDLE \<and> mcb_bd_addr (rfc_mcb s ! i) = addr)
             [0..<MAX_BD_CONNECTIONS] of
        Some i \<Rightarrow>
          if mcb_state (rfc_mcb s ! i) = RFC_MX_STATE_CONNECTED
          then do { s \<leftarrow> rfc_timer_stop i s; Some (Some i, s) }
          else Some (Some i, s)
      | None \<Rightarrow>
          (case rfc_alloc_scan MAX_BD_CONNECTIONS (last_mux s + 1) s of
             None \<Rightarrow> Some (None, s)
           | Some j \<Rightarrow> do {
               let s = mupd j (\<lambda>_. zero_mcb\<lparr>mcb_bd_addr := addr, mcb_timer := Stopped,
                                            cmd_q := Some [], is_initiator := initiator\<rparr>) s;
               s \<leftarrow> rfc_timer_start j RFC_MCB_INIT_INACT_TIMER s;
               Some (Some j, s\<lparr>last_mux := j\<rparr>)
             }))"

definition detach_port :: "nat \<Rightarrow> tPORT \<Rightarrow> tPORT" where
  "detach_port m p = (if p_mcb p = Some m then p\<lparr>p_mcb := None\<rparr> else p)"

definition rfc_release_multiplexer_channel :: "nat \<Rightarrow> rfc_st \<Rightarrow> rfc_st option" where
  "rfc_release_multiplexer_channel m s = do {
     c \<leftarrow> mget m s;
     let s = rfc_save_lcid_mcb None (lcid c) s;
     let s = s\<lparr>ports := map (detach_port m) (ports s)\<rparr>;
     s \<leftarrow> rfc_timer_stop m s;
     Some (mupd m (\<lambda>_. zero_mcb\<lparr>mcb_state := RFC_MX_STATE_IDLE\<rparr>) s)
   }"

text \<open>\<^verbatim>\<open>rfc_mx_sm_execute (p_mcb, RFC_MX_EVENT_CLOSE_REQ, NULL)\<close>.\<close>

definition rfc_mx_sm_close_req :: "nat \<Rightarrow> rfc_st \<Rightarrow> rfc_st option" where
  "rfc_mx_sm_close_req m s = do {
     c \<leftarrow> mget m s;
     if mcb_state c = RFC_MX_STATE_CONNECTED then do {
       s \<leftarrow> rfc_timer_start m RFC_DISC_TIMEOUT s;
       let s = mupd m (mcb_state_update (\<lambda>_. RFC_MX_STATE_DISC_WAIT_UA)) s;
       rfc_send_disc m RFCOMM_MX_DLCI s
     } else Some s
   }"

text \<open>The loop looks at the handles below \<^verbatim>\<open>RFCOMM_MAX_DLCI\<close>, not at the last one.\<close>

definition rfc_check_mcb_active :: "nat \<Rightarrow> rfc_st \<Rightarrow> rfc_st option" where
  "rfc_check_mcb_active m s = do {
     c \<leftarrow> mget m s;
     if \<exists>i \<in> set [0..<RFCOMM_MAX_DLCI]. port_handles c ! i \<noteq> 0
     then Some (mupd m (is_disc_initiator_update (\<lambda>_. False)) s)
     else if is_disc_initiator c
     then rfc_mx_sm_close_req m (mupd m (is_disc_initiator_update (\<lambda>_. False)) s)
     else rfc_timer_start m RFC_MCB_RELEASE_INACT_TIMER s
   }"

text \<open>Writing \<^verbatim>\<open>p_mcb->port_handles[dlci]\<close>.\<close>

definition set_handle :: "nat \<Rightarrow> u8 \<Rightarrow> nat \<Rightarrow> rfc_st \<Rightarrow> rfc_st option" where
  "set_handle m d h s = do {
     c \<leftarrow> mget m s;
     if unat d < length (port_handles c)
     then Some (mupd m (port_handles_update (\<lambda>hs. hs[unat d := h])) s)
     else None
   }"

section \<open>Port control blocks\<close>

definition default_port_settings :: PortSettings where
  "default_port_settings = \<lparr>baud_rate = 0x03, byte_size = 0x03, stop_bits = 0x00, parity = 0x00,
     parity_type = 0x00, fc_type = 0x00, rx_char1 = 0, xon_char = 0x11, xoff_char = 0x13\<rparr>"

definition port_set_defaults :: "tPORT \<Rightarrow> tPORT" where
  "port_set_defaults p = p\<lparr>ev_mask := 0, p_callback := None, port_ctrl := 0, line_status := 0,
     rx_flag_ev_pending := False, peer_mtu := RFCOMM_DEFAULT_MTU,
     user_port_settings := default_port_settings, peer_port_settings := default_port_settings,
     credit_tx := 0, credit_rx := 0, local_ctrl := zero_ctrl, peer_ctrl := zero_ctrl,
     rx := zero_data\<lparr>queue := Some []\<rparr>, tx := zero_data\<lparr>queue := Some []\<rparr>\<rparr>"

fun port_alloc_scan :: "nat \<Rightarrow> nat \<Rightarrow> rfc_st \<Rightarrow> nat option" where
  "port_alloc_scan 0 j s = None"
| "port_alloc_scan (Suc n) j s =
     (let j = (if j \<ge> MAX_RFC_PORTS then 0 else j) in
      if \<not> in_use (ports s ! j) then Some j
      else port_alloc_scan n (j + 1) s)"

definition port_allocate_port :: "u8 \<Rightarrow> RawAddress \<Rightarrow> rfc_st \<Rightarrow> nat option \<times> rfc_st" where
  "port_allocate_port d addr s =
     (case port_alloc_scan MAX_RFC_PORTS (last_port_index s + 1) s of
        None \<Rightarrow> (None, s)
      | Some j \<Rightarrow>
          (Some j,
           (pupd j (\<lambda>_. (port_set_defaults (zero_port\<lparr>in_use := True, handle := j + 1\<rparr>))
                \<lparr>port_timer := Stopped, dlci := d, bd_addr := addr\<rparr>) s)\<lparr>last_port_index := j\<rparr>))"

text \<open>
  The frame size and, from it, the receive credits. Dividing by a size of zero would be an
  abort; \<open>select_mtu_bounds\<close> shows that the size is never zero.
\<close>

definition select_mtu :: "u16 \<Rightarrow> u16" where
  "select_mtu packet_size =
     (if packet_size = 0 then RFCOMM_DEFAULT_MTU
      else if L2CAP_MTU_SIZE + L2CAP_PKT_OVERHEAD \<ge> unat packet_size
      then word_of_nat ((L2CAP_MTU_SIZE + L2CAP_PKT_OVERHEAD) div unat packet_size * unat packet_size)
           - word_of_nat RFCOMM_DATA_OVERHEAD - word_of_nat L2CAP_PKT_OVERHEAD
      else word_of_nat (L2CAP_MTU_SIZE - RFCOMM_DATA_OVERHEAD))"

definition port_select_mtu :: "rfc_env \<Rightarrow> nat \<Rightarrow> rfc_st \<Rightarrow> rfc_st option" where
  "port_select_mtu E p s = do {
     c \<leftarrow> pget p s;
     let m = (if mtu c = 0 then select_mtu (max_packet_size E (bd_addr c)) else mtu c);
     if m = 0 then None else
     Some (pupd p (\<lambda>c. c\<lparr>mtu := m,
       credit_rx_max := word_of_nat (min (PORT_RX_HIGH_WM div unat m) PORT_RX_BUF_HIGH_WM),
       credit_rx_low := word_of_nat (min (PORT_RX_LOW_WM div unat m) PORT_RX_BUF_LOW_WM),
       rx_buf_critical := word_of_nat (min (PORT_RX_CRITICAL_WM div unat m) PORT_RX_BUF_CRITICAL_WM)\<rparr>) s)
   }"

definition clear_queue :: "tPORT_DATA \<Rightarrow> tPORT_DATA" where
  "clear_queue q = q\<lparr>queue := map_option (\<lambda>_. []) (queue q), queue_size := 0\<rparr>"

text \<open>What is left of a port whose handle is kept: it listens again.\<close>

definition reinit_port :: "tPORT \<Rightarrow> tPORT" where
  "reinit_port c = (port_set_defaults c)\<lparr>ev_mask := ev_mask c, p_callback := p_callback c,
     user_port_settings := user_port_settings c, mtu := keep_mtu c,
     port_state := PORT_CONNECTION_STATE_OPENING, p_mcb := None,
     dlci := (if is_server c then dlci c AND 0xFE else dlci c),
     local_ctrl := zero_ctrl\<lparr>modem_signal := default_signal_state c\<rparr>, bd_addr := kAny\<rparr>"

definition port_release_port :: "nat \<Rightarrow> rfc_st \<Rightarrow> rfc_st option" where
  "port_release_port p s = do {
     c \<leftarrow> pget p s;
     let s = pupd p (\<lambda>c. c\<lparr>rx := clear_queue (rx c), tx := clear_queue (tx c),
                            port_timer := alarm_cancel (port_timer c),
                            port_state := PORT_CONNECTION_STATE_CLOSED\<rparr>) s;
     if rfc_state c = RFC_STATE_CLOSED then do {
       s \<leftarrow> (case p_mcb c of
           None \<Rightarrow> Some s
         | Some m \<Rightarrow> do { s \<leftarrow> set_handle m (dlci c) 0 s; rfc_check_mcb_active m s });
       s \<leftarrow> rfc_port_timer_stop p s;
       let s = pupd p (\<lambda>c. c\<lparr>tx := (tx c)\<lparr>queue := None\<rparr>, rx := (rx c)\<lparr>queue := None\<rparr>\<rparr>) s;
       if keep_port_handle c then Some (pupd p reinit_port s)
       else Some (pupd p (\<lambda>_. zero_port) s)
     } else Some s
   }"

section \<open>Looking up ports\<close>

definition port_find_mcb :: "RawAddress \<Rightarrow> rfc_st \<Rightarrow> nat option" where
  "port_find_mcb addr s =
     find (\<lambda>i. mcb_state (rfc_mcb s ! i) \<noteq> RFC_MX_STATE_IDLE \<and> mcb_bd_addr (rfc_mcb s ! i) = addr)
       [0..<length (rfc_mcb s)]"

definition port_find_mcb_dlci_port :: "nat option \<Rightarrow> u8 \<Rightarrow> rfc_st \<Rightarrow> nat option option" where
  "port_find_mcb_dlci_port pm d s =
     (case pm of
        None \<Rightarrow> Some None
      | Some m \<Rightarrow> do {
          c \<leftarrow> mget m s;
          if unat d > RFCOMM_MAX_DLCI then Some None
          else if \<not> unat d < length (port_handles c) then None
          else if port_handles c ! unat d = 0 then Some None
          else Some (Some (port_handles c ! unat d - 1))
        })"

definition port_find_dlci_port :: "u8 \<Rightarrow> rfc_st \<Rightarrow> nat option \<times> rfc_st" where
  "port_find_dlci_port d s =
     (case find (\<lambda>i. in_use (ports s ! i) \<and> p_mcb (ports s ! i) = None \<and>
                    (dlci (ports s ! i) = d \<or> d AND 1 \<noteq> 0 \<and> dlci (ports s ! i) = d - 1))
             [0..<length (ports s)] of
        None \<Rightarrow> (None, s)
      | Some i \<Rightarrow> (Some i, if dlci (ports s ! i) = d then s else pupd i (dlci_update (\<lambda>x. x + 1)) s))"

definition port_find_port :: "u8 \<Rightarrow> RawAddress \<Rightarrow> rfc_st \<Rightarrow> nat option" where
  "port_find_port d addr s =
     find (\<lambda>i. in_use (ports s ! i) \<and> dlci (ports s ! i) = d \<and> bd_addr (ports s ! i) = addr)
       [0..<length (ports s)]"

section \<open>Signals and closing\<close>

definition port_get_signal_changes :: "tPORT \<Rightarrow> u8 \<Rightarrow> u8 \<Rightarrow> u32" where
  "port_get_signal_changes p old_signals signal =
     (let changed = signal XOR old_signals;
          events =
            (if changed AND PORT_DTRDSR_ON \<noteq> 0
             then PORT_EV_DSR OR (if signal AND PORT_DTRDSR_ON \<noteq> 0 then PORT_EV_DSRS else 0) else 0) OR
            (if changed AND PORT_CTSRTS_ON \<noteq> 0
             then PORT_EV_CTS OR (if signal AND PORT_CTSRTS_ON \<noteq> 0 then PORT_EV_CTSS else 0) else 0) OR
            (if changed AND PORT_RING_ON \<noteq> 0 then PORT_EV_RING else 0) OR
            (if changed AND PORT_DCD_ON \<noteq> 0
             then PORT_EV_RLSD OR (if signal AND PORT_DCD_ON \<noteq> 0 then PORT_EV_RLSDS else 0) else 0)
      in ev_mask p AND events)"

text \<open>Calling the event callback of a port, if it has one and there is an event.\<close>

definition call_port_cb :: "tPORT \<Rightarrow> u32 \<Rightarrow> rfc_st \<Rightarrow> rfc_st" where
  "call_port_cb c events s =
     (case p_callback c of
        Some cb \<Rightarrow> if events \<noteq> 0 then emit (Port_callback cb events (handle c)) s else s
      | None \<Rightarrow> s)"

definition call_mgmt_cb :: "tPORT \<Rightarrow> tPORT_RESULT \<Rightarrow> rfc_st \<Rightarrow> rfc_st" where
  "call_mgmt_cb c r s =
     (case p_mgmt_callback c of Some cb \<Rightarrow> emit (Mgmt_callback cb r (handle c)) s | None \<Rightarrow> s)"

text \<open>The signals that drop when a connection goes away, and the events for it.\<close>

definition drop_signals :: "tPORT \<Rightarrow> tPORT" where
  "drop_signals c = c\<lparr>line_status := line_status c OR LINE_STATUS_FAILED,
     peer_ctrl := (peer_ctrl c)\<lparr>modem_signal := modem_signal (peer_ctrl c) AND
        NOT (PORT_DTRDSR_ON OR PORT_CTSRTS_ON OR PORT_DCD_ON)\<rparr>\<rparr>"

definition drop_events :: "tPORT \<Rightarrow> u32" where
  "drop_events c =
     port_get_signal_changes c (modem_signal (peer_ctrl c)) (modem_signal (peer_ctrl (drop_signals c))) OR
     (if ev_mask c AND PORT_EV_CONNECT_ERR \<noteq> 0 then PORT_EV_CONNECT_ERR else 0)"

definition port_rfc_closed :: "nat \<Rightarrow> tPORT_RESULT \<Rightarrow> rfc_st \<Rightarrow> rfc_st option" where
  "port_rfc_closed p res s = do {
     c \<leftarrow> pget p s;
     if port_state c = PORT_CONNECTION_STATE_OPENING \<and> is_server c then do {
       s \<leftarrow> rfc_port_timer_stop p s;
       let s = pupd p (rfc_state_update (\<lambda>_. RFC_STATE_CLOSED)) s;
       s \<leftarrow> (case p_mcb c of
           None \<Rightarrow> Some s
         | Some m \<Rightarrow> do {
             s \<leftarrow> set_handle m (dlci c) 0 s;
             s \<leftarrow> rfc_check_mcb_active m s;
             Some (pupd p (p_mcb_update (\<lambda>_. None)) s)
           });
       Some (pupd p (dlci_update (\<lambda>d. d AND 0xFE)) s)
     } else do {
       let live = (port_state c \<noteq> PORT_CONNECTION_STATE_CLOSING \<and>
                   port_state c \<noteq> PORT_CONNECTION_STATE_CLOSED);
       let s = (if live then pupd p drop_signals s else s);
       let s = call_port_cb c (if live then drop_events c else 0) s;
       let s = call_mgmt_cb c res s;
       let s = pupd p (rfc_state_update (\<lambda>_. RFC_STATE_CLOSED)) s;
       port_release_port p s
     }
   }"

definition rfc_port_closed :: "nat \<Rightarrow> rfc_st \<Rightarrow> rfc_st option" where
  "rfc_port_closed p s = do {
     c \<leftarrow> pget p s;
     s \<leftarrow> rfc_port_timer_stop p s;
     let s = pupd p (rfc_state_update (\<lambda>_. RFC_STATE_CLOSED)) s;
     s \<leftarrow> (case p_mcb c of
         None \<Rightarrow> Some s
       | Some m \<Rightarrow> do { s \<leftarrow> set_handle m (dlci c) 0 s; rfc_check_mcb_active m s });
     port_rfc_closed p PORT_CLOSED s
   }"

definition rfc_dec_credit :: "nat \<Rightarrow> rfc_st \<Rightarrow> rfc_st option" where
  "rfc_dec_credit p s = do {
     c \<leftarrow> pget p s;
     m \<leftarrow> p_mcb c;
     mc \<leftarrow> mget m s;
     if flow mc = PORT_FC_CREDIT then
       Some (pupd p (\<lambda>c.
         let k = (if credit_tx c > 0 then credit_tx c - 1 else credit_tx c) in
         c\<lparr>credit_tx := k, tx := (if k = 0 then (tx c)\<lparr>peer_fc := True\<rparr> else tx c)\<rparr>) s)
     else Some s
   }"

definition port_get_credits :: "nat \<Rightarrow> u8 \<Rightarrow> rfc_st \<Rightarrow> rfc_st" where
  "port_get_credits p k s = pupd p (\<lambda>c. c\<lparr>credit_tx := ucast k,
     tx := (if (ucast k :: u16) = 0 then (tx c)\<lparr>peer_fc := True\<rparr> else tx c)\<rparr>) s"

section \<open>Vocabulary of the specifications\<close>

text \<open>The live multiplexer of an address, and what a newly allocated block or port looks like.\<close>

definition live_mcb :: "RawAddress \<Rightarrow> rfc_st \<Rightarrow> nat \<Rightarrow> bool" where
  "live_mcb addr s m \<longleftrightarrow> m < MAX_BD_CONNECTIONS \<and> mcb_state (rfc_mcb s ! m) \<noteq> RFC_MX_STATE_IDLE \<and>
     mcb_bd_addr (rfc_mcb s ! m) = addr"

definition fresh_mcb :: "RawAddress \<Rightarrow> bool \<Rightarrow> tRFC_MCB" where
  "fresh_mcb addr initiator = zero_mcb\<lparr>mcb_bd_addr := addr, mcb_timer := Armed RFC_MCB_INIT_INACT_TIMER,
     cmd_q := Some [], is_initiator := initiator\<rparr>"

definition fresh_port :: "u8 \<Rightarrow> RawAddress \<Rightarrow> nat \<Rightarrow> tPORT" where
  "fresh_port d addr p = (port_set_defaults (zero_port\<lparr>in_use := True, handle := p + 1\<rparr>))
     \<lparr>port_timer := Stopped, dlci := d, bd_addr := addr\<rparr>"

definition disc_frame :: "tRFC_MCB \<Rightarrow> u8 \<Rightarrow> BT_HDR" where
  "disc_frame c d = cmd_buf L2CAP_MIN_OFFSET
     (ctrl_frame (RFCOMM_CR (is_initiator c) True) d (RFCOMM_DISC OR RFCOMM_PF))"

definition good_mcb :: "tRFC_MCB \<Rightarrow> bool" where
  "good_mcb c \<longleftrightarrow> has_res c \<and> length (port_handles c) = 62"

text \<open>
  Only the block \<open>pm\<close> may have changed, and it is still good; the channel table is the same.
  A port can be taken off its multiplexer if that is good and the DLCI has a slot in it.
\<close>

definition mx_kept :: "nat option \<Rightarrow> rfc_st \<Rightarrow> rfc_st \<Rightarrow> bool" where
  "mx_kept pm s s' \<longleftrightarrow> length (rfc_mcb s') = length (rfc_mcb s) \<and>
     (\<forall>k. pm \<noteq> Some k \<longrightarrow> rfc_mcb s' ! k = rfc_mcb s ! k) \<and>
     (\<forall>m. pm = Some m \<longrightarrow> m < length (rfc_mcb s) \<longrightarrow> good_mcb (rfc_mcb s ! m) \<longrightarrow> good_mcb (rfc_mcb s' ! m) \<and> lcid (rfc_mcb s' ! m) = lcid (rfc_mcb s ! m)) \<and>
     rfc_lcid_mcb s' = rfc_lcid_mcb s"

definition can_detach :: "tPORT \<Rightarrow> rfc_st \<Rightarrow> bool" where
  "can_detach c s \<longleftrightarrow> (\<forall>m. p_mcb c = Some m \<longrightarrow> m < length (rfc_mcb s) \<and> good_mcb (rfc_mcb s ! m) \<and> unat (dlci c) < 62)"

text \<open>What is left of a port that was released or closed, and the calls that report it.\<close>

definition released_port :: "tPORT \<Rightarrow> tPORT" where
  "released_port c = (if keep_port_handle c then reinit_port (c\<lparr>port_timer := alarm_cancel (port_timer c)\<rparr>)
     else zero_port)"

definition closed_port :: "tPORT \<Rightarrow> tPORT" where
  "closed_port c =
     (if port_state c = PORT_CONNECTION_STATE_OPENING \<and> is_server c
      then dlci_update (\<lambda>d. d AND 0xFE)
             ((port_timer_update alarm_cancel c)\<lparr>rfc_state := RFC_STATE_CLOSED, p_mcb := None\<rparr>)
      else released_port (c\<lparr>rfc_state := RFC_STATE_CLOSED\<rparr>))"

definition notified :: "tPORT_RESULT \<Rightarrow> tPORT \<Rightarrow> rfc_out list" where
  "notified r c = (if port_state c = PORT_CONNECTION_STATE_OPENING \<and> is_server c then []
     else case p_mgmt_callback c of None \<Rightarrow> [] | Some cb \<Rightarrow> [Mgmt_callback cb r (handle c)])"

text \<open>A sample state: port 0 open on the connected multiplexer 0, with credit based flow control.\<close>

definition link_mcb :: tRFC_MCB where
  "link_mcb = zero_mcb\<lparr>mcb_timer := Stopped, cmd_q := Some [], port_handles := (replicate 62 0)[2 := 1],
     mcb_bd_addr := 0x112233445566, lcid := 0x41, peer_l2cap_mtu := 666,
     mcb_state := RFC_MX_STATE_CONNECTED, is_initiator := True, peer_ready := True,
     flow := PORT_FC_CREDIT\<rparr>"

definition link_port :: tPORT where
  "link_port = (fresh_port 2 0x112233445566 0)\<lparr>port_state := PORT_CONNECTION_STATE_OPENED,
     rfc_state := RFC_STATE_OPENED, p_mcb := Some 0, mtu := 666, peer_mtu := 666, credit_tx := 7,
     credit_rx := 7, credit_rx_max := 10, credit_rx_low := 8, rx_buf_critical := 15,
     port_ctrl := 0x0F, ev_mask := 0x3FFFF, p_mgmt_callback := Some 1, p_callback := Some 2\<rparr>"

definition link_st :: rfc_st where
  "link_st = (mupd 0 (\<lambda>_. link_mcb) (pupd 0 (\<lambda>_. link_port) RFCOMM_Init))
     \<lparr>rfc_lcid_mcb := [(0x41, Some 0)]\<rparr>"

section \<open>The frame size and the receive window\<close>

lemma select_mtu_bounds:
  "select_mtu n = 127 \<or> 838 \<le> unat (select_mtu n) \<and> unat (select_mtu n) \<le> 1685"
proof (cases "n = 0 \<or> 1695 < unat n")
  case True then show ?thesis by (auto simp: select_mtu_def)
next
  case False
  let ?k = "1695 div unat n * unat n"
  have "0 < unat n" "unat n \<le> 1695" using False by (auto simp: unat_gt_0)
  then have k: "848 \<le> ?k" "?k \<le> 1695" using div_mult_lower [of "unat n" 1695] by auto
  have "select_mtu n = word_of_nat (?k - 10)"
    using False k by (simp add: select_mtu_def of_nat_diff)
  moreover have "unat (word_of_nat (?k - 10) :: u16) = ?k - 10"
  proof (rule unat_of_nat_small)
    have "?k - 10 \<le> 1685" using k(2) by linarith
    then show "?k - 10 < 2 ^ LENGTH(16)" by (rule le_less_trans) simp
  qed
  ultimately have "unat (select_mtu n) = ?k - 10" by (simp only:)
  then show ?thesis using k by linarith
qed

lemma port_select_mtu_eq:
  assumes "pget p s = Some c"
  shows "\<exists>m. port_select_mtu E p s =
     Some (pupd p (\<lambda>c. c\<lparr>mtu := m,
       credit_rx_max := word_of_nat (min (16720 div unat m) 10),
       credit_rx_low := word_of_nat (min (13376 div unat m) 8),
       rx_buf_critical := word_of_nat (min (25080 div unat m) 15)\<rparr>) s) \<and> m \<noteq> 0 \<and>
     m = (if mtu c = 0 then select_mtu (max_packet_size E (bd_addr c)) else mtu c)"
  using assms select_mtu_bounds [of "max_packet_size E (bd_addr c)"]
  by (auto simp: port_select_mtu_def Let_def)

lemma window_small: "min (a div n) b < 2 ^ 16" if "b < 16" for a b n :: nat
  using that by (rule min.strict_coboundedI2 [OF order.strict_trans]) simp

lemma unat_window: "b < 16 \<Longrightarrow> unat (word_of_nat (min (a div n) b) :: u16) = min (a div n) b"
  by (rule unat_of_nat_small) (use window_small in simp)

section \<open>Allocation\<close>

lemma rfc_alloc_scan_find:
  "rfc_alloc_scan n j s = find (\<lambda>k. mcb_state (rfc_mcb s ! k) = RFC_MX_STATE_IDLE) (next_from 16 n j)"
  by (induction n j s rule: rfc_alloc_scan.induct) (simp_all add: next_from_def [of _ 0] next_from_Suc Let_def)

lemma port_alloc_scan_find:
  "port_alloc_scan n j s = find (\<lambda>k. \<not> in_use (ports s ! k)) (next_from 30 n j)"
  by (induction n j s rule: port_alloc_scan.induct) (simp_all add: next_from_def [of _ 0] next_from_Suc Let_def)

lemma rfc_alloc_scan_16:
  "rfc_alloc_scan 16 j s = Some k \<Longrightarrow> k < 16 \<and> mcb_state (rfc_mcb s ! k) = RFC_MX_STATE_IDLE"
  "rfc_alloc_scan 16 j s = None \<longleftrightarrow> (\<forall>k<16. mcb_state (rfc_mcb s ! k) \<noteq> RFC_MX_STATE_IDLE)"
  using set_next_from [of 16 j] unfolding rfc_alloc_scan_find by (auto dest: find_SomeD simp: find_None_iff)

lemma port_alloc_scan_30:
  "port_alloc_scan 30 j s = Some k \<Longrightarrow> k < 30 \<and> \<not> in_use (ports s ! k)"
  "port_alloc_scan 30 j s = None \<longleftrightarrow> (\<forall>k<30. in_use (ports s ! k))"
  using set_next_from [of 30 j] unfolding port_alloc_scan_find by (auto dest: find_SomeD simp: find_None_iff)

lemma find_live: "find (\<lambda>i. mcb_state (rfc_mcb s ! i) \<noteq> RFC_MX_STATE_IDLE \<and> mcb_bd_addr (rfc_mcb s ! i) = addr)
             [0..<16] = Some m \<Longrightarrow> live_mcb addr s m"
  "find (\<lambda>i. mcb_state (rfc_mcb s ! i) \<noteq> RFC_MX_STATE_IDLE \<and> mcb_bd_addr (rfc_mcb s ! i) = addr)
             [0..<16] = None \<longleftrightarrow> (\<forall>m. \<not> live_mcb addr s m)"
  by (auto simp: live_mcb_def find_None_iff dest!: find_SomeD)

lemma port_allocate_port_cases:
  "port_allocate_port d addr s = (None, s) \<and> (\<forall>p < MAX_RFC_PORTS. in_use (ports s ! p)) \<or>
   (\<exists>p < MAX_RFC_PORTS. \<not> in_use (ports s ! p) \<and>
     port_allocate_port d addr s = (Some p, (pupd p (\<lambda>_. fresh_port d addr p) s)\<lparr>last_port_index := p\<rparr>))"
  using port_alloc_scan_30 [of "last_port_index s + 1" s]
  by (cases "port_alloc_scan 30 (last_port_index s + 1) s")
    (auto simp: port_allocate_port_def fresh_port_def)

section \<open>Release\<close>

lemma set_handle_eq:
  "mget m s = Some c \<Longrightarrow> unat d < length (port_handles c) \<Longrightarrow>
   set_handle m d h s = Some (mupd m (port_handles_update (\<lambda>hs. hs[unat d := h])) s)"
  by (simp add: set_handle_def)

lemma release_eq:
  "mget m s = Some c \<Longrightarrow> rfc_release_multiplexer_channel m s =
     Some ((rfc_save_lcid_mcb None (lcid c) s)\<lparr>ports := map (detach_port m) (ports s),
        rfc_mcb := (rfc_mcb s)[m := zero_mcb]\<rparr>)"
  by (auto simp: rfc_release_multiplexer_channel_def rfc_timer_stop_def mget_def rfc_save_lcid_mcb_def
      zero_mcb_def mupd_def split: if_splits)

lemma detach_simps [simp]: "p_mcb (detach_port m q) \<noteq> Some m"
  "p_mcb q \<noteq> Some m \<Longrightarrow> detach_port m q = q"
  by (simp_all add: detach_port_def)

section \<open>The check that follows the closing of a port\<close>

lemma rfc_send_disc_eq:
  assumes "mget m s = Some c" "cmd_q c = Some q"
  shows "rfc_send_disc m d s = Some (cmd_sent m c (q @ [cmd_buf L2CAP_MIN_OFFSET
       (ctrl_frame (RFCOMM_CR (is_initiator c) True) d (RFCOMM_DISC OR RFCOMM_PF))]) s)"
  using assms by (simp add: rfc_send_disc_def check_send_cmd_eq)

lemma rfc_mx_sm_close_req_eq:
  assumes "mget m s = Some c" "cmd_q c = Some q" "mcb_timer c \<noteq> NoAlarm"
  shows "rfc_mx_sm_close_req m s = Some (if mcb_state c \<noteq> RFC_MX_STATE_CONNECTED then s else
     cmd_sent m c (q @ [disc_frame c RFCOMM_MX_DLCI])
       (mupd m (\<lambda>c. c\<lparr>mcb_timer := Armed RFC_DISC_TIMEOUT, mcb_state := RFC_MX_STATE_DISC_WAIT_UA\<rparr>) s))"
  using assms
  by (auto simp: rfc_mx_sm_close_req_def rfc_timer_start_eq rfc_send_disc_eq comp_def disc_frame_def intro: cmd_sent_cong)

lemma rfc_check_mcb_active_eq:
  assumes "mget m s = Some c" "cmd_q c = Some q" "mcb_timer c \<noteq> NoAlarm"
  shows "rfc_check_mcb_active m s = Some
    (if \<exists>i < RFCOMM_MAX_DLCI. port_handles c ! i \<noteq> 0 then mupd m (is_disc_initiator_update (\<lambda>_. False)) s
     else if \<not> is_disc_initiator c then mupd m (mcb_timer_update (\<lambda>_. Armed RFC_MCB_RELEASE_INACT_TIMER)) s
     else if mcb_state c \<noteq> RFC_MX_STATE_CONNECTED then mupd m (is_disc_initiator_update (\<lambda>_. False)) s
     else cmd_sent m c (q @ [disc_frame c RFCOMM_MX_DLCI])
       (mupd m (\<lambda>c. c\<lparr>is_disc_initiator := False, mcb_timer := Armed RFC_DISC_TIMEOUT,
                        mcb_state := RFC_MX_STATE_DISC_WAIT_UA\<rparr>) s))"
proof (cases "\<exists>i < RFCOMM_MAX_DLCI. port_handles c ! i \<noteq> 0")
  case True
  with assms show ?thesis by (auto simp: rfc_check_mcb_active_def)
next
  case False
  then have "\<not> (\<exists>i \<in> set [0..<RFCOMM_MAX_DLCI]. port_handles c ! i \<noteq> 0)" by auto
  with assms False show ?thesis
    by (auto simp: rfc_check_mcb_active_def rfc_timer_start_eq rfc_mx_sm_close_req_eq disc_frame_def comp_def intro: cmd_sent_cong)
qed

section \<open>Closing a port\<close>

lemma mx_kept_refl: "mx_kept pm s s"
  by (simp add: mx_kept_def)

lemma mx_kept_trans: "mx_kept pm s s' \<Longrightarrow> mx_kept pm s' s'' \<Longrightarrow> mx_kept pm s s''"
  by (auto simp: mx_kept_def)

lemma call_cb_mgmt [simp]:
  "mgmt_calls (call_port_cb c ev s) = mgmt_calls s"
  "mgmt_calls (call_mgmt_cb c r s) = mgmt_calls s @
     (case p_mgmt_callback c of None \<Rightarrow> [] | Some cb \<Rightarrow> [Mgmt_callback cb r (handle c)])"
  by (simp_all add: call_port_cb_def call_mgmt_cb_def split: option.split)

lemma call_cb_simps [simp]:
  "ports (call_port_cb c ev s) = ports s" "ports (call_mgmt_cb c r s) = ports s"
  "rfc_mcb (call_port_cb c ev s) = rfc_mcb s" "rfc_mcb (call_mgmt_cb c r s) = rfc_mcb s"
  "rfc_lcid_mcb (call_port_cb c ev s) = rfc_lcid_mcb s" "rfc_lcid_mcb (call_mgmt_cb c r s) = rfc_lcid_mcb s"
  "mget m (call_port_cb c ev s) = mget m s" "mget m (call_mgmt_cb c r s) = mget m s"
  "pget p (call_port_cb c ev s) = pget p s" "pget p (call_mgmt_cb c r s) = pget p s"
  by (simp_all add: call_port_cb_def call_mgmt_cb_def mget_def pget_def split: option.split)

lemma check_active_ok:
  assumes "m < length (rfc_mcb s)" "good_mcb (rfc_mcb s ! m)"
  shows "ok (rfc_check_mcb_active m s) (\<lambda>s'. ports s' = ports s \<and> mx_kept (Some m) s s' \<and> mgmt_calls s' = mgmt_calls s)"
proof -
  let ?c = "rfc_mcb s ! m"
  have c: "mget m s = Some ?c" using assms(1) by (simp add: mget_def)
  obtain q where q: "cmd_q ?c = Some q" "mcb_timer ?c \<noteq> NoAlarm" "length (port_handles ?c) = 62"
    using assms(2) by (auto simp: has_res_def good_mcb_def)
  show ?thesis unfolding rfc_check_mcb_active_eq [OF c q(1,2)] ok_Some
    using assms q by (simp add: mx_kept_def rfc_mcb_cmd_sent nth_mupd' good_mcb_def has_res_def)
qed

lemma detach_ok:
  assumes "m < length (rfc_mcb s)" "good_mcb (rfc_mcb s ! m)" "unat d < 62"
  shows "ok (set_handle m d 0 s \<bind> rfc_check_mcb_active m)
    (\<lambda>s'. ports s' = ports s \<and> mx_kept (Some m) s s' \<and> mgmt_calls s' = mgmt_calls s)"
proof -
  let ?s = "mupd m (port_handles_update (\<lambda>hs. hs[unat d := 0])) s"
  have "set_handle m d 0 s = Some ?s"
    using assms by (intro set_handle_eq [of m s "rfc_mcb s ! m"]) (auto simp: mget_def good_mcb_def)
  moreover have k: "mx_kept (Some m) s ?s" and g: "good_mcb (rfc_mcb ?s ! m)"
    using assms by (auto simp: mx_kept_def nth_mupd' good_mcb_def has_res_def)
  moreover have "ok (rfc_check_mcb_active m ?s)
      (\<lambda>s'. ports s' = ports ?s \<and> mx_kept (Some m) ?s s' \<and> mgmt_calls s' = mgmt_calls ?s)"
    by (rule check_active_ok) (use assms(1) g in simp_all)
  ultimately show ?thesis by (auto elim!: ok_weaken intro: mx_kept_trans)
qed

lemma reinit_port_cleared:
  "reinit_port (c\<lparr>port_state := ps, port_timer := a, tx := t, rx := r\<rparr>) = reinit_port (c\<lparr>port_timer := a\<rparr>)"
  by (cases c) (simp add: reinit_port_def port_set_defaults_def)

lemma port_release_ok:
  assumes "p < length (ports s)" "rfc_state (ports s ! p) = RFC_STATE_CLOSED" "can_detach (ports s ! p) s"
  shows "ok (port_release_port p s) (\<lambda>s'. ports s' = (ports s)[p := released_port (ports s ! p)] \<and>
    mx_kept (p_mcb (ports s ! p)) s s' \<and> mgmt_calls s' = mgmt_calls s)"
proof -
  let ?c = "ports s ! p"
  let ?f = "\<lambda>c. c\<lparr>rx := clear_queue (rx c), tx := clear_queue (tx c),
                  port_timer := alarm_cancel (port_timer c), port_state := PORT_CONNECTION_STATE_CLOSED\<rparr>"
  let ?s = "pupd p ?f s"
  let ?det = "case p_mcb ?c of None \<Rightarrow> Some ?s | Some m \<Rightarrow> set_handle m (dlci ?c) 0 ?s \<bind> rfc_check_mcb_active m"
  have kept: "mx_kept pm s x" if "mx_kept pm ?s x" for pm x
    using that by (simp add: mx_kept_def)
  have det: "ok ?det (\<lambda>x. ports x = ports ?s \<and> mx_kept (p_mcb ?c) ?s x \<and> mgmt_calls x = mgmt_calls ?s)"
  proof (cases "p_mcb ?c")
    case None then show ?thesis by (simp add: mx_kept_refl)
  next
    case (Some m)
    with assms(3) detach_ok [of m ?s "dlci ?c"] show ?thesis by (simp add: can_detach_def del: ok_bind)
  qed
  let ?fin = "\<lambda>x. do { s \<leftarrow> rfc_port_timer_stop p x;
       let s = pupd p (\<lambda>c. c\<lparr>tx := (tx c)\<lparr>queue := None\<rparr>, rx := (rx c)\<lparr>queue := None\<rparr>\<rparr>) s;
       if keep_port_handle ?c then Some (pupd p reinit_port s) else Some (pupd p (\<lambda>_. zero_port) s) }"
  have fin: "ok (?fin x)
     (\<lambda>s'. ports s' = (ports s)[p := released_port ?c] \<and> mx_kept (p_mcb ?c) s s' \<and> mgmt_calls s' = mgmt_calls s)"
    if "ports x = ports ?s \<and> mx_kept (p_mcb ?c) ?s x \<and> mgmt_calls x = mgmt_calls ?s" for x
    using that assms(1)
    by (auto simp: rfc_port_timer_stop_def pget_def ports_pupd released_port_def reinit_port_cleared mx_kept_def Let_def comp_def)
  have eq: "port_release_port p s = ?det \<bind> ?fin"
    using assms(1,2) by (simp add: port_release_port_def pget_def Let_def)
  show ?thesis unfolding eq by (rule ok_bindI [OF det fin])
qed

lemma p_mcb_closed_port [simp]: "p_mcb (closed_port c) = None"
  by (simp add: closed_port_def released_port_def reinit_port_def zero_port_def)

lemma drop_signals_simps [simp]: "p_mcb (drop_signals c) = p_mcb c" "dlci (drop_signals c) = dlci c"
  by (simp_all add: drop_signals_def)

lemma released_drop_signals [simp]:
  "released_port ((drop_signals c)\<lparr>rfc_state := r\<rparr>) = released_port (c\<lparr>rfc_state := r\<rparr>)"
  by (cases c) (simp add: released_port_def drop_signals_def reinit_port_def port_set_defaults_def)

lemma closed_port_listening:
  "port_state c = PORT_CONNECTION_STATE_OPENING \<and> is_server c \<Longrightarrow> p_mcb c = None \<Longrightarrow>
   closed_port c = dlci_update (\<lambda>d. d AND 0xFE) ((port_timer_update alarm_cancel c)\<lparr>rfc_state := RFC_STATE_CLOSED\<rparr>)"
  by (cases c) (simp add: closed_port_def)

lemma port_rfc_closed_ok:
  assumes "p < length (ports s)" "can_detach (ports s ! p) s"
  shows "ok (port_rfc_closed p r s) (\<lambda>s'. ports s' = (ports s)[p := closed_port (ports s ! p)] \<and>
    mx_kept (p_mcb (ports s ! p)) s s' \<and> mgmt_calls s' = mgmt_calls s @ notified r (ports s ! p))"
proof (cases "port_state (ports s ! p) = PORT_CONNECTION_STATE_OPENING \<and> is_server (ports s ! p)")
  case True
  let ?c = "ports s ! p"
  let ?s = "pupd p (rfc_state_update (\<lambda>_. RFC_STATE_CLOSED)) (pupd p (port_timer_update alarm_cancel) s)"
  show ?thesis
  proof (cases "p_mcb ?c")
    case None
    with True assms show ?thesis
      by (simp add: port_rfc_closed_def pget_def rfc_port_timer_stop_def ports_pupd closed_port_listening notified_def mx_kept_def comp_def)
  next
    case (Some m)
    have "ok (set_handle m (dlci ?c) 0 ?s \<bind> rfc_check_mcb_active m)
       (\<lambda>s'. ports s' = ports ?s \<and> mx_kept (Some m) ?s s' \<and> mgmt_calls s' = mgmt_calls ?s)"
      by (rule detach_ok) (use Some assms(2) in \<open>simp_all add: can_detach_def\<close>)
    then have "ok (set_handle m (dlci ?c) 0 ?s \<bind> rfc_check_mcb_active m)
       (\<lambda>x. ports (pupd p (dlci_update (\<lambda>d. d AND 0xFE)) (pupd p (p_mcb_update (\<lambda>_. None)) x)) =
              (ports s)[p := closed_port ?c] \<and>
            mx_kept (Some m) s x \<and> mgmt_calls x = mgmt_calls s)"
      by (rule ok_weaken) (use True assms(1) in \<open>auto simp: ports_pupd closed_port_def comp_def mx_kept_def\<close>)
    with True Some assms show ?thesis
      by (simp add: port_rfc_closed_def pget_def rfc_port_timer_stop_def notified_def Let_def mx_kept_def)
  qed
next
  case False
  let ?c = "ports s ! p"
  let ?live = "port_state ?c \<noteq> PORT_CONNECTION_STATE_CLOSING \<and> port_state ?c \<noteq> PORT_CONNECTION_STATE_CLOSED"
  let ?s = "pupd p (rfc_state_update (\<lambda>_. RFC_STATE_CLOSED)) (call_mgmt_cb ?c r
       (call_port_cb ?c (if ?live then drop_events ?c else 0) (if ?live then pupd p drop_signals s else s)))"
  have eq: "port_rfc_closed p r s = port_release_port p ?s"
    using False assms(1) by (auto simp: port_rfc_closed_def pget_def Let_def)
  have c: "ports ?s ! p = (if ?live then drop_signals ?c else ?c)\<lparr>rfc_state := RFC_STATE_CLOSED\<rparr>"
    using assms(1) by (simp add: ports_pupd)
  have "ok (port_release_port p ?s) (\<lambda>s'. ports s' = (ports ?s)[p := released_port (ports ?s ! p)] \<and>
    mx_kept (p_mcb (ports ?s ! p)) ?s s' \<and> mgmt_calls s' = mgmt_calls ?s)"
    by (rule port_release_ok) (use assms in \<open>simp_all add: c can_detach_def\<close>)
  then show ?thesis unfolding eq
    by (rule ok_weaken) (use False assms(1) in \<open>auto simp: ports_pupd closed_port_def c notified_def mx_kept_def\<close>)
qed

lemma can_detach_kept: "can_detach c s \<Longrightarrow> mx_kept pm s s' \<Longrightarrow> p_mcb c = pm \<Longrightarrow> can_detach c s'"
  by (auto simp: can_detach_def mx_kept_def)

section \<open>The sample state\<close>

lemma link_st_simps [simp]:
  "mget 0 link_st = Some link_mcb" "pget 0 link_st = Some link_port"
  "length (ports link_st) = 30" "length (rfc_mcb link_st) = 16"
  "ports link_st = link_port # replicate 29 zero_port"
  by (simp_all add: link_st_def mget_def pget_def mupd_def pupd_def RFCOMM_Init_def numeral_eq_Suc)

lemma link_good [simp]: "has_res link_mcb" "good_mcb link_mcb"
  by (simp_all add: link_mcb_def has_res_def good_mcb_def)

section \<open>Properties\<close>

text \<open>C17: The receive window a port is given. \<^verbatim>\<open>port_select_mtu\<close> always succeeds: it settles on a frame
  size that is not zero (so none of its divisions is by zero) and keeps one that was chosen before.
  The credit thresholds are ordered, low below maximum below critical; the data the peer may send on all
  its credits stays below the high watermark; and for the frame sizes that RFCOMM offers the low threshold is
  positive and below the maximum, so credits are returned before the peer runs out of them.\<close>

theorem port_select_mtu_window:
  assumes "pget p s = Some c"
  shows "ok (port_select_mtu E p s) (\<lambda>s'. \<exists>c'. s' = pupd p (\<lambda>_. c') s \<and> mtu c' \<noteq> 0 \<and>
     (mtu c \<noteq> 0 \<longrightarrow> mtu c' = mtu c) \<and>
     credit_rx_low c' \<le> credit_rx_max c' \<and> credit_rx_max c' \<le> rx_buf_critical c' \<and>
     unat (credit_rx_max c') * unat (mtu c') \<le> PORT_RX_HIGH_WM \<and>
     unat (rx_buf_critical c') \<le> PORT_RX_BUF_CRITICAL_WM \<and>
     (mtu c \<le> 1685 \<longrightarrow> 0 < credit_rx_low c' \<and> credit_rx_low c' < credit_rx_max c'))"
proof -
  obtain m where m: "port_select_mtu E p s = Some (pupd p (\<lambda>c. c\<lparr>mtu := m,
       credit_rx_max := word_of_nat (min (16720 div unat m) 10),
       credit_rx_low := word_of_nat (min (13376 div unat m) 8),
       rx_buf_critical := word_of_nat (min (25080 div unat m) 15)\<rparr>) s)" "m \<noteq> 0"
    "m = (if mtu c = 0 then select_mtu (max_packet_size E (bd_addr c)) else mtu c)"
    using port_select_mtu_eq [OF assms] by blast
  let ?c = "c\<lparr>mtu := m,
       credit_rx_max := word_of_nat (min (16720 div unat m) 10),
       credit_rx_low := word_of_nat (min (13376 div unat m) 8),
       rx_buf_critical := word_of_nat (min (25080 div unat m) 15)\<rparr>"
  have u: "0 < unat m" using m(2) by (simp add: unat_gt_0)
  have small: "unat m \<le> 1685" if "mtu c \<le> 1685"
    using that m(3) select_mtu_bounds [of "max_packet_size E (bd_addr c)"]
    by (auto simp: word_le_nat_alt split: if_splits)
  have "13376 div unat m \<le> 16720 div unat m" "16720 div unat m \<le> 25080 div unat m"
    by (simp_all add: div_le_mono)
  moreover have "16720 div unat m * unat m \<le> 16720" by simp
  then have "min (16720 div unat m) 10 * unat m \<le> 16720"
    by (meson le_trans min.cobounded1 mult_le_mono1)
  moreover have "0 < 13376 div unat m \<and> 13376 div unat m < 16720 div unat m" if "mtu c \<le> 1685"
    using small [OF that] u by (auto simp: div_greater_zero_iff intro!: div_less_by_one)
  ultimately show ?thesis using assms m(1,2,3)
    by (auto simp: pupd_def pget_def word_le_nat_alt word_less_nat_alt unat_window split: if_splits intro!: exI [of _ ?c])
qed

theorem port_select_mtu_window_witness:
  "\<exists>c'. port_select_mtu idle_env 3 RFCOMM_Init = Some (pupd 3 (\<lambda>_. c') RFCOMM_Init) \<and>
     0 < credit_rx_low c' \<and> credit_rx_low c' < credit_rx_max c'"
  using port_select_mtu_window [OF pget_Init [of 3], of idle_env]
  by (auto simp: ok_iff zero_port_def)

text \<open>C18: \<^verbatim>\<open>rfc_alloc_multiplexer_channel\<close> returns the live multiplexer of the address if there is
  one, and only stops its timer when it is connected; otherwise it takes an idle block, whichever
  block was allocated last, and makes it a fresh one for that address; it fails only when all
  blocks are in use by other devices, and then changes nothing.\<close>

theorem rfc_alloc_multiplexer_channel_spec:
  assumes "length (rfc_mcb s) = MAX_BD_CONNECTIONS"
  shows "ok (rfc_alloc_multiplexer_channel addr initiator s) (\<lambda>(r, s').
    case r of
      None \<Rightarrow> s' = s \<and> (\<forall>m < MAX_BD_CONNECTIONS. mcb_state (rfc_mcb s ! m) \<noteq> RFC_MX_STATE_IDLE \<and>
                                              mcb_bd_addr (rfc_mcb s ! m) \<noteq> addr)
    | Some m \<Rightarrow>
        live_mcb addr s m \<and>
          s' = (if mcb_state (rfc_mcb s ! m) = RFC_MX_STATE_CONNECTED
                then mupd m (mcb_timer_update alarm_cancel) s else s) \<or>
        (\<forall>k. \<not> live_mcb addr s k) \<and> m < MAX_BD_CONNECTIONS \<and>
          mcb_state (rfc_mcb s ! m) = RFC_MX_STATE_IDLE \<and>
          s' = (mupd m (\<lambda>_. fresh_mcb addr initiator) s)\<lparr>last_mux := m\<rparr>)"
  (is "ok _ ?P")
proof (cases "find (\<lambda>i. mcb_state (rfc_mcb s ! i) \<noteq> RFC_MX_STATE_IDLE \<and> mcb_bd_addr (rfc_mcb s ! i) = addr) [0..<16]")
  case (Some m)
  with find_live(1) [OF Some] assms show ?thesis
    by (auto simp: rfc_alloc_multiplexer_channel_def rfc_timer_stop_def mget_def live_mcb_def)
next
  case None
  then have none: "\<forall>k. \<not> live_mcb addr s k" using find_live(2) by blast
  show ?thesis
  proof (cases "rfc_alloc_scan 16 (last_mux s + 1) s")
    case None': None
    with none rfc_alloc_scan_16(2) [of "last_mux s + 1" s] None show ?thesis
      by (auto simp: rfc_alloc_multiplexer_channel_def live_mcb_def)
  next
    case (Some m)
    with rfc_alloc_scan_16(1) [OF Some] none None assms show ?thesis
      by (auto simp: rfc_alloc_multiplexer_channel_def rfc_timer_start_def alarm_set_def mget_def mupd_def fresh_mcb_def zero_mcb_def)
  qed
qed

theorem rfc_alloc_multiplexer_channel_spec_witness:
  "\<exists>m. rfc_alloc_multiplexer_channel 0x112233445566 True RFCOMM_Init =
     Some (Some m, (mupd m (\<lambda>_. fresh_mcb 0x112233445566 True) RFCOMM_Init)\<lparr>last_mux := m\<rparr>)"
  using rfc_alloc_multiplexer_channel_spec [of RFCOMM_Init "0x112233445566" True]
  by (auto simp: RFCOMM_Init_def zero_mcb_def live_mcb_def ok_iff split: option.splits dest: spec [of _ 0])

text \<open>C19: \<^verbatim>\<open>rfc_release_multiplexer_channel\<close> leaves nothing that refers to the block: the block is
  zeroed, no port is on it, its channel id finds no block, and the other blocks, the other
  entries of the channel table and the ports that were not on it are unchanged.\<close>

theorem rfc_release_multiplexer_channel_frees:
  assumes "mget m s = Some c"
  shows "ok (rfc_release_multiplexer_channel m s) (\<lambda>s'.
    rfc_mcb s' = (rfc_mcb s)[m := zero_mcb] \<and>
    (\<forall>q \<in> set (ports s'). p_mcb q \<noteq> Some m) \<and>
    rfc_find_lcid_mcb (lcid c) s' = Some None \<and>
    (\<forall>l. l \<noteq> lcid c \<longrightarrow> lcid_lookup l s' = lcid_lookup l s) \<and>
    length (ports s') = length (ports s) \<and>
    (\<forall>p < length (ports s). p_mcb (ports s ! p) \<noteq> Some m \<longrightarrow> ports s' ! p = ports s ! p) \<and>
    out s' = out s)"
  unfolding release_eq [OF assms] ok_Some
  by (auto simp: rfc_find_lcid_mcb_def) (simp_all add: rfc_save_lcid_mcb_def)

theorem rfc_release_multiplexer_channel_frees_witness:
  "ok (rfc_release_multiplexer_channel 0 link_st) (\<lambda>s'. rfc_find_lcid_mcb 0x41 s' = Some None \<and>
     (\<forall>q \<in> set (ports s'). p_mcb q \<noteq> Some 0))"
  by (rule ok_weaken [OF rfc_release_multiplexer_channel_frees [of 0 link_st link_mcb]])
    (simp_all add: link_mcb_def)



text \<open>C21: The loop of \<^verbatim>\<open>rfc_check_mcb_active\<close> stops before the last DLCI. When the only open port is the
  one on DLCI 61 and this side closed another port, the multiplexer is disconnected although
  the port on DLCI 61 is still open.\<close>

theorem rfc_check_mcb_active_misses_dlci_61:
  assumes "mget m s = Some c" and "has_res c" and "mcb_state c = RFC_MX_STATE_CONNECTED"
    and "is_disc_initiator c" and "port_handles c = (replicate 62 0)[61 := h]" and "h \<noteq> 0"
  shows "ok (rfc_check_mcb_active m s) (\<lambda>s'. \<exists>c'. mget m s' = Some c' \<and>
    mcb_state c' = RFC_MX_STATE_DISC_WAIT_UA \<and> port_handles c' ! 61 = h)"
proof -
  obtain q where q: "cmd_q c = Some q" "mcb_timer c \<noteq> NoAlarm" using assms(2) by (auto simp: has_res_def)
  show ?thesis
    unfolding rfc_check_mcb_active_eq [OF assms(1) q] ok_Some
    using assms q by simp
qed

theorem rfc_check_mcb_active_misses_dlci_61_witness:
  "ok (rfc_check_mcb_active 0 (mupd 0 (\<lambda>c. c\<lparr>is_disc_initiator := True, port_handles := (replicate 62 0)[61 := 1]\<rparr>) link_st))
     (\<lambda>s'. \<exists>c'. mget 0 s' = Some c' \<and> mcb_state c' = RFC_MX_STATE_DISC_WAIT_UA \<and> port_handles c' ! 61 = 1)"
  by (rule rfc_check_mcb_active_misses_dlci_61
      [where c = "link_mcb\<lparr>is_disc_initiator := True, port_handles := (replicate 62 0)[61 := 1]\<rparr>"])
    (simp_all add: link_mcb_def has_res_def)

text \<open>C22: \<^verbatim>\<open>rfc_port_closed\<close> runs the check twice, once itself and once through
  \<^verbatim>\<open>port_release_port\<close>. When this side closes the last port of a connected multiplexer, the first run
  sends DISC and starts the disconnect timer of 3 seconds, and the second one overwrites it with the inactivity
  timer of 20 seconds: the multiplexer waits 20 seconds for the answer.\<close>

theorem rfc_port_closed_overwrites_disc_timer:
  assumes c: "pget p s = Some c" "p_mcb c = Some m" "unat (dlci c) < 61"
      "\<not> (port_state c = PORT_CONNECTION_STATE_OPENING \<and> is_server c)"
    and mc: "mget m s = Some mc" "mcb_state mc = RFC_MX_STATE_CONNECTED" "is_disc_initiator mc"
      "has_res mc" "port_handles mc = (replicate 62 0)[unat (dlci c) := h]"
  shows "ok (rfc_port_closed p s) (\<lambda>s'. \<exists>mc'. mget m s' = Some mc' \<and>
    mcb_state mc' = RFC_MX_STATE_DISC_WAIT_UA \<and> mcb_timer mc' = Armed RFC_MCB_RELEASE_INACT_TIMER)"
proof -
  obtain q where q: "cmd_q mc = Some q" "mcb_timer mc \<noteq> NoAlarm" using mc(4) by (auto simp: has_res_def)
  have z: "(replicate 62 (0::nat))[unat (dlci c) := h, unat (dlci c) := 0] = replicate 62 0" 
     "(replicate 62 (0::nat))[unat (dlci c) := 0] = replicate 62 0"
    using c(3) by (simp_all add: list_update_same_conv)
  show ?thesis
    using c mc q z
    by (auto simp: rfc_port_closed_def port_rfc_closed_def port_release_port_def rfc_port_timer_stop_def
       set_handle_def rfc_check_mcb_active_eq Let_def drop_signals_def)
qed

theorem rfc_port_closed_overwrites_disc_timer_witness:
  "ok (rfc_port_closed 0 (mupd 0 (is_disc_initiator_update (\<lambda>_. True)) link_st))
     (\<lambda>s'. \<exists>mc'. mget 0 s' = Some mc' \<and> mcb_state mc' = RFC_MX_STATE_DISC_WAIT_UA \<and> mcb_timer mc' = Armed 20)"
  by (rule rfc_port_closed_overwrites_disc_timer [where c = link_port and h = 1
      and mc = "link_mcb\<lparr>is_disc_initiator := True\<rparr>"])
    (simp_all add: link_mcb_def link_port_def fresh_port_def has_res_def)

end
