(* ===== verification/Port_Rfc.thy ===== *)
theory Port_Rfc
  imports Rfc_Utils
begin

text \<open>
  The boundary between the port emulation and the RFCOMM machines: the requests of
  \<^verbatim>\<open>rfc_port_if.cc\<close> and the indications and confirmations of \<^verbatim>\<open>port_rfc.cc\<close>, with the flow
  control of \<^verbatim>\<open>port_utils.cc\<close>.

  The requests send four events down to the port machine: \<open>RFC_PORT_EVENT_OPEN\<close>,
  \<open>RFC_PORT_EVENT_ESTABLISH_RSP\<close>, \<open>RFC_PORT_EVENT_CLOSE\<close> and \<open>RFC_PORT_EVENT_DATA\<close>. None of
  them makes the machine call back into this file, so what the machine does on them is
  defined here (\<open>rfc_port_sm_open\<close>, \<open>rfc_port_sm_establish_rsp\<close>, \<open>rfc_port_sm_close\<close>,
  \<open>rfc_port_sm_data\<close>), and \<open>Rfc_Port_Fsm\<close> proves that the whole machine does the same.
\<close>

section \<open>Requests that only send\<close>

definition RFCOMM_ParameterNegotiationRequest :: "nat \<Rightarrow> u8 \<Rightarrow> u16 \<Rightarrow> rfc_st \<Rightarrow> rfc_st option" where
  "RFCOMM_ParameterNegotiationRequest m d n1 s = do {
     pp \<leftarrow> port_find_mcb_dlci_port (Some m) d s;
     case pp of None \<Rightarrow> Some s | Some p \<Rightarrow> do {
       mc \<leftarrow> mget m s;
       if mcb_state mc \<noteq> RFC_MX_STATE_CONNECTED then Some s else do {
         c \<leftarrow> pget p s;
         let fl = (if flow mc = PORT_FC_UNDEFINED then PORT_FC_CREDIT else flow mc);
         let cl = (if fl = PORT_FC_CREDIT then RFCOMM_PN_CONV_LAYER_CBFC_I
                   else RFCOMM_PN_CONV_LAYER_TYPE_1);
         let k = (if fl = PORT_FC_CREDIT
                  then ucast (if credit_rx_max c < RFCOMM_K_MAX then credit_rx_max c else RFCOMM_K_MAX)
                  else 0 :: u8);
         let s = (if fl = PORT_FC_CREDIT then pupd p (credit_rx_update (\<lambda>_. ucast k)) s else s);
         let s = pupd p (expected_rsp_update (\<lambda>r. r OR RFC_RSP_PN)) s;
         s \<leftarrow> rfc_send_pn m d True n1 cl k s;
         rfc_port_timer_start p RFC_T2_TIMEOUT s
       }
     }
   }"

definition RFCOMM_ParameterNegotiationResponse ::
    "nat \<Rightarrow> u8 \<Rightarrow> u16 \<Rightarrow> u8 \<Rightarrow> u8 \<Rightarrow> rfc_st \<Rightarrow> rfc_st option" where
  "RFCOMM_ParameterNegotiationResponse m d n1 cl k s = do {
     mc \<leftarrow> mget m s;
     if mcb_state mc \<noteq> RFC_MX_STATE_CONNECTED then Some s
     else rfc_send_pn m d False n1 cl k s
   }"

definition RFCOMM_PortParameterNegotiationResponse ::
    "nat \<Rightarrow> u8 \<Rightarrow> PortSettings \<Rightarrow> u16 \<Rightarrow> rfc_st \<Rightarrow> rfc_st option" where
  "RFCOMM_PortParameterNegotiationResponse m d ps pmask s = do {
     mc \<leftarrow> mget m s;
     if mcb_state mc \<noteq> RFC_MX_STATE_CONNECTED then Some s
     else rfc_send_rpn m d False (Some ps) pmask s
   }"

text \<open>The guard that \<^verbatim>\<open>RFCOMM_ControlReq\<close>, \<^verbatim>\<open>RFCOMM_FlowReq\<close> and \<^verbatim>\<open>RFCOMM_LineStatusReq\<close> share.\<close>

definition open_port :: "tPORT \<Rightarrow> bool" where
  "open_port c \<longleftrightarrow> port_state c = PORT_CONNECTION_STATE_OPENED \<and> rfc_state c = RFC_STATE_OPENED"

definition RFCOMM_ControlReq :: "nat option \<Rightarrow> u8 \<Rightarrow> tPORT_CTRL \<Rightarrow> rfc_st \<Rightarrow> rfc_st option" where
  "RFCOMM_ControlReq pm d pars s = do {
     pp \<leftarrow> port_find_mcb_dlci_port pm d s;
     case pp of None \<Rightarrow> Some s | Some p \<Rightarrow> do {
       c \<leftarrow> pget p s;
       if \<not> open_port c then Some s else do {
         let s = pupd p (\<lambda>c. c\<lparr>port_ctrl := port_ctrl c OR PORT_CTRL_REQ_SENT,
                               expected_rsp := expected_rsp c OR RFC_RSP_MSC\<rparr>) s;
         m \<leftarrow> pm;
         s \<leftarrow> rfc_send_msc m d True pars s;
         rfc_port_timer_start p RFC_T2_TIMEOUT s
       }
     }
   }"

definition RFCOMM_FlowReq :: "nat \<Rightarrow> u8 \<Rightarrow> bool \<Rightarrow> rfc_st \<Rightarrow> rfc_st option" where
  "RFCOMM_FlowReq m d enable s = do {
     pp \<leftarrow> port_find_mcb_dlci_port (Some m) d s;
     case pp of None \<Rightarrow> Some s | Some p \<Rightarrow> do {
       c \<leftarrow> pget p s;
       if \<not> open_port c then Some s else do {
         let s = pupd p (\<lambda>c. c\<lparr>local_ctrl := (local_ctrl c)\<lparr>ctrl_fc := \<not> enable\<rparr>,
                               expected_rsp := expected_rsp c OR RFC_RSP_MSC\<rparr>) s;
         s \<leftarrow> rfc_send_msc m d True ((local_ctrl c)\<lparr>ctrl_fc := \<not> enable\<rparr>) s;
         rfc_port_timer_start p RFC_T2_TIMEOUT s
       }
     }
   }"

definition RFCOMM_LineStatusReq :: "nat \<Rightarrow> u8 \<Rightarrow> u8 \<Rightarrow> rfc_st \<Rightarrow> rfc_st option" where
  "RFCOMM_LineStatusReq m d status s = do {
     pp \<leftarrow> port_find_mcb_dlci_port (Some m) d s;
     case pp of None \<Rightarrow> Some s | Some p \<Rightarrow> do {
       c \<leftarrow> pget p s;
       if \<not> open_port c then Some s else do {
         let s = pupd p (expected_rsp_update (\<lambda>r. r OR RFC_RSP_RLS)) s;
         s \<leftarrow> rfc_send_rls m d True status s;
         rfc_port_timer_start p RFC_T2_TIMEOUT s
       }
     }
   }"

section \<open>Flow control\<close>

definition queue_length :: "tPORT_DATA \<Rightarrow> nat" where
  "queue_length q = (case queue q of None \<Rightarrow> 0 | Some bs \<Rightarrow> length bs)"

definition port_flow_control_user :: "nat \<Rightarrow> rfc_st \<Rightarrow> (u32 \<times> rfc_st) option" where
  "port_flow_control_user p s = do {
     c \<leftarrow> pget p s;
     stopped \<leftarrow> (case p_mcb c of
         None \<Rightarrow> Some True
       | Some m \<Rightarrow> do { mc \<leftarrow> mget m s; Some (\<not> peer_ready mc) });
     let fc = (peer_fc (tx c) \<or> stopped \<or> unat (queue_size (tx c)) > PORT_TX_HIGH_WM \<or>
               queue_length (tx c) > PORT_TX_BUF_HIGH_WM);
     if user_fc (tx c) = fc then Some (0, s)
     else Some (if fc then PORT_EV_FC else PORT_EV_FC OR PORT_EV_FCS,
                pupd p (tx_update (user_fc_update (\<lambda>_. fc))) s)
   }"

definition port_flow_control_peer :: "nat \<Rightarrow> bool \<Rightarrow> u16 \<Rightarrow> rfc_st \<Rightarrow> rfc_st option" where
  "port_flow_control_peer p enable count s = do {
     c \<leftarrow> pget p s;
     case p_mcb c of None \<Rightarrow> Some s | Some m \<Rightarrow> do {
       mc \<leftarrow> mget m s;
       let user_data = (p_data_callback c \<noteq> None \<or> p_data_co_callback c \<noteq> None);
       if flow mc = PORT_FC_CREDIT then
         if enable then do {
           let k = (if count > credit_rx c then 0 else credit_rx c - count);
           let s = pupd p (credit_rx_update (\<lambda>_. k)) s;
           if k \<le> credit_rx_low c \<and> \<not> user_fc (rx c) \<and> credit_rx_max c > k then do {
             s \<leftarrow> rfc_send_credit m (dlci c) (ucast (credit_rx_max c - k)) s;
             Some (pupd p (\<lambda>c. c\<lparr>credit_rx := credit_rx_max c, rx := (rx c)\<lparr>peer_fc := False\<rparr>\<rparr>) s)
           } else Some s
         }
         else if user_data \<or> queue_length (rx c) \<ge> unat (credit_rx_max c)
         then Some (pupd p (rx_update (peer_fc_update (\<lambda>_. True))) s)
         else Some s
       else
         if enable then
           if peer_fc (rx c) \<and> unat (queue_size (rx c)) < PORT_RX_LOW_WM \<and>
              queue_length (rx c) < PORT_RX_BUF_LOW_WM
           then do {
             let s = pupd p (rx_update (peer_fc_update (\<lambda>_. False))) s;
             if \<not> user_fc (rx c) then RFCOMM_FlowReq m (dlci c) True s else Some s
           }
           else Some s
         else if user_data
         then RFCOMM_FlowReq m (dlci c) False (pupd p (rx_update (peer_fc_update (\<lambda>_. True))) s)
         else if (unat (queue_size (rx c)) > PORT_RX_HIGH_WM \<or> queue_length (rx c) > PORT_RX_BUF_HIGH_WM)
                 \<and> \<not> peer_fc (rx c)
         then RFCOMM_FlowReq m (dlci c) False (pupd p (rx_update (peer_fc_update (\<lambda>_. True))) s)
         else Some s
     }
   }"

section \<open>Events sent down to the port machine\<close>

definition rfc_port_sm_open :: "nat \<Rightarrow> rfc_st \<Rightarrow> rfc_st option" where
  "rfc_port_sm_open p s = do {
     c \<leftarrow> pget p s;
     if rfc_state c = RFC_STATE_CLOSED then do {
       m \<leftarrow> p_mcb c;
       mc \<leftarrow> mget m s;
       let s = pupd p (rfc_state_update (\<lambda>_. RFC_STATE_ORIG_WAIT_SEC_CHECK)) s;
       Some (emit (Btm_sec_mx_access_request (mcb_bd_addr mc) True (sec_mask c) p) s)
     } else Some s
   }"

definition rfc_port_sm_establish_rsp :: "nat \<Rightarrow> u16 \<Rightarrow> rfc_st \<Rightarrow> rfc_st option" where
  "rfc_port_sm_establish_rsp p result s = do {
     c \<leftarrow> pget p s;
     if rfc_state c = RFC_STATE_TERM_WAIT_SEC_CHECK then
       if (ucast result :: u8) \<noteq> 0 then
         case p_mcb c of None \<Rightarrow> Some s | Some m \<Rightarrow> rfc_send_dm m (dlci c) True s
       else do {
         m \<leftarrow> p_mcb c;
         s \<leftarrow> rfc_send_ua m (dlci c) s;
         Some (pupd p (rfc_state_update (\<lambda>_. RFC_STATE_OPENED)) s)
       }
     else Some s
   }"

text \<open>Leaving SABME_WAIT_UA or OPENED: send DISC and wait for the answer.\<close>

definition rfc_port_disc :: "nat \<Rightarrow> rfc_st \<Rightarrow> rfc_st option" where
  "rfc_port_disc p s = do {
     c \<leftarrow> pget p s;
     s \<leftarrow> rfc_port_timer_start p RFC_DISC_TIMEOUT s;
     m \<leftarrow> p_mcb c;
     s \<leftarrow> rfc_send_disc m (dlci c) s;
     Some (pupd p (\<lambda>c. c\<lparr>expected_rsp := 0, rfc_state := RFC_STATE_DISC_WAIT_UA\<rparr>) s)
   }"

definition rfc_port_sm_close :: "nat \<Rightarrow> rfc_st \<Rightarrow> rfc_st option" where
  "rfc_port_sm_close p s = do {
     c \<leftarrow> pget p s;
     case rfc_state c of
       RFC_STATE_SABME_WAIT_UA \<Rightarrow> rfc_port_disc p s
     | RFC_STATE_OPENED \<Rightarrow> rfc_port_disc p s
     | RFC_STATE_ORIG_WAIT_SEC_CHECK \<Rightarrow> do {
         m \<leftarrow> p_mcb c;
         mc \<leftarrow> mget m s;
         rfc_port_closed p (emit (Btm_sec_abort_access_req (mcb_bd_addr mc)) s)
       }
     | _ \<Rightarrow> Some s
   }"

definition rfc_port_sm_data :: "nat \<Rightarrow> BT_HDR \<Rightarrow> rfc_st \<Rightarrow> rfc_st option" where
  "rfc_port_sm_data p b s = do {
     c \<leftarrow> pget p s;
     if rfc_state c = RFC_STATE_OPENED then do {
       m \<leftarrow> p_mcb c;
       mc \<leftarrow> mget m s;
       let grant = (flow mc = PORT_FC_CREDIT \<and> bh_len b < peer_mtu c \<and> \<not> user_fc (rx c) \<and>
                    credit_rx_max c > credit_rx c);
       let b = b\<lparr>bh_layer_specific :=
                  (if grant then ucast (ucast (credit_rx_max c - credit_rx c) :: u8) else 0)\<rparr>;
       let s = (if grant then pupd p (\<lambda>c. c\<lparr>credit_rx := credit_rx_max c\<rparr>) s else s);
       s \<leftarrow> rfc_send_buf_uih m (dlci c) b s;
       rfc_dec_credit p s
     } else Some s
   }"

definition RFCOMM_DlcReleaseReq :: "nat \<Rightarrow> u8 \<Rightarrow> rfc_st \<Rightarrow> rfc_st option" where
  "RFCOMM_DlcReleaseReq m d s = do {
     pp \<leftarrow> port_find_mcb_dlci_port (Some m) d s;
     p \<leftarrow> pp;
     rfc_port_sm_close p s
   }"

definition RFCOMM_DataReq :: "nat \<Rightarrow> u8 \<Rightarrow> BT_HDR \<Rightarrow> rfc_st \<Rightarrow> rfc_st option" where
  "RFCOMM_DataReq m d b s = do {
     pp \<leftarrow> port_find_mcb_dlci_port (Some m) d s;
     p \<leftarrow> pp;
     rfc_port_sm_data p b s
   }"

section \<open>Sending queued data\<close>

text \<open>
  The loop of \<^verbatim>\<open>port_rfc_send_tx_data\<close>. Every turn takes a buffer off the queue, so the
  length of the queue plus one turn is enough fuel (\<open>port_send_loop_ok\<close>).
\<close>

fun port_send_loop :: "nat \<Rightarrow> nat \<Rightarrow> u32 \<Rightarrow> rfc_st \<Rightarrow> (u32 \<times> rfc_st) option" where
  "port_send_loop 0 p ev s = None"
| "port_send_loop (Suc n) p ev s = do {
     c \<leftarrow> pget p s;
     case p_mcb c of None \<Rightarrow> Some (ev, s) | Some m \<Rightarrow> do {
       mc \<leftarrow> mget m s;
       if peer_fc (tx c) \<or> \<not> peer_ready mc then Some (ev, s)
       else case queue (tx c) of
         Some (b # bs) \<Rightarrow> do {
           let left = queue_size (tx c) - ucast (bh_len b);
           let s = pupd p (tx_update (\<lambda>t. t\<lparr>queue := Some bs, queue_size := left\<rparr>)) s;
           s \<leftarrow> RFCOMM_DataReq m (dlci c) b s;
           let ev = ev OR PORT_EV_TXCHAR;
           c \<leftarrow> pget p s;
           if queue_size (tx c) = 0 then Some (ev OR PORT_EV_TXEMPTY, s)
           else port_send_loop n p ev s
         }
       | _ \<Rightarrow> Some (ev OR PORT_EV_TXEMPTY, s)
     }
   }"

definition port_rfc_send_tx_data :: "nat \<Rightarrow> rfc_st \<Rightarrow> (u32 \<times> rfc_st) option" where
  "port_rfc_send_tx_data p s = do {
     c \<leftarrow> pget p s;
     (ev, s) \<leftarrow> (if queue_size (tx c) > 0 then do {
         (ev, s) \<leftarrow> port_send_loop (Suc (queue_length (tx c))) p 0 s;
         (e, s) \<leftarrow> port_flow_control_user p s;
         Some (ev OR e, s)
       } else Some (0, s));
     c \<leftarrow> pget p s;
     Some (ev AND ev_mask c, s)
   }"

section \<open>Flow and data indications\<close>

text \<open>The body of the loop of \<^verbatim>\<open>PORT_FlowInd\<close> for one port.\<close>

definition port_flow_one :: "nat \<Rightarrow> rfc_st \<Rightarrow> rfc_st option" where
  "port_flow_one p s = do {
     (e1, s) \<leftarrow> port_flow_control_user p s;
     (e2, s) \<leftarrow> port_rfc_send_tx_data p s;
     c \<leftarrow> pget p s;
     Some (call_port_cb c ((e1 OR e2) AND ev_mask c) s)
   }"

definition PORT_FlowInd :: "nat \<Rightarrow> u8 \<Rightarrow> bool \<Rightarrow> rfc_st \<Rightarrow> rfc_st option" where
  "PORT_FlowInd m d enable_data s =
     (if d = 0 then do {
        mc \<leftarrow> mget m s;
        foreach (\<lambda>p s. do {
            c \<leftarrow> pget p s;
            if \<not> in_use c \<or> p_mcb c \<noteq> Some m \<or> rfc_state c \<noteq> RFC_STATE_OPENED then Some s
            else port_flow_one p s
          }) [0..<MAX_RFC_PORTS] (mupd m (peer_ready_update (\<lambda>_. enable_data)) s)
      } else do {
        pp \<leftarrow> port_find_mcb_dlci_port (Some m) d s;
        case pp of None \<Rightarrow> Some s | Some p \<Rightarrow> do {
          c \<leftarrow> pget p s;
          port_flow_one p (pupd p (tx_update (peer_fc_update (\<lambda>_. \<not> enable_data))) s)
        }
      })"

definition rfc_inc_credit :: "nat \<Rightarrow> u8 \<Rightarrow> rfc_st \<Rightarrow> rfc_st option" where
  "rfc_inc_credit p credit s = do {
     c \<leftarrow> pget p s;
     m \<leftarrow> p_mcb c;
     mc \<leftarrow> mget m s;
     if flow mc = PORT_FC_CREDIT then do {
       let s = pupd p (credit_tx_update (\<lambda>k. k + ucast credit)) s;
       if peer_fc (tx c) then PORT_FlowInd m (dlci c) True s else Some s
     } else Some s
   }"

definition PORT_DataInd :: "rfc_env \<Rightarrow> nat option \<Rightarrow> u8 \<Rightarrow> BT_HDR \<Rightarrow> rfc_st \<Rightarrow> rfc_st option" where
  "PORT_DataInd E pm d b s = do {
     pp \<leftarrow> port_find_mcb_dlci_port pm d s;
     case pp of None \<Rightarrow> Some s | Some p \<Rightarrow> do {
       c \<leftarrow> pget p s;
       case p_data_co_callback c of
         Some cb \<Rightarrow> do {
           let s = emit (Data_co_callback cb (handle c) (bh_payload b)) s;
           if co_incoming E cb (handle c) (bh_payload b)
           then port_flow_control_peer p True 1 s
           else port_flow_control_peer p False 0 s
         }
       | None \<Rightarrow>
       case p_data_callback c of
         Some cb \<Rightarrow> do {
           s \<leftarrow> port_flow_control_peer p True 1 s;
           Some (emit (Data_callback cb (handle c) (bh_payload b)) s)
         }
       | None \<Rightarrow>
       if unat (queue_size (rx c) + ucast (bh_len b)) > PORT_RX_CRITICAL_WM \<or>
          queue_length (rx c) + 1 > unat (rx_buf_critical c)
       then do {
         m \<leftarrow> pm;
         RFCOMM_LineStatusReq m d LINE_STATUS_OVERRUN s
       }
       else do {
         let ch = rx_char1 (user_port_settings c);
         let events = (if ch \<noteq> 0 \<and> ev_mask c AND PORT_EV_RXFLAG \<noteq> 0 \<and> ch \<in> set (bh_payload b)
                       then PORT_EV_RXFLAG else 0);
         q \<leftarrow> queue (rx c);
         let s = pupd p (rx_update (\<lambda>r. r\<lparr>queue := Some (q @ [b]),
                                          queue_size := queue_size r + ucast (bh_len b)\<rparr>)) s;
         s \<leftarrow> port_flow_control_peer p False 0 s;
         c \<leftarrow> pget p s;
         if user_fc (rx c) then
           Some (if events AND PORT_EV_RXFLAG \<noteq> 0
                 then pupd p (rx_flag_ev_pending_update (\<lambda>_. True)) s else s)
         else Some (call_port_cb c ((events OR PORT_EV_RXCHAR) AND ev_mask c) s)
       }
     }
   }"

section \<open>Establishing and negotiating\<close>

definition PORT_DlcReleaseInd :: "nat \<Rightarrow> u8 \<Rightarrow> rfc_st \<Rightarrow> rfc_st option" where
  "PORT_DlcReleaseInd m d s = do {
     pp \<leftarrow> port_find_mcb_dlci_port (Some m) d s;
     case pp of None \<Rightarrow> Some s | Some p \<Rightarrow> port_rfc_closed p PORT_CLOSED s
   }"

definition PORT_PortNegCnf :: "nat \<Rightarrow> u8 \<Rightarrow> u16 \<Rightarrow> rfc_st \<Rightarrow> rfc_st option" where
  "PORT_PortNegCnf m d result s = do {
     pp \<leftarrow> port_find_mcb_dlci_port (Some m) d s;
     case pp of None \<Rightarrow> Some s | Some p \<Rightarrow> do {
       c \<leftarrow> pget p s;
       if result \<noteq> RFCOMM_SUCCESS then do {
         s \<leftarrow> RFCOMM_DlcReleaseReq m (dlci c) s;
         port_rfc_closed p PORT_PORT_NEG_FAILED s
       }
       else if port_ctrl c AND PORT_CTRL_REQ_SENT = 0
       then RFCOMM_ControlReq (p_mcb c) (dlci c) (local_ctrl c) s
       else Some s
     }
   }"

definition RFCOMM_PortParameterNegotiationRequest ::
    "nat option \<Rightarrow> u8 \<Rightarrow> PortSettings option \<Rightarrow> rfc_st \<Rightarrow> rfc_st option" where
  "RFCOMM_PortParameterNegotiationRequest pm d ps s = do {
     m \<leftarrow> pm;
     mc \<leftarrow> mget m s;
     if mcb_state mc \<noteq> RFC_MX_STATE_CONNECTED then PORT_PortNegCnf m d RFCOMM_ERROR s
     else do {
       pp \<leftarrow> port_find_mcb_dlci_port (Some m) d s;
       case pp of None \<Rightarrow> Some s | Some p \<Rightarrow> do {
         c \<leftarrow> pget p s;
         let s = pupd p (expected_rsp_update
                   (\<lambda>r. r OR (if ps = None then RFC_RSP_RPN_REPLY else RFC_RSP_RPN))) s;
         s \<leftarrow> rfc_send_rpn m d True ps RFCOMM_RPN_PM_MASK s;
         rfc_port_timer_start p RFC_T2_TIMEOUT s
       }
     }
   }"

abbreviation (input) UUID_SERVCLASS_DIALUP_NETWORKING :: u16 where
  "UUID_SERVCLASS_DIALUP_NETWORKING \<equiv> 0x1103"
abbreviation (input) UUID_SERVCLASS_FAX :: u16 where "UUID_SERVCLASS_FAX \<equiv> 0x1111"

definition PORT_DlcEstablishCnf :: "nat \<Rightarrow> u8 \<Rightarrow> u16 \<Rightarrow> u16 \<Rightarrow> rfc_st \<Rightarrow> rfc_st option" where
  "PORT_DlcEstablishCnf m d n1 result s = do {
     pp \<leftarrow> port_find_mcb_dlci_port (Some m) d s;
     case pp of None \<Rightarrow> Some s | Some p \<Rightarrow>
     if result \<noteq> RFCOMM_SUCCESS then port_rfc_closed p PORT_START_FAILED s
     else do {
       c \<leftarrow> pget p s;
       let s = (if n1 \<noteq> 0 \<and> n1 < peer_mtu c then pupd p (peer_mtu_update (\<lambda>_. n1)) s else s);
       s \<leftarrow> rfc_timer_stop m s;
       let s = call_port_cb c (PORT_EV_CONNECTED AND ev_mask c) s;
       let s = call_mgmt_cb c PORT_SUCCESS s;
       let s = pupd p (port_state_update (\<lambda>_. PORT_CONNECTION_STATE_OPENED)) s;
       if uuid c = UUID_SERVCLASS_DIALUP_NETWORKING \<or> uuid c = UUID_SERVCLASS_FAX
       then RFCOMM_PortParameterNegotiationRequest (p_mcb c) (dlci c) None s
       else RFCOMM_ControlReq (p_mcb c) (dlci c) (local_ctrl c) s
     }
   }"

definition RFCOMM_DlcEstablishReq :: "nat \<Rightarrow> u8 \<Rightarrow> u16 \<Rightarrow> rfc_st \<Rightarrow> rfc_st option" where
  "RFCOMM_DlcEstablishReq m d n1 s = do {
     mc \<leftarrow> mget m s;
     if mcb_state mc \<noteq> RFC_MX_STATE_CONNECTED then PORT_DlcEstablishCnf m d 0 RFCOMM_ERROR s
     else do {
       pp \<leftarrow> port_find_mcb_dlci_port (Some m) d s;
       case pp of None \<Rightarrow> Some s | Some p \<Rightarrow> rfc_port_sm_open p s
     }
   }"

definition RFCOMM_DlcEstablishRsp :: "nat \<Rightarrow> u8 \<Rightarrow> u16 \<Rightarrow> u16 \<Rightarrow> rfc_st \<Rightarrow> rfc_st option" where
  "RFCOMM_DlcEstablishRsp m d n1 result s = do {
     mc \<leftarrow> mget m s;
     if mcb_state mc \<noteq> RFC_MX_STATE_CONNECTED \<and> result = RFCOMM_SUCCESS then PORT_DlcReleaseInd m d s
     else do {
       pp \<leftarrow> port_find_mcb_dlci_port (Some m) d s;
       case pp of None \<Rightarrow> Some s | Some p \<Rightarrow> rfc_port_sm_establish_rsp p result s
     }
   }"

definition PORT_DlcEstablishInd :: "nat \<Rightarrow> u8 \<Rightarrow> u16 \<Rightarrow> rfc_st \<Rightarrow> rfc_st option" where
  "PORT_DlcEstablishInd m d n1 s = do {
     pp \<leftarrow> port_find_mcb_dlci_port (Some m) d s;
     (pp, s) \<leftarrow> (case pp of
         Some p \<Rightarrow> Some (Some p, s)
       | None \<Rightarrow> (case port_find_dlci_port d s of
           (None, s) \<Rightarrow> Some (None, s)
         | (Some p, s) \<Rightarrow> do {
             c \<leftarrow> pget p s;
             s \<leftarrow> set_handle m d (handle c) s;
             Some (Some p, s)
           }));
     case pp of
       None \<Rightarrow> RFCOMM_DlcEstablishRsp m d 0 RFCOMM_ERROR s
     | Some p \<Rightarrow> do {
         c \<leftarrow> pget p s;
         let s = (if n1 \<noteq> 0 \<and> n1 < peer_mtu c then pupd p (peer_mtu_update (\<lambda>_. n1)) s else s);
         s \<leftarrow> rfc_timer_stop m s;
         s \<leftarrow> RFCOMM_DlcEstablishRsp m d (mtu c) RFCOMM_SUCCESS s;
         c \<leftarrow> pget p s;
         let s = call_port_cb c (PORT_EV_CONNECTED AND ev_mask c) s;
         let s = call_mgmt_cb c PORT_SUCCESS s;
         Some (pupd p (port_state_update (\<lambda>_. PORT_CONNECTION_STATE_OPENED)) s)
       }
   }"

text \<open>The credits this side grants in a PN response, and the layer it answers with.\<close>

definition PORT_ParNegInd ::
    "rfc_env \<Rightarrow> nat \<Rightarrow> u8 \<Rightarrow> u16 \<Rightarrow> u8 \<Rightarrow> u8 \<Rightarrow> rfc_st \<Rightarrow> rfc_st option" where
  "PORT_ParNegInd E m d n1 cl k s = do {
     pp \<leftarrow> port_find_mcb_dlci_port (Some m) d s;
     (pp, s) \<leftarrow> (case pp of
         Some p \<Rightarrow> Some (Some p, s)
       | None \<Rightarrow> (case port_find_dlci_port d s of
           (None, s) \<Rightarrow> do {
             s \<leftarrow> rfc_send_dm m d False s;
             s \<leftarrow> rfc_check_mcb_active m s;
             Some (None, s)
           }
         | (Some p, s) \<Rightarrow> do {
             c \<leftarrow> pget p s;
             s \<leftarrow> set_handle m d (handle c) s;
             Some (Some p, s)
           }));
     case pp of
       None \<Rightarrow> Some s
     | Some p \<Rightarrow> do {
         c \<leftarrow> pget p s;
         mc \<leftarrow> mget m s;
         s \<leftarrow> port_select_mtu E p (pupd p (bd_addr_update (\<lambda>_. mcb_bd_addr mc)) s);
         let s = pupd p (\<lambda>c. let n = (if mtu c < n1 then mtu c else n1) in
                              c\<lparr>p_mcb := Some m, mtu := n, peer_mtu := n\<rparr>) s;
         let s = (if flow mc = PORT_FC_UNDEFINED
                  then mupd m (flow_update (\<lambda>_. if cl = RFCOMM_PN_CONV_LAYER_TYPE_1
                                                 then PORT_FC_TS710 else PORT_FC_CREDIT)) s
                  else s);
         mc \<leftarrow> mget m s;
         if cl \<noteq> RFCOMM_PN_CONV_LAYER_TYPE_1 \<and> flow mc = PORT_FC_CREDIT then do {
           let s = port_get_credits p k s;
           c \<leftarrow> pget p s;
           let our_k = (ucast (if credit_rx_max c < RFCOMM_K_MAX then credit_rx_max c
                               else RFCOMM_K_MAX) :: u8);
           let s = pupd p (credit_rx_update (\<lambda>_. ucast our_k)) s;
           RFCOMM_ParameterNegotiationResponse m d (mtu c) RFCOMM_PN_CONV_LAYER_CBFC_R our_k s
         } else do {
           c \<leftarrow> pget p s;
           RFCOMM_ParameterNegotiationResponse m d (mtu c) RFCOMM_PN_CONV_LAYER_TYPE_1 0 s
         }
       }
   }"

definition PORT_ParNegCnf :: "nat \<Rightarrow> u8 \<Rightarrow> u16 \<Rightarrow> u8 \<Rightarrow> u8 \<Rightarrow> rfc_st \<Rightarrow> rfc_st option" where
  "PORT_ParNegCnf m d n1 cl k s = do {
     pp \<leftarrow> port_find_mcb_dlci_port (Some m) d s;
     case pp of None \<Rightarrow> Some s | Some p \<Rightarrow> do {
       mc \<leftarrow> mget m s;
       let s = (if flow mc = PORT_FC_UNDEFINED
                then mupd m (flow_update (\<lambda>_. if cl = RFCOMM_PN_CONV_LAYER_CBFC_R
                                               then PORT_FC_CREDIT else PORT_FC_TS710)) s
                else s);
       c \<leftarrow> pget p s;
       let s = pupd p (\<lambda>c. let n = (if mtu c < n1 then mtu c else n1) in
                            c\<lparr>mtu := n, peer_mtu := n\<rparr>) s;
       mc \<leftarrow> mget m s;
       let s = (if flow mc = PORT_FC_CREDIT then port_get_credits p k s else s);
       c \<leftarrow> pget p s;
       if port_state c = PORT_CONNECTION_STATE_OPENING
       then RFCOMM_DlcEstablishReq m (dlci c) (mtu c) s
       else Some s
     }
   }"

definition PORT_PortNegInd :: "nat \<Rightarrow> u8 \<Rightarrow> PortSettings \<Rightarrow> u16 \<Rightarrow> rfc_st \<Rightarrow> rfc_st option" where
  "PORT_PortNegInd m d ps pmask s = do {
     pp \<leftarrow> port_find_mcb_dlci_port (Some m) d s;
     (pp, s) \<leftarrow> (case pp of
         Some p \<Rightarrow> Some (Some p, s)
       | None \<Rightarrow> (case port_find_dlci_port d s of
           (None, s) \<Rightarrow> Some (None, s)
         | (Some p, s) \<Rightarrow> do {
             c \<leftarrow> pget p s;
             s \<leftarrow> set_handle m d (handle c) s;
             Some (Some p, s)
           }));
     case pp of
       None \<Rightarrow> RFCOMM_PortParameterNegotiationResponse m d ps 0 s
     | Some p \<Rightarrow> do {
         c \<leftarrow> pget p s;
         RFCOMM_PortParameterNegotiationResponse m d ps pmask
           (pupd p (peer_port_settings_update (\<lambda>_. ps)) s)
       }
   }"

section \<open>Modem signals and line status\<close>

definition PORT_ControlInd :: "nat \<Rightarrow> u8 \<Rightarrow> tPORT_CTRL \<Rightarrow> rfc_st \<Rightarrow> rfc_st option" where
  "PORT_ControlInd m d pars s = do {
     pp \<leftarrow> port_find_mcb_dlci_port (Some m) d s;
     case pp of None \<Rightarrow> Some s | Some p \<Rightarrow> do {
       c \<leftarrow> pget p s;
       let event = port_get_signal_changes c (modem_signal (peer_ctrl c)) (modem_signal pars);
       let s = pupd p (peer_ctrl_update (\<lambda>_. pars)) s;
       (event, s) \<leftarrow>
         (if port_ctrl c AND PORT_CTRL_REQ_SENT = 0 then do {
            s \<leftarrow> RFCOMM_ControlReq (p_mcb c) (dlci c) (local_ctrl c) s;
            Some (event, s)
          } else do {
            let event = (if port_ctrl c AND PORT_CTRL_IND_RECEIVED = 0
                         then event OR (PORT_EV_CONNECTED AND ev_mask c) else event);
            if port_ctrl c AND PORT_CTRL_REQ_CONFIRMED \<noteq> 0 then do {
              (e, s) \<leftarrow> port_rfc_send_tx_data p s;
              Some (event OR e, s)
            } else Some (event, s)
          });
       let s = pupd p (port_ctrl_update
                 (\<lambda>x. x OR (PORT_CTRL_IND_RECEIVED OR PORT_CTRL_IND_RESPONDED))) s;
       c \<leftarrow> pget p s;
       let event = (if break_signal pars \<noteq> 0 then event OR (PORT_EV_BREAK AND ev_mask c) else event);
       Some (call_port_cb c event s)
     }
   }"

definition PORT_ControlCnf :: "nat option \<Rightarrow> u8 \<Rightarrow> rfc_st \<Rightarrow> rfc_st option" where
  "PORT_ControlCnf pm d s = do {
     pp \<leftarrow> port_find_mcb_dlci_port pm d s;
     case pp of None \<Rightarrow> Some s | Some p \<Rightarrow> do {
       c \<leftarrow> pget p s;
       let first = (port_ctrl c AND PORT_CTRL_REQ_CONFIRMED = 0);
       let received = (port_ctrl c AND PORT_CTRL_IND_RECEIVED \<noteq> 0);
       let s = (if first then pupd p (port_ctrl_update (\<lambda>x. x OR PORT_CTRL_REQ_CONFIRMED)) s else s);
       let event = (if first \<and> received then ev_mask c AND PORT_EV_CONNECTED else 0);
       (event, s) \<leftarrow>
         (if received then do { (e, s) \<leftarrow> port_rfc_send_tx_data p s; Some (event OR e, s) }
          else Some (event, s));
       c \<leftarrow> pget p s;
       Some (call_port_cb c event s)
     }
   }"

definition PORT_LineStatusInd :: "nat \<Rightarrow> u8 \<Rightarrow> u8 \<Rightarrow> rfc_st \<Rightarrow> rfc_st option" where
  "PORT_LineStatusInd m d status s = do {
     pp \<leftarrow> port_find_mcb_dlci_port (Some m) d s;
     case pp of None \<Rightarrow> Some s | Some p \<Rightarrow> do {
       c \<leftarrow> pget p s;
       let s = pupd p (line_status_update (\<lambda>x. x OR status)) s;
       let event =
         (if status AND PORT_ERR_OVERRUN \<noteq> 0 then PORT_EV_OVERRUN else 0) OR
         (if status AND PORT_ERR_BREAK \<noteq> 0 then PORT_EV_BREAK else 0) OR
         (if status AND NOT (PORT_ERR_OVERRUN OR PORT_ERR_BREAK) \<noteq> 0 then PORT_EV_ERR else 0);
       Some (call_port_cb c (ev_mask c AND event) s)
     }
   }"

section \<open>Closing\<close>

text \<open>The multiplexer is gone: close every port that is on it and release it.\<close>

definition PORT_CloseInd :: "nat \<Rightarrow> rfc_st \<Rightarrow> rfc_st option" where
  "PORT_CloseInd m s = do {
     s \<leftarrow> foreach (\<lambda>p s. do {
         c \<leftarrow> pget p s;
         if p_mcb c = Some m then port_rfc_closed p PORT_PEER_CONNECTION_FAILED s else Some s
       }) [0..<MAX_RFC_PORTS] s;
     rfc_release_multiplexer_channel m s
   }"

text \<open>Called with a null multiplexer, this closes every port that is not on one.\<close>

definition PORT_TimeOutCloseMux :: "nat option \<Rightarrow> rfc_st \<Rightarrow> rfc_st option" where
  "PORT_TimeOutCloseMux pm s =
     foreach (\<lambda>p s. do {
         c \<leftarrow> pget p s;
         if p_mcb c = pm then port_rfc_closed p PORT_PEER_TIMEOUT s else Some s
       }) [0..<MAX_RFC_PORTS] s"

definition port_start_control :: "nat \<Rightarrow> rfc_st \<Rightarrow> rfc_st option" where
  "port_start_control p s = do {
     c \<leftarrow> pget p s;
     case p_mcb c of None \<Rightarrow> Some s | Some m \<Rightarrow> RFCOMM_ControlReq (Some m) (dlci c) (local_ctrl c) s
   }"

definition port_start_par_neg :: "nat \<Rightarrow> rfc_st \<Rightarrow> rfc_st option" where
  "port_start_par_neg p s = do {
     c \<leftarrow> pget p s;
     case p_mcb c of None \<Rightarrow> Some s
     | Some m \<Rightarrow> RFCOMM_PortParameterNegotiationRequest (Some m) (dlci c) (Some (user_port_settings c)) s
   }"

definition port_start_close :: "nat \<Rightarrow> rfc_st \<Rightarrow> rfc_st option" where
  "port_start_close p s = do {
     c \<leftarrow> pget p s;
     let s = pupd p drop_signals s;
     let events = drop_events c OR (if ev_mask c AND PORT_EV_ERR \<noteq> 0 then PORT_EV_ERR else 0);
     let s = call_port_cb c events s;
     case p_mcb c of
       Some m \<Rightarrow>
         if rfc_state c = RFC_STATE_CLOSED
         then port_release_port p (call_mgmt_cb c PORT_CLOSED s)
         else RFCOMM_DlcReleaseReq m (dlci c) s
     | None \<Rightarrow> port_release_port p (call_mgmt_cb c PORT_CLOSED s)
   }"

section \<open>Loss of the connection\<close>

text \<open>
  What closing the ports of the multiplexer \<open>pm\<close> does to one port, and the calls its user gets.
\<close>

definition close_on :: "nat option \<Rightarrow> tPORT \<Rightarrow> tPORT" where
  "close_on pm c = (if p_mcb c = pm then closed_port c else c)"

definition notify_on :: "nat option \<Rightarrow> tPORT_RESULT \<Rightarrow> tPORT \<Rightarrow> rfc_out list" where
  "notify_on pm r c = (if p_mcb c = pm then notified r c else [])"

lemma close_ports_ok:
  assumes len: "length (ports s) = MAX_RFC_PORTS"
    and ok: "\<And>c. c \<in> set (ports s) \<Longrightarrow> p_mcb c = pm \<Longrightarrow> can_detach c s"
  shows "ok (foreach (\<lambda>p s. do {
       c \<leftarrow> pget p s;
       if p_mcb c = pm then port_rfc_closed p r s else Some s }) [0..<MAX_RFC_PORTS] s)
    (\<lambda>s'. ports s' = map (close_on pm) (ports s) \<and> mx_kept pm s s' \<and>
      mgmt_calls s' = mgmt_calls s @ concat (map (notify_on pm r) (ports s)))"
proof -
  let ?I = "\<lambda>i s'. ports s' = map (close_on pm) (take i (ports s)) @ drop i (ports s) \<and> mx_kept pm s s' \<and>
      mgmt_calls s' = mgmt_calls s @ concat (map (notify_on pm r) (take i (ports s)))"
  have step: "ok (do { c \<leftarrow> pget i x; if p_mcb c = pm then port_rfc_closed i r x else Some x }) (?I (Suc i))"
    if i: "i < MAX_RFC_PORTS" and I: "?I i x" for i x
  proof -
    let ?c = "ports s ! i"
    have lx: "length (ports x) = 30" and nth: "ports x ! i = ?c" using I i len by (simp_all add: nth_append)
    have tk: "take (Suc i) (ports s) = take i (ports s) @ [?c]" using i len by (simp add: take_Suc_conv_app_nth)
    have dr: "drop i (ports s) = ?c # drop (Suc i) (ports s)" using i len by (simp add: Cons_nth_drop_Suc)
    show ?thesis
    proof (cases "p_mcb ?c = pm")
      case True
      have "can_detach ?c x"
        by (rule can_detach_kept [OF ok [of ?c]]) (use True I i len in simp_all)
      then have "ok (port_rfc_closed i r x) (\<lambda>s'. ports s' = (ports x)[i := closed_port ?c] \<and> mx_kept pm x s' \<and>
         mgmt_calls s' = mgmt_calls x @ notified r ?c)"
        using port_rfc_closed_ok [of i x r] True i lx nth by simp
      then show ?thesis using True i I len lx nth
        by (auto simp: pget_def tk dr list_update_append close_on_def notify_on_def intro: mx_kept_trans elim!: ok_weaken)
    next
      case False
      with i I lx nth show ?thesis by (simp add: pget_def tk dr close_on_def notify_on_def)
    qed
  qed
  have "ok (foreach (\<lambda>p s. do {
       c \<leftarrow> pget p s;
       if p_mcb c = pm then port_rfc_closed p r s else Some s }) [0..<MAX_RFC_PORTS] s) (?I MAX_RFC_PORTS)"
    by (rule ok_foreach_upt [where I = ?I]) (use step mx_kept_refl in auto)
  then show ?thesis by (rule ok_weaken) (use len in auto)
qed

lemma p_mcb_close_on [simp]: "p_mcb (close_on (Some m) c) \<noteq> Some m"
  by (simp add: close_on_def)

text \<open>
  C8: Loss of the L2CAP channel. \<^verbatim>\<open>PORT_CloseInd\<close> closes every port of the multiplexer:
  each is released (one whose user keeps the handle is set back to its defaults) and its
  management callback is called exactly once, with the connection failure, in the order of the
  ports, except that a server port that was still opening goes back to listening without a
  call; the ports of other multiplexers and their blocks are not touched; the
  block is freed and the channel no longer leads to it. No step of it fails.
\<close>

theorem PORT_CloseInd_closes:
  assumes "mget m s = Some mc" and "good_mcb mc" and "length (ports s) = MAX_RFC_PORTS"
    and "\<forall>c \<in> set (ports s). p_mcb c = Some m \<longrightarrow> unat (dlci c) < 62"
  shows "ok (PORT_CloseInd m s) (\<lambda>s'.
    ports s' = map (\<lambda>c. if p_mcb c = Some m then closed_port c else c) (ports s) \<and>
    rfc_mcb s' = (rfc_mcb s)[m := zero_mcb] \<and>
    rfc_find_lcid_mcb (lcid mc) s' = Some None \<and>
    mgmt_calls s' = mgmt_calls s @
      concat (map (\<lambda>c. if p_mcb c = Some m then notified PORT_PEER_CONNECTION_FAILED c else []) (ports s)))"
proof -
  have m: "m < length (rfc_mcb s)" "mc = rfc_mcb s ! m" using assms(1) by (auto dest: mget_SomeD)
  have "ok (foreach (\<lambda>p s. do {
       c \<leftarrow> pget p s;
       if p_mcb c = Some m then port_rfc_closed p PORT_PEER_CONNECTION_FAILED s else Some s }) [0..<MAX_RFC_PORTS] s)
    (\<lambda>s'. ports s' = map (close_on (Some m)) (ports s) \<and> mx_kept (Some m) s s' \<and>
      mgmt_calls s' = mgmt_calls s @ concat (map (notify_on (Some m) PORT_PEER_CONNECTION_FAILED) (ports s)))"
    by (rule close_ports_ok) (use assms m in \<open>auto simp: can_detach_def\<close>)
  then show ?thesis unfolding PORT_CloseInd_def
  proof (rule ok_bindI)
    fix x assume x: "ports x = map (close_on (Some m)) (ports s) \<and> mx_kept (Some m) s x \<and>
      mgmt_calls x = mgmt_calls s @ concat (map (notify_on (Some m) PORT_PEER_CONNECTION_FAILED) (ports s))"
    have mx: "mget m x = Some (rfc_mcb x ! m)" "lcid (rfc_mcb x ! m) = lcid mc"
      using x m assms(2) by (auto simp: mget_def mx_kept_def)
    have "rfc_mcb x = (rfc_mcb s)[m := rfc_mcb x ! m]"
    proof (rule nth_equalityI)
      fix i assume "i < length (rfc_mcb x)"
      with x show "rfc_mcb x ! i = (rfc_mcb s)[m := rfc_mcb x ! m] ! i"
        by (cases "m = i") (auto simp: mx_kept_def)
    qed (use x in \<open>simp add: mx_kept_def\<close>)
    then have mz: "(rfc_mcb x)[m := zero_mcb] = (rfc_mcb s)[m := zero_mcb]" by (metis list_update_overwrite)
    have id: "map (detach_port m) (ports x) = ports x"
      using x by (simp add: comp_def)
    have "mgmt_calls ((rfc_save_lcid_mcb None l x)\<lparr>ports := a, rfc_mcb := b\<rparr>) = mgmt_calls x" for l a b
      by (simp add: mgmt_calls_def rfc_save_lcid_mcb_def)
    then show "ok (rfc_release_multiplexer_channel m x) (\<lambda>s'.
      ports s' = map (\<lambda>c. if p_mcb c = Some m then closed_port c else c) (ports s) \<and>
      rfc_mcb s' = (rfc_mcb s)[m := zero_mcb] \<and>
      rfc_find_lcid_mcb (lcid mc) s' = Some None \<and>
      mgmt_calls s' = mgmt_calls s @
        concat (map (\<lambda>c. if p_mcb c = Some m then notified PORT_PEER_CONNECTION_FAILED c else []) (ports s)))"
      unfolding release_eq [OF mx(1)] ok_Some
      using x mx mz id by (simp add: close_on_def [abs_def] notify_on_def [abs_def] rfc_find_lcid_mcb_def)
  qed
qed

lemma link_port_simps [simp]:
  "p_mcb link_port = Some 0" "dlci link_port = 2" "handle link_port = 1" "closed_port link_port = zero_port"
  "notified r link_port = [Mgmt_callback 1 r 1]" "mgmt_calls link_st = []" "p_mcb zero_port = None"
  by (simp_all add: link_port_def fresh_port_def closed_port_def released_port_def port_set_defaults_def
      notified_def zero_port_def link_st_def mgmt_calls_def RFCOMM_Init_def)

theorem PORT_CloseInd_closes_witness:
  "ok (PORT_CloseInd 0 link_st) (\<lambda>s'. ports s' = zero_port # replicate 29 zero_port \<and>
     mgmt_calls s' = [Mgmt_callback 1 PORT_PEER_CONNECTION_FAILED 1])"
  by (rule ok_weaken [OF PORT_CloseInd_closes [of 0 link_st link_mcb]]) simp_all

end
