(* ===== verification/Port_Flow.thy ===== *)
theory Port_Flow
  imports Port_Rfc
begin

text \<open>
  The data path of an open port under credit based flow control
  (\<^verbatim>\<open>RFCOMM_DataReq\<close>, \<^verbatim>\<open>port_rfc_send_tx_data\<close>, \<^verbatim>\<open>rfc_inc_credit\<close>,
  \<^verbatim>\<open>port_flow_control_peer\<close> and \<^verbatim>\<open>PORT_DataInd\<close> of \<^verbatim>\<open>port_rfc.cc\<close>,
  \<^verbatim>\<open>port_utils.cc\<close> and \<^verbatim>\<open>rfc_utils.cc\<close>). The definitions here only describe states:
  a port that is attached to its multiplexer, a transmit or receive queue whose byte count is
  right, and what one operation does to the port block. The lemmas give the effect of each
  operation on such a state and from them come the properties: a credit grant drains the
  transmit queue in order, the receiver never runs out of window, a received frame is queued.
\<close>

section \<open>Vocabulary\<close>

text \<open>Port \<open>p\<close> with block \<open>c\<close> is on multiplexer \<open>m\<close> with block \<open>mc\<close>, and is found there under its DLCI.\<close>

definition linked :: "nat \<Rightarrow> tPORT \<Rightarrow> nat \<Rightarrow> tRFC_MCB \<Rightarrow> rfc_st \<Rightarrow> bool" where
  "linked p c m mc s \<longleftrightarrow> pget p s = Some c \<and> mget m s = Some mc \<and> p_mcb c = Some m \<and>
     length (port_handles mc) = 62 \<and> unat (dlci c) < 62 \<and> dlci c \<noteq> 0 \<and>
     port_handles mc ! unat (dlci c) = Suc p"

text \<open>A frame that is shorter than the peer's limit has room for a credit grant: the window is filled up.\<close>

definition granting :: "tRFC_MCB \<Rightarrow> tPORT \<Rightarrow> BT_HDR \<Rightarrow> bool" where
  "granting mc c b \<longleftrightarrow> flow mc = PORT_FC_CREDIT \<and> bh_len b < peer_mtu c \<and> \<not> user_fc (rx c) \<and> credit_rx_max c > credit_rx c"

definition piggyback :: "tRFC_MCB \<Rightarrow> tPORT \<Rightarrow> BT_HDR \<Rightarrow> u8" where
  "piggyback mc c b = (if granting mc c b then ucast (credit_rx_max c - credit_rx c) else 0)"

text \<open>The port block after a credit was used, and after a frame was sent.\<close>

definition credit_taken :: "tRFC_MCB \<Rightarrow> tPORT \<Rightarrow> tPORT" where
  "credit_taken mc c =
     (let k = (if credit_tx c > 0 then credit_tx c - 1 else credit_tx c) in
      if flow mc = PORT_FC_CREDIT
      then c\<lparr>credit_tx := k, tx := (if k = 0 then (tx c)\<lparr>peer_fc := True\<rparr> else tx c)\<rparr> else c)"

definition data_sent :: "tRFC_MCB \<Rightarrow> BT_HDR \<Rightarrow> tPORT \<Rightarrow> tPORT" where
  "data_sent mc b c = credit_taken mc (if granting mc c b then c\<lparr>credit_rx := credit_rx_max c\<rparr> else c)"

definition data_frame :: "tRFC_MCB \<Rightarrow> tPORT \<Rightarrow> u8 \<Rightarrow> BT_HDR \<Rightarrow> rfc_out" where
  "data_frame mc c k b = L2CA_DataWrite (lcid mc) (uih_frame (RFCOMM_CR (is_initiator mc) True) (dlci c) k (bh_payload b))"

text \<open>The byte count of a queue, and the bytes in it.\<close>

definition tx_bytes :: "BT_HDR list \<Rightarrow> nat" where
  "tx_bytes q = sum_list (map (\<lambda>b. length (bh_payload b)) q)"

definition stream :: "BT_HDR list \<Rightarrow> u8 list" where
  "stream q = concat (map bh_payload q)"

text \<open>The transmit queue holds \<open>q\<close> and its count is right; the peer has stopped the port exactly when credits are out.\<close>

definition tx_ready :: "tPORT \<Rightarrow> BT_HDR list \<Rightarrow> bool" where
  "tx_ready c q \<longleftrightarrow> queue (tx c) = Some q \<and> queue_size (tx c) = word_of_nat (tx_bytes q) \<and> tx_bytes q < 2 ^ 32 \<and>
     (\<forall>b \<in> set q. bh_payload b \<noteq> [] \<and> length (bh_payload b) < 2 ^ 16 \<and> 5 \<le> bh_offset b) \<and>
     (peer_fc (tx c) \<longleftrightarrow> credit_tx c = 0)"

text \<open>The frame \<open>f\<close> carries the buffer \<open>b\<close> to the peer of the port.\<close>

definition carries :: "tRFC_MCB \<Rightarrow> tPORT \<Rightarrow> rfc_out \<Rightarrow> BT_HDR \<Rightarrow> bool" where
  "carries mc c f b \<longleftrightarrow> (\<exists>k. f = data_frame mc c k b)"

text \<open>
  Sending has done its work with \<open>k\<close> credits: of the buffers \<open>q\<close>, the first ones went out as
  \<open>fs\<close>, one frame for one credit; the rest is still queued.
\<close>

definition drained :: "nat \<Rightarrow> nat \<Rightarrow> tRFC_MCB \<Rightarrow> tPORT \<Rightarrow> nat \<Rightarrow> BT_HDR list \<Rightarrow> rfc_out list \<Rightarrow> rfc_st \<Rightarrow> bool" where
  "drained p m mc c k q fs s' \<longleftrightarrow>
     (let n = min k (length q) in
      list_all2 (carries mc c) fs (take n q) \<and>
      (\<exists>c'. linked p c' m mc s' \<and> dlci c' = dlci c \<and> tx_ready c' (drop n q) \<and> unat (credit_tx c') = k - n))"

text \<open>The receive queue holds \<open>q\<close>, with room for \<open>n\<close> more bytes.\<close>

definition rx_ready :: "tPORT \<Rightarrow> BT_HDR list \<Rightarrow> bool" where
  "rx_ready c q \<longleftrightarrow> queue (rx c) = Some q \<and> queue_size (rx c) = word_of_nat (tx_bytes q) \<and> tx_bytes q < 2 ^ 32"

definition rx_room :: "tPORT \<Rightarrow> BT_HDR list \<Rightarrow> nat \<Rightarrow> bool" where
  "rx_room c q n \<longleftrightarrow> tx_bytes q + n \<le> PORT_RX_CRITICAL_WM \<and> length q < unat (rx_buf_critical c)"

text \<open>The credits given back after \<open>n\<close> buffers were read, and the port block after that.\<close>

definition top_up :: "tPORT \<Rightarrow> u16 \<Rightarrow> u16" where
  "top_up c n = (let k = (if n > credit_rx c then 0 else credit_rx c - n) in
     if k \<le> credit_rx_low c \<and> \<not> user_fc (rx c) \<and> credit_rx_max c > k then credit_rx_max c - k else 0)"

definition consumed :: "tPORT \<Rightarrow> u16 \<Rightarrow> tPORT" where
  "consumed c n = (let k = (if n > credit_rx c then 0 else credit_rx c - n) in
     if top_up c n = 0 then c\<lparr>credit_rx := k\<rparr>
     else c\<lparr>credit_rx := credit_rx_max c, rx := (rx c)\<lparr>peer_fc := False\<rparr>\<rparr>)"

text \<open>The event for a received buffer, and the port block with the buffer queued.\<close>

definition rx_event :: "tPORT \<Rightarrow> BT_HDR \<Rightarrow> u32" where
  "rx_event c b = (if rx_char1 (user_port_settings c) \<noteq> 0 \<and> ev_mask c AND PORT_EV_RXFLAG \<noteq> 0 \<and>
     rx_char1 (user_port_settings c) \<in> set (bh_payload b) then PORT_EV_RXFLAG else 0)"

definition received :: "BT_HDR list \<Rightarrow> BT_HDR \<Rightarrow> tPORT \<Rightarrow> tPORT" where
  "received q b c = c\<lparr>rx := (rx c)\<lparr>queue := Some (q @ [b]), queue_size := word_of_nat (tx_bytes (q @ [b]))\<rparr>\<rparr>"

text \<open>The sample link with two bytes waiting for credits, and with three bytes received in two frames.\<close>

definition buf :: "u8 list \<Rightarrow> BT_HDR" where
  "buf d = \<lparr>bh_offset = L2CAP_MIN_OFFSET + RFCOMM_MIN_OFFSET, bh_layer_specific = 1, bh_payload = d\<rparr>"

definition stalled_port :: tPORT where
  "stalled_port = link_port\<lparr>credit_tx := 0,
     tx := (tx link_port)\<lparr>queue := Some [buf [1], buf [2]], queue_size := 2, peer_fc := True\<rparr>\<rparr>"

definition filled_port :: tPORT where
  "filled_port = link_port\<lparr>credit_rx := 5,
     rx := (rx link_port)\<lparr>queue := Some [buf [1, 2], buf [3]], queue_size := 3\<rparr>\<rparr>"

section \<open>Updates of one port\<close>

declare pupd_pupd [simp]

lemma linked_find: "linked p c m mc s \<Longrightarrow> port_find_mcb_dlci_port (Some m) (dlci c) s = Some (Some p)"
  by (simp add: linked_def port_find_mcb_dlci_port_def)

lemma linked_rx: "linked p c m mc s \<Longrightarrow> linked p (c\<lparr>rx := r\<rparr>) m mc (pupd p (\<lambda>_. c\<lparr>rx := r\<rparr>) s)"
  by (simp add: linked_def)

lemma linked_link:
  "p_mcb c = Some 0 \<Longrightarrow> dlci c = 2 \<Longrightarrow> linked 0 c 0 link_mcb (pupd 0 (\<lambda>_. c) link_st)"
  by (simp add: linked_def link_mcb_def)

section \<open>Words and byte counts\<close>

lemma ucast_ucast_u8 [simp]: "ucast (ucast (x :: u8) :: u16) = x"
  by (rule bit_word_eqI) (simp add: bit_simps)

lemma unat_u8_less: "unat (x :: u8) < 256"
  by (rule order.strict_trans2 [OF unsigned_less]) simp

lemma unat_ucast_u8: "unat (ucast (x :: u8) :: u16) = unat x"
  using unat_u8_less [of x] by (simp add: unsigned_ucast_eq take_bit_nat_eq_self)

lemma unat_ucast_16_8: "unat (x :: u16) < 256 \<Longrightarrow> unat (ucast x :: u8) = unat x"
  by (simp add: unsigned_ucast_eq take_bit_nat_eq_self)

lemma unat_minus_1: "0 < x \<Longrightarrow> unat (x - 1 :: 'a::len word) = unat x - 1"
  by (simp add: unat_minus_one)

lemma tx_bytes_simps [simp]: "tx_bytes [] = 0" "tx_bytes (b # q) = length (bh_payload b) + tx_bytes q"
  by (simp_all add: tx_bytes_def)

lemma tx_bytes_append [simp]: "tx_bytes (q @ q') = tx_bytes q + tx_bytes q'"
  by (simp add: tx_bytes_def)

lemma tx_bytes_0: "\<forall>b \<in> set q. bh_payload b \<noteq> [] \<Longrightarrow> tx_bytes q = 0 \<longleftrightarrow> q = []"
  by (cases q) simp_all

lemma take_off: "tx_bytes (b # q) < 2 ^ 32 \<Longrightarrow> length (bh_payload b) < 2 ^ 16 \<Longrightarrow>
   word_of_nat (tx_bytes (b # q)) - ucast (bh_len b) = (word_of_nat (tx_bytes q) :: u32)"
  by (simp add: bh_len_def unsigned_of_nat take_bit_nat_eq_self)

lemma ucast_bh_len: "length (bh_payload b) < 2 ^ 16 \<Longrightarrow> (ucast (bh_len b) :: u32) = word_of_nat (length (bh_payload b))"
  by (simp add: bh_len_def unsigned_of_nat take_bit_nat_eq_self)

lemma stream_simps [simp]: "stream [] = []" "stream (b # q) = bh_payload b @ stream q" "stream (q @ q') = stream q @ stream q'"
  by (simp_all add: stream_def)

lemma length_stream: "length (stream q) = tx_bytes q"
  by (simp add: stream_def tx_bytes_def length_concat comp_def)

lemma data_sent_simps [simp]:
  "p_mcb (data_sent mc b c) = p_mcb c" "dlci (data_sent mc b c) = dlci c" "rfc_state (data_sent mc b c) = rfc_state c"
  "queue (tx (data_sent mc b c)) = queue (tx c)" "queue_size (tx (data_sent mc b c)) = queue_size (tx c)"
  by (simp_all add: data_sent_def credit_taken_def Let_def)

lemma data_sent_credit:
  "flow mc = PORT_FC_CREDIT \<Longrightarrow> 0 < credit_tx c \<Longrightarrow> \<not> peer_fc (tx c) \<Longrightarrow>
     credit_tx (data_sent mc b c) = credit_tx c - 1 \<and>
     (peer_fc (tx (data_sent mc b c)) \<longleftrightarrow> credit_tx (data_sent mc b c) = 0)"
  by (simp add: data_sent_def credit_taken_def Let_def)

lemma carries_frame [simp]: "carries mc c (data_frame mc c k b) b"
  by (auto simp: carries_def)

lemma tx_ready_user_fc [simp]: "tx_ready (c\<lparr>tx := (tx c)\<lparr>user_fc := u\<rparr>\<rparr>) q = tx_ready c q"
  by (simp add: tx_ready_def)

lemma rx_ready_peer_fc [simp]: "rx_ready (c\<lparr>rx := (rx c)\<lparr>peer_fc := f\<rparr>\<rparr>) q = rx_ready c q"
  by (simp add: rx_ready_def)

section \<open>Sending\<close>

lemma rfc_dec_credit_eq:
  assumes "pget p s = Some c" "p_mcb c = Some m" "mget m s = Some mc"
  shows "rfc_dec_credit p s = Some (pupd p (credit_taken mc) s)"
proof (cases "flow mc = PORT_FC_CREDIT")
  case True
  with assms show ?thesis by (auto simp: rfc_dec_credit_def credit_taken_def Let_def intro!: pupd_eqI)
next
  case False
  with assms show ?thesis by (simp add: rfc_dec_credit_def credit_taken_def pupd_id [OF assms(1)])
qed

lemma rfc_send_data_eq:
  assumes "mget m s = Some mc" "d \<noteq> 0" "5 \<le> bh_offset b"
  shows "rfc_send_buf_uih m d b s = Some (emit (L2CA_DataWrite (lcid mc)
     (uih_frame (RFCOMM_CR (is_initiator mc) True) d (ucast (bh_layer_specific b)) (bh_payload b))) s)"
  using assms by (simp add: rfc_send_buf_uih_def Let_def)

lemma DataReq_eq:
  assumes l: "linked p c m mc s" and "rfc_state c = RFC_STATE_OPENED" and "5 \<le> bh_offset b"
  shows "RFCOMM_DataReq m (dlci c) b s =
    Some (emit (data_frame mc c (piggyback mc c b) b) (pupd p (data_sent mc b) s))"
proof -
  let ?s = "if granting mc c b then pupd p (\<lambda>c. c\<lparr>credit_rx := credit_rx_max c\<rparr>) s else s"
  let ?b = "b\<lparr>bh_layer_specific := ucast (piggyback mc c b)\<rparr>"
  have c: "pget p s = Some c" "p_mcb c = Some m" "mget m s = Some mc" "dlci c \<noteq> 0" using l by (simp_all add: linked_def)
  have "RFCOMM_DataReq m (dlci c) b s = rfc_send_buf_uih m (dlci c) ?b ?s \<bind> rfc_dec_credit p"
    using c assms(2) by (simp add: RFCOMM_DataReq_def linked_find [OF l] rfc_port_sm_data_def
        granting_def [symmetric] piggyback_def Let_def if_distrib [of ucast])
  also have "\<dots> = rfc_dec_credit p (emit (data_frame mc c (piggyback mc c b) b) ?s)"
    using c assms(3) by (subst rfc_send_data_eq [where mc = mc]) (simp_all add: data_frame_def)
  also have "\<dots> = Some (emit (data_frame mc c (piggyback mc c b) b) (pupd p (credit_taken mc) ?s))"
    unfolding emit_pupd [symmetric]
    using c by (intro rfc_dec_credit_eq [of _ _ "if granting mc c b then c\<lparr>credit_rx := credit_rx_max c\<rparr> else c" m]) auto
  also have "pupd p (credit_taken mc) ?s = pupd p (data_sent mc b) s"
    using c(1) by (auto simp: data_sent_def intro!: pupd_eqI)
  finally show ?thesis .
qed

text \<open>One turn of the loop of \<^verbatim>\<open>port_rfc_send_tx_data\<close>: the first buffer goes out for one credit.\<close>

lemma port_send_turn:
  assumes "linked p c m mc s" "rfc_state c = RFC_STATE_OPENED" "flow mc = PORT_FC_CREDIT" "peer_ready mc"
    "tx_ready c (b # q)" "credit_tx c \<noteq> 0"
  shows "\<exists>f c' s'. carries mc c f b \<and> linked p c' m mc s' \<and> dlci c' = dlci c \<and> rfc_state c' = rfc_state c \<and>
    tx_ready c' q \<and> unat (credit_tx c') = unat (credit_tx c) - 1 \<and> out s' = out s @ [f] \<and>
    (\<forall>k ev. port_send_loop (Suc k) p ev s =
      (if q = [] then Some ((ev OR PORT_EV_TXCHAR) OR PORT_EV_TXEMPTY, s')
       else port_send_loop k p (ev OR PORT_EV_TXCHAR) s'))"
proof -
  let ?c1 = "c\<lparr>tx := (tx c)\<lparr>queue := Some q, queue_size := word_of_nat (tx_bytes q)\<rparr>\<rparr>"
  let ?c2 = "data_sent mc b ?c1"
  let ?s1 = "pupd p (\<lambda>_. ?c1) s"
  let ?f = "data_frame mc c (piggyback mc ?c1 b) b"
  let ?s2 = "emit ?f (pupd p (data_sent mc b) ?s1)"
  note r = assms(5) [unfolded tx_ready_def]
  have pos: "0 < credit_tx c" "\<not> peer_fc (tx c)" using assms(6) r by (auto simp: word_neq_0_conv)
  have l1: "linked p ?c1 m mc ?s1" and l2: "linked p ?c2 m mc ?s2" using assms(1) by (simp_all add: linked_def)
  have upd: "pupd p (tx_update (\<lambda>t. t\<lparr>queue := Some q, queue_size := word_of_nat (tx_bytes q)\<rparr>)) s = ?s1"
    by (rule pupd_eqI [of p s c]) (use assms(1) in \<open>simp_all add: linked_def\<close>)
  have req: "RFCOMM_DataReq m (dlci c) b ?s1 = Some ?s2"
    using DataReq_eq [OF l1] assms(2) r by (simp add: data_frame_def)
  have cr: "credit_tx ?c2 = credit_tx c - 1" "peer_fc (tx ?c2) \<longleftrightarrow> credit_tx ?c2 = 0"
    using data_sent_credit [of mc ?c1 b] assms(3) pos by simp_all
  have sz: "(word_of_nat (tx_bytes q) :: u32) = 0 \<longleftrightarrow> q = []"
    using r tx_bytes_0 [of q] by (auto simp: word_of_nat_eq_0_iff dest: nat_dvd_not_less)
  have "queue_size (tx c) - ucast (bh_len b) = word_of_nat (tx_bytes q)"
    using r take_off [of b q] by simp
  moreover have "queue (tx c) = Some (b # q)" "pget p s = Some c" "mget m s = Some mc" "p_mcb c = Some m"
    using r assms(1) by (simp_all add: linked_def)
  ultimately have "port_send_loop (Suc k) p ev s =
      (if q = [] then Some ((ev OR PORT_EV_TXCHAR) OR PORT_EV_TXEMPTY, ?s2)
       else port_send_loop k p (ev OR PORT_EV_TXCHAR) ?s2)" for k ev
    using pos(2) assms(4) req l2 sz by (simp add: upd linked_def)
  moreover have "tx_ready ?c2 q" using r cr by (simp add: tx_ready_def)
  ultimately show ?thesis using l2 cr(1) pos(1)
    by - (rule exI [of _ ?f], rule exI [of _ ?c2], rule exI [of _ ?s2], simp add: unat_minus_1)
qed

lemma port_send_loop_ok:
  assumes "linked p c m mc s" "rfc_state c = RFC_STATE_OPENED" "flow mc = PORT_FC_CREDIT" "peer_ready mc" "tx_ready c q"
  shows "ok (port_send_loop (Suc (length q)) p ev s) (\<lambda>(ev', s'). \<exists>fs c'.
    (let n = min (unat (credit_tx c)) (length q) in
     out s' = out s @ fs \<and> list_all2 (carries mc c) fs (take n q) \<and>
     linked p c' m mc s' \<and> dlci c' = dlci c \<and> tx_ready c' (drop n q) \<and> unat (credit_tx c') = unat (credit_tx c) - n))"
  using assms
proof (induction q arbitrary: ev s c)
  case Nil
  then show ?case by (auto simp: linked_def tx_ready_def intro!: exI [of _ "[]"] exI [of _ c])
next
  case (Cons b q)
  note c = Cons.prems
  show ?case
  proof (cases "credit_tx c = 0")
    case True
    with c show ?thesis by (auto simp: linked_def tx_ready_def intro!: exI [of _ "[]"] exI [of _ c])
  next
    case False
    obtain f c2 s2 where t: "carries mc c f b" "linked p c2 m mc s2" "dlci c2 = dlci c" "rfc_state c2 = rfc_state c"
      "tx_ready c2 q" "unat (credit_tx c2) = unat (credit_tx c) - 1" "out s2 = out s @ [f]"
      "\<forall>k ev. port_send_loop (Suc k) p ev s =
        (if q = [] then Some ((ev OR PORT_EV_TXCHAR) OR PORT_EV_TXEMPTY, s2)
         else port_send_loop k p (ev OR PORT_EV_TXCHAR) s2)"
      using port_send_turn [OF c False] by auto
    have pos: "0 < unat (credit_tx c)" using False by (simp add: unat_gt_0)
    have fr: "carries mc c2 = carries mc c" using t(3) by (simp add: carries_def data_frame_def fun_eq_iff)
    have n: "min (unat (credit_tx c)) (length (b # q)) = Suc (min (unat (credit_tx c2)) (length q))"
      using pos t(6) by simp
    show ?thesis
    proof (cases "q = []")
      case True
      then show ?thesis unfolding Let_def n using t by (auto intro!: exI [of _ "[f]"] exI [of _ c2])
    next
      case False
      have "ok (port_send_loop (Suc (length q)) p (ev OR PORT_EV_TXCHAR) s2) (\<lambda>(ev', s'). \<exists>fs c'.
        (let n = min (unat (credit_tx c2)) (length q) in
         out s' = out s2 @ fs \<and> list_all2 (carries mc c2) fs (take n q) \<and>
         linked p c' m mc s' \<and> dlci c' = dlci c2 \<and> tx_ready c' (drop n q) \<and> unat (credit_tx c') = unat (credit_tx c2) - n))"
        by (rule Cons.IH [OF t(2) _ c(3,4) t(5)]) (use c(2) t(4) in simp)
      then show ?thesis unfolding Let_def n using False t
        by (auto simp: fr simp del: port_send_loop.simps elim!: ok_weaken)
    qed
  qed
qed

lemma flow_control_user_ok:
  assumes "linked p c m mc s"
  shows "ok (port_flow_control_user p s) (\<lambda>(e, s'). \<exists>u. linked p (c\<lparr>tx := (tx c)\<lparr>user_fc := u\<rparr>\<rparr>) m mc s' \<and> out s' = out s)"
proof -
  have c: "pget p s = Some c" "mget m s = Some mc" "p_mcb c = Some m" using assms by (simp_all add: linked_def)
  have id: "c\<lparr>tx := (tx c)\<lparr>user_fc := user_fc (tx c)\<rparr>\<rparr> = c" by (cases c) simp
  define u where "u = (peer_fc (tx c) \<or> \<not> peer_ready mc \<or> unat (queue_size (tx c)) > PORT_TX_HIGH_WM \<or>
     queue_length (tx c) > PORT_TX_BUF_HIGH_WM)"
  have eq: "port_flow_control_user p s = (if user_fc (tx c) = u then Some (0, s)
      else Some (if u then PORT_EV_FC else PORT_EV_FC OR PORT_EV_FCS, pupd p (tx_update (user_fc_update (\<lambda>_. u))) s))"
    by (simp only: port_flow_control_user_def c option.case Option.bind_lunit Let_def u_def)
  have l: "linked p (c\<lparr>tx := (tx c)\<lparr>user_fc := u\<rparr>\<rparr>) m mc (pupd p (tx_update (user_fc_update (\<lambda>_. u))) s)"
    using assms by (simp add: linked_def)
  have l': "linked p (c\<lparr>tx := (tx c)\<lparr>user_fc := user_fc (tx c)\<rparr>\<rparr>) m mc s" by (simp only: id assms)
  show ?thesis
  proof (cases "user_fc (tx c) = u")
    case True
    show ?thesis unfolding eq if_P [OF True] ok_Some prod.case using l' by blast
  next
    case False
    show ?thesis unfolding eq if_not_P [OF False] ok_Some prod.case pupd_simps using l by blast
  qed
qed

lemma send_tx_data_ok:
  assumes "linked p c m mc s" "rfc_state c = RFC_STATE_OPENED" "flow mc = PORT_FC_CREDIT" "peer_ready mc" "tx_ready c q"
  shows "ok (port_rfc_send_tx_data p s) (\<lambda>(ev, s'). \<exists>fs. out s' = out s @ fs \<and>
    drained p m mc c (unat (credit_tx c)) q fs s')"
proof (cases "queue_size (tx c) > 0")
  case True
  have ql: "queue_length (tx c) = length q" using assms(5) by (simp add: queue_length_def tx_ready_def)
  have c: "pget p s = Some c" using assms(1) by (simp add: linked_def)
  let ?n = "min (unat (credit_tx c)) (length q)"
  have fl: "ok (port_flow_control_user p s1) (\<lambda>(e, s'). \<exists>fs. out s' = out s @ fs \<and>
       drained p m mc c (unat (credit_tx c)) q fs s' \<and> (\<exists>c'. pget p s' = Some c'))"
    if "out s1 = out s @ fs" "list_all2 (carries mc c) fs (take ?n q)" "linked p c' m mc s1" "dlci c' = dlci c"
      "tx_ready c' (drop ?n q)" "unat (credit_tx c') = unat (credit_tx c) - ?n" for s1 fs c'
  proof (rule ok_weaken [OF flow_control_user_ok [OF that(3)]], clarify)
    fix e s' u assume l: "linked p (c'\<lparr>tx := (tx c')\<lparr>user_fc := u\<rparr>\<rparr>) m mc s'" "out s' = out s1"
    show "\<exists>fs. out s' = out s @ fs \<and> drained p m mc c (unat (credit_tx c)) q fs s' \<and> (\<exists>c'. pget p s' = Some c')"
      unfolding drained_def Let_def
      by (rule exI [of _ fs], intro conjI exI [of _ "c'\<lparr>tx := (tx c')\<lparr>user_fc := u\<rparr>\<rparr>"])
        (use that l in \<open>simp_all add: linked_def\<close>)
  qed
  have "ok (port_send_loop (Suc (length q)) p 0 s \<bind> (\<lambda>(ev, s). port_flow_control_user p s \<bind>
        (\<lambda>(e, s). Some (ev OR e, s))))
     (\<lambda>(ev, s'). \<exists>fs. out s' = out s @ fs \<and> drained p m mc c (unat (credit_tx c)) q fs s' \<and> (\<exists>c'. pget p s' = Some c'))"
    by (rule ok_bindI [OF port_send_loop_ok [OF assms, of 0]], clarsimp simp only: Let_def prod.case ok_bind)
      (rule ok_weaken [OF fl], assumption+, auto)
  then show ?thesis using True c
    by (auto simp: port_rfc_send_tx_data_def ql simp del: port_send_loop.simps elim!: ok_weaken)
next
  case False
  then have "queue_size (tx c) = 0" by (simp add: word_neq_0_conv [symmetric] word_gt_0)
  then have q: "q = []" using assms(5) tx_bytes_0 [of q]
    by (auto simp: tx_ready_def word_of_nat_eq_0_iff dest: nat_dvd_not_less)
  show ?thesis using False assms q
    by (auto simp: port_rfc_send_tx_data_def linked_def drained_def)
qed

lemma call_port_cb_out: "\<exists>cbs. out (call_port_cb c ev s) = out s @ cbs \<and> (\<forall>a \<in> set cbs. \<exists>cb ev h. a = Port_callback cb ev h)"
  by (auto simp: call_port_cb_def split: option.split)

lemma drained_cb [simp]: "drained p m mc c k q fs (call_port_cb c' ev s) = drained p m mc c k q fs s"
  by (simp add: drained_def linked_def)

lemma flow_one_ok:
  assumes "linked p c m mc s" "rfc_state c = RFC_STATE_OPENED" "flow mc = PORT_FC_CREDIT" "peer_ready mc" "tx_ready c q"
  shows "ok (port_flow_one p s) (\<lambda>s'. \<exists>fs cbs. out s' = out s @ fs @ cbs \<and>
    (\<forall>a \<in> set cbs. \<exists>cb ev h. a = Port_callback cb ev h) \<and> drained p m mc c (unat (credit_tx c)) q fs s')"
  unfolding port_flow_one_def
proof (rule ok_bindI [OF flow_control_user_ok [OF assms(1)]], clarify)
  fix e1 s1 u
  let ?c = "c\<lparr>tx := (tx c)\<lparr>user_fc := u\<rparr>\<rparr>"
  assume l: "linked p ?c m mc s1" and o: "out s1 = out s"
  have "ok (port_rfc_send_tx_data p s1) (\<lambda>(ev, s'). \<exists>fs. out s' = out s1 @ fs \<and>
    drained p m mc ?c (unat (credit_tx ?c)) q fs s')"
    by (rule send_tx_data_ok [OF l]) (use assms in simp_all)
  then show "ok (port_rfc_send_tx_data p s1 \<bind> (\<lambda>(e2, s). pget p s \<bind>
      (\<lambda>c. Some (call_port_cb c ((e1 OR e2) AND ev_mask c) s))))
    (\<lambda>s'. \<exists>fs cbs. out s' = out s @ fs @ cbs \<and>
      (\<forall>a \<in> set cbs. \<exists>cb ev h. a = Port_callback cb ev h) \<and> drained p m mc c (unat (credit_tx c)) q fs s')"
  proof (rule ok_bindI, clarify)
    fix e2 s2 fs
    assume o2: "out s2 = out s1 @ fs" and d: "drained p m mc ?c (unat (credit_tx ?c)) q fs s2"
    have d': "drained p m mc c (unat (credit_tx c)) q fs s2"
      using d by (simp add: drained_def carries_def [abs_def] data_frame_def)
    then obtain c2 where c2: "pget p s2 = Some c2" by (auto simp: drained_def linked_def Let_def)
    obtain cbs where cbs: "out (call_port_cb c2 ((e1 OR e2) AND ev_mask c2) s2) = out s2 @ cbs"
       "\<forall>a \<in> set cbs. \<exists>cb ev h. a = Port_callback cb ev h"
      using call_port_cb_out by blast
    show "ok (pget p s2 \<bind> (\<lambda>c. Some (call_port_cb c ((e1 OR e2) AND ev_mask c) s2)))
     (\<lambda>s'. \<exists>fs cbs. out s' = out s @ fs @ cbs \<and>
      (\<forall>a \<in> set cbs. \<exists>cb ev h. a = Port_callback cb ev h) \<and> drained p m mc c (unat (credit_tx c)) q fs s')"
      unfolding c2 ok_bind ok_Some drained_cb
      by (intro exI [of _ fs] exI [of _ cbs] conjI) (use cbs d' o o2 in simp_all)
  qed
qed

lemma rfc_inc_credit_eq:
  assumes "linked p c m mc s" "flow mc = PORT_FC_CREDIT" "credit_tx c = 0" "peer_fc (tx c)"
  shows "rfc_inc_credit p k s = port_flow_one p
     (pupd p (\<lambda>_. c\<lparr>credit_tx := ucast k, tx := (tx c)\<lparr>peer_fc := False\<rparr>\<rparr>) s)"
proof -
  have c: "pget p s = Some c" "mget m s = Some mc" "p_mcb c = Some m" "dlci c \<noteq> 0" using assms(1) by (simp_all add: linked_def)
  let ?s = "pupd p (credit_tx_update (\<lambda>x. x + ucast k)) s"
  have "linked p (c\<lparr>credit_tx := ucast k\<rparr>) m mc ?s" using assms by (simp add: linked_def)
  from linked_find [OF this] have "port_find_mcb_dlci_port (Some m) (dlci c) ?s = Some (Some p)" by simp
  moreover have "pupd p (tx_update (peer_fc_update (\<lambda>_. False))) ?s =
      pupd p (\<lambda>_. c\<lparr>credit_tx := ucast k, tx := (tx c)\<lparr>peer_fc := False\<rparr>\<rparr>) s"
    unfolding pupd_pupd by (rule pupd_eqI [OF c(1)]) (simp add: assms(3))
  ultimately show ?thesis using assms(2,4) c by (simp add: rfc_inc_credit_def PORT_FlowInd_def)
qed



section \<open>The receive window\<close>

lemma rfc_send_credit_eq:
  "mget m s = Some mc \<Longrightarrow> cmd_q mc = Some q \<Longrightarrow> rfc_send_credit m d k s =
     Some (cmd_sent m mc (q @ [cmd_buf L2CAP_MIN_OFFSET (credit_frame (RFCOMM_CR (is_initiator mc) True) d k)]) s)"
  by (simp add: rfc_send_credit_def check_send_cmd_eq)

lemma flow_control_peer_True:
  assumes "linked p c m mc s" "flow mc = PORT_FC_CREDIT" "cmd_q mc = Some q"
  shows "port_flow_control_peer p True n s = Some (
    if top_up c n = 0 then pupd p (\<lambda>_. consumed c n) s
    else cmd_sent m mc (q @ [cmd_buf L2CAP_MIN_OFFSET
       (credit_frame (RFCOMM_CR (is_initiator mc) True) (dlci c) (ucast (top_up c n)))]) (pupd p (\<lambda>_. consumed c n) s))"
proof -
  have c: "pget p s = Some c" "mget m s = Some mc" "p_mcb c = Some m" using assms(1) by (simp_all add: linked_def)
  define k where "k = (if n > credit_rx c then 0 else credit_rx c - n)"
  let ?grant = "k \<le> credit_rx_low c \<and> \<not> user_fc (rx c) \<and> credit_rx_max c > k"
  have t: "top_up c n = (if ?grant then credit_rx_max c - k else 0)"
    by (simp only: top_up_def Let_def k_def)
  then have t0: "top_up c n = 0 \<longleftrightarrow> \<not> ?grant" by (auto simp: word_less_nat_alt)
  have eq: "port_flow_control_peer p True n s =
    (if ?grant then rfc_send_credit m (dlci c) (ucast (credit_rx_max c - k)) (pupd p (credit_rx_update (\<lambda>_. k)) s) \<bind>
       (\<lambda>s. Some (pupd p (\<lambda>c. c\<lparr>credit_rx := credit_rx_max c, rx := (rx c)\<lparr>peer_fc := False\<rparr>\<rparr>) s))
     else Some (pupd p (credit_rx_update (\<lambda>_. k)) s))"
    by (simp add: port_flow_control_peer_def c assms(2) Let_def flip: k_def)
  have con: "consumed c n = (if ?grant then c\<lparr>credit_rx := credit_rx_max c, rx := (rx c)\<lparr>peer_fc := False\<rparr>\<rparr>
      else c\<lparr>credit_rx := k\<rparr>)"
    unfolding consumed_def Let_def t0 by (simp flip: k_def)
  show ?thesis
  proof (cases ?grant)
    case True
    have "pupd p (\<lambda>c. c\<lparr>credit_rx := credit_rx_max c, rx := (rx c)\<lparr>peer_fc := False\<rparr>\<rparr>) (pupd p (credit_rx_update (\<lambda>_. k)) s)
        = pupd p (\<lambda>_. consumed c n) s"
      unfolding pupd_pupd by (rule pupd_eqI [OF c(1)]) (simp add: con True)
    then show ?thesis using True c assms(3) t t0 unfolding eq
      by (simp add: rfc_send_credit_eq cmd_sent_pupd)
  next
    case False
    have "pupd p (credit_rx_update (\<lambda>_. k)) s = pupd p (\<lambda>_. consumed c n) s"
      unfolding con if_not_P [OF False] by (rule pupd_eqI [OF c(1)]) simp
    then show ?thesis using False t0 unfolding eq by (simp only: if_False if_True simp_thms)
  qed
qed

lemma credit_frame_uih: "k \<noteq> 0 \<Longrightarrow> credit_frame cr d k = uih_frame cr d k []"
  by (simp add: credit_frame_def uih_frame_def uih_header_def rfc_calc_fcs_def)

lemma top_up_spec:
  assumes "credit_rx c \<le> credit_rx_max c"
  shows "unat (credit_rx (consumed c n)) = (unat (credit_rx c) - unat n) + unat (top_up c n)"
    "credit_rx (consumed c n) \<le> credit_rx_max c" "top_up c n \<le> credit_rx_max c"
    "credit_rx_low c < credit_rx (consumed c n) \<or> user_fc (rx c) \<or> credit_rx (consumed c n) = credit_rx_max c"
proof -
  define k where "k = (if n > credit_rx c then 0 else credit_rx c - n)"
  have k: "unat k = unat (credit_rx c) - unat n" "k \<le> credit_rx c"
    by (auto simp: k_def word_less_nat_alt word_le_nat_alt unat_sub_if')
  have t: "top_up c n = (if k \<le> credit_rx_low c \<and> \<not> user_fc (rx c) \<and> credit_rx_max c > k then credit_rx_max c - k else 0)"
    by (simp only: top_up_def Let_def k_def)
  have con: "credit_rx (consumed c n) = (if top_up c n = 0 then k else credit_rx_max c)"
    unfolding consumed_def Let_def by (simp flip: k_def)
  have km: "k \<le> credit_rx_max c" using k(2) assms by simp
  have u: "unat (credit_rx_max c - k) = unat (credit_rx_max c) - unat k" using km by (simp add: unat_sub)
  show "unat (credit_rx (consumed c n)) = (unat (credit_rx c) - unat n) + unat (top_up c n)"
    unfolding con using km by (auto simp: t u k(1) [symmetric] word_less_nat_alt word_le_nat_alt)
  show "credit_rx (consumed c n) \<le> credit_rx_max c" unfolding con using km by simp
  show "top_up c n \<le> credit_rx_max c" unfolding t by (auto simp: word_le_nat_alt u)
  show "credit_rx_low c < credit_rx (consumed c n) \<or> user_fc (rx c) \<or> credit_rx (consumed c n) = credit_rx_max c"
    unfolding con using km by (auto simp: t)
qed

text \<open>
  C5: The receive window. After \<open>n\<close> buffers were read, the port's count of the credits the
  peer holds goes down by \<open>n\<close> and up by exactly the number granted in the frame that is sent;
  it never passes the window; and unless the user has stopped the flow, it ends above the low
  mark or at the full window, so the peer never starves. No frame is sent for a grant of zero.
\<close>

theorem port_flow_control_peer_tops_up:
  assumes "linked p c m mc s" and "flow mc = PORT_FC_CREDIT" and "cmd_q mc = Some q"
    and "credit_rx c \<le> credit_rx_max c" and "unat (credit_rx_max c) < 256"
  shows "ok (port_flow_control_peer p True n s) (\<lambda>s'. \<exists>c' (g :: u8).
    pget p s' = Some c' \<and>
    unat (credit_rx c') = (unat (credit_rx c) - unat n) + unat g \<and> credit_rx c' \<le> credit_rx_max c \<and>
    (credit_rx_low c < credit_rx c' \<or> user_fc (rx c) \<or> credit_rx c' = credit_rx_max c) \<and>
    s' = (if g = 0 then pupd p (\<lambda>_. c') s
      else cmd_sent m mc (q @ [cmd_buf L2CAP_MIN_OFFSET
             (uih_frame (RFCOMM_CR (is_initiator mc) True) (dlci c) g [])]) (pupd p (\<lambda>_. c') s)))"
proof -
  note t = top_up_spec [OF assms(4), of n]
  have "unat (top_up c n) < 256" using t(3) assms(5) by (simp add: word_le_nat_alt)
  then have g: "unat (ucast (top_up c n) :: u8) = unat (top_up c n)" by (rule unat_ucast_16_8)
  then have g0: "(ucast (top_up c n) :: u8) = 0 \<longleftrightarrow> top_up c n = 0" by (metis unat_eq_zero)
  have c: "pget p s = Some c" using assms(1) by (simp add: linked_def)
  show ?thesis unfolding flow_control_peer_True [OF assms(1,2,3)] ok_Some
    by (rule exI [of _ "consumed c n"], rule exI [of _ "ucast (top_up c n)"])
      (use t c g g0 in \<open>simp add: credit_frame_uih\<close>)
qed

theorem port_flow_control_peer_tops_up_witness:
  "ok (port_flow_control_peer 0 True 2 (pupd 0 (\<lambda>_. filled_port) link_st)) (\<lambda>s'. \<exists>c'. pget 0 s' = Some c' \<and> 8 < credit_rx c' \<and> credit_rx c' \<le> 10)"
proof -
  have "ok (port_flow_control_peer 0 True 2 (pupd 0 (\<lambda>_. filled_port) link_st)) (\<lambda>s'. \<exists>c' (g :: u8).
    pget 0 s' = Some c' \<and>
    unat (credit_rx c') = (unat (credit_rx filled_port) - unat (2 :: u16)) + unat g \<and> credit_rx c' \<le> credit_rx_max filled_port \<and>
    (credit_rx_low filled_port < credit_rx c' \<or> user_fc (rx filled_port) \<or> credit_rx c' = credit_rx_max filled_port) \<and>
    s' = (if g = 0 then pupd 0 (\<lambda>_. c') (pupd 0 (\<lambda>_. filled_port) link_st)
      else cmd_sent 0 link_mcb ([] @ [cmd_buf L2CAP_MIN_OFFSET
             (uih_frame (RFCOMM_CR (is_initiator link_mcb) True) (dlci filled_port) g [])]) (pupd 0 (\<lambda>_. c') (pupd 0 (\<lambda>_. filled_port) link_st))))"
    by (rule port_flow_control_peer_tops_up, rule linked_link)
      (simp_all add: filled_port_def link_mcb_def, simp_all add: link_port_def fresh_port_def port_set_defaults_def)
  then show ?thesis
    by (rule ok_weaken) (auto simp: filled_port_def link_port_def fresh_port_def port_set_defaults_def zero_data_def zero_port_def)
qed

section \<open>Receiving\<close>

lemma flow_control_peer_False:
  assumes "linked p c m mc s" "flow mc = PORT_FC_CREDIT"
  shows "\<exists>f. port_flow_control_peer p False n s = Some (pupd p (\<lambda>_. c\<lparr>rx := (rx c)\<lparr>peer_fc := f\<rparr>\<rparr>) s)"
proof -
  have c: "pget p s = Some c" "mget m s = Some mc" "p_mcb c = Some m" using assms(1) by (simp_all add: linked_def)
  have 1: "pupd p (rx_update (peer_fc_update (\<lambda>_. True))) s = pupd p (\<lambda>_. c\<lparr>rx := (rx c)\<lparr>peer_fc := True\<rparr>\<rparr>) s"
    by (rule pupd_eqI [OF c(1)]) simp
  have 2: "s = pupd p (\<lambda>_. c\<lparr>rx := (rx c)\<lparr>peer_fc := peer_fc (rx c)\<rparr>\<rparr>) s"
    by (rule pupd_id [OF c(1), symmetric]) (cases c, simp)
  have "port_flow_control_peer p False n s = Some (pupd p (rx_update (peer_fc_update (\<lambda>_. True))) s) \<or>
      port_flow_control_peer p False n s = Some s"
    using assms(2) c by (simp add: port_flow_control_peer_def)
  then show ?thesis using 1 2 by metis
qed

lemma rx_not_full:
  assumes q: "rx_ready c q" and n: "length (bh_payload b) < 2 ^ 16" and room: "rx_room c q (length (bh_payload b))"
  shows "queue_size (rx c) + ucast (bh_len b) = word_of_nat (tx_bytes (q @ [b]))"
    "\<not> (unat (queue_size (rx c) + ucast (bh_len b)) > PORT_RX_CRITICAL_WM \<or> queue_length (rx c) + 1 > unat (rx_buf_critical c))"
    "rx_ready (received q b c) (q @ [b])"
proof -
  have bytes: "tx_bytes (q @ [b]) < 2 ^ 32" using room by (simp add: rx_room_def)
  show sz: "queue_size (rx c) + ucast (bh_len b) = word_of_nat (tx_bytes (q @ [b]))"
    using q n by (simp add: rx_ready_def ucast_bh_len)
  have u: "unat (word_of_nat (tx_bytes (q @ [b])) :: u32) = tx_bytes q + length (bh_payload b)"
    using unat_of_nat_small [of "tx_bytes (q @ [b])", where 'a = 32] bytes by simp
  show "\<not> (unat (queue_size (rx c) + ucast (bh_len b)) > PORT_RX_CRITICAL_WM \<or> queue_length (rx c) + 1 > unat (rx_buf_critical c))"
    using room q unfolding sz u by (simp add: rx_room_def queue_length_def rx_ready_def)
  show "rx_ready (received q b c) (q @ [b])" using bytes by (simp add: rx_ready_def received_def)
qed

lemma DataInd_eq:
  assumes l: "linked p c m mc s" and f: "flow mc = PORT_FC_CREDIT"
    and cb: "p_data_callback c = None" "p_data_co_callback c = None"
    and q: "rx_ready c q" and n: "length (bh_payload b) < 2 ^ 16" and room: "rx_room c q (length (bh_payload b))"
  shows "\<exists>fc. let c2 = (received q b c)\<lparr>rx := (rx (received q b c))\<lparr>peer_fc := fc\<rparr>\<rparr>; s2 = pupd p (\<lambda>_. c2) s in
    PORT_DataInd E (Some m) (dlci c) b s =
     (if user_fc (rx c2)
      then Some (if rx_event c b AND PORT_EV_RXFLAG \<noteq> 0 then pupd p (rx_flag_ev_pending_update (\<lambda>_. True)) s2 else s2)
      else Some (call_port_cb c2 ((rx_event c b OR PORT_EV_RXCHAR) AND ev_mask c2) s2))"
proof -
  let ?c1 = "received q b c"
  have c: "pget p s = Some c" using l by (simp add: linked_def)
  have l1: "linked p ?c1 m mc (pupd p (\<lambda>_. ?c1) s)" unfolding received_def by (rule linked_rx [OF l])
  note full = rx_not_full [OF q n room]
  have upd: "pupd p (rx_update (\<lambda>r. r\<lparr>queue := Some (q @ [b]), queue_size := queue_size r + ucast (bh_len b)\<rparr>)) s =
      pupd p (\<lambda>_. ?c1) s"
    by (rule pupd_eqI [OF c]) (simp add: full(1) received_def)
  obtain fc where fc: "port_flow_control_peer p False 0 (pupd p (\<lambda>_. ?c1) s) =
      Some (pupd p (\<lambda>_. ?c1\<lparr>rx := (rx ?c1)\<lparr>peer_fc := fc\<rparr>\<rparr>) (pupd p (\<lambda>_. ?c1) s))"
    using flow_control_peer_False [OF l1 f] by blast
  let ?c2 = "?c1\<lparr>rx := (rx ?c1)\<lparr>peer_fc := fc\<rparr>\<rparr>"
  have s2: "pupd p (\<lambda>_. ?c2) (pupd p (\<lambda>_. ?c1) s) = pupd p (\<lambda>_. ?c2) s" by (simp add: comp_def)
  have g2: "pget p (pupd p (\<lambda>_. ?c2) s) = Some ?c2" using c by simp
  have qq: "queue (rx c) = Some q" using q by (simp add: rx_ready_def)
  show ?thesis
    unfolding PORT_DataInd_def linked_find [OF l] c cb Option.bind_lunit option.case if_not_P [OF full(2)] qq Let_def upd fc
      rx_event_def [symmetric] s2 g2
    by (rule exI [of _ fc]) (simp only: fc s2 g2 Option.bind_lunit)
qed

text \<open>
  C6: A received frame is queued. When the data fits below the critical marks (which a peer
  that keeps to its credits never passes), \<^verbatim>\<open>PORT_DataInd\<close> appends the buffer to the end
  of the receive queue of the port with that DLCI, keeps the byte count right, uses no credit
  of the peer, sends no frame, and tells the user once unless the user has stopped the flow.
\<close>

theorem PORT_DataInd_accepts:
  assumes l: "linked p c m mc s" and f: "flow mc = PORT_FC_CREDIT"
    and cb: "p_data_callback c = None" "p_data_co_callback c = None"
    and q: "rx_ready c q" and n: "length (bh_payload b) < 2 ^ 16" and room: "rx_room c q (length (bh_payload b))"
  shows "ok (PORT_DataInd E (Some m) (dlci c) b s) (\<lambda>s'. \<exists>c'. linked p c' m mc s' \<and> dlci c' = dlci c \<and>
    rx_ready c' (q @ [b]) \<and> credit_rx c' = credit_rx c \<and>
    out s' = (if user_fc (rx c) then out s
      else out (call_port_cb c ((rx_event c b OR PORT_EV_RXCHAR) AND ev_mask c) s)))"
proof -
  obtain fc where eq: "let c2 = (received q b c)\<lparr>rx := (rx (received q b c))\<lparr>peer_fc := fc\<rparr>\<rparr>; s2 = pupd p (\<lambda>_. c2) s in
    PORT_DataInd E (Some m) (dlci c) b s =
     (if user_fc (rx c2)
      then Some (if rx_event c b AND PORT_EV_RXFLAG \<noteq> 0 then pupd p (rx_flag_ev_pending_update (\<lambda>_. True)) s2 else s2)
      else Some (call_port_cb c2 ((rx_event c b OR PORT_EV_RXCHAR) AND ev_mask c2) s2))"
    using DataInd_eq [OF assms] by blast
  let ?c2 = "(received q b c)\<lparr>rx := (rx (received q b c))\<lparr>peer_fc := fc\<rparr>\<rparr>"
  let ?s2 = "pupd p (\<lambda>_. ?c2) s"
  have r: "rx_ready ?c2 (q @ [b])" using rx_not_full(3) [OF q n room] by simp
  have l2: "linked p ?c2 m mc ?s2" using l by (simp add: linked_def received_def)
  have l3: "linked p (?c2\<lparr>rx_flag_ev_pending := True\<rparr>) m mc (pupd p (rx_flag_ev_pending_update (\<lambda>_. True)) ?s2)"
    "rx_ready (?c2\<lparr>rx_flag_ev_pending := True\<rparr>) (q @ [b])"
    using l2 r by (simp_all add: linked_def rx_ready_def)
  have out: "out (call_port_cb ?c2 ev ?s2) = out (call_port_cb c ev s)" "ev_mask ?c2 = ev_mask c" for ev
    by (simp_all add: call_port_cb_def received_def split: option.split)
  have l4: "linked p ?c2 m mc (call_port_cb ?c2 ev ?s2)" for ev using l2 by (simp add: linked_def)
  have f: "user_fc (rx ?c2) = user_fc (rx c)" "dlci ?c2 = dlci c" "credit_rx ?c2 = credit_rx c" by (simp_all add: received_def)
  note eq' = eq [unfolded Let_def f out(2)]
  consider (flag) "user_fc (rx c)" "rx_event c b AND PORT_EV_RXFLAG \<noteq> 0"
    | (held) "user_fc (rx c)" "\<not> rx_event c b AND PORT_EV_RXFLAG \<noteq> 0" | (told) "\<not> user_fc (rx c)" by blast
  then show ?thesis
  proof cases
    case flag
    show ?thesis unfolding eq' if_P [OF flag(1)] if_P [OF flag(2)] ok_Some
      by (rule exI [of _ "?c2\<lparr>rx_flag_ev_pending := True\<rparr>"]) (use l3 f in simp)
  next
    case held
    show ?thesis unfolding eq' if_P [OF held(1)] if_not_P [OF held(2)] ok_Some
      by (rule exI [of _ ?c2]) (use l2 r f in simp)
  next
    case told
    show ?thesis unfolding eq' if_not_P [OF told] ok_Some out(1)
      by (rule exI [of _ ?c2]) (use l4 r f in simp)
  qed
qed

theorem PORT_DataInd_accepts_witness:
  "ok (PORT_DataInd idle_env (Some 0) 2 (buf [7]) (pupd 0 (\<lambda>_. filled_port) link_st))
     (\<lambda>s'. \<exists>c'. pget 0 s' = Some c' \<and> queue (rx c') = Some [buf [1, 2], buf [3], buf [7]] \<and> queue_size (rx c') = 4)"
proof -
  let ?s = "pupd 0 (\<lambda>_. filled_port) link_st"
  have d: "dlci filled_port = 2" "p_mcb filled_port = Some 0"
    by (simp_all add: filled_port_def link_port_def fresh_port_def)
  have "ok (PORT_DataInd idle_env (Some 0) (dlci filled_port) (buf [7]) ?s) (\<lambda>s'. \<exists>c'. linked 0 c' 0 link_mcb s' \<and>
    dlci c' = dlci filled_port \<and> rx_ready c' ([buf [1, 2], buf [3]] @ [buf [7]]) \<and> credit_rx c' = credit_rx filled_port \<and>
    out s' = (if user_fc (rx filled_port) then out ?s
      else out (call_port_cb filled_port ((rx_event filled_port (buf [7]) OR PORT_EV_RXCHAR) AND ev_mask filled_port) ?s)))"
    by (rule PORT_DataInd_accepts [OF linked_link [OF d(2,1)]])
      (simp_all add: filled_port_def link_mcb_def rx_ready_def rx_room_def buf_def,
       simp_all add: link_port_def fresh_port_def port_set_defaults_def zero_port_def)
  then show ?thesis unfolding d
    by (rule ok_weaken) (auto simp: linked_def rx_ready_def buf_def)
qed

end
