(* ===== verification/Rfc_Port_Fsm.thy ===== *)
theory Rfc_Port_Fsm
  imports Port_Rfc
begin

text \<open>
  The port machine (\<^verbatim>\<open>rfc_port_fsm.cc\<close>): one function per state and the dispatcher
  \<^verbatim>\<open>rfc_port_sm_execute\<close>, and the handlers of the control messages that concern a port
  (PN, RPN, MSC, RLS, NSC, TEST, FCON, FCOFF) and of L2CAP congestion. Writing to the
  snoop log is left out.
\<close>

section \<open>The port machine\<close>

definition rfc_port_sm_state_closed :: "nat \<Rightarrow> tRFC_PORT_EVENT \<Rightarrow> rfc_st \<Rightarrow> rfc_st option" where
  "rfc_port_sm_state_closed p ev s = do {
     c \<leftarrow> pget p s;
     case ev of
       RFC_PORT_EVENT_OPEN \<Rightarrow> do {
         m \<leftarrow> p_mcb c;
         mc \<leftarrow> mget m s;
         let s = pupd p (rfc_state_update (\<lambda>_. RFC_STATE_ORIG_WAIT_SEC_CHECK)) s;
         Some (emit (Btm_sec_mx_access_request (mcb_bd_addr mc) True (sec_mask c) p) s)
       }
     | RFC_PORT_EVENT_SABME \<Rightarrow> do {
         m \<leftarrow> p_mcb c;
         s \<leftarrow> rfc_timer_stop m s;
         mc \<leftarrow> mget m s;
         let s = pupd p (rfc_state_update (\<lambda>_. RFC_STATE_TERM_WAIT_SEC_CHECK)) s;
         Some (emit (Btm_sec_mx_access_request (mcb_bd_addr mc) False (sec_mask c) p) s)
       }
     | RFC_PORT_EVENT_DM \<Rightarrow> rfc_port_closed p s
     | RFC_PORT_EVENT_UIH b \<Rightarrow> do { m \<leftarrow> p_mcb c; rfc_send_dm m (dlci c) False s }
     | RFC_PORT_EVENT_DISC \<Rightarrow> do { m \<leftarrow> p_mcb c; rfc_send_dm m (dlci c) False s }
     | RFC_PORT_EVENT_TIMEOUT \<Rightarrow> PORT_TimeOutCloseMux (p_mcb c) s
     | _ \<Rightarrow> Some s
   }"

definition rfc_port_sm_sabme_wait_ua :: "nat \<Rightarrow> tRFC_PORT_EVENT \<Rightarrow> rfc_st \<Rightarrow> rfc_st option" where
  "rfc_port_sm_sabme_wait_ua p ev s = do {
     c \<leftarrow> pget p s;
     case ev of
       RFC_PORT_EVENT_CLOSE \<Rightarrow> do {
         s \<leftarrow> rfc_port_timer_start p RFC_DISC_TIMEOUT s;
         m \<leftarrow> p_mcb c;
         s \<leftarrow> rfc_send_disc m (dlci c) s;
         Some (pupd p (\<lambda>c. c\<lparr>expected_rsp := 0, rfc_state := RFC_STATE_DISC_WAIT_UA\<rparr>) s)
       }
     | RFC_PORT_EVENT_CLEAR \<Rightarrow> rfc_port_closed p s
     | RFC_PORT_EVENT_UA \<Rightarrow> do {
         s \<leftarrow> rfc_port_timer_stop p s;
         let s = pupd p (rfc_state_update (\<lambda>_. RFC_STATE_OPENED)) s;
         m \<leftarrow> p_mcb c;
         mc \<leftarrow> mget m s;
         PORT_DlcEstablishCnf m (dlci c) (peer_l2cap_mtu mc) RFCOMM_SUCCESS s
       }
     | RFC_PORT_EVENT_DM \<Rightarrow> do {
         m \<leftarrow> p_mcb c;
         mc \<leftarrow> mget m s;
         let s = mupd m (is_disc_initiator_update (\<lambda>_. True)) s;
         s \<leftarrow> PORT_DlcEstablishCnf m (dlci c) (peer_l2cap_mtu mc) RFCOMM_ERROR s;
         rfc_port_closed p s
       }
     | RFC_PORT_EVENT_DISC \<Rightarrow> do {
         m \<leftarrow> p_mcb c;
         s \<leftarrow> rfc_send_ua m (dlci c) s;
         mc \<leftarrow> mget m s;
         s \<leftarrow> PORT_DlcEstablishCnf m (dlci c) (peer_l2cap_mtu mc) RFCOMM_ERROR s;
         rfc_port_closed p s
       }
     | RFC_PORT_EVENT_SABME \<Rightarrow> do { m \<leftarrow> p_mcb c; rfc_send_ua m (dlci c) s }
     | RFC_PORT_EVENT_TIMEOUT \<Rightarrow> do {
         let s = pupd p (rfc_state_update (\<lambda>_. RFC_STATE_CLOSED)) s;
         m \<leftarrow> p_mcb c;
         mc \<leftarrow> mget m s;
         PORT_DlcEstablishCnf m (dlci c) (peer_l2cap_mtu mc) RFCOMM_ERROR s
       }
     | _ \<Rightarrow> Some s
   }"

definition rfc_port_sm_term_wait_sec_check :: "nat \<Rightarrow> tRFC_PORT_EVENT \<Rightarrow> rfc_st \<Rightarrow> rfc_st option" where
  "rfc_port_sm_term_wait_sec_check p ev s = do {
     c \<leftarrow> pget p s;
     case ev of
       RFC_PORT_EVENT_SEC_COMPLETE success \<Rightarrow>
         if \<not> success then
           case p_mcb c of
             None \<Rightarrow> Some s
           | Some m \<Rightarrow> do {
               s \<leftarrow> rfc_send_dm m (dlci c) True s;
               let s = mupd m (is_disc_initiator_update (\<lambda>_. True)) s;
               port_rfc_closed p PORT_SEC_FAILED s
             }
         else do {
           m \<leftarrow> p_mcb c;
           mc \<leftarrow> mget m s;
           PORT_DlcEstablishInd m (dlci c) (peer_l2cap_mtu mc) s
         }
     | RFC_PORT_EVENT_CLEAR \<Rightarrow> do {
         m \<leftarrow> p_mcb c;
         mc \<leftarrow> mget m s;
         rfc_port_closed p (emit (Btm_sec_abort_access_req (mcb_bd_addr mc)) s)
       }
     | RFC_PORT_EVENT_DISC \<Rightarrow> do {
         m \<leftarrow> p_mcb c;
         mc \<leftarrow> mget m s;
         let s = emit (Btm_sec_abort_access_req (mcb_bd_addr mc)) s;
         let s = pupd p (rfc_state_update (\<lambda>_. RFC_STATE_CLOSED)) s;
         s \<leftarrow> rfc_send_ua m (dlci c) s;
         PORT_DlcReleaseInd m (dlci c) s
       }
     | RFC_PORT_EVENT_ESTABLISH_RSP result \<Rightarrow>
         if (ucast result :: u8) \<noteq> 0 then
           case p_mcb c of None \<Rightarrow> Some s | Some m \<Rightarrow> rfc_send_dm m (dlci c) True s
         else do {
           m \<leftarrow> p_mcb c;
           s \<leftarrow> rfc_send_ua m (dlci c) s;
           Some (pupd p (rfc_state_update (\<lambda>_. RFC_STATE_OPENED)) s)
         }
     | _ \<Rightarrow> Some s
   }"

definition rfc_port_sm_orig_wait_sec_check :: "nat \<Rightarrow> tRFC_PORT_EVENT \<Rightarrow> rfc_st \<Rightarrow> rfc_st option" where
  "rfc_port_sm_orig_wait_sec_check p ev s = do {
     c \<leftarrow> pget p s;
     case ev of
       RFC_PORT_EVENT_SEC_COMPLETE success \<Rightarrow> do {
         m \<leftarrow> p_mcb c;
         if \<not> success then do {
           mc \<leftarrow> mget m s;
           let s = mupd m (is_disc_initiator_update (\<lambda>_. True)) s;
           s \<leftarrow> PORT_DlcEstablishCnf m (dlci c) 0 RFCOMM_SECURITY_ERR s;
           rfc_port_closed p s
         } else do {
           s \<leftarrow> rfc_send_sabme m (dlci c) s;
           s \<leftarrow> rfc_port_timer_start p RFC_PORT_T1_TIMEOUT s;
           Some (pupd p (rfc_state_update (\<lambda>_. RFC_STATE_SABME_WAIT_UA)) s)
         }
       }
     | RFC_PORT_EVENT_CLOSE \<Rightarrow> do {
         m \<leftarrow> p_mcb c;
         mc \<leftarrow> mget m s;
         rfc_port_closed p (emit (Btm_sec_abort_access_req (mcb_bd_addr mc)) s)
       }
     | _ \<Rightarrow> Some s
   }"

definition rfc_port_uplink_data :: "rfc_env \<Rightarrow> nat \<Rightarrow> BT_HDR \<Rightarrow> rfc_st \<Rightarrow> rfc_st option" where
  "rfc_port_uplink_data E p b s = do {
     c \<leftarrow> pget p s;
     PORT_DataInd E (p_mcb c) (dlci c) b s
   }"

definition rfc_port_sm_opened :: "rfc_env \<Rightarrow> nat \<Rightarrow> tRFC_PORT_EVENT \<Rightarrow> rfc_st \<Rightarrow> rfc_st option" where
  "rfc_port_sm_opened E p ev s = do {
     c \<leftarrow> pget p s;
     case ev of
       RFC_PORT_EVENT_CLOSE \<Rightarrow> do {
         s \<leftarrow> rfc_port_timer_start p RFC_DISC_TIMEOUT s;
         m \<leftarrow> p_mcb c;
         s \<leftarrow> rfc_send_disc m (dlci c) s;
         Some (pupd p (\<lambda>c. c\<lparr>expected_rsp := 0, rfc_state := RFC_STATE_DISC_WAIT_UA\<rparr>) s)
       }
     | RFC_PORT_EVENT_CLEAR \<Rightarrow> rfc_port_closed p s
     | RFC_PORT_EVENT_DATA b \<Rightarrow> do {
         m \<leftarrow> p_mcb c;
         mc \<leftarrow> mget m s;
         let grant = (flow mc = PORT_FC_CREDIT \<and> bh_len b < peer_mtu c \<and> \<not> user_fc (rx c) \<and>
                      credit_rx_max c > credit_rx c);
         let b = b\<lparr>bh_layer_specific :=
                    (if grant then ucast (ucast (credit_rx_max c - credit_rx c) :: u8) else 0)\<rparr>;
         let s = (if grant then pupd p (\<lambda>c. c\<lparr>credit_rx := credit_rx_max c\<rparr>) s else s);
         s \<leftarrow> rfc_send_buf_uih m (dlci c) b s;
         rfc_dec_credit p s
       }
     | RFC_PORT_EVENT_SABME \<Rightarrow> do { m \<leftarrow> p_mcb c; rfc_send_ua m (dlci c) s }
     | RFC_PORT_EVENT_DM \<Rightarrow> do {
         m \<leftarrow> p_mcb c;
         s \<leftarrow> PORT_DlcReleaseInd m (dlci c) s;
         rfc_port_closed p s
       }
     | RFC_PORT_EVENT_DISC \<Rightarrow> do {
         let s = pupd p (rfc_state_update (\<lambda>_. RFC_STATE_CLOSED)) s;
         m \<leftarrow> p_mcb c;
         s \<leftarrow> rfc_send_ua m (dlci c) s;
         if queue_length (rx c) \<noteq> 0 then rfc_port_timer_start p RFC_DISC_TIMEOUT s
         else PORT_DlcReleaseInd m (dlci c) s
       }
     | RFC_PORT_EVENT_UIH b \<Rightarrow> rfc_port_uplink_data E p b s
     | RFC_PORT_EVENT_TIMEOUT \<Rightarrow> PORT_TimeOutCloseMux (p_mcb c) s
     | _ \<Rightarrow> Some s
   }"

definition rfc_port_sm_disc_wait_ua ::
    "rfc_env \<Rightarrow> nat \<Rightarrow> tRFC_PORT_EVENT \<Rightarrow> rfc_st \<Rightarrow> rfc_st option" where
  "rfc_port_sm_disc_wait_ua E p ev s = do {
     c \<leftarrow> pget p s;
     case ev of
       RFC_PORT_EVENT_CLEAR \<Rightarrow> rfc_port_closed p s
     | RFC_PORT_EVENT_UA \<Rightarrow> do {
         m \<leftarrow> p_mcb c;
         mc \<leftarrow> mget m s;
         rfc_port_closed p (mupd m (is_disc_initiator_update (\<lambda>_. True)) s)
       }
     | RFC_PORT_EVENT_DM \<Rightarrow>
         if always_disc_initiator E then do {
           m \<leftarrow> p_mcb c;
           mc \<leftarrow> mget m s;
           rfc_port_closed p (mupd m (is_disc_initiator_update (\<lambda>_. True)) s)
         } else rfc_port_closed p s
     | RFC_PORT_EVENT_SABME \<Rightarrow> do { m \<leftarrow> p_mcb c; rfc_send_dm m (dlci c) True s }
     | RFC_PORT_EVENT_DISC \<Rightarrow> do { m \<leftarrow> p_mcb c; rfc_send_dm m (dlci c) True s }
     | RFC_PORT_EVENT_UIH b \<Rightarrow> do { m \<leftarrow> p_mcb c; rfc_send_dm m (dlci c) False s }
     | RFC_PORT_EVENT_TIMEOUT \<Rightarrow> rfc_port_closed p s
     | _ \<Rightarrow> Some s
   }"

definition rfc_port_sm_execute ::
    "rfc_env \<Rightarrow> nat \<Rightarrow> tRFC_PORT_EVENT \<Rightarrow> rfc_st \<Rightarrow> rfc_st option" where
  "rfc_port_sm_execute E p ev s = do {
     c \<leftarrow> pget p s;
     case rfc_state c of
       RFC_STATE_CLOSED \<Rightarrow> rfc_port_sm_state_closed p ev s
     | RFC_STATE_SABME_WAIT_UA \<Rightarrow> rfc_port_sm_sabme_wait_ua p ev s
     | RFC_STATE_ORIG_WAIT_SEC_CHECK \<Rightarrow> rfc_port_sm_orig_wait_sec_check p ev s
     | RFC_STATE_TERM_WAIT_SEC_CHECK \<Rightarrow> rfc_port_sm_term_wait_sec_check p ev s
     | RFC_STATE_OPENED \<Rightarrow> rfc_port_sm_opened E p ev s
     | RFC_STATE_DISC_WAIT_UA \<Rightarrow> rfc_port_sm_disc_wait_ua E p ev s
   }"

text \<open>Entry points from the timers and from the security manager (\<^verbatim>\<open>rfc_utils.cc\<close>).\<close>

definition rfcomm_port_timer_timeout :: "rfc_env \<Rightarrow> nat \<Rightarrow> rfc_st \<Rightarrow> rfc_st option" where
  "rfcomm_port_timer_timeout E p s = rfc_port_sm_execute E p RFC_PORT_EVENT_TIMEOUT s"

definition rfc_sec_check_complete :: "rfc_env \<Rightarrow> nat \<Rightarrow> bool \<Rightarrow> rfc_st \<Rightarrow> rfc_st option" where
  "rfc_sec_check_complete E p success s = do {
     c \<leftarrow> pget p s;
     if \<not> in_use c \<or> rfc_state c \<noteq> RFC_STATE_ORIG_WAIT_SEC_CHECK \<and>
                      rfc_state c \<noteq> RFC_STATE_TERM_WAIT_SEC_CHECK
     then Some s
     else rfc_port_sm_execute E p (RFC_PORT_EVENT_SEC_COMPLETE success) s
   }"

section \<open>Control messages\<close>

definition rfc_process_pn :: "rfc_env \<Rightarrow> nat \<Rightarrow> bool \<Rightarrow> MX_FRAME \<Rightarrow> rfc_st \<Rightarrow> rfc_st option" where
  "rfc_process_pn E m is_command fr s = do {
     let d = f_dlci fr;
     mc \<leftarrow> mget m s;
     if is_command then
       if mcb_state mc \<noteq> RFC_MX_STATE_DISC_WAIT_UA
       then PORT_ParNegInd E m d (pn_mtu fr) (pn_conv_layer fr) (pn_k fr) s
       else rfc_send_dm m d False s
     else do {
       pp \<leftarrow> port_find_mcb_dlci_port (Some m) d s;
       case pp of None \<Rightarrow> Some s | Some p \<Rightarrow> do {
         c \<leftarrow> pget p s;
         if expected_rsp c AND RFC_RSP_PN = 0 then Some s else do {
           let s = pupd p (expected_rsp_update (\<lambda>r. r AND NOT RFC_RSP_PN)) s;
           s \<leftarrow> rfc_port_timer_stop p s;
           PORT_ParNegCnf m d (pn_mtu fr) (pn_conv_layer fr) (pn_k fr) s
         }
       }
     }
   }"

definition rfc_set_port_settings :: "PortSettings \<Rightarrow> MX_FRAME \<Rightarrow> PortSettings" where
  "rfc_set_port_settings ps fr =
     (let pm = rpn_param_mask fr in
      ps\<lparr>baud_rate := (if pm AND 0x0001 \<noteq> 0 then rpn_baud_rate fr else baud_rate ps),
         byte_size := (if pm AND 0x0002 \<noteq> 0 then rpn_byte_size fr else byte_size ps),
         stop_bits := (if pm AND 0x0004 \<noteq> 0 then rpn_stop_bits fr else stop_bits ps),
         parity := (if pm AND 0x0008 \<noteq> 0 then rpn_parity fr else parity ps),
         parity_type := (if pm AND 0x0010 \<noteq> 0 then rpn_parity_type fr else parity_type ps),
         fc_type := (if pm AND 0x3F00 \<noteq> 0 then rpn_fc_type fr else fc_type ps),
         xon_char := (if pm AND 0x0020 \<noteq> 0 then rpn_xon_char fr else xon_char ps),
         xoff_char := (if pm AND 0x0040 \<noteq> 0 then rpn_xoff_char fr else xoff_char ps)\<rparr>)"

text \<open>The end of \<^verbatim>\<open>rfc_process_rpn\<close>: were the proposed parameters accepted?\<close>

definition rfc_rpn_check :: "nat \<Rightarrow> nat \<Rightarrow> u8 \<Rightarrow> u16 \<Rightarrow> rfc_st \<Rightarrow> rfc_st option" where
  "rfc_rpn_check m p d pmask s = do {
     c \<leftarrow> pget p s;
     if pmask AND RFCOMM_RPN_PM_RTR = RFCOMM_RPN_PM_RTR \<or> pmask AND RFCOMM_RPN_PM_RTC = RFCOMM_RPN_PM_RTC
     then PORT_PortNegCnf m (dlci c) RFCOMM_SUCCESS s
     else if fc_type (peer_port_settings c) = RFCOMM_FC_RTR then do {
       let ps = (peer_port_settings c)\<lparr>fc_type := RFCOMM_FC_RTC\<rparr>;
       let s = pupd p (\<lambda>c. c\<lparr>peer_port_settings := ps, expected_rsp := expected_rsp c OR RFC_RSP_RPN\<rparr>) s;
       s \<leftarrow> rfc_send_rpn m d True (Some ps) RFCOMM_RPN_PM_RTC s;
       rfc_port_timer_start p RFC_T2_TIMEOUT s
     }
     else if fc_type (peer_port_settings c) = RFCOMM_FC_RTC then
       PORT_PortNegCnf m (dlci c) RFCOMM_SUCCESS
         (pupd p (peer_port_settings_update (fc_type_update (\<lambda>_. 0))) s)
     else Some s
   }"

definition rfc_process_rpn :: "nat \<Rightarrow> bool \<Rightarrow> bool \<Rightarrow> MX_FRAME \<Rightarrow> rfc_st \<Rightarrow> rfc_st option" where
  "rfc_process_rpn m is_command is_request fr s = do {
     let d = f_dlci fr;
     pp \<leftarrow> port_find_mcb_dlci_port (Some m) d s;
     case pp of
       None \<Rightarrow>
         if is_command then PORT_PortNegInd m d (rfc_set_port_settings zero_settings fr) (rpn_param_mask fr) s
         else Some s
     | Some p \<Rightarrow> do {
         c \<leftarrow> pget p s;
         if is_command \<and> is_request then rfc_send_rpn m d False (Some (peer_port_settings c)) 0 s
         else do {
           let ps = rfc_set_port_settings (peer_port_settings c) fr;
           if is_command then PORT_PortNegInd m d ps (rpn_param_mask fr) s
           else if expected_rsp c AND (RFC_RSP_RPN OR RFC_RSP_RPN_REPLY) = 0 then Some s
           else do {
             s \<leftarrow> rfc_port_timer_stop p s;
             if expected_rsp c AND RFC_RSP_RPN_REPLY \<noteq> 0 then do {
               let s = pupd p (\<lambda>c. c\<lparr>expected_rsp := expected_rsp c AND NOT RFC_RSP_RPN_REPLY,
                                     peer_port_settings := ps\<rparr>) s;
               if fc_type ps = RFCOMM_FC_RTR \<or> fc_type ps = RFCOMM_FC_RTC then
                 rfc_rpn_check m p d RFCOMM_RPN_PM_MASK
                   (s\<lparr>rx_frame := (rx_frame s)\<lparr>rpn_param_mask := RFCOMM_RPN_PM_MASK\<rparr>\<rparr>)
               else do {
                 let ps' = ps\<lparr>fc_type := RFCOMM_FC_RTR\<rparr>;
                 let s = pupd p (\<lambda>c. c\<lparr>peer_port_settings := ps',
                                       expected_rsp := expected_rsp c OR RFC_RSP_RPN\<rparr>) s;
                 s \<leftarrow> rfc_send_rpn m d True (Some ps') RFCOMM_RPN_PM_RTR s;
                 rfc_port_timer_start p RFC_T2_TIMEOUT s
               }
             } else
               rfc_rpn_check m p d (rpn_param_mask fr)
                 (pupd p (expected_rsp_update (\<lambda>r. r AND NOT RFC_RSP_RPN)) s)
           }
         }
       }
   }"

text \<open>The modem signals and the flow control bit of a received MSC.\<close>

definition msc_pars :: "MX_FRAME \<Rightarrow> tPORT_CTRL" where
  "msc_pars fr = \<lparr>modem_signal =
       (if msc_signals fr AND RFCOMM_MSC_RTC \<noteq> 0 then MODEM_SIGNAL_DTRDSR else 0) OR
       (if msc_signals fr AND RFCOMM_MSC_RTR \<noteq> 0 then MODEM_SIGNAL_RTSCTS else 0) OR
       (if msc_signals fr AND RFCOMM_MSC_IC \<noteq> 0 then MODEM_SIGNAL_RI else 0) OR
       (if msc_signals fr AND RFCOMM_MSC_DV \<noteq> 0 then MODEM_SIGNAL_DCD else 0),
     break_signal = (if msc_break_present fr \<noteq> 0 then msc_break_duration fr else 0),
     discard_buffers = 0, break_signal_seq = 1,
     ctrl_fc = (msc_signals fr AND RFCOMM_MSC_FC = RFCOMM_MSC_FC)\<rparr>"

definition rfc_process_msc :: "nat \<Rightarrow> bool \<Rightarrow> MX_FRAME \<Rightarrow> rfc_st \<Rightarrow> rfc_st option" where
  "rfc_process_msc m is_command fr s = do {
     let d = f_dlci fr;
     pp \<leftarrow> port_find_mcb_dlci_port (Some m) d s;
     case pp of None \<Rightarrow> Some s | Some p \<Rightarrow> do {
       let pars = msc_pars fr;
       if is_command then do {
         s \<leftarrow> rfc_send_msc m d False pars s;
         c \<leftarrow> pget p s;
         m' \<leftarrow> p_mcb c;
         mc \<leftarrow> mget m' s;
         s \<leftarrow> (if flow mc \<noteq> PORT_FC_CREDIT then do {
             let s = pupd p (peer_ctrl_update (ctrl_fc_update (\<lambda>_. ctrl_fc pars))) s;
             if ctrl_fc pars \<noteq> peer_fc (tx c) then PORT_FlowInd m d (\<not> ctrl_fc pars) s else Some s
           } else Some s);
         PORT_ControlInd m d pars s
       } else do {
         c \<leftarrow> pget p s;
         if expected_rsp c AND RFC_RSP_MSC = 0 then Some s else do {
           let s = pupd p (expected_rsp_update (\<lambda>r. r AND NOT RFC_RSP_MSC)) s;
           s \<leftarrow> rfc_port_timer_stop p s;
           PORT_ControlCnf (p_mcb c) (dlci c) s
         }
       }
     }
   }"

definition rfc_process_rls :: "nat \<Rightarrow> bool \<Rightarrow> MX_FRAME \<Rightarrow> rfc_st \<Rightarrow> rfc_st option" where
  "rfc_process_rls m is_command fr s =
     (if is_command then do {
        s \<leftarrow> PORT_LineStatusInd m (f_dlci fr) (rls_line_status fr) s;
        rfc_send_rls m (f_dlci fr) False (rls_line_status fr) s
      } else do {
        pp \<leftarrow> port_find_mcb_dlci_port (Some m) (f_dlci fr) s;
        case pp of None \<Rightarrow> Some s | Some p \<Rightarrow> do {
          c \<leftarrow> pget p s;
          if expected_rsp c AND RFC_RSP_RLS = 0 then Some s
          else rfc_port_timer_stop p (pupd p (expected_rsp_update (\<lambda>r. r AND NOT RFC_RSP_RLS)) s)
        }
      })"

definition rfc_process_nsc :: "nat \<Rightarrow> MX_FRAME \<Rightarrow> rfc_st \<Rightarrow> rfc_st option" where
  "rfc_process_nsc m fr s = Some s"

definition rfc_process_test_rsp :: "nat \<Rightarrow> BT_HDR \<Rightarrow> rfc_st \<Rightarrow> rfc_st option" where
  "rfc_process_test_rsp m b s = Some s"

definition rfc_process_fcon :: "nat \<Rightarrow> bool \<Rightarrow> rfc_st \<Rightarrow> rfc_st option" where
  "rfc_process_fcon m is_command s =
     (if is_command then do {
        s \<leftarrow> rfc_send_fcon m False (s\<lparr>peer_rx_disabled := False\<rparr>);
        mc \<leftarrow> mget m s;
        if \<not> l2cap_congested mc then PORT_FlowInd m 0 True s else Some s
      } else Some s)"

definition rfc_process_fcoff :: "nat \<Rightarrow> bool \<Rightarrow> rfc_st \<Rightarrow> rfc_st option" where
  "rfc_process_fcoff m is_command s =
     (if is_command then do {
        let s = s\<lparr>peer_rx_disabled := True\<rparr>;
        mc \<leftarrow> mget m s;
        s \<leftarrow> (if \<not> l2cap_congested mc then PORT_FlowInd m 0 False s else Some s);
        rfc_send_fcoff m False s
      } else Some s)"

definition rfc_process_l2cap_congestion :: "nat \<Rightarrow> bool \<Rightarrow> rfc_st \<Rightarrow> rfc_st option" where
  "rfc_process_l2cap_congestion m is_congested s = do {
     mc \<leftarrow> mget m s;
     let s = mupd m (l2cap_congested_update (\<lambda>_. is_congested)) s;
     s \<leftarrow> (if \<not> is_congested then rfc_check_send_cmd m None s else Some s);
     if \<not> peer_rx_disabled s then PORT_FlowInd m 0 (\<not> is_congested) s else Some s
   }"

text \<open>The dispatch of a decoded control message: the rest of \<^verbatim>\<open>rfc_process_mx_message\<close>.\<close>

definition rfc_process_mx_message :: "rfc_env \<Rightarrow> nat \<Rightarrow> BT_HDR \<Rightarrow> rfc_st \<Rightarrow> rfc_st option" where
  "rfc_process_mx_message E m b s = do {
     (a, fr) \<leftarrow> rfc_mx_decode (rx_frame s) b;
     let s = s\<lparr>rx_frame := fr\<rparr>;
     case a of
       MxDrop \<Rightarrow> Some s
     | MxNotSupported is_command \<Rightarrow> if is_command then rfc_send_nsc m s else Some s
     | MxPn is_command \<Rightarrow> rfc_process_pn E m is_command fr s
     | MxTest is_command b \<Rightarrow>
         if is_command then rfc_send_test m False b s else rfc_process_test_rsp m b s
     | MxFcon is_command \<Rightarrow> rfc_process_fcon m is_command s
     | MxFcoff is_command \<Rightarrow> rfc_process_fcoff m is_command s
     | MxMsc is_command \<Rightarrow> rfc_process_msc m is_command fr s
     | MxNsc \<Rightarrow> rfc_process_nsc m fr s
     | MxRpn is_command is_request \<Rightarrow> rfc_process_rpn m is_command is_request fr s
     | MxRls is_command \<Rightarrow> rfc_process_rls m is_command fr s
   }"

section \<open>The events sent down are the machine's\<close>

lemma rfc_port_sm_down:
  "rfc_port_sm_execute E p RFC_PORT_EVENT_OPEN s = rfc_port_sm_open p s"
  "rfc_port_sm_execute E p (RFC_PORT_EVENT_ESTABLISH_RSP r) s = rfc_port_sm_establish_rsp p r s"
  "rfc_port_sm_execute E p RFC_PORT_EVENT_CLOSE s = rfc_port_sm_close p s"
  "rfc_port_sm_execute E p (RFC_PORT_EVENT_DATA b) s = rfc_port_sm_data p b s"
  by (cases "pget p s"; simp add: rfc_port_sm_execute_def rfc_port_sm_open_def
        rfc_port_sm_establish_rsp_def rfc_port_sm_close_def rfc_port_sm_data_def rfc_port_disc_def
        rfc_port_sm_state_closed_def rfc_port_sm_sabme_wait_ua_def
        rfc_port_sm_orig_wait_sec_check_def rfc_port_sm_term_wait_sec_check_def
        rfc_port_sm_opened_def rfc_port_sm_disc_wait_ua_def split: tRFC_PORT_STATE.split)+

section \<open>A port whose pointer to its multiplexer is null\<close>

lemma port_find_dlci_found:
  assumes "port_find_dlci_port d s = (Some p, s')"
  shows "p < length (ports s)" "p_mcb (ports s ! p) = None"
    "s' = s \<or> s' = pupd p (dlci_update (\<lambda>x. x + 1)) s"
  using assms by (auto simp: port_find_dlci_port_def split: option.splits if_splits dest!: find_SomeD)

lemma send_mx_eq:
  "mget m s = Some mc \<Longrightarrow> cmd_q mc = Some q \<Longrightarrow>
   \<exists>x. rfc_send_buf_uih m RFCOMM_MX_DLCI (cmd_buf MX_OFFSET bs) s = Some (cmd_sent m mc (q @ [x]) s)"
  by (auto simp: rfc_send_buf_uih_def check_send_cmd_eq Let_def cmd_buf_def)

text \<open>
  C23: A remote peer can make the stack follow a null pointer. On a connected multiplexer, an
  RPN command for a DLCI on which a server listens (and that has no port on the multiplexer
  yet) enters the port's handle for that DLCI but leaves the port's own pointer to the
  multiplexer null; the MSC command that follows on the same DLCI finds the port and follows
  that pointer.
\<close>

theorem rfc_rpn_then_msc_aborts:
  assumes "mget m s = Some mc" and "has_res mc" and "length (port_handles mc) = 62" and "mcb_state mc = RFC_MX_STATE_CONNECTED"
    and "unat (f_dlci fr) < 62" and "port_handles mc ! unat (f_dlci fr) = 0"
    and "port_find_dlci_port (f_dlci fr) s = (Some p, s1)" and "handle (ports s ! p) = Suc p"
  shows "ok (rfc_process_rpn m True r fr s) (\<lambda>s'. \<forall>fr'. f_dlci fr' = f_dlci fr \<longrightarrow> rfc_process_msc m True fr' s' = None)"
proof -
  note f = port_find_dlci_found [OF assms(7)]
  let ?d = "f_dlci fr" and ?ps = "rfc_set_port_settings zero_settings fr"
  obtain c where c: "pget p s1 = Some c" "handle c = Suc p" "p_mcb c = None"
    using f assms(8) by (auto simp: pget_def nth_pupd)
  have m1: "mget m s1 = Some mc" using f(3) assms(1) by auto
  obtain q where q: "cmd_q mc = Some q" using assms(2) by (auto simp: has_res_def)
  let ?mc = "port_handles_update (\<lambda>hs. hs[unat ?d := Suc p]) mc"
  let ?s2 = "mupd m (port_handles_update (\<lambda>hs. hs[unat ?d := Suc p])) s1"
  let ?s3 = "pupd p (peer_port_settings_update (\<lambda>_. ?ps)) ?s2"
  have mc: "mget m ?s3 = Some ?mc" "cmd_q ?mc = Some q" using m1 q by simp_all
  obtain x where x: "rfc_send_rpn m ?d False (Some ?ps) (rpn_param_mask fr) ?s3 = Some (cmd_sent m ?mc (q @ [x]) ?s3)"
    unfolding rfc_send_rpn_def using send_mx_eq [OF mc] by blast
  have nf: "port_find_mcb_dlci_port (Some m) ?d s = Some None"
    using assms by (simp add: port_find_mcb_dlci_port_def)
  have eq: "rfc_process_rpn m True r fr s = Some (cmd_sent m ?mc (q @ [x]) ?s3)"
    using nf assms(3,4,5,7) c m1 x
    by (simp add: rfc_process_rpn_def PORT_PortNegInd_def set_handle_def RFCOMM_PortParameterNegotiationResponse_def Let_def)
  have "rfc_process_msc m True fr' (cmd_sent m ?mc (q @ [x]) ?s3) = None" (is "rfc_process_msc m True fr' ?s4 = None")
    if "f_dlci fr' = ?d" for fr'
  proof -
    have m4: "\<exists>q'. mget m ?s4 = Some (?mc\<lparr>cmd_q := Some q'\<rparr>)" using m1 by auto
    then obtain q' where q': "mget m ?s4 = Some (?mc\<lparr>cmd_q := Some q'\<rparr>)" by blast
    obtain y where y: "rfc_send_msc m ?d False (msc_pars fr') ?s4 = Some (cmd_sent m (?mc\<lparr>cmd_q := Some q'\<rparr>) (q' @ [y]) ?s4)"
      unfolding rfc_send_msc_def using send_mx_eq [OF q'] by auto
    have "port_find_mcb_dlci_port (Some m) ?d ?s4 = Some (Some p)"
      using q' assms(3,5) by (simp add: port_find_mcb_dlci_port_def del: mget_cmd_sent(1))
    then show ?thesis unfolding rfc_process_msc_def Let_def that y
      using c(1,3) y by (simp del: mget_cmd_sent(1))
  qed
  then show ?thesis unfolding eq by simp
qed
theorem rfc_rpn_then_msc_aborts_witness:
  "ok (rfc_process_rpn 0 True False (zero_frame\<lparr>f_dlci := 4\<rparr>)
      (pupd 1 (\<lambda>_. (fresh_port 4 kAny 1)\<lparr>is_server := True, port_state := PORT_CONNECTION_STATE_OPENING\<rparr>) link_st))
    (\<lambda>s'. rfc_process_msc 0 True (zero_frame\<lparr>f_dlci := 4\<rparr>) s' = None)"
proof -
  let ?c = "(fresh_port 4 kAny 1)\<lparr>is_server := True, port_state := PORT_CONNECTION_STATE_OPENING\<rparr>"
  let ?s = "pupd 1 (\<lambda>_. ?c) link_st"
  have ps: "ports ?s = link_port # ?c # replicate 28 zero_port" by (simp add: ports_pupd numeral_eq_Suc)
  have up: "[0..<length (ports ?s)] = 0 # 1 # [2..<30]" by (simp add: upt_conv_Cons)
  have f: "port_find_dlci_port (f_dlci (zero_frame\<lparr>f_dlci := 4\<rparr>)) ?s = (Some 1, ?s)"
    unfolding port_find_dlci_port_def up unfolding ps
    by (simp add: link_port_def fresh_port_def port_set_defaults_def zero_port_def)
  have "ok (rfc_process_rpn 0 True False (zero_frame\<lparr>f_dlci := 4\<rparr>) ?s)
     (\<lambda>s'. \<forall>fr'. f_dlci fr' = f_dlci (zero_frame\<lparr>f_dlci := 4\<rparr>) \<longrightarrow> rfc_process_msc 0 True fr' s' = None)"
    by (rule rfc_rpn_then_msc_aborts [where mc = link_mcb, OF _ _ _ _ _ _ f])
      (simp_all add: ports_pupd link_mcb_def fresh_port_def port_set_defaults_def zero_port_def has_res_def)
  then show ?thesis by (rule ok_weaken) simp
qed

end
