(* ===== verification/Rfc_Mx_Fsm.thy ===== *)
theory Rfc_Mx_Fsm
  imports Rfc_Port_Fsm
begin

text \<open>
  The multiplexer machine (\<^verbatim>\<open>rfc_mx_fsm.cc\<close>): one function per state, the dispatcher
  \<^verbatim>\<open>rfc_mx_sm_execute\<close>, the confirmation and indication of the start of a multiplexer
  (\<^verbatim>\<open>PORT_StartCnf\<close>, \<^verbatim>\<open>PORT_StartInd\<close>), the L2CAP error callback, and the callbacks that
  L2CAP calls (\<^verbatim>\<open>rfc_l2cap_if.cc\<close>).

  \<^verbatim>\<open>PORT_StartInd\<close> answers with \<open>RFC_MX_EVENT_START_RSP\<close>, on which only the state WAIT_SABME
  acts (\<open>rfc_mx_sm_start_rsp\<close>; \<open>rfc_mx_sm_down\<close> shows that the machine does the same).
\<close>

section \<open>Start of a multiplexer\<close>

text \<open>
  On failure the block is released inside the loop, which takes every port off it: later
  turns of the loop find no port on this multiplexer.
\<close>

definition PORT_StartCnf_body :: "nat \<Rightarrow> u16 \<Rightarrow> nat \<Rightarrow> bool \<times> rfc_st \<Rightarrow> (bool \<times> rfc_st) option" where
  "PORT_StartCnf_body m result p = (\<lambda>(no_ports_up, s). do {
     c \<leftarrow> pget p s;
     if p_mcb c = Some m then
       if result = RFCOMM_SUCCESS then do {
         s \<leftarrow> RFCOMM_ParameterNegotiationRequest m (dlci c) (mtu c) s;
         Some (False, s)
       } else do {
         s \<leftarrow> rfc_release_multiplexer_channel m s;
         let s = call_port_cb c (PORT_EV_CONNECT_ERR AND ev_mask c) s;
         let s = call_mgmt_cb c PORT_START_FAILED s;
         s \<leftarrow> port_release_port p s;
         Some (False, s)
       }
     else Some (no_ports_up, s)
   })"

definition PORT_StartCnf :: "nat \<Rightarrow> u16 \<Rightarrow> rfc_st \<Rightarrow> rfc_st option" where
  "PORT_StartCnf m result s = do {
     (no_ports_up, s) \<leftarrow> foreach (PORT_StartCnf_body m result) [0..<MAX_RFC_PORTS] (True, s);
     if no_ports_up then rfc_check_mcb_active m s else Some s
   }"

definition rfc_mx_sm_start_rsp :: "nat \<Rightarrow> u16 \<Rightarrow> rfc_st \<Rightarrow> rfc_st option" where
  "rfc_mx_sm_start_rsp m result s = do {
     c \<leftarrow> mget m s;
     if mcb_state c = RFC_MX_STATE_WAIT_SABME then
       if result \<noteq> RFCOMM_SUCCESS then rfc_send_dm m RFCOMM_MX_DLCI True s
       else do {
         s \<leftarrow> rfc_send_ua m RFCOMM_MX_DLCI s;
         let s = mupd m (\<lambda>c. c\<lparr>mcb_state := RFC_MX_STATE_CONNECTED, peer_ready := True\<rparr>) s;
         PORT_StartCnf m RFCOMM_SUCCESS s
       }
     else Some s
   }"

definition PORT_StartInd :: "nat \<Rightarrow> rfc_st \<Rightarrow> rfc_st option" where
  "PORT_StartInd m s =
     (if \<exists>c \<in> set (ports s). p_mcb c = None \<or> p_mcb c = Some m
      then rfc_mx_sm_start_rsp m RFCOMM_SUCCESS s
      else rfc_mx_sm_start_rsp m RFCOMM_ERROR s)"

section \<open>The multiplexer machine\<close>

definition rfc_mx_conf_cnf :: "nat \<Rightarrow> u16 \<Rightarrow> rfc_st \<Rightarrow> rfc_st option" where
  "rfc_mx_conf_cnf m result s = do {
     c \<leftarrow> mget m s;
     if mcb_state c = RFC_MX_STATE_CONFIGURE then
       if is_initiator c then do {
         let s = mupd m (mcb_state_update (\<lambda>_. RFC_MX_STATE_SABME_WAIT_UA)) s;
         s \<leftarrow> rfc_send_sabme m RFCOMM_MX_DLCI s;
         rfc_timer_start m RFC_T1_TIMEOUT s
       } else do {
         let s = mupd m (mcb_state_update (\<lambda>_. RFC_MX_STATE_WAIT_SABME)) s;
         rfc_timer_start m RFCOMM_CONN_TIMEOUT s
       }
     else Some s
   }"

definition rfc_mx_conf_ind :: "nat \<Rightarrow> tL2CAP_CFG_INFO \<Rightarrow> rfc_st \<Rightarrow> rfc_st option" where
  "rfc_mx_conf_ind m cfg s = do {
     c \<leftarrow> mget m s;
     Some (mupd m (peer_l2cap_mtu_update (\<lambda>_.
       (if cfg_mtu_present cfg then cfg_mtu cfg else L2CAP_DEFAULT_MTU) - 5 - 1)) s)
   }"

definition rfc_mx_sm_state_idle :: "rfc_env \<Rightarrow> nat \<Rightarrow> tRFC_MX_EVENT \<Rightarrow> rfc_st \<Rightarrow> rfc_st option" where
  "rfc_mx_sm_state_idle E m ev s = do {
     c \<leftarrow> mget m s;
     case ev of
       RFC_MX_EVENT_START_REQ \<Rightarrow> do {
         let s = mupd m (peer_l2cap_mtu_update (\<lambda>_. L2CAP_DEFAULT_MTU - 5 - 1)) s;
         let s = emit (L2CA_ConnectReq (mcb_bd_addr c)) s;
         let cid = connect_req_lcid E (mcb_bd_addr c);
         if cid = 0 then do {
           let s = rfc_save_lcid_mcb None (lcid c) s;
           PORT_StartCnf m RFCOMM_ERROR (mupd m (lcid_update (\<lambda>_. 0)) s)
         } else
           Some (mupd m (mcb_state_update (\<lambda>_. RFC_MX_STATE_WAIT_CONN_CNF))
             (rfc_save_lcid_mcb (Some m) cid (mupd m (lcid_update (\<lambda>_. cid)) s)))
       }
     | RFC_MX_EVENT_CONN_IND \<Rightarrow> do {
         s \<leftarrow> rfc_timer_start m RFCOMM_CONN_TIMEOUT s;
         Some (mupd m (mcb_state_update (\<lambda>_. RFC_MX_STATE_CONFIGURE)) s)
       }
     | RFC_MX_EVENT_DISC \<Rightarrow> rfc_send_dm m RFCOMM_MX_DLCI True s
     | RFC_MX_EVENT_UIH \<Rightarrow> rfc_send_dm m RFCOMM_MX_DLCI False s
     | _ \<Rightarrow> Some s
   }"

text \<open>
  \<^verbatim>\<open>for (i = 0; i < RFCOMM_MAX_DLCI; i += 2)\<close>: the ports opened by this side as initiator
  move to the odd DLCI of their server channel.
\<close>

definition rfc_flip_dlci :: "nat \<Rightarrow> nat \<Rightarrow> rfc_st \<Rightarrow> rfc_st option" where
  "rfc_flip_dlci m i s = do {
     c \<leftarrow> mget m s;
     let h = port_handles c ! i;
     if h \<noteq> 0 then do {
       p \<leftarrow> pget (h - 1) s;
       Some (pupd (h - 1) (dlci_update (\<lambda>d. d + 1))
         (mupd m (port_handles_update (\<lambda>hs. hs[i := 0, i + 1 := h])) s))
     } else Some s
   }"

definition rfc_update_direction :: "nat \<Rightarrow> rfc_st \<Rightarrow> rfc_st option" where
  "rfc_update_direction m s = foreach (rfc_flip_dlci m) (map (\<lambda>i. 2 * i) [0..<31]) s"

definition rfc_mx_sm_state_wait_conn_cnf ::
    "rfc_env \<Rightarrow> nat \<Rightarrow> tRFC_MX_EVENT \<Rightarrow> rfc_st \<Rightarrow> rfc_st option" where
  "rfc_mx_sm_state_wait_conn_cnf E m ev s = do {
     c \<leftarrow> mget m s;
     case ev of
       RFC_MX_EVENT_CONF_IND cfg \<Rightarrow> rfc_mx_conf_ind m cfg s
     | RFC_MX_EVENT_CONN_CNF result \<Rightarrow>
         if result \<noteq> 0
         then PORT_StartCnf m result (mupd m (mcb_state_update (\<lambda>_. RFC_MX_STATE_IDLE)) s)
         else Some (mupd m (mcb_state_update (\<lambda>_. RFC_MX_STATE_CONFIGURE)) s)
     | RFC_MX_EVENT_DISC_IND \<Rightarrow>
         PORT_CloseInd m (mupd m (mcb_state_update (\<lambda>_. RFC_MX_STATE_IDLE)) s)
     | RFC_MX_EVENT_TIMEOUT \<Rightarrow> do {
         let s = mupd m (mcb_state_update (\<lambda>_. RFC_MX_STATE_IDLE)) s;
         let s = emit (L2CA_DisconnectReq (lcid c)) s;
         if pending_lcid c \<noteq> 0 then do {
           let s = rfc_save_lcid_mcb None (lcid c) s;
           let s = mupd m (lcid_update (\<lambda>_. pending_lcid c)) s;
           let s = rfc_save_lcid_mcb (Some m) (pending_lcid c) s;
           let s = mupd m (is_initiator_update (\<lambda>_. False)) s;
           s \<leftarrow> rfc_update_direction m s;
           rfc_mx_sm_state_idle E m RFC_MX_EVENT_CONN_IND s
         } else PORT_CloseInd m s
       }
     | _ \<Rightarrow> Some s
   }"

definition rfc_mx_sm_state_configure :: "nat \<Rightarrow> tRFC_MX_EVENT \<Rightarrow> rfc_st \<Rightarrow> rfc_st option" where
  "rfc_mx_sm_state_configure m ev s = do {
     c \<leftarrow> mget m s;
     case ev of
       RFC_MX_EVENT_CONF_IND cfg \<Rightarrow> rfc_mx_conf_ind m cfg s
     | RFC_MX_EVENT_CONF_CNF result \<Rightarrow> rfc_mx_conf_cnf m result s
     | RFC_MX_EVENT_DISC_IND \<Rightarrow>
         PORT_CloseInd m (mupd m (mcb_state_update (\<lambda>_. RFC_MX_STATE_IDLE)) s)
     | RFC_MX_EVENT_TIMEOUT \<Rightarrow> do {
         let s = mupd m (mcb_state_update (\<lambda>_. RFC_MX_STATE_IDLE)) s;
         let s = emit (L2CA_DisconnectReq (lcid c)) s;
         PORT_StartCnf m RFCOMM_ERROR s
       }
     | _ \<Rightarrow> Some s
   }"

text \<open>Giving up in SABME_WAIT_UA.\<close>

definition rfc_mx_give_up :: "nat \<Rightarrow> rfc_st \<Rightarrow> rfc_st option" where
  "rfc_mx_give_up m s = do {
     c \<leftarrow> mget m s;
     let s = mupd m (mcb_state_update (\<lambda>_. RFC_MX_STATE_IDLE)) s;
     let s = emit (L2CA_DisconnectReq (lcid c)) s;
     PORT_StartCnf m RFCOMM_ERROR s
   }"

definition rfc_mx_sm_sabme_wait_ua :: "nat \<Rightarrow> tRFC_MX_EVENT \<Rightarrow> rfc_st \<Rightarrow> rfc_st option" where
  "rfc_mx_sm_sabme_wait_ua m ev s = do {
     c \<leftarrow> mget m s;
     case ev of
       RFC_MX_EVENT_DISC_IND \<Rightarrow>
         PORT_CloseInd m (mupd m (mcb_state_update (\<lambda>_. RFC_MX_STATE_IDLE)) s)
     | RFC_MX_EVENT_UA \<Rightarrow> do {
         s \<leftarrow> rfc_timer_stop m s;
         let s = mupd m (\<lambda>c. c\<lparr>mcb_state := RFC_MX_STATE_CONNECTED, peer_ready := True\<rparr>) s;
         PORT_StartCnf m RFCOMM_SUCCESS s
       }
     | RFC_MX_EVENT_DM \<Rightarrow> do { s \<leftarrow> rfc_timer_stop m s; rfc_mx_give_up m s }
     | RFC_MX_EVENT_CONF_IND cfg \<Rightarrow> rfc_mx_give_up m s
     | RFC_MX_EVENT_CONF_CNF result \<Rightarrow> rfc_mx_give_up m s
     | RFC_MX_EVENT_TIMEOUT \<Rightarrow> rfc_mx_give_up m s
     | _ \<Rightarrow> Some s
   }"

text \<open>Giving up in WAIT_SABME.\<close>

definition rfc_mx_close_l2cap :: "nat \<Rightarrow> rfc_st \<Rightarrow> rfc_st option" where
  "rfc_mx_close_l2cap m s = do {
     c \<leftarrow> mget m s;
     let s = mupd m (mcb_state_update (\<lambda>_. RFC_MX_STATE_IDLE)) s;
     let s = emit (L2CA_DisconnectReq (lcid c)) s;
     PORT_CloseInd m s
   }"

definition rfc_mx_sm_state_wait_sabme :: "nat \<Rightarrow> tRFC_MX_EVENT \<Rightarrow> rfc_st \<Rightarrow> rfc_st option" where
  "rfc_mx_sm_state_wait_sabme m ev s = do {
     c \<leftarrow> mget m s;
     case ev of
       RFC_MX_EVENT_DISC_IND \<Rightarrow>
         PORT_CloseInd m (mupd m (mcb_state_update (\<lambda>_. RFC_MX_STATE_IDLE)) s)
     | RFC_MX_EVENT_SABME \<Rightarrow>
         if pending_lcid c \<noteq> 0 then do {
           s \<leftarrow> rfc_send_ua m RFCOMM_MX_DLCI (mupd m (pending_lcid_update (\<lambda>_. 0)) s);
           s \<leftarrow> rfc_timer_stop m s;
           let s = mupd m (\<lambda>c. c\<lparr>mcb_state := RFC_MX_STATE_CONNECTED, peer_ready := True\<rparr>) s;
           PORT_StartCnf m RFCOMM_SUCCESS s
         } else do {
           s \<leftarrow> rfc_timer_stop m s;
           PORT_StartInd m s
         }
     | RFC_MX_EVENT_START_RSP result \<Rightarrow>
         if result \<noteq> RFCOMM_SUCCESS then rfc_send_dm m RFCOMM_MX_DLCI True s
         else do {
           s \<leftarrow> rfc_send_ua m RFCOMM_MX_DLCI s;
           let s = mupd m (\<lambda>c. c\<lparr>mcb_state := RFC_MX_STATE_CONNECTED, peer_ready := True\<rparr>) s;
           PORT_StartCnf m RFCOMM_SUCCESS s
         }
     | RFC_MX_EVENT_CONF_IND cfg \<Rightarrow> rfc_mx_close_l2cap m s
     | RFC_MX_EVENT_CONF_CNF result \<Rightarrow> rfc_mx_close_l2cap m s
     | RFC_MX_EVENT_TIMEOUT \<Rightarrow> rfc_mx_close_l2cap m s
     | _ \<Rightarrow> Some s
   }"

text \<open>Closing a connected multiplexer, on request or after inactivity.\<close>

definition rfc_mx_disconnect :: "nat \<Rightarrow> rfc_st \<Rightarrow> rfc_st option" where
  "rfc_mx_disconnect m s = do {
     s \<leftarrow> rfc_timer_start m RFC_DISC_TIMEOUT s;
     let s = mupd m (mcb_state_update (\<lambda>_. RFC_MX_STATE_DISC_WAIT_UA)) s;
     rfc_send_disc m RFCOMM_MX_DLCI s
   }"

definition rfc_mx_sm_state_connected :: "nat \<Rightarrow> tRFC_MX_EVENT \<Rightarrow> rfc_st \<Rightarrow> rfc_st option" where
  "rfc_mx_sm_state_connected m ev s = do {
     c \<leftarrow> mget m s;
     case ev of
       RFC_MX_EVENT_TIMEOUT \<Rightarrow> rfc_mx_disconnect m s
     | RFC_MX_EVENT_CLOSE_REQ \<Rightarrow> rfc_mx_disconnect m s
     | RFC_MX_EVENT_DISC_IND \<Rightarrow>
         PORT_CloseInd m (mupd m (mcb_state_update (\<lambda>_. RFC_MX_STATE_IDLE)) s)
     | RFC_MX_EVENT_DISC \<Rightarrow> do {
         s \<leftarrow> rfc_send_ua m RFCOMM_MX_DLCI s;
         let s = (if is_initiator c then emit (L2CA_DisconnectReq (lcid c)) s else s);
         PORT_CloseInd m s
       }
     | _ \<Rightarrow> Some s
   }"

text \<open>The end of DISC_WAIT_UA: release the block, or connect again if a start was asked for.\<close>

definition rfc_mx_disc_done :: "rfc_env \<Rightarrow> nat \<Rightarrow> rfc_st \<Rightarrow> rfc_st option" where
  "rfc_mx_disc_done E m s = do {
     c \<leftarrow> mget m s;
     let s = emit (L2CA_DisconnectReq (lcid c)) s;
     if restart_required c then do {
       let s = emit (L2CA_ConnectReq (mcb_bd_addr c)) s;
       let cid = connect_req_lcid E (mcb_bd_addr c);
       if cid = 0 then do {
         let s = rfc_save_lcid_mcb None (lcid c) s;
         PORT_StartCnf m RFCOMM_ERROR (mupd m (lcid_update (\<lambda>_. 0)) s)
       } else do {
         let s = rfc_save_lcid_mcb (Some m) cid (mupd m (lcid_update (\<lambda>_. cid)) s);
         let s = mupd m (cmd_q_update (map_option (\<lambda>_. []))) s;
         s \<leftarrow> rfc_timer_start m RFC_MCB_INIT_INACT_TIMER s;
         Some (mupd m (\<lambda>c. c\<lparr>is_initiator := True, restart_required := False,
                              mcb_state := RFC_MX_STATE_WAIT_CONN_CNF\<rparr>) s)
       }
     } else rfc_release_multiplexer_channel m s
   }"

definition rfc_mx_sm_state_disc_wait_ua ::
    "rfc_env \<Rightarrow> nat \<Rightarrow> tRFC_MX_EVENT \<Rightarrow> rfc_st \<Rightarrow> rfc_st option" where
  "rfc_mx_sm_state_disc_wait_ua E m ev s = do {
     c \<leftarrow> mget m s;
     case ev of
       RFC_MX_EVENT_UA \<Rightarrow> rfc_mx_disc_done E m s
     | RFC_MX_EVENT_DM \<Rightarrow> rfc_mx_disc_done E m s
     | RFC_MX_EVENT_TIMEOUT \<Rightarrow> rfc_mx_disc_done E m s
     | RFC_MX_EVENT_DISC \<Rightarrow> rfc_send_ua m RFCOMM_MX_DLCI s
     | RFC_MX_EVENT_UIH \<Rightarrow> rfc_send_dm m RFCOMM_MX_DLCI False s
     | RFC_MX_EVENT_START_REQ \<Rightarrow> Some (mupd m (restart_required_update (\<lambda>_. True)) s)
     | RFC_MX_EVENT_DISC_IND \<Rightarrow>
         PORT_CloseInd m (mupd m (mcb_state_update (\<lambda>_. RFC_MX_STATE_IDLE)) s)
     | _ \<Rightarrow> Some s
   }"

definition rfc_mx_sm_execute :: "rfc_env \<Rightarrow> nat \<Rightarrow> tRFC_MX_EVENT \<Rightarrow> rfc_st \<Rightarrow> rfc_st option" where
  "rfc_mx_sm_execute E m ev s = do {
     c \<leftarrow> mget m s;
     case mcb_state c of
       RFC_MX_STATE_IDLE \<Rightarrow> rfc_mx_sm_state_idle E m ev s
     | RFC_MX_STATE_WAIT_CONN_CNF \<Rightarrow> rfc_mx_sm_state_wait_conn_cnf E m ev s
     | RFC_MX_STATE_CONFIGURE \<Rightarrow> rfc_mx_sm_state_configure m ev s
     | RFC_MX_STATE_SABME_WAIT_UA \<Rightarrow> rfc_mx_sm_sabme_wait_ua m ev s
     | RFC_MX_STATE_WAIT_SABME \<Rightarrow> rfc_mx_sm_state_wait_sabme m ev s
     | RFC_MX_STATE_CONNECTED \<Rightarrow> rfc_mx_sm_state_connected m ev s
     | RFC_MX_STATE_DISC_WAIT_UA \<Rightarrow> rfc_mx_sm_state_disc_wait_ua E m ev s
   }"

definition rfcomm_mcb_timer_timeout :: "rfc_env \<Rightarrow> nat \<Rightarrow> rfc_st \<Rightarrow> rfc_st option" where
  "rfcomm_mcb_timer_timeout E m s = rfc_mx_sm_execute E m RFC_MX_EVENT_TIMEOUT s"

definition RFCOMM_StartReq :: "rfc_env \<Rightarrow> nat \<Rightarrow> rfc_st \<Rightarrow> rfc_st option" where
  "RFCOMM_StartReq E m s = rfc_mx_sm_execute E m RFC_MX_EVENT_START_REQ s"

definition RFCOMM_StartRsp :: "rfc_env \<Rightarrow> nat \<Rightarrow> u16 \<Rightarrow> rfc_st \<Rightarrow> rfc_st option" where
  "RFCOMM_StartRsp E m result s = rfc_mx_sm_execute E m (RFC_MX_EVENT_START_RSP result) s"

section \<open>Callbacks from L2CAP\<close>

abbreviation (input) L2CAP_CONN_INTERNAL_MASK :: u16 where "L2CAP_CONN_INTERNAL_MASK \<equiv> 0xF000"
abbreviation (input) L2CAP_CFG_FAILED_NO_REASON :: u16 where "L2CAP_CFG_FAILED_NO_REASON \<equiv> 2"

definition rfc_on_l2cap_error :: "rfc_env \<Rightarrow> u16 \<Rightarrow> u16 \<Rightarrow> rfc_st \<Rightarrow> rfc_st option" where
  "rfc_on_l2cap_error E l result s = do {
     pm \<leftarrow> rfc_find_lcid_mcb l s;
     case pm of None \<Rightarrow> Some s | Some m \<Rightarrow> do {
       c \<leftarrow> mget m s;
       if result AND L2CAP_CONN_INTERNAL_MASK \<noteq> 0 then
         if pending_lcid c \<noteq> 0 then do {
           let s = rfc_save_lcid_mcb None (lcid c) s;
           let s = mupd m (\<lambda>c. c\<lparr>lcid := pending_lcid c, is_initiator := False,
                                 mcb_state := RFC_MX_STATE_IDLE\<rparr>) s;
           let s = rfc_save_lcid_mcb (Some m) (pending_lcid c) s;
           s \<leftarrow> rfc_update_direction m s;
           s \<leftarrow> rfc_mx_sm_execute E m RFC_MX_EVENT_CONN_IND s;
           c \<leftarrow> mget m s;
           if pending_configure_complete c then do {
             let s = mupd m (pending_configure_complete_update (\<lambda>_. False)) s;
             s \<leftarrow> rfc_mx_sm_execute E m (RFC_MX_EVENT_CONF_IND (pending_cfg_info c)) s;
             rfc_mx_sm_execute E m (RFC_MX_EVENT_CONF_CNF 0) s
           } else Some s
         } else
           rfc_mx_sm_execute E m (RFC_MX_EVENT_CONN_CNF result) (mupd m (lcid_update (\<lambda>_. l)) s)
       else if result = L2CAP_CFG_FAILED_NO_REASON then do {
         s \<leftarrow> (if is_initiator c then do {
             s \<leftarrow> PORT_StartCnf m result s;
             c \<leftarrow> mget m s;
             Some (emit (L2CA_DisconnectReq (lcid c)) s)
           } else Some s);
         rfc_release_multiplexer_channel m s
       }
       else Some s
     }
   }"

definition RFCOMM_ConnectInd :: "rfc_env \<Rightarrow> RawAddress \<Rightarrow> u16 \<Rightarrow> rfc_st \<Rightarrow> rfc_st option" where
  "RFCOMM_ConnectInd E addr l s = do {
     (pm, s) \<leftarrow> rfc_alloc_multiplexer_channel addr False s;
     case pm of
       None \<Rightarrow> Some (emit (L2CA_DisconnectReq l) (rfc_save_lcid_mcb None l s))
     | Some m \<Rightarrow> do {
         c \<leftarrow> mget m s;
         if mcb_state c \<noteq> RFC_MX_STATE_IDLE then
           if is_initiator c \<and> mcb_state c = RFC_MX_STATE_WAIT_CONN_CNF
           then rfc_timer_start m (boottime_ms E mod 10 + 2) (mupd m (pending_lcid_update (\<lambda>_. l)) s)
           else Some (emit (L2CA_DisconnectReq l) s)
         else do {
           let s = rfc_save_lcid_mcb (Some m) l s;
           rfc_mx_sm_execute E m RFC_MX_EVENT_CONN_IND (mupd m (lcid_update (\<lambda>_. l)) s)
         }
       }
   }"

definition RFCOMM_ConnectCnf :: "rfc_env \<Rightarrow> u16 \<Rightarrow> u16 \<Rightarrow> rfc_st \<Rightarrow> rfc_st option" where
  "RFCOMM_ConnectCnf E l result s = do {
     pm \<leftarrow> rfc_find_lcid_mcb l s;
     case pm of None \<Rightarrow> Some s | Some m \<Rightarrow> do {
       c \<leftarrow> mget m s;
       if pending_lcid c \<noteq> 0 \<and> result \<noteq> 0 then Some s else do {
         let s = (if pending_lcid c \<noteq> 0
                  then mupd m (pending_lcid_update (\<lambda>_. 0)) (emit (L2CA_DisconnectReq (pending_lcid c)) s)
                  else s);
         rfc_mx_sm_execute E m (RFC_MX_EVENT_CONN_CNF result) (mupd m (lcid_update (\<lambda>_. l)) s)
       }
     }
   }"

text \<open>The table is searched in list order; the hash map of the code has no order.\<close>

definition RFCOMM_ConfigInd :: "rfc_env \<Rightarrow> u16 \<Rightarrow> tL2CAP_CFG_INFO option \<Rightarrow> rfc_st \<Rightarrow> rfc_st option" where
  "RFCOMM_ConfigInd E l p_cfg s =
     (case p_cfg of None \<Rightarrow> Some s | Some cfg \<Rightarrow> do {
        pm \<leftarrow> rfc_find_lcid_mcb l s;
        case pm of
          Some m \<Rightarrow> rfc_mx_sm_execute E m (RFC_MX_EVENT_CONF_IND cfg) s
        | None \<Rightarrow>
            (case find (\<lambda>(cid, pm). case pm of None \<Rightarrow> False | Some m \<Rightarrow> pending_lcid (rfc_mcb s ! m) = l)
                    (rfc_lcid_mcb s) of
               Some (cid, Some m) \<Rightarrow> do {
                 c \<leftarrow> mget m s;
                 Some (mupd m (\<lambda>c. c\<lparr>pending_configure_complete := True, pending_cfg_info := cfg\<rparr>) s)
               }
             | _ \<Rightarrow> Some s)
      })"

definition RFCOMM_ConfigCnf :: "rfc_env \<Rightarrow> u16 \<Rightarrow> tL2CAP_CFG_INFO option \<Rightarrow> rfc_st \<Rightarrow> rfc_st option" where
  "RFCOMM_ConfigCnf E l p_cfg s = do {
     s \<leftarrow> RFCOMM_ConfigInd E l p_cfg s;
     pm \<leftarrow> rfc_find_lcid_mcb l s;
     case pm of None \<Rightarrow> Some s | Some m \<Rightarrow> rfc_mx_sm_execute E m (RFC_MX_EVENT_CONF_CNF 0) s
   }"

definition RFCOMM_DisconnectInd :: "rfc_env \<Rightarrow> u16 \<Rightarrow> rfc_st \<Rightarrow> rfc_st option" where
  "RFCOMM_DisconnectInd E l s = do {
     pm \<leftarrow> rfc_find_lcid_mcb l s;
     case pm of None \<Rightarrow> Some s | Some m \<Rightarrow> rfc_mx_sm_execute E m RFC_MX_EVENT_DISC_IND s
   }"

definition RFCOMM_CongestionStatusInd :: "u16 \<Rightarrow> bool \<Rightarrow> rfc_st \<Rightarrow> rfc_st option" where
  "RFCOMM_CongestionStatusInd l is_congested s = do {
     pm \<leftarrow> rfc_find_lcid_mcb l s;
     case pm of None \<Rightarrow> Some s | Some m \<Rightarrow> rfc_process_l2cap_congestion m is_congested s
   }"

text \<open>The casts of a frame event to an event of the two machines.\<close>

definition mx_event :: "tRFC_EVENT \<Rightarrow> tRFC_MX_EVENT" where
  "mx_event ev = (case ev of
       RFC_EVENT_SABME \<Rightarrow> RFC_MX_EVENT_SABME | RFC_EVENT_UA \<Rightarrow> RFC_MX_EVENT_UA
     | RFC_EVENT_DM \<Rightarrow> RFC_MX_EVENT_DM | RFC_EVENT_DISC \<Rightarrow> RFC_MX_EVENT_DISC
     | RFC_EVENT_UIH \<Rightarrow> RFC_MX_EVENT_UIH | _ \<Rightarrow> RFC_MX_EVENT_TIMEOUT)"

definition port_event :: "tRFC_EVENT \<Rightarrow> BT_HDR \<Rightarrow> tRFC_PORT_EVENT" where
  "port_event ev b = (case ev of
       RFC_EVENT_SABME \<Rightarrow> RFC_PORT_EVENT_SABME | RFC_EVENT_UA \<Rightarrow> RFC_PORT_EVENT_UA
     | RFC_EVENT_DM \<Rightarrow> RFC_PORT_EVENT_DM | RFC_EVENT_DISC \<Rightarrow> RFC_PORT_EVENT_DISC
     | RFC_EVENT_UIH \<Rightarrow> RFC_PORT_EVENT_UIH b | _ \<Rightarrow> RFC_PORT_EVENT_TIMEOUT)"

text \<open>A frame for a data channel: the end of \<^verbatim>\<open>RFCOMM_BufDataInd\<close> once the port is known.\<close>

definition rfc_port_frame ::
    "rfc_env \<Rightarrow> nat \<Rightarrow> tRFC_EVENT \<Rightarrow> BT_HDR \<Rightarrow> rfc_st \<Rightarrow> rfc_st option" where
  "rfc_port_frame E p ev b s =
     (if ev = RFC_EVENT_UIH then do {
        s \<leftarrow> (if bh_payload b \<noteq> [] then rfc_port_sm_execute E p (port_event ev b) s else Some s);
        if f_credit (rx_frame s) \<noteq> 0 then rfc_inc_credit p (f_credit (rx_frame s)) s else Some s
      } else rfc_port_sm_execute E p (port_event ev b) s)"

definition RFCOMM_BufDataInd :: "rfc_env \<Rightarrow> u16 \<Rightarrow> BT_HDR \<Rightarrow> rfc_st \<Rightarrow> rfc_st option" where
  "RFCOMM_BufDataInd E l b s = do {
     pm \<leftarrow> rfc_find_lcid_mcb l s;
     case pm of None \<Rightarrow> Some s | Some m \<Rightarrow> do {
       mc \<leftarrow> mget m s;
       (ev, fr, b) \<leftarrow> rfc_parse_data mc (rx_frame s) b;
       let s = s\<lparr>rx_frame := fr\<rparr>;
       if ev = RFC_EVENT_BAD_FRAME then Some s
       else if f_dlci fr = RFCOMM_MX_DLCI then
         if ev = RFC_EVENT_UIH then rfc_process_mx_message E m b s
         else rfc_mx_sm_execute E m (mx_event ev) s
       else do {
         pp \<leftarrow> port_find_mcb_dlci_port (Some m) (f_dlci fr) s;
         attached \<leftarrow> (case pp of None \<Rightarrow> Some None | Some p \<Rightarrow> do {
             c \<leftarrow> pget p s;
             Some (if p_mcb c = None then None else Some p)
           });
         case attached of
           Some p \<Rightarrow> rfc_port_frame E p ev b s
         | None \<Rightarrow>
             if ev \<noteq> RFC_EVENT_SABME then
               if is_initiator mc \<and> f_cr fr = 0 \<or> \<not> is_initiator mc \<and> f_cr fr \<noteq> 0
               then rfc_send_dm m (f_dlci fr) (f_pf fr \<noteq> 0) s
               else Some s
             else (case port_find_dlci_port (f_dlci fr) s of
               (None, s) \<Rightarrow> rfc_send_dm m (f_dlci fr) True s
             | (Some p, s) \<Rightarrow> do {
                 c \<leftarrow> pget p s;
                 s \<leftarrow> set_handle m (f_dlci fr) (handle c) s;
                 rfc_port_frame E p ev b (pupd p (p_mcb_update (\<lambda>_. Some m)) s)
               })
       }
     }
   }"

section \<open>The events sent down are the machine's\<close>

lemma rfc_mx_sm_down:
  "rfc_mx_sm_execute E m RFC_MX_EVENT_CLOSE_REQ s = rfc_mx_sm_close_req m s"
  "rfc_mx_sm_execute E m (RFC_MX_EVENT_START_RSP r) s = rfc_mx_sm_start_rsp m r s"
  by (cases "mget m s"; simp add: rfc_mx_sm_execute_def rfc_mx_sm_close_req_def
        rfc_mx_sm_start_rsp_def rfc_mx_sm_state_idle_def rfc_mx_sm_state_wait_conn_cnf_def
        rfc_mx_sm_state_configure_def rfc_mx_sm_sabme_wait_ua_def rfc_mx_sm_state_wait_sabme_def
        rfc_mx_sm_state_connected_def rfc_mx_sm_state_disc_wait_ua_def rfc_mx_disconnect_def
        split: tRFC_MX_STATE.split)+

section \<open>A multiplexer that could not be started\<close>

lemma p_mcb_detach [simp]: "p_mcb (detach_port m c) \<noteq> Some m"
  by (simp add: detach_port_def)

text \<open>
  C24: A failed start tells one user only. When the multiplexer could not be started,
  \<^verbatim>\<open>PORT_StartCnf\<close> releases the block while it goes through the ports, which takes every port
  off it; so the loop reports the failure for the first port of the multiplexer and no other:
  the later ports keep everything but their pointer to the multiplexer, stay in use and
  opening, and their users are not called.
\<close>

theorem PORT_StartCnf_tells_first_only:
  assumes "mget m s = Some mc" and "length (ports s) = MAX_RFC_PORTS" and "r \<noteq> RFCOMM_SUCCESS"
    and "p < MAX_RFC_PORTS" and "p_mcb (ports s ! p) = Some m" and "rfc_state (ports s ! p) = RFC_STATE_CLOSED"
    and "\<forall>i < p. p_mcb (ports s ! i) \<noteq> Some m"
  shows "ok (PORT_StartCnf m r s) (\<lambda>s'.
    mgmt_calls s' = mgmt_calls s @ (case p_mgmt_callback (ports s ! p) of None \<Rightarrow> []
       | Some cb \<Rightarrow> [Mgmt_callback cb PORT_START_FAILED (handle (ports s ! p))]) \<and>
    (\<forall>q < MAX_RFC_PORTS. p < q \<longrightarrow> p_mcb (ports s ! q) = Some m \<longrightarrow> ports s' ! q = (ports s ! q)\<lparr>p_mcb := None\<rparr>))"
proof -
  let ?c = "ports s ! p"
  let ?ps = "(map (detach_port m) (ports s))[p := released_port (detach_port m ?c)]"
  let ?calls = "mgmt_calls s @ (case p_mgmt_callback ?c of None \<Rightarrow> [] | Some cb \<Rightarrow> [Mgmt_callback cb PORT_START_FAILED (handle ?c)])"
  let ?I = "\<lambda>i (b, x). if i \<le> p then b \<and> x = s else \<not> b \<and> ports x = ?ps \<and> mgmt_calls x = ?calls"
  have off: "p_mcb (?ps ! i) \<noteq> Some m" if "i < 30" for i
    using that assms(2) by (cases "i = p") (simp_all add: released_port_def reinit_port_def zero_port_def)
  have step: "ok (PORT_StartCnf_body m r i y) (?I (Suc i))" if i: "i < MAX_RFC_PORTS" and y: "?I i y" for i y
  proof -
    obtain b x where yb: "y = (b, x)" by (cases y)
    consider "i < p" | "i = p" | "p < i" by linarith
    then show ?thesis
    proof cases
      case 1
      with y yb assms(2,7) i show ?thesis by (auto simp: PORT_StartCnf_body_def pget_def)
    next
      case 2
      let ?s1 = "(rfc_save_lcid_mcb None (lcid mc) s)\<lparr>ports := map (detach_port m) (ports s), rfc_mcb := (rfc_mcb s)[m := zero_mcb]\<rparr>"
      let ?s2 = "call_mgmt_cb ?c PORT_START_FAILED (call_port_cb ?c (PORT_EV_CONNECT_ERR AND ev_mask ?c) ?s1)"
      have p2: "ports ?s2 = map (detach_port m) (ports s)"
        by (simp add: call_mgmt_cb_def call_port_cb_def split: option.split)
      have m1: "mgmt_calls ?s1 = mgmt_calls s" by (simp add: mgmt_calls_def rfc_save_lcid_mcb_def)
      have "ok (port_release_port p ?s2) (\<lambda>s'. ports s' = (ports ?s2)[p := released_port (ports ?s2 ! p)] \<and>
          mx_kept (p_mcb (ports ?s2 ! p)) ?s2 s' \<and> mgmt_calls s' = mgmt_calls ?s2)"
        by (rule port_release_ok) (use 2 i assms(2,5,6) p2 in \<open>simp_all add: can_detach_def detach_port_def\<close>)
      then have rel: "ok (port_release_port p ?s2) (\<lambda>s'. ports s' = ?ps \<and> mgmt_calls s' = ?calls)"
        by (rule ok_weaken) (use 2 i assms(2) p2 m1 in simp)
      have "PORT_StartCnf_body m r i y = port_release_port p ?s2 \<bind> (\<lambda>s. Some (False, s))"
        using 2 i y yb assms(2,3,5) release_eq [OF assms(1)] by (simp add: PORT_StartCnf_body_def pget_def)
      then show ?thesis using rel 2 by (auto elim: ok_weaken)
    next
      case 3
      with y yb off [of i] i assms(2) show ?thesis by (auto simp: PORT_StartCnf_body_def pget_def)
    qed
  qed
  have "ok (foreach (PORT_StartCnf_body m r) [0..<MAX_RFC_PORTS] (True, s)) (?I MAX_RFC_PORTS)"
    by (rule ok_foreach_upt [where I = ?I]) (use step in auto)
  then show ?thesis unfolding PORT_StartCnf_def
    by (rule ok_bindI) (use assms(2,4) in \<open>auto simp: detach_port_def\<close>)
qed

theorem PORT_StartCnf_tells_first_only_witness:
  "ok (PORT_StartCnf 0 RFCOMM_ERROR (pupd 1 (\<lambda>_. link_port\<lparr>handle := 2\<rparr>) (pupd 0 (rfc_state_update (\<lambda>_. RFC_STATE_CLOSED)) link_st)))
     (\<lambda>s'. mgmt_calls s' = [Mgmt_callback 1 PORT_START_FAILED 1] \<and> p_mcb (ports s' ! 1) = None \<and> in_use (ports s' ! 1))"
proof -
  let ?s = "pupd 1 (\<lambda>_. link_port\<lparr>handle := 2\<rparr>) (pupd 0 (rfc_state_update (\<lambda>_. RFC_STATE_CLOSED)) link_st)"
  have ps: "ports ?s = link_port\<lparr>rfc_state := RFC_STATE_CLOSED\<rparr> # link_port\<lparr>handle := 2\<rparr> # replicate 28 zero_port"
    by (simp add: ports_pupd numeral_eq_Suc)
  have l: "p_mgmt_callback link_port = Some 1" "in_use link_port"
    by (simp_all add: link_port_def fresh_port_def port_set_defaults_def)
  have "ok (PORT_StartCnf 0 RFCOMM_ERROR ?s) (\<lambda>s'.
    mgmt_calls s' = mgmt_calls ?s @ (case p_mgmt_callback (ports ?s ! 0) of None \<Rightarrow> []
       | Some cb \<Rightarrow> [Mgmt_callback cb PORT_START_FAILED (handle (ports ?s ! 0))]) \<and>
    (\<forall>q < MAX_RFC_PORTS. 0 < q \<longrightarrow> p_mcb (ports ?s ! q) = Some 0 \<longrightarrow> ports s' ! q = (ports ?s ! q)\<lparr>p_mcb := None\<rparr>))"
    by (rule PORT_StartCnf_tells_first_only [where mc = link_mcb]) (simp_all add: ports_pupd)
  then show ?thesis unfolding ps
    by (rule ok_weaken) (auto simp: l dest!: spec [of _ 1])
qed

end
