(* ===== verification/Port_Api.thy ===== *)
theory Port_Api
  imports Rfc_Mx_Fsm
begin

text \<open>
  The interface of RFCOMM to the applications (\<^verbatim>\<open>port_api.cc\<close>) and the opening of a
  client port (\<^verbatim>\<open>port_open_continue\<close> of \<^verbatim>\<open>port_rfc.cc\<close>). A result is paired with the new
  state; out parameters of the code are further components. The history log and the
  metrics are left out.
\<close>

section \<open>Opening and closing\<close>

definition port_open_continue :: "rfc_env \<Rightarrow> nat \<Rightarrow> rfc_st \<Rightarrow> (tPORT_RESULT \<times> rfc_st) option" where
  "port_open_continue E p s = do {
     c \<leftarrow> pget p s;
     (pm, s) \<leftarrow> rfc_alloc_multiplexer_channel (bd_addr c) True s;
     case pm of
       None \<Rightarrow> do { s \<leftarrow> port_release_port p s; Some (PORT_NO_RESOURCES, s) }
     | Some m \<Rightarrow> do {
         let s = pupd p (p_mcb_update (\<lambda>_. Some m)) s;
         s \<leftarrow> set_handle m (dlci c) (handle c) s;
         s \<leftarrow> port_select_mtu E p s;
         c \<leftarrow> pget p s;
         mc \<leftarrow> mget m s;
         s \<leftarrow> (case mcb_state mc of
             RFC_MX_STATE_CONNECTED \<Rightarrow> RFCOMM_ParameterNegotiationRequest m (dlci c) (mtu c) s
           | RFC_MX_STATE_IDLE \<Rightarrow> RFCOMM_StartReq E m s
           | RFC_MX_STATE_DISC_WAIT_UA \<Rightarrow> RFCOMM_StartReq E m s
           | _ \<Rightarrow> Some s);
         Some (PORT_SUCCESS, s)
       }
   }"

definition default_signals :: "u16 \<Rightarrow> u8" where
  "default_signals u =
     (if u = UUID_SERVCLASS_DIALUP_NETWORKING \<or> u = UUID_SERVCLASS_FAX
      then PORT_DTRDSR_ON OR PORT_CTSRTS_ON
      else PORT_DTRDSR_ON OR PORT_CTSRTS_ON OR PORT_DCD_ON)"

definition client_dlci :: "u8 \<Rightarrow> bool \<Rightarrow> RawAddress \<Rightarrow> rfc_st \<Rightarrow> u8" where
  "client_dlci sc server addr s =
     (case port_find_mcb addr s of
        Some m \<Rightarrow> if \<not> is_initiator (rfc_mcb s ! m) \<and> \<not> server then push_bit 1 sc + 1 else push_bit 1 sc
      | None \<Rightarrow> push_bit 1 sc)"

text \<open>The result, the handle given to the application, and the state.\<close>

definition RFCOMM_CreateConnectionWithSecurity ::
    "rfc_env \<Rightarrow> u16 \<Rightarrow> u8 \<Rightarrow> bool \<Rightarrow> u16 \<Rightarrow> RawAddress \<Rightarrow> callback option \<Rightarrow> u16 \<Rightarrow> rfc_st \<Rightarrow>
      (tPORT_RESULT \<times> nat \<times> rfc_st) option" where
  "RFCOMM_CreateConnectionWithSecurity E uu sc server mt addr mgmt secm s =
     (if sc = 0 \<or> sc > RFCOMM_MAX_SCN then Some (PORT_INVALID_SCN, 0, s) else
      let d = client_dlci sc server addr s;
          dup = (if server then None else
                 case port_find_port d addr s of
                   Some q \<Rightarrow> if \<not> is_server (ports s ! q) then Some q else None
                 | None \<Rightarrow> None) in
      case dup of Some q \<Rightarrow> Some (PORT_ALREADY_OPENED, handle (ports s ! q), s)
      | None \<Rightarrow>
      (case port_allocate_port d addr s of
         (None, s) \<Rightarrow> Some (PORT_NO_RESOURCES, 0, s)
       | (Some p, s) \<Rightarrow> do {
           let rfcomm_mtu = (word_of_nat (L2CAP_MTU_SIZE - RFCOMM_DATA_OVERHEAD) :: u16);
           let n = (if mt \<noteq> 0 then if mt < rfcomm_mtu then mt else rfcomm_mtu else rfcomm_mtu);
           let s = pupd p (\<lambda>c. c\<lparr>sec_mask := secm, default_signal_state := default_signals uu,
                port_state := PORT_CONNECTION_STATE_OPENING, uuid := uu, is_server := server,
                scn := sc, ev_mask := 0, mtu := n,
                keep_port_handle := server \<or> keep_port_handle c,
                keep_mtu := (if server then n else keep_mtu c),
                local_ctrl := (local_ctrl c)\<lparr>modem_signal := default_signals uu, ctrl_fc := False\<rparr>,
                p_mgmt_callback := mgmt, bd_addr := addr\<rparr>) s;
           if server then Some (PORT_SUCCESS, p + 1, s)
           else do { (r, s) \<leftarrow> port_open_continue E p s; Some (r, p + 1, s) }
         }))"

definition get_port_from_handle :: "u16 \<Rightarrow> nat option" where
  "get_port_from_handle h = (if h = 0 \<or> unat h > MAX_RFC_PORTS then None else Some (unat h - 1))"

text \<open>The guard that most of the interface functions share.\<close>

definition not_opened :: "tPORT \<Rightarrow> bool" where
  "not_opened c \<longleftrightarrow> \<not> in_use c \<or> port_state c = PORT_CONNECTION_STATE_CLOSED"

definition RFCOMM_RemoveConnection :: "u16 \<Rightarrow> rfc_st \<Rightarrow> (tPORT_RESULT \<times> rfc_st) option" where
  "RFCOMM_RemoveConnection h s =
     (case get_port_from_handle h of None \<Rightarrow> Some (PORT_BAD_HANDLE, s) | Some p \<Rightarrow> do {
        c \<leftarrow> pget p s;
        if not_opened c then Some (PORT_SUCCESS, s) else do {
          s \<leftarrow> port_start_close p (pupd p (port_state_update (\<lambda>_. PORT_CONNECTION_STATE_CLOSING)) s);
          Some (PORT_SUCCESS, s)
        }
      })"

definition RFCOMM_RemoveServer :: "u16 \<Rightarrow> rfc_st \<Rightarrow> (tPORT_RESULT \<times> rfc_st) option" where
  "RFCOMM_RemoveServer h s =
     (case get_port_from_handle h of None \<Rightarrow> Some (PORT_BAD_HANDLE, s) | Some p \<Rightarrow> do {
        c \<leftarrow> pget p s;
        let s = pupd p (p_mgmt_callback_update (\<lambda>_. None)) s;
        if not_opened c then Some (PORT_SUCCESS, s) else do {
          s \<leftarrow> port_start_close p (pupd p (\<lambda>c. c\<lparr>keep_port_handle := False,
                 port_state := PORT_CONNECTION_STATE_CLOSING\<rparr>) s);
          Some (PORT_SUCCESS, s)
        }
      })"

definition RFCOMM_ControlReqFromBTSOCK ::
    "u8 \<Rightarrow> RawAddress \<Rightarrow> tPORT_CTRL \<Rightarrow> rfc_st \<Rightarrow> (tPORT_RESULT \<times> rfc_st) option" where
  "RFCOMM_ControlReqFromBTSOCK d addr ctl s =
     (case port_find_mcb addr s of None \<Rightarrow> Some (PORT_BAD_BD_ADDR, s) | Some m \<Rightarrow> do {
        pp \<leftarrow> port_find_mcb_dlci_port (Some m) d s;
        case pp of None \<Rightarrow> Some (PORT_NOT_OPENED, s) | Some p \<Rightarrow> do {
          c \<leftarrow> pget p s;
          s \<leftarrow> RFCOMM_ControlReq (Some m) d ctl (pupd p (local_ctrl_update (\<lambda>_. ctl)) s);
          Some (PORT_SUCCESS, s)
        }
      })"

section \<open>Settings and status\<close>

definition PORT_SetEventMaskAndCallback ::
    "u16 \<Rightarrow> u32 \<Rightarrow> callback option \<Rightarrow> rfc_st \<Rightarrow> (tPORT_RESULT \<times> rfc_st) option" where
  "PORT_SetEventMaskAndCallback h evm cb s =
     (case get_port_from_handle h of None \<Rightarrow> Some (PORT_BAD_HANDLE, s) | Some p \<Rightarrow> do {
        c \<leftarrow> pget p s;
        if not_opened c then Some (PORT_NOT_OPENED, s)
        else Some (PORT_SUCCESS, pupd p (\<lambda>c. c\<lparr>ev_mask := evm, p_callback := cb\<rparr>) s)
      })"

definition PORT_ClearKeepHandleFlag :: "u16 \<Rightarrow> rfc_st \<Rightarrow> (tPORT_RESULT \<times> rfc_st) option" where
  "PORT_ClearKeepHandleFlag h s =
     (case get_port_from_handle h of None \<Rightarrow> Some (PORT_BAD_HANDLE, s) | Some p \<Rightarrow> do {
        c \<leftarrow> pget p s;
        Some (PORT_SUCCESS, pupd p (keep_port_handle_update (\<lambda>_. False)) s)
      })"

definition PORT_SetDataCOCallback ::
    "u16 \<Rightarrow> callback option \<Rightarrow> rfc_st \<Rightarrow> (tPORT_RESULT \<times> rfc_st) option" where
  "PORT_SetDataCOCallback h cb s =
     (case get_port_from_handle h of None \<Rightarrow> Some (PORT_BAD_HANDLE, s) | Some p \<Rightarrow> do {
        c \<leftarrow> pget p s;
        if not_opened c then Some (PORT_NOT_OPENED, s)
        else Some (PORT_SUCCESS, pupd p (p_data_co_callback_update (\<lambda>_. cb)) s)
      })"

text \<open>The result and, when the connection is up, the address and the channel of the peer.\<close>

definition PORT_CheckConnection ::
    "u16 \<Rightarrow> rfc_st \<Rightarrow> (tPORT_RESULT \<times> (RawAddress \<times> u16) option) option" where
  "PORT_CheckConnection h s =
     (case get_port_from_handle h of None \<Rightarrow> Some (PORT_BAD_HANDLE, None) | Some p \<Rightarrow> do {
        c \<leftarrow> pget p s;
        if not_opened c then Some (PORT_NOT_OPENED, None)
        else case p_mcb c of None \<Rightarrow> Some (PORT_LINE_ERR, None) | Some m \<Rightarrow> do {
          mc \<leftarrow> mget m s;
          if \<not> peer_ready mc \<or> rfc_state c \<noteq> RFC_STATE_OPENED then Some (PORT_LINE_ERR, None)
          else Some (PORT_SUCCESS, Some (mcb_bd_addr mc, lcid mc))
        }
      })"

definition get_port_from_mcb :: "nat \<Rightarrow> rfc_st \<Rightarrow> nat option" where
  "get_port_from_mcb m s = find (\<lambda>i. p_mcb (ports s ! i) = Some m) [0..<length (ports s)]"

definition mx_opening :: "tRFC_MX_STATE \<Rightarrow> bool" where
  "mx_opening st \<longleftrightarrow> st \<in> {RFC_MX_STATE_WAIT_CONN_CNF, RFC_MX_STATE_CONFIGURE,
     RFC_MX_STATE_SABME_WAIT_UA, RFC_MX_STATE_WAIT_SABME}"

definition port_opening :: "tRFC_PORT_STATE \<Rightarrow> bool" where
  "port_opening st \<longleftrightarrow> st \<in> {RFC_STATE_CLOSED, RFC_STATE_SABME_WAIT_UA,
     RFC_STATE_ORIG_WAIT_SEC_CHECK, RFC_STATE_TERM_WAIT_SEC_CHECK}"

text \<open>The condition inside the loops of \<^verbatim>\<open>PORT_IsOpening\<close> and \<^verbatim>\<open>PORT_IsCollisionDetected\<close>.\<close>

definition mcb_opening :: "nat \<Rightarrow> rfc_st \<Rightarrow> bool" where
  "mcb_opening m s \<longleftrightarrow> mx_opening (mcb_state (rfc_mcb s ! m)) \<or>
     mcb_state (rfc_mcb s ! m) = RFC_MX_STATE_CONNECTED \<and>
     (case get_port_from_mcb m s of None \<Rightarrow> True | Some p \<Rightarrow> port_opening (rfc_state (ports s ! p)))"

definition PORT_IsOpening :: "rfc_st \<Rightarrow> RawAddress option" where
  "PORT_IsOpening s =
     map_option (\<lambda>m. mcb_bd_addr (rfc_mcb s ! m)) (find (\<lambda>m. mcb_opening m s) [0..<length (rfc_mcb s)])"

definition PORT_IsCollisionDetected :: "RawAddress \<Rightarrow> rfc_st \<Rightarrow> bool" where
  "PORT_IsCollisionDetected addr s \<longleftrightarrow>
     (\<exists>m \<in> set [0..<length (rfc_mcb s)].
        (mcb_bd_addr (rfc_mcb s ! m) = kEmpty \<or> mcb_bd_addr (rfc_mcb s ! m) = addr) \<and>
        is_initiator (rfc_mcb s ! m) \<and> mcb_opening m s)"

definition PORT_SetSettings :: "u16 \<Rightarrow> PortSettings \<Rightarrow> rfc_st \<Rightarrow> (tPORT_RESULT \<times> rfc_st) option" where
  "PORT_SetSettings h ps s =
     (case get_port_from_handle h of None \<Rightarrow> Some (PORT_BAD_HANDLE, s) | Some p \<Rightarrow> do {
        c \<leftarrow> pget p s;
        if not_opened c then Some (PORT_NOT_OPENED, s)
        else if line_status c \<noteq> 0 then Some (PORT_LINE_ERR, s)
        else do {
          let s = pupd p (user_port_settings_update (\<lambda>_. ps)) s;
          s \<leftarrow> (if baud_rate (user_port_settings c) \<noteq> baud_rate ps then port_start_par_neg p s
               else Some s);
          Some (PORT_SUCCESS, s)
        }
      })"

definition PORT_GetSettings :: "u16 \<Rightarrow> rfc_st \<Rightarrow> (tPORT_RESULT \<times> PortSettings option) option" where
  "PORT_GetSettings h s =
     (case get_port_from_handle h of None \<Rightarrow> Some (PORT_BAD_HANDLE, None) | Some p \<Rightarrow> do {
        c \<leftarrow> pget p s;
        if not_opened c then Some (PORT_NOT_OPENED, None)
        else if line_status c \<noteq> 0 then Some (PORT_LINE_ERR, None)
        else Some (PORT_SUCCESS, Some (user_port_settings c))
      })"

definition PORT_GetSecurityMask :: "u16 \<Rightarrow> rfc_st \<Rightarrow> (tPORT_RESULT \<times> u16 option) option" where
  "PORT_GetSecurityMask h s =
     (case get_port_from_handle h of None \<Rightarrow> Some (PORT_BAD_HANDLE, None) | Some p \<Rightarrow> do {
        c \<leftarrow> pget p s;
        Some (PORT_SUCCESS, Some (sec_mask c))
      })"

definition PORT_FlowControl_MaxCredit :: "u16 \<Rightarrow> bool \<Rightarrow> rfc_st \<Rightarrow> (tPORT_RESULT \<times> rfc_st) option" where
  "PORT_FlowControl_MaxCredit h enable s =
     (case get_port_from_handle h of None \<Rightarrow> Some (PORT_BAD_HANDLE, s) | Some p \<Rightarrow> do {
        c \<leftarrow> pget p s;
        if not_opened c then Some (PORT_NOT_OPENED, s)
        else case p_mcb c of None \<Rightarrow> Some (PORT_NOT_OPENED, s) | Some m \<Rightarrow> do {
          let s = pupd p (rx_update (user_fc_update (\<lambda>_. \<not> enable))) s;
          mc \<leftarrow> mget m s;
          s \<leftarrow> (if flow mc = PORT_FC_CREDIT then
                 if enable then port_flow_control_peer p True (credit_rx c) s else Some s
               else do {
                 let fc = (\<not> enable \<or> peer_fc (rx c));
                 let s = pupd p (local_ctrl_update (ctrl_fc_update (\<lambda>_. fc))) s;
                 if fc \<noteq> ctrl_fc (local_ctrl c) then port_start_control p s else Some s
               });
          c \<leftarrow> pget p s;
          if enable \<and> queue_size (rx c) \<noteq> 0 then
            Some (PORT_SUCCESS,
              call_port_cb c ((PORT_EV_RXCHAR OR (if rx_flag_ev_pending c then PORT_EV_RXFLAG else 0))
                              AND ev_mask c)
                (pupd p (rx_flag_ev_pending_update (\<lambda>_. False)) s))
          else Some (PORT_SUCCESS, s)
        }
      })"

section \<open>Reading\<close>

text \<open>
  The loop of \<^verbatim>\<open>PORT_ReadData\<close>, by recursion on the receive queue: the bytes delivered, the
  buffers consumed, and the queue left.
\<close>

fun port_read_loop :: "nat \<Rightarrow> BT_HDR list \<Rightarrow> u8 list \<times> nat \<times> BT_HDR list" where
  "port_read_loop max_len [] = ([], 0, [])"
| "port_read_loop max_len (b # q) =
     (if max_len = 0 then ([], 0, b # q)
      else if length (bh_payload b) > max_len
      then (take max_len (bh_payload b), 0,
            b\<lparr>bh_offset := bh_offset b + max_len, bh_payload := drop max_len (bh_payload b)\<rparr> # q)
      else let (out, n, q') = port_read_loop (max_len - length (bh_payload b)) q in
           (bh_payload b @ out, n + 1, q'))"

definition PORT_ReadData ::
    "u16 \<Rightarrow> u16 \<Rightarrow> rfc_st \<Rightarrow> (tPORT_RESULT \<times> u8 list \<times> rfc_st) option" where
  "PORT_ReadData h max_len s =
     (case get_port_from_handle h of None \<Rightarrow> Some (PORT_BAD_HANDLE, [], s) | Some p \<Rightarrow> do {
        c \<leftarrow> pget p s;
        if not_opened c then Some (PORT_NOT_OPENED, [], s)
        else if line_status c \<noteq> 0 then Some (PORT_LINE_ERR, [], s)
        else case queue (rx c) of
          Some (b # q) \<Rightarrow> do {
            let (data, count, q') = port_read_loop (unat max_len) (b # q);
            let s = pupd p (rx_update (\<lambda>r. r\<lparr>queue := Some q',
                      queue_size := queue_size r - word_of_nat (length data)\<rparr>)) s;
            s \<leftarrow> port_flow_control_peer p True (word_of_nat count) s;
            Some (PORT_SUCCESS, data, s)
          }
        | _ \<Rightarrow> Some (PORT_SUCCESS, [], s)
      })"

section \<open>Writing\<close>

definition port_write :: "nat \<Rightarrow> BT_HDR \<Rightarrow> rfc_st \<Rightarrow> (tPORT_RESULT \<times> rfc_st) option" where
  "port_write p b s = do {
     c \<leftarrow> pget p s;
     if is_server c \<and> rfc_state c \<noteq> RFC_STATE_OPENED then Some (PORT_CLOSED, s) else do {
       stopped \<leftarrow> (case p_mcb c of
           None \<Rightarrow> Some True
         | Some m \<Rightarrow> do { mc \<leftarrow> mget m s; Some (\<not> peer_ready mc) });
       if peer_fc (tx c) \<or> stopped \<or> rfc_state c \<noteq> RFC_STATE_OPENED \<or>
          port_ctrl c AND (PORT_CTRL_REQ_SENT OR PORT_CTRL_IND_RECEIVED) \<noteq>
            PORT_CTRL_REQ_SENT OR PORT_CTRL_IND_RECEIVED
       then
         if unat (queue_size (tx c)) > PORT_TX_CRITICAL_WM \<or> queue_length (tx c) > PORT_TX_BUF_CRITICAL_WM
         then Some (PORT_TX_FULL, call_port_cb c (PORT_EV_ERR AND ev_mask c) s)
         else do {
           q \<leftarrow> queue (tx c);
           Some (PORT_CMD_PENDING, pupd p (tx_update (\<lambda>t. t\<lparr>queue := Some (q @ [b]),
             queue_size := queue_size t + ucast (bh_len b)\<rparr>)) s)
         }
       else do {
         m \<leftarrow> p_mcb c;
         s \<leftarrow> RFCOMM_DataReq m (dlci c) b s;
         Some (PORT_SUCCESS, s)
       }
     }
   }"

abbreviation (input) WRITE_LENGTH :: nat where
  "WRITE_LENGTH \<equiv> RFCOMM_DATA_BUF_SIZE - (BT_HDR_SIZE + L2CAP_MIN_OFFSET + RFCOMM_DATA_OVERHEAD)"

text \<open>
  Appending to the last buffer of the transmit queue, when the data fits.
\<close>

definition port_write_append :: "tPORT \<Rightarrow> u8 list \<Rightarrow> BT_HDR list option" where
  "port_write_append c data =
     (case queue (tx c) of
        Some (b # q) \<Rightarrow>
          (let l = last (b # q) in
           if length (bh_payload l) + length data \<le> unat (peer_mtu c) \<and>
              length (bh_payload l) + length data \<le> WRITE_LENGTH
           then Some (butlast (b # q) @ [l\<lparr>bh_payload := bh_payload l @ data\<rparr>])
           else None)
      | _ \<Rightarrow> None)"

text \<open>
  The loop of \<^verbatim>\<open>PORT_WriteData\<close>: the size of the next buffer, the data left, the bytes
  written, the events and the last result. Every turn writes at least one byte, so the
  length of the data plus one is enough fuel (\<open>port_write_loop_ok\<close>).
\<close>

fun port_write_loop ::
    "nat \<Rightarrow> nat \<Rightarrow> u16 \<Rightarrow> nat \<Rightarrow> u8 list \<Rightarrow> nat \<Rightarrow> u32 \<Rightarrow> tPORT_RESULT \<Rightarrow> rfc_st \<Rightarrow>
      (u8 list \<times> nat \<times> u32 \<times> tPORT_RESULT \<times> rfc_st) option" where
  "port_write_loop 0 p h len data n ev rc s = None"
| "port_write_loop (Suc k) p h len data n ev rc s =
     (if data = [] then Some (data, n, ev, rc, s) else do {
        c \<leftarrow> pget p s;
        if unat (queue_size (tx c)) > PORT_TX_HIGH_WM \<or> queue_length (tx c) > PORT_TX_BUF_HIGH_WM
        then Some (data, n, ev, rc, s)
        else do {
          let len = min (min len (unat (peer_mtu c))) (length data);
          (rc, s) \<leftarrow> port_write p \<lparr>bh_offset = L2CAP_MIN_OFFSET + RFCOMM_MIN_OFFSET,
                       bh_layer_specific = h, bh_payload = take len data\<rparr> s;
          (e, s) \<leftarrow> port_flow_control_user p s;
          let ev = ev OR e OR (if rc = PORT_SUCCESS then PORT_EV_TXCHAR else 0);
          if rc \<noteq> PORT_SUCCESS \<and> rc \<noteq> PORT_CMD_PENDING then Some (data, n, ev, rc, s)
          else port_write_loop k p h len (drop len data) (n + len) ev rc s
        }
      })"

definition PORT_WriteData :: "u16 \<Rightarrow> u8 list \<Rightarrow> rfc_st \<Rightarrow> (tPORT_RESULT \<times> nat \<times> rfc_st) option" where
  "PORT_WriteData h data s =
     (case get_port_from_handle h of None \<Rightarrow> Some (PORT_BAD_HANDLE, 0, s) | Some p \<Rightarrow> do {
        c \<leftarrow> pget p s;
        if not_opened c then Some (PORT_NOT_OPENED, 0, s)
        else if data = [] \<or> peer_mtu c = 0 then Some (PORT_UNKNOWN_ERROR, 0, s)
        else case port_write_append c data of
          Some q \<Rightarrow> Some (PORT_SUCCESS, length data,
            pupd p (tx_update (\<lambda>t. t\<lparr>queue := Some q,
              queue_size := queue_size t + word_of_nat (length data)\<rparr>)) s)
        | None \<Rightarrow> do {
            (left, n, ev, rc, s) \<leftarrow>
              port_write_loop (Suc (length data)) p h WRITE_LENGTH data 0 0 PORT_SUCCESS s;
            let ev = (if left = [] \<and> rc \<noteq> PORT_CMD_PENDING \<and> rc \<noteq> PORT_TX_QUEUE_DISABLED
                      then ev OR PORT_EV_TXEMPTY else ev);
            c \<leftarrow> pget p s;
            Some (PORT_SUCCESS, n, call_port_cb c (ev AND ev_mask c) s)
          }
      })"

text \<open>
  The loop of \<^verbatim>\<open>PORT_WriteDataCO\<close>: as above, with the data read through the call-out
  callback, and a stop with an error when reading fails.
\<close>

fun port_write_co_loop ::
    "rfc_env \<Rightarrow> callback \<Rightarrow> nat \<Rightarrow> nat \<Rightarrow> u16 \<Rightarrow> nat \<Rightarrow> u8 list \<Rightarrow> nat \<Rightarrow> u32 \<Rightarrow> tPORT_RESULT \<Rightarrow> rfc_st \<Rightarrow>
      (bool \<times> u8 list \<times> nat \<times> u32 \<times> tPORT_RESULT \<times> rfc_st) option" where
  "port_write_co_loop E cb 0 p h len data n ev rc s = None"
| "port_write_co_loop E cb (Suc k) p h len data n ev rc s =
     (if data = [] then Some (True, data, n, ev, rc, s) else do {
        c \<leftarrow> pget p s;
        if unat (queue_size (tx c)) > PORT_TX_HIGH_WM \<or> queue_length (tx c) > PORT_TX_BUF_HIGH_WM
        then do {
          (e, s) \<leftarrow> port_flow_control_user p s;
          Some (True, data, n, ev OR PORT_EV_FC, rc, s)
        }
        else do {
          let len = min (min len (unat (peer_mtu c))) (length data);
          if \<not> co_read_ok E cb (unat h) len then Some (False, data, n, ev, rc, s) else do {
            (rc, s) \<leftarrow> port_write p \<lparr>bh_offset = L2CAP_MIN_OFFSET + RFCOMM_MIN_OFFSET,
                         bh_layer_specific = h, bh_payload = take len data\<rparr> s;
            (e, s) \<leftarrow> port_flow_control_user p s;
            let ev = ev OR e OR (if rc = PORT_SUCCESS then PORT_EV_TXCHAR else 0);
            if rc \<noteq> PORT_SUCCESS \<and> rc \<noteq> PORT_CMD_PENDING then Some (True, data, n, ev, rc, s)
            else port_write_co_loop E cb k p h len (drop len data) (n + len) ev rc s
          }
        }
      })"

definition PORT_WriteDataCO :: "rfc_env \<Rightarrow> u16 \<Rightarrow> rfc_st \<Rightarrow> (tPORT_RESULT \<times> nat \<times> rfc_st) option" where
  "PORT_WriteDataCO E h s =
     (case get_port_from_handle h of None \<Rightarrow> Some (PORT_BAD_HANDLE, 0, s) | Some p \<Rightarrow> do {
        c \<leftarrow> pget p s;
        if not_opened c then Some (PORT_NOT_OPENED, 0, s)
        else if peer_mtu c = 0 then Some (PORT_UNKNOWN_ERROR, 0, s)
        else do {
          cb \<leftarrow> p_data_co_callback c;
          case co_outgoing E cb (unat h) of
            None \<Rightarrow> Some (PORT_UNKNOWN_ERROR, 0, s)
          | Some data \<Rightarrow>
              if data = [] then Some (PORT_SUCCESS, 0, s)
              else case port_write_append c data of
                Some q \<Rightarrow>
                  if \<not> co_read_ok E cb (unat h) (length data) then Some (PORT_UNKNOWN_ERROR, 0, s)
                  else Some (PORT_SUCCESS, length data,
                    pupd p (tx_update (\<lambda>t. t\<lparr>queue := Some q,
                      queue_size := queue_size t + word_of_nat (length data)\<rparr>)) s)
              | None \<Rightarrow> do {
                  (ok_read, left, n, ev, rc, s) \<leftarrow>
                    port_write_co_loop E cb (Suc (length data)) p h WRITE_LENGTH data 0 0 PORT_SUCCESS s;
                  if \<not> ok_read then Some (PORT_UNKNOWN_ERROR, n, s) else do {
                    let ev = (if left = [] \<and> rc \<noteq> PORT_CMD_PENDING \<and> rc \<noteq> PORT_TX_QUEUE_DISABLED
                              then ev OR PORT_EV_TXEMPTY else ev);
                    c \<leftarrow> pget p s;
                    Some (PORT_SUCCESS, n, call_port_cb c (ev AND ev_mask c) s)
                  }
                }
        }
      })"

end
