(* ===== verification/Port_Data.thy ===== *)
theory Port_Data
  imports Port_Flow Port_Api
begin

text \<open>
  The byte stream that \<^verbatim>\<open>PORT_ReadData\<close> and \<^verbatim>\<open>PORT_WriteData\<close> of
  \<^verbatim>\<open>port_api.cc\<close> give the application, over the data path of \<^verbatim>\<open>Port_Flow\<close>: what is
  written goes out in order in frames the peer accepts, and what arrived is read in order,
  whatever the sizes of the reads and writes. The definitions only describe states.
\<close>

section \<open>Vocabulary\<close>

text \<open>The modem status handshake is over in both directions.\<close>

definition msc_done :: "tPORT \<Rightarrow> bool" where
  "msc_done c \<longleftrightarrow> port_ctrl c AND (PORT_CTRL_REQ_SENT OR PORT_CTRL_IND_RECEIVED) = PORT_CTRL_REQ_SENT OR PORT_CTRL_IND_RECEIVED"

text \<open>An open port whose queued buffers wait for credits, each within the peer's frame size.\<close>

definition tx_inv :: "tPORT \<Rightarrow> BT_HDR list \<Rightarrow> bool" where
  "tx_inv c q \<longleftrightarrow> tx_ready c q \<and> (q \<noteq> [] \<longrightarrow> peer_fc (tx c)) \<and> rfc_state c = RFC_STATE_OPENED \<and> msc_done c \<and>
     (\<forall>b \<in> set q. length (bh_payload b) \<le> unat (peer_mtu c))"

text \<open>
  What a write has done: the bytes \<open>w\<close> were taken, the frames \<open>fs\<close> that were sent and the
  buffers that are queued now carry, in this order, the bytes queued before and then \<open>w\<close>.
\<close>

definition written :: "nat \<Rightarrow> nat \<Rightarrow> tRFC_MCB \<Rightarrow> tPORT \<Rightarrow> BT_HDR list \<Rightarrow> u8 list \<Rightarrow> rfc_st \<Rightarrow> rfc_st \<Rightarrow> bool" where
  "written p m mc c q w s s' \<longleftrightarrow> (\<exists>c' q' fs bs. linked p c' m mc s' \<and> dlci c' = dlci c \<and> peer_mtu c' = peer_mtu c \<and>
     tx_inv c' q' \<and> out s' = out s @ fs \<and> list_all2 (carries mc c) fs bs \<and> stream (bs @ q') = stream q @ w \<and>
     (\<forall>b \<in> set bs. length (bh_payload b) \<le> unat (peer_mtu c)))"

section \<open>Reading\<close>

lemma port_read_loop_stream:
  "port_read_loop n q = (data, k, q') \<Longrightarrow>
     data = take n (stream q) \<and> stream q' = drop n (stream q) \<and> k + length q' = length q"
  by (induction n q arbitrary: data k q' rule: port_read_loop.induct) (auto split: if_splits prod.splits)

lemma port_of_handle: "p < 30 \<Longrightarrow> get_port_from_handle (word_of_nat (Suc p)) = Some p"
  by (auto simp: get_port_from_handle_def unat_of_nat_small word_of_nat_eq_0_iff dest: dvd_imp_le simp del: of_nat_Suc)

text \<open>
  C3: Reading is a byte stream. \<^verbatim>\<open>PORT_ReadData\<close> returns the first bytes of what is queued,
  as many as were asked for or as there are, across the bounds of the frames; what stays
  queued is the rest of the stream with its byte count right. It succeeds on every open port,
  with an empty queue too.
\<close>

theorem PORT_ReadData_stream:
  assumes l: "linked p c m mc s" and f: "flow mc = PORT_FC_CREDIT" and mq: "cmd_q mc = Some cq"
    and o: "\<not> not_opened c" "line_status c = 0" and q: "rx_ready c q" and p: "p < MAX_RFC_PORTS"
  shows "ok (PORT_ReadData (word_of_nat (Suc p)) n s) (\<lambda>(r, data, s'). r = PORT_SUCCESS \<and>
    data = take (unat n) (stream q) \<and>
    (\<exists>c' q'. pget p s' = Some c' \<and> rx_ready c' q' \<and> stream q' = drop (unat n) (stream q)))"
proof -
  have c: "pget p s = Some c" using l by (simp add: linked_def)
  have h: "get_port_from_handle (word_of_nat (Suc p)) = Some p" using p by (rule port_of_handle)
  have qq: "queue (rx c) = Some q" using q by (simp add: rx_ready_def)
  show ?thesis
  proof (cases q)
    case Nil
    with c h o qq q show ?thesis by (auto simp: PORT_ReadData_def intro: exI [of _ "[]"])
  next
    case (Cons b bs)
    obtain data k q' where lp: "port_read_loop (unat n) q = (data, k, q')" by (metis prod_cases3)
    note st = port_read_loop_stream [OF lp]
    let ?c1 = "c\<lparr>rx := (rx c)\<lparr>queue := Some q', queue_size := queue_size (rx c) - word_of_nat (length data)\<rparr>\<rparr>"
    have upd: "pupd p (rx_update (\<lambda>r. r\<lparr>queue := Some q', queue_size := queue_size r - word_of_nat (length data)\<rparr>)) s = pupd p (\<lambda>_. ?c1) s"
      by (rule pupd_eqI [OF c]) simp
    have len: "tx_bytes q = length data + tx_bytes q'"
      unfolding length_stream [symmetric] using st by simp
    have r1: "rx_ready ?c1 q'" using q len by (simp add: rx_ready_def)
    then have r2: "rx_ready (consumed ?c1 (word_of_nat k)) q'" by (simp add: rx_ready_def consumed_def Let_def)
    have l1: "linked p ?c1 m mc (pupd p (\<lambda>_. ?c1) s)" by (rule linked_rx [OF l])
    have eq: "PORT_ReadData (word_of_nat (Suc p)) n s = port_flow_control_peer p True (word_of_nat k) (pupd p (\<lambda>_. ?c1) s) \<bind>
        (\<lambda>s. Some (PORT_SUCCESS, data, s))"
      using c h o qq lp upd Cons by (simp add: PORT_ReadData_def)
    show ?thesis unfolding eq flow_control_peer_True [OF l1 f mq] ok_bind ok_Some prod.case
      using st r2 c by auto
  qed
qed

theorem PORT_ReadData_stream_witness:
  "ok (PORT_ReadData 1 2 (pupd 0 (\<lambda>_. filled_port) link_st)) (\<lambda>(r, data, s'). r = PORT_SUCCESS \<and> data = [1, 2])"
proof -
  have d: "dlci filled_port = 2" "p_mcb filled_port = Some 0"
    by (simp_all add: filled_port_def link_port_def fresh_port_def)
  have "ok (PORT_ReadData (word_of_nat (Suc 0)) 2 (pupd 0 (\<lambda>_. filled_port) link_st)) (\<lambda>(r, data, s'). r = PORT_SUCCESS \<and>
    data = take (unat (2 :: u16)) (stream [buf [1, 2], buf [3]]) \<and>
    (\<exists>c' q'. pget 0 s' = Some c' \<and> rx_ready c' q' \<and> stream q' = drop (unat (2 :: u16)) (stream [buf [1, 2], buf [3]])))"
    by (rule PORT_ReadData_stream [OF linked_link [OF d(2,1)]])
      (simp_all add: filled_port_def link_mcb_def rx_ready_def buf_def not_opened_def,
       simp_all add: link_port_def fresh_port_def port_set_defaults_def zero_port_def)
  then show ?thesis by (auto simp: buf_def elim!: ok_weaken)
qed

section \<open>Writing\<close>

lemma data_sent_more [simp]:
  "port_ctrl (data_sent mc b c) = port_ctrl c" "peer_mtu (data_sent mc b c) = peer_mtu c" "handle (data_sent mc b c) = handle c"
  by (simp_all add: data_sent_def credit_taken_def Let_def)

lemma port_write_queues:
  assumes l: "linked p c m mc s" and st: "rfc_state c = RFC_STATE_OPENED" and fc: "peer_fc (tx c)" and q: "queue (tx c) = Some q"
    and room: "unat (queue_size (tx c)) \<le> PORT_TX_CRITICAL_WM" "length q \<le> PORT_TX_BUF_CRITICAL_WM"
  shows "port_write p b s = Some (PORT_CMD_PENDING,
    pupd p (\<lambda>_. c\<lparr>tx := (tx c)\<lparr>queue := Some (q @ [b]), queue_size := queue_size (tx c) + ucast (bh_len b)\<rparr>\<rparr>) s)"
proof -
  have c: "pget p s = Some c" "mget m s = Some mc" "p_mcb c = Some m" using l by (simp_all add: linked_def)
  have "pupd p (tx_update (\<lambda>t. t\<lparr>queue := Some (q @ [b]), queue_size := queue_size t + ucast (bh_len b)\<rparr>)) s =
      pupd p (\<lambda>_. c\<lparr>tx := (tx c)\<lparr>queue := Some (q @ [b]), queue_size := queue_size (tx c) + ucast (bh_len b)\<rparr>\<rparr>) s"
    by (rule pupd_eqI [OF c(1)]) simp
  then show ?thesis using c st fc q room
    by (simp add: port_write_def queue_length_def)
qed

lemma port_write_sends:
  assumes l: "linked p c m mc s" and st: "rfc_state c = RFC_STATE_OPENED" and fc: "\<not> peer_fc (tx c)"
    and "peer_ready mc" "msc_done c" "5 \<le> bh_offset b"
  shows "port_write p b s = Some (PORT_SUCCESS, emit (data_frame mc c (piggyback mc c b) b) (pupd p (data_sent mc b) s))"
  using assms DataReq_eq [OF l st] by (simp add: port_write_def linked_def msc_done_def)

text \<open>Writing one buffer: it goes out, or to the end of the queue.\<close>

lemma port_write_ok:
  assumes l: "linked p c m mc s" and f: "flow mc = PORT_FC_CREDIT" "peer_ready mc" and i: "tx_inv c q"
    and b: "bh_payload b \<noteq> []" "length (bh_payload b) \<le> unat (peer_mtu c)" "5 \<le> bh_offset b"
    and room: "unat (queue_size (tx c)) \<le> PORT_TX_HIGH_WM" "queue_length (tx c) \<le> PORT_TX_BUF_HIGH_WM"
  shows "\<exists>rc s' c' q' fs bs. port_write p b s = Some (rc, s') \<and> rc \<in> {PORT_SUCCESS, PORT_CMD_PENDING} \<and>
    linked p c' m mc s' \<and> dlci c' = dlci c \<and> peer_mtu c' = peer_mtu c \<and> tx_inv c' q' \<and> out s' = out s @ fs \<and>
    list_all2 (carries mc c) fs bs \<and> bs @ q' = q @ [b]"
proof (cases "peer_fc (tx c)")
  case True
  have lb: "length (bh_payload b) < 2 ^ 16"
    using b(2) unsigned_less [of "peer_mtu c", where 'a = nat] by simp
  have qq: "queue (tx c) = Some q" and qs: "queue_size (tx c) = word_of_nat (tx_bytes q)" "tx_bytes q < 2 ^ 32"
    using i by (simp_all add: tx_inv_def tx_ready_def)
  have qb: "tx_bytes q \<le> PORT_TX_HIGH_WM" using room(1) qs by (simp add: unat_of_nat_small)
  let ?c = "c\<lparr>tx := (tx c)\<lparr>queue := Some (q @ [b]), queue_size := queue_size (tx c) + ucast (bh_len b)\<rparr>\<rparr>"
  have "tx_inv ?c (q @ [b])"
    using i True b qb lb by (simp add: tx_inv_def tx_ready_def ucast_bh_len msc_done_def)
  moreover have "linked p ?c m mc (pupd p (\<lambda>_. ?c) s)" using l by (simp add: linked_def)
  moreover have "port_write p b s = Some (PORT_CMD_PENDING, pupd p (\<lambda>_. ?c) s)"
    by (rule port_write_queues [OF l _ True qq]) (use i room qq in \<open>simp_all add: tx_inv_def queue_length_def\<close>)
  ultimately show ?thesis
    by - (rule exI [of _ PORT_CMD_PENDING], rule exI [of _ "pupd p (\<lambda>_. ?c) s"], rule exI [of _ ?c],
        rule exI [of _ "q @ [b]"], rule exI [of _ "[]"], simp)
next
  case False
  then have q: "q = []" using i by (simp add: tx_inv_def)
  let ?f = "data_frame mc c (piggyback mc c b) b"
  let ?s = "emit ?f (pupd p (data_sent mc b) s)"
  have cr: "0 < credit_tx c" using i False by (simp add: tx_inv_def tx_ready_def word_neq_0_conv)
  have "tx_inv (data_sent mc b c) []"
    using i q data_sent_credit [OF f(1) cr False, of b] by (simp add: tx_inv_def tx_ready_def msc_done_def)
  moreover have "linked p (data_sent mc b c) m mc ?s" using l by (simp add: linked_def)
  moreover have "port_write p b s = Some (PORT_SUCCESS, ?s)"
    by (rule port_write_sends [OF l _ False f(2)]) (use i b in \<open>simp_all add: tx_inv_def\<close>)
  ultimately show ?thesis using q
    by - (rule exI [of _ PORT_SUCCESS], rule exI [of _ ?s], rule exI [of _ "data_sent mc b c"], rule exI [of _ "[]"],
        rule exI [of _ "[?f]"], rule exI [of _ "[b]"], simp)
qed

lemma tx_inv_user_fc: "tx_inv (c\<lparr>tx := (tx c)\<lparr>user_fc := u\<rparr>\<rparr>) q = tx_inv c q"
  by (simp add: tx_inv_def msc_done_def)

lemma written_trans:
  assumes "linked p c1 m mc s1" "dlci c1 = dlci c" "peer_mtu c1 = peer_mtu c" "out s1 = out s @ fs1"
    "list_all2 (carries mc c) fs1 bs1" "stream (bs1 @ q1) = stream q @ w1" "\<forall>b \<in> set bs1. length (bh_payload b) \<le> unat (peer_mtu c)"
    "written p m mc c1 q1 w2 s1 s2"
  shows "written p m mc c q (w1 @ w2) s s2"
proof -
  obtain c' q' fs bs where w: "linked p c' m mc s2" "dlci c' = dlci c1" "peer_mtu c' = peer_mtu c1" "tx_inv c' q'"
    "out s2 = out s1 @ fs" "list_all2 (carries mc c1) fs bs" "stream (bs @ q') = stream q1 @ w2"
    "\<forall>b \<in> set bs. length (bh_payload b) \<le> unat (peer_mtu c1)"
    using assms(8) by (auto simp: written_def)
  have "carries mc c1 = carries mc c" using assms(2) by (simp add: carries_def data_frame_def fun_eq_iff)
  then have "list_all2 (carries mc c) (fs1 @ fs) (bs1 @ bs)" using w(6) assms(5) by (simp add: list_all2_appendI)
  moreover have "stream ((bs1 @ bs) @ q') = stream q @ w1 @ w2"
    using w(7) assms(6) by (metis append_assoc stream_simps(3))
  ultimately show ?thesis unfolding written_def
    by - (rule exI [of _ c'], rule exI [of _ q'], rule exI [of _ "fs1 @ fs"], rule exI [of _ "bs1 @ bs"],
      use w assms in auto)
qed

text \<open>One turn of the loop of \<^verbatim>\<open>PORT_WriteData\<close>.\<close>

lemma port_write_turn:
  assumes l: "linked p c m mc s" and f: "flow mc = PORT_FC_CREDIT" "peer_ready mc" and i: "tx_inv c q"
    and d: "data \<noteq> []" "0 < len" "peer_mtu c \<noteq> 0"
    and room: "unat (queue_size (tx c)) \<le> PORT_TX_HIGH_WM" "queue_length (tx c) \<le> PORT_TX_BUF_HIGH_WM"
    and n: "k = min (min len (unat (peer_mtu c))) (length data)"
  shows "\<exists>rc s' c' q' fs bs. port_write p \<lparr>bh_offset = L2CAP_MIN_OFFSET + RFCOMM_MIN_OFFSET, bh_layer_specific = h,
       bh_payload = take k data\<rparr> s = Some (rc, s') \<and>
    rc \<in> {PORT_SUCCESS, PORT_CMD_PENDING} \<and> linked p c' m mc s' \<and> dlci c' = dlci c \<and> peer_mtu c' = peer_mtu c \<and>
    tx_inv c' q' \<and> out s' = out s @ fs \<and> list_all2 (carries mc c) fs bs \<and>
    stream (bs @ q') = stream q @ take k data \<and> (\<forall>b \<in> set bs. length (bh_payload b) \<le> unat (peer_mtu c))"
proof -
  let ?b = "\<lparr>bh_offset = L2CAP_MIN_OFFSET + RFCOMM_MIN_OFFSET, bh_layer_specific = h, bh_payload = take k data\<rparr>"
  have k: "0 < k" "k \<le> length data" "k \<le> unat (peer_mtu c)" using d n by (auto simp: unat_gt_0)
  have b: "bh_payload ?b \<noteq> []" "length (bh_payload ?b) \<le> unat (peer_mtu c)" "5 \<le> bh_offset ?b"
    using k d(1) by simp_all
  obtain rc s1 c1 q1 fs bs where w: "port_write p ?b s = Some (rc, s1)" "rc \<in> {PORT_SUCCESS, PORT_CMD_PENDING}"
    "linked p c1 m mc s1" "dlci c1 = dlci c" "peer_mtu c1 = peer_mtu c" "tx_inv c1 q1" "out s1 = out s @ fs"
    "list_all2 (carries mc c) fs bs" "bs @ q1 = q @ [?b]"
    using port_write_ok [OF l f i b room] by blast
  have "\<forall>b \<in> set bs. length (bh_payload b) \<le> unat (peer_mtu c)"
  proof
    fix b assume "b \<in> set bs"
    then have "b \<in> set (q @ [?b])" unfolding w(9) [symmetric] by simp
    then show "length (bh_payload b) \<le> unat (peer_mtu c)" using i k(3) by (auto simp: tx_inv_def)
  qed
  moreover have "stream (bs @ q1) = stream q @ take k data" unfolding w(9) by simp
  ultimately show ?thesis using w(1-8) by blast
qed

lemma port_write_loop_ok:
  assumes "linked p c m mc s" "flow mc = PORT_FC_CREDIT" "peer_ready mc" "tx_inv c q" "0 < len" "peer_mtu c \<noteq> 0"
    "length data < k"
  shows "ok (port_write_loop k p h len data n ev rc s) (\<lambda>(left, n', ev', rc', s').
    \<exists>w. data = w @ left \<and> n' = n + length w \<and> written p m mc c q w s s')"
  using assms
proof (induction k arbitrary: len data n ev rc s c q)
  case (Suc k)
  note l = Suc.prems(1) and i = Suc.prems(4)
  have c: "pget p s = Some c" using l by (simp add: linked_def)
  have nil: "written p m mc c q [] s s" unfolding written_def using l i
    by - (rule exI [of _ c], rule exI [of _ q], rule exI [of _ "[]"], rule exI [of _ "[]"], simp)
  show ?case
  proof (cases "data = [] \<or> unat (queue_size (tx c)) > PORT_TX_HIGH_WM \<or> queue_length (tx c) > PORT_TX_BUF_HIGH_WM")
    case True
    with c nil show ?thesis by auto
  next
    case False
    define len' where "len' = min (min len (unat (peer_mtu c))) (length data)"
    obtain rc' s1 c1 q1 fs bs where w: "port_write p \<lparr>bh_offset = L2CAP_MIN_OFFSET + RFCOMM_MIN_OFFSET,
        bh_layer_specific = h, bh_payload = take len' data\<rparr> s = Some (rc', s1)" "rc' \<in> {PORT_SUCCESS, PORT_CMD_PENDING}"
      "linked p c1 m mc s1" "dlci c1 = dlci c" "peer_mtu c1 = peer_mtu c" "tx_inv c1 q1" "out s1 = out s @ fs"
      "list_all2 (carries mc c) fs bs" "stream (bs @ q1) = stream q @ take len' data"
      "\<forall>b \<in> set bs. length (bh_payload b) \<le> unat (peer_mtu c)"
      using port_write_turn [OF l Suc.prems(2,3) i _ Suc.prems(5,6) _ _ len'_def, of h] False by auto
    have len': "0 < len'" "len' \<le> length data" using False Suc.prems(5,6) by (auto simp: len'_def unat_gt_0)
    have step: "port_write_loop (Suc k) p h len data n ev rc s = port_flow_control_user p s1 \<bind>
      (\<lambda>(e, s). port_write_loop k p h len' (drop len' data) (n + len')
         (ev OR e OR (if rc' = PORT_SUCCESS then PORT_EV_TXCHAR else 0)) rc' s)"
      using c False w(1,2) by (cases "rc' = PORT_SUCCESS") (simp_all add: Let_def len'_def [symmetric])
    show ?thesis unfolding step
    proof (rule ok_bindI [OF flow_control_user_ok [OF w(3)]], clarify)
      fix e s2 u
      let ?c2 = "c1\<lparr>tx := (tx c1)\<lparr>user_fc := u\<rparr>\<rparr>"
      assume l2: "linked p ?c2 m mc s2" and o2: "out s2 = out s1"
      have tr: "written p m mc c q (take len' data @ w2) s s'" if "written p m mc ?c2 q1 w2 s2 s'" for w2 s'
        by (rule written_trans [OF l2 _ _ _ w(8,9,10) that]) (use w o2 in simp_all)
      show "ok (port_write_loop k p h len' (drop len' data) (n + len')
           (ev OR e OR (if rc' = PORT_SUCCESS then PORT_EV_TXCHAR else 0)) rc' s2)
         (\<lambda>(left, n', ev', rc', s'). \<exists>w. data = w @ left \<and> n' = n + length w \<and> written p m mc c q w s s')"
      proof (rule ok_weaken [OF Suc.IH [OF l2 Suc.prems(2,3), of q1]], safe)
        fix left s' w2 assume "drop len' data = w2 @ left" and w2: "written p m mc ?c2 q1 w2 s2 s'"
        then have "data = (take len' data @ w2) @ left" using append_take_drop_id [of len' data] by simp
        then show "\<exists>w. data = w @ left \<and> n + len' + length w2 = n + length w \<and> written p m mc c q w s s'"
          using tr [OF w2] len'(2) by (intro exI [of _ "take len' data @ w2"]) simp
      qed (use w Suc.prems(6,7) len' in \<open>simp_all add: tx_inv_user_fc\<close>)
    qed
  qed
qed simp

lemma stream_append_last: "q \<noteq> [] \<Longrightarrow> stream (butlast q @ [(last q)\<lparr>bh_payload := bh_payload (last q) @ d\<rparr>]) = stream q @ d"
  by (induction q) (auto simp: stream_simps)

lemma tx_bytes_append_last:
  "q \<noteq> [] \<Longrightarrow> tx_bytes (butlast q @ [(last q)\<lparr>bh_payload := bh_payload (last q) @ d\<rparr>]) = tx_bytes q + length d"
  by (induction q) auto

lemma port_write_append_SomeD:
  assumes "port_write_append c d = Some q'" "queue (tx c) = Some q"
  shows "q \<noteq> []" "q' = butlast q @ [(last q)\<lparr>bh_payload := bh_payload (last q) @ d\<rparr>]"
    "length (bh_payload (last q)) + length d \<le> unat (peer_mtu c)"
  using assms by (auto simp: port_write_append_def Let_def split: list.splits if_splits)

lemma write_append_ok:
  assumes l: "linked p c m mc s" and i: "tx_inv c q" and a: "port_write_append c d = Some q'" and r: "tx_bytes q + length d < 2 ^ 32"
  shows "written p m mc c q d s (pupd p (tx_update (\<lambda>t. t\<lparr>queue := Some q',
              queue_size := queue_size t + word_of_nat (length d)\<rparr>)) s)"
proof -
  have qq: "queue (tx c) = Some q" using i by (simp add: tx_inv_def tx_ready_def)
  note A = port_write_append_SomeD [OF a qq]
  let ?c = "c\<lparr>tx := (tx c)\<lparr>queue := Some q', queue_size := queue_size (tx c) + word_of_nat (length d)\<rparr>\<rparr>"
  let ?s = "pupd p (\<lambda>_. ?c) s"
  have e: "pupd p (tx_update (\<lambda>t. t\<lparr>queue := Some q',
              queue_size := queue_size t + word_of_nat (length d)\<rparr>)) s = ?s"
    by (rule pupd_eqI [of p s c]) (use l in \<open>simp_all add: linked_def\<close>)
  have "linked p ?c m mc ?s" using l by (simp add: linked_def)
  moreover have "tx_inv ?c q'"
  proof -
    obtain q0 b where "q = q0 @ [b]" using A(1) by (cases q rule: rev_cases) auto
    moreover have "unat (peer_mtu c) < 2 ^ 16" using unsigned_less [of "peer_mtu c", where 'a = nat] by simp
    ultimately show ?thesis using i A(2,3) r
      by (auto simp: tx_inv_def tx_ready_def msc_done_def)
  qed
  moreover have "stream q' = stream q @ d" unfolding A(2) by (rule stream_append_last [OF A(1)])
  ultimately show ?thesis unfolding e written_def
    by - (rule exI [of _ ?c], rule exI [of _ q'], rule exI [of _ "[]"], rule exI [of _ "[]"], simp)
qed

text \<open>
  C2: Writing is a byte stream. On an open port \<^verbatim>\<open>PORT_WriteData\<close> takes the first \<open>n\<close>
  bytes of the data (and reports \<open>n\<close>); the frames it sends and the buffers it leaves queued
  carry, in this order, what was queued before and then these bytes, with nothing lost, added
  or reordered; every frame is within the peer's frame size; and the port is again in such a
  state. The loop ends: its fuel, the length of the data plus one, is enough. At most one
  callback to the user follows.
\<close>

theorem PORT_WriteData_stream:
  assumes l: "linked p c m mc s" and f: "flow mc = PORT_FC_CREDIT" "peer_ready mc" and i: "tx_inv c q"
    and r: "tx_bytes q + length data < 2 ^ 32" and p: "p < MAX_RFC_PORTS"
    and d: "data \<noteq> []" "peer_mtu c \<noteq> 0" "\<not> not_opened c"
  shows "ok (PORT_WriteData (word_of_nat (Suc p)) data s) (\<lambda>(rc, n, s'). rc = PORT_SUCCESS \<and> n \<le> length data \<and>
    (\<exists>s1. written p m mc c q (take n data) s s1 \<and>
      (s' = s1 \<or> (\<exists>cb ev h. s' = emit (Port_callback cb ev h) s1))))"
proof -
  have c: "pget p s = Some c" using l by (simp add: linked_def)
  have h: "get_port_from_handle (word_of_nat (Suc p)) = Some p" using p by (rule port_of_handle)
  show ?thesis
  proof (cases "port_write_append c data")
    case (Some q')
    from write_append_ok [OF l i Some r] show ?thesis
      using Some c d h by (auto simp: PORT_WriteData_def simp del: of_nat_Suc)
  next
    case None
    have loop: "ok (port_write_loop (Suc (length data)) p (word_of_nat (Suc p)) WRITE_LENGTH data 0 0 PORT_SUCCESS s)
      (\<lambda>(left, n', ev', rc', s'). \<exists>w. data = w @ left \<and> n' = 0 + length w \<and> written p m mc c q w s s')"
      by (rule port_write_loop_ok [OF l f i]) (use d in simp_all)
    have cb: "call_port_cb c' e s1 = s1 \<or> (\<exists>cb ev h. call_port_cb c' e s1 = emit (Port_callback cb ev h) s1)" for c' e s1
      by (auto simp: call_port_cb_def split: option.split)
    have pg: "\<exists>c'. pget p s1 = Some c'" if "written p m mc c q w s s1" for w s1
      using that by (auto simp: written_def linked_def)
    have eq: "PORT_WriteData (word_of_nat (Suc p)) data s =
      port_write_loop (Suc (length data)) p (word_of_nat (Suc p)) WRITE_LENGTH data 0 0 PORT_SUCCESS s \<bind>
      (\<lambda>(left, n, ev, rc, s). pget p s \<bind> (\<lambda>c. Some (PORT_SUCCESS, n, call_port_cb c ((if left = [] \<and> rc \<noteq> PORT_CMD_PENDING \<and> rc \<noteq> PORT_TX_QUEUE_DISABLED
  then ev OR PORT_EV_TXEMPTY else ev) AND ev_mask c) s)))"
      using None c d h by (simp add: PORT_WriteData_def Let_def del: of_nat_Suc port_write_loop.simps)
    show ?thesis unfolding eq
    proof (rule ok_bindI [OF loop], clarify)
      fix left n ev rc s1 w
      assume w: "data = w @ left" "written p m mc c q w s s1"
      obtain c' where c': "pget p s1 = Some c'" using pg [OF w(2)] by blast
      have res: "\<exists>s2. written p m mc c q w s s2 \<and> (call_port_cb c' e s1 = s2 \<or>
          (\<exists>cb ev h. call_port_cb c' e s1 = emit (Port_callback cb ev h) s2))" for e
        using w(2) cb by blast
      show "ok (pget p s1 \<bind> (\<lambda>c. Some (PORT_SUCCESS, 0 + length w, call_port_cb c ((if left = [] \<and> rc \<noteq> PORT_CMD_PENDING \<and> rc \<noteq> PORT_TX_QUEUE_DISABLED
  then ev OR PORT_EV_TXEMPTY else ev) AND ev_mask c) s1)))
        (\<lambda>(rc, n, s'). rc = PORT_SUCCESS \<and> n \<le> length (w @ left) \<and>
          (\<exists>s1. written p m mc c q (take n (w @ left)) s s1 \<and> (s' = s1 \<or> (\<exists>cb ev h. s' = emit (Port_callback cb ev h) s1))))"
        unfolding c' bind.bind_lunit ok_Some prod.case using res by (intro conjI) simp_all
    qed
  qed
qed

theorem PORT_WriteData_stream_witness:
  "ok (PORT_WriteData 1 [3] (pupd 0 (\<lambda>_. stalled_port) link_st))
     (\<lambda>(rc, n, s'). rc = PORT_SUCCESS \<and> n \<le> 1 \<and> (\<exists>c'. pget 0 s' = Some c'))"
proof -
  have d: "dlci stalled_port = 2" "p_mcb stalled_port = Some 0"
    by (simp_all add: stalled_port_def link_port_def fresh_port_def)
  let ?s = "pupd 0 (\<lambda>_. stalled_port) link_st"
  have "ok (PORT_WriteData (word_of_nat (Suc 0)) [3] ?s) (\<lambda>(rc, n, s'). rc = PORT_SUCCESS \<and> n \<le> length [3 :: u8] \<and>
    (\<exists>s1. written 0 0 link_mcb stalled_port [buf [1], buf [2]] (take n [3]) ?s s1 \<and>
      (s' = s1 \<or> (\<exists>cb ev h. s' = emit (Port_callback cb ev h) s1))))"
    by (rule PORT_WriteData_stream [OF linked_link [OF d(2,1)]])
      (simp_all add: stalled_port_def link_mcb_def tx_inv_def tx_ready_def msc_done_def buf_def not_opened_def,
       simp_all add: link_port_def fresh_port_def port_set_defaults_def zero_port_def)
  then show ?thesis by (auto simp: written_def linked_def elim!: ok_weaken)
qed

end
