(* ===== verification/Rfc_Wf.thy ===== *)
theory Rfc_Wf
  imports Port_Api
begin

text \<open>
  The invariant of the whole RFCOMM layer. \<open>rfc_wf\<close> says which pointers and indices the code
  may follow: the two pools of control blocks keep their sizes, the handle a multiplexer has
  for a DLCI is zero or the handle of a block of the port pool, a port is on no multiplexer or
  on one of the pool, a port in use has its own handle, its two queues and its timer, and the
  channel table refers to blocks of the pool only.

  \<open>rfc_call\<close> lists every entry point of the layer (the calls of the applications, the
  callbacks of L2CAP, the timers, and the answer of the security manager), \<open>rfc_do\<close> runs one,
  and \<open>rfc_reach\<close> are the states that any sequence of them reaches. A timer may expire here
  at any time, which is more than the code allows. One lemma per operation shows that it keeps
  the invariant; the collection \<open>wf_intros\<close> takes a step apart, \<open>wf_keeps\<close> has the operations.
\<close>

section \<open>The invariant\<close>

definition wf_mcb :: "tRFC_MCB \<Rightarrow> bool" where
  "wf_mcb c \<longleftrightarrow> length (port_handles c) = 62 \<and> (\<forall>h \<in> set (port_handles c). h \<le> MAX_RFC_PORTS)"

definition wf_port :: "nat \<Rightarrow> tPORT \<Rightarrow> bool" where
  "wf_port p c \<longleftrightarrow> (\<forall>m. p_mcb c = Some m \<longrightarrow> m < MAX_BD_CONNECTIONS) \<and> handle c \<in> {0, p + 1} \<and>
     (in_use c \<longrightarrow> handle c = p + 1 \<and> queue (tx c) \<noteq> None \<and> queue (rx c) \<noteq> None \<and> port_timer c \<noteq> NoAlarm)"

definition rfc_wf :: "rfc_st \<Rightarrow> bool" where
  "rfc_wf s \<longleftrightarrow> length (ports s) = MAX_RFC_PORTS \<and> length (rfc_mcb s) = MAX_BD_CONNECTIONS \<and>
     (\<forall>p < MAX_RFC_PORTS. wf_port p (ports s ! p)) \<and> (\<forall>m < MAX_BD_CONNECTIONS. wf_mcb (rfc_mcb s ! m)) \<and>
     (\<forall>(l, pm) \<in> set (rfc_lcid_mcb s). \<forall>m. pm = Some m \<longrightarrow> m < MAX_BD_CONNECTIONS)"

section \<open>Entry points\<close>

datatype rfc_call =
    CreateConnection u16 u8 bool u16 RawAddress "callback option" u16
  | RemoveConnection u16
  | RemoveServer u16
  | ControlReqFromBTSOCK u8 RawAddress tPORT_CTRL
  | SetEventMaskAndCallback u16 u32 "callback option"
  | ClearKeepHandleFlag u16
  | SetDataCOCallback u16 "callback option"
  | SetSettings u16 PortSettings
  | FlowControl_MaxCredit u16 bool
  | ReadData u16 u16
  | WriteData u16 "u8 list"
  | WriteDataCO u16
  | ConnectInd RawAddress u16
  | ConnectCnf u16 u16
  | ConfigInd u16 "tL2CAP_CFG_INFO option"
  | ConfigCnf u16 "tL2CAP_CFG_INFO option"
  | DisconnectInd u16
  | BufDataInd u16 BT_HDR
  | CongestionStatusInd u16 bool
  | OnL2capError u16 u16
  | McbTimeout nat
  | PortTimeout nat
  | SecCheckComplete nat bool

fun rfc_do :: "rfc_env \<Rightarrow> rfc_call \<Rightarrow> rfc_st \<Rightarrow> rfc_st option" where
  "rfc_do E (CreateConnection uu sc server mt addr mgmt secm) s =
     map_option (\<lambda>(r, h, s). s) (RFCOMM_CreateConnectionWithSecurity E uu sc server mt addr mgmt secm s)"
| "rfc_do E (RemoveConnection h) s = map_option snd (RFCOMM_RemoveConnection h s)"
| "rfc_do E (RemoveServer h) s = map_option snd (RFCOMM_RemoveServer h s)"
| "rfc_do E (ControlReqFromBTSOCK d addr ctl) s = map_option snd (RFCOMM_ControlReqFromBTSOCK d addr ctl s)"
| "rfc_do E (SetEventMaskAndCallback h evm cb) s = map_option snd (PORT_SetEventMaskAndCallback h evm cb s)"
| "rfc_do E (ClearKeepHandleFlag h) s = map_option snd (PORT_ClearKeepHandleFlag h s)"
| "rfc_do E (SetDataCOCallback h cb) s = map_option snd (PORT_SetDataCOCallback h cb s)"
| "rfc_do E (SetSettings h ps) s = map_option snd (PORT_SetSettings h ps s)"
| "rfc_do E (FlowControl_MaxCredit h b) s = map_option snd (PORT_FlowControl_MaxCredit h b s)"
| "rfc_do E (ReadData h n) s = map_option (\<lambda>(r, d, s). s) (PORT_ReadData h n s)"
| "rfc_do E (WriteData h d) s = map_option (\<lambda>(r, n, s). s) (PORT_WriteData h d s)"
| "rfc_do E (WriteDataCO h) s = map_option (\<lambda>(r, n, s). s) (PORT_WriteDataCO E h s)"
| "rfc_do E (ConnectInd addr l) s = RFCOMM_ConnectInd E addr l s"
| "rfc_do E (ConnectCnf l r) s = RFCOMM_ConnectCnf E l r s"
| "rfc_do E (ConfigInd l cfg) s = RFCOMM_ConfigInd E l cfg s"
| "rfc_do E (ConfigCnf l cfg) s = RFCOMM_ConfigCnf E l cfg s"
| "rfc_do E (DisconnectInd l) s = RFCOMM_DisconnectInd E l s"
| "rfc_do E (BufDataInd l b) s = RFCOMM_BufDataInd E l b s"
| "rfc_do E (CongestionStatusInd l b) s = RFCOMM_CongestionStatusInd l b s"
| "rfc_do E (OnL2capError l r) s = rfc_on_l2cap_error E l r s"
| "rfc_do E (McbTimeout m) s = rfcomm_mcb_timer_timeout E m s"
| "rfc_do E (PortTimeout p) s = rfcomm_port_timer_timeout E p s"
| "rfc_do E (SecCheckComplete p b) s = rfc_sec_check_complete E p b s"

inductive rfc_reach :: "rfc_st \<Rightarrow> bool" where
  init: "rfc_reach RFCOMM_Init"
| step: "rfc_reach s \<Longrightarrow> rfc_do E call s = Some s' \<Longrightarrow> rfc_reach s'"

section \<open>Collections\<close>

named_theorems wf_intros \<open>taking a step of the model apart\<close>
named_theorems wf_keeps \<open>operations that keep the invariant\<close>

section \<open>Reading and writing one block\<close>

declare pupd_pupd [simp]

lemmas bind_st [wf_intros] = lib_bindI [where Q = rfc_wf]
lemmas bind_pair [wf_intros] = lib_bindI [where Q = "\<lambda>(x, s). rfc_wf s"]
lemmas bind_nat_opt [wf_intros] = lib_bind_eqI [where m = "m :: nat option option" for m]
lemmas bind_nat [wf_intros] = lib_bind_eqI [where m = "m :: nat option" for m]
lemmas bind_alarm [wf_intros] = lib_bind_eqI [where m = "m :: alarm option" for m]
lemmas bind_queue [wf_intros] = lib_bind_eqI [where m = "m :: BT_HDR list option" for m]

lemma wf_pget: "rfc_wf s \<Longrightarrow> pget p s = Some c \<Longrightarrow> p < 30 \<and> wf_port p c"
  by (auto simp: rfc_wf_def pget_def split: if_splits)

lemma wf_mget: "rfc_wf s \<Longrightarrow> mget m s = Some c \<Longrightarrow> m < 16 \<and> wf_mcb c"
  by (auto simp: rfc_wf_def mget_def split: if_splits)

lemma wf_handle: "wf_port p c \<Longrightarrow> p < 30 \<Longrightarrow> handle c \<le> 30"
  by (auto simp: wf_port_def)

lemma bind_pget [wf_intros]:
  "rfc_wf s \<Longrightarrow> (\<And>c. pget p s = Some c \<Longrightarrow> p < 30 \<Longrightarrow> wf_port p c \<Longrightarrow> handle c \<le> 30 \<Longrightarrow> lib (f c) R) \<Longrightarrow> lib (pget p s \<bind> f) R"
  using wf_pget [of s p] wf_handle by (cases "pget p s") auto

lemma bind_mget [wf_intros]:
  "rfc_wf s \<Longrightarrow> (\<And>c. mget m s = Some c \<Longrightarrow> m < 16 \<Longrightarrow> wf_mcb c \<Longrightarrow> lib (f c) R) \<Longrightarrow> lib (mget m s \<bind> f) R"
  by (cases "mget m s") (auto dest: wf_mget)

lemma lib_bind_map [simp]: "lib (map_option g m \<bind> f) R = lib (m \<bind> (\<lambda>x. f (g x))) R"
  by (cases m) simp_all

lemma wf_emit [simp]: "rfc_wf (emit a s) = rfc_wf s"
  by (simp add: rfc_wf_def)

lemma wf_misc [simp]: "rfc_wf (s\<lparr>rx_frame := fr\<rparr>) = rfc_wf s" "rfc_wf (s\<lparr>last_mux := n\<rparr>) = rfc_wf s"
  "rfc_wf (s\<lparr>last_port_index := n\<rparr>) = rfc_wf s" "rfc_wf (s\<lparr>peer_rx_disabled := b\<rparr>) = rfc_wf s"  "rfc_wf (s\<lparr>out := os\<rparr>) = rfc_wf s"
  by (simp_all add: rfc_wf_def)

lemma wf_call [simp]: "rfc_wf (call_port_cb c ev s) = rfc_wf s" "rfc_wf (call_mgmt_cb c r s) = rfc_wf s"
  by (simp_all add: call_port_cb_def call_mgmt_cb_def split: option.split)

lemma wf_mupd [wf_intros]: "rfc_wf s \<Longrightarrow> (\<And>c. wf_mcb c \<Longrightarrow> mget m s = Some c \<Longrightarrow> wf_mcb (f c)) \<Longrightarrow> rfc_wf (mupd m f s)"
  by (cases "m < length (rfc_mcb s)") (auto simp: rfc_wf_def mupd_def nth_list_update mget_def list_update_beyond)

lemma wf_pupd [wf_intros]: "rfc_wf s \<Longrightarrow> (\<And>c. wf_port p c \<Longrightarrow> pget p s = Some c \<Longrightarrow> wf_port p (f c)) \<Longrightarrow> rfc_wf (pupd p f s)"
  by (cases "p < length (ports s)") (auto simp: rfc_wf_def pupd_def nth_list_update pget_def list_update_beyond)

lemma set_alist_update: "set (AList.update k v al) \<subseteq> insert (k, v) (set al)"
  by (induction al) auto

lemma wf_save [wf_intros]: "rfc_wf s \<Longrightarrow> (\<And>m. pm = Some m \<Longrightarrow> m < 16) \<Longrightarrow> rfc_wf (rfc_save_lcid_mcb pm l s)"
  using set_alist_update [of l pm "rfc_lcid_mcb s"] by (fastforce simp: rfc_wf_def rfc_save_lcid_mcb_def)

lemma wf_mcb_fields [simp]:
  "wf_mcb (mcb_timer_update f c) = wf_mcb c" "wf_mcb (cmd_q_update f1 c) = wf_mcb c" "wf_mcb (mcb_bd_addr_update f2 c) = wf_mcb c"
  "wf_mcb (lcid_update f3 c) = wf_mcb c" "wf_mcb (peer_l2cap_mtu_update f4 c) = wf_mcb c" "wf_mcb (mcb_state_update f5 c) = wf_mcb c"
  "wf_mcb (is_initiator_update f6 c) = wf_mcb c" "wf_mcb (restart_required_update f6 c) = wf_mcb c" "wf_mcb (peer_ready_update f6 c) = wf_mcb c"
  "wf_mcb (flow_update f7 c) = wf_mcb c" "wf_mcb (l2cap_congested_update f6 c) = wf_mcb c" "wf_mcb (is_disc_initiator_update f6 c) = wf_mcb c"
  "wf_mcb (pending_lcid_update f3 c) = wf_mcb c" "wf_mcb (pending_configure_complete_update f6 c) = wf_mcb c"
  "wf_mcb (pending_cfg_info_update f8 c) = wf_mcb c" "wf_mcb zero_mcb"
  by (simp_all add: wf_mcb_def zero_mcb_def)

lemma wf_port_fields [simp]:
  "wf_port p (port_state_update f1 c) = wf_port p c" "wf_port p (scn_update f2 c) = wf_port p c" "wf_port p (uuid_update f3 c) = wf_port p c"
  "wf_port p (bd_addr_update f4 c) = wf_port p c" "wf_port p (is_server_update f5 c) = wf_port p c" "wf_port p (dlci_update f6 c) = wf_port p c"
  "wf_port p (line_status_update f7 c) = wf_port p c" "wf_port p (default_signal_state_update f6 c) = wf_port p c"
  "wf_port p (mtu_update f3 c) = wf_port p c" "wf_port p (peer_mtu_update f3 c) = wf_port p c"
  "wf_port p (user_port_settings_update f8 c) = wf_port p c" "wf_port p (peer_port_settings_update f8 c) = wf_port p c"
  "wf_port p (local_ctrl_update f9 c) = wf_port p c" "wf_port p (peer_ctrl_update f9 c) = wf_port p c" "wf_port p (port_ctrl_update f10 c) = wf_port p c"
  "wf_port p (rx_flag_ev_pending_update f5 c) = wf_port p c" "wf_port p (rfc_state_update f11 c) = wf_port p c" "wf_port p (expected_rsp_update f12 c) = wf_port p c"
  "wf_port p (ev_mask_update f13 c) = wf_port p c" "wf_port p (p_callback_update f14 c) = wf_port p c" "wf_port p (p_mgmt_callback_update f14 c) = wf_port p c"
  "wf_port p (p_data_callback_update f14 c) = wf_port p c" "wf_port p (p_data_co_callback_update f14 c) = wf_port p c"
  "wf_port p (credit_tx_update f3 c) = wf_port p c" "wf_port p (credit_rx_update f3 c) = wf_port p c" "wf_port p (credit_rx_max_update f3 c) = wf_port p c"
  "wf_port p (credit_rx_low_update f3 c) = wf_port p c" "wf_port p (rx_buf_critical_update f3 c) = wf_port p c" "wf_port p (keep_port_handle_update f5 c) = wf_port p c"
  "wf_port p (keep_mtu_update f3 c) = wf_port p c" "wf_port p (sec_mask_update f3 c) = wf_port p c" "wf_port p zero_port"
  by (simp_all add: wf_port_def zero_port_def)

lemma wf_port_mcb: "wf_port p c \<Longrightarrow> p_mcb c = Some m \<Longrightarrow> m < 16"
  by (simp add: wf_port_def)

lemma wf_port_p_mcb [wf_intros]: "wf_port p c \<Longrightarrow> (\<And>m. f (p_mcb c) = Some m \<Longrightarrow> m < 16) \<Longrightarrow> wf_port p (p_mcb_update f c)"
  by (simp add: wf_port_def)

lemma wf_port_queues [wf_intros]:
  "wf_port p c \<Longrightarrow> (queue (tx c) \<noteq> None \<Longrightarrow> queue (f (tx c)) \<noteq> None) \<Longrightarrow> wf_port p (tx_update f c)"
  "wf_port p c \<Longrightarrow> (queue (rx c) \<noteq> None \<Longrightarrow> queue (f (rx c)) \<noteq> None) \<Longrightarrow> wf_port p (rx_update f c)"
  by (auto simp: wf_port_def)

lemma wf_port_timer [wf_intros]: "wf_port p c \<Longrightarrow> (port_timer c \<noteq> NoAlarm \<Longrightarrow> f (port_timer c) \<noteq> NoAlarm) \<Longrightarrow> wf_port p (port_timer_update f c)"
  by (auto simp: wf_port_def)

lemma alarm_facts [simp]: "alarm_cancel a = NoAlarm \<longleftrightarrow> a = NoAlarm" "alarm_set a t = Some b \<longleftrightarrow> a \<noteq> NoAlarm \<and> b = Armed t"
  by (auto simp: alarm_cancel_def alarm_set_def split: alarm.splits)

lemma wf_drain [simp]: "rfc_wf s \<Longrightarrow> rfc_wf (rfc_drain m q s)"
  by (induction m q s rule: rfc_drain.induct) (simp_all add: wf_mupd)

lemma wf_timers [wf_keeps]:
  "rfc_wf s \<Longrightarrow> lib (rfc_timer_start m t s) rfc_wf" "rfc_wf s \<Longrightarrow> lib (rfc_timer_stop m s) rfc_wf"
  "rfc_wf s \<Longrightarrow> lib (rfc_port_timer_start p t s) rfc_wf" "rfc_wf s \<Longrightarrow> lib (rfc_port_timer_stop p s) rfc_wf"
  by (auto simp: rfc_timer_start_def rfc_timer_stop_def rfc_port_timer_start_def rfc_port_timer_stop_def intro!: wf_intros)

lemma wf_check_send [wf_keeps]: "rfc_wf s \<Longrightarrow> lib (rfc_check_send_cmd m b s) rfc_wf"
  by (auto simp: rfc_check_send_cmd_def split: option.split intro!: wf_intros)

lemma wf_send [wf_keeps]:
  "rfc_wf s \<Longrightarrow> lib (rfc_send_sabme m d s) rfc_wf" "rfc_wf s \<Longrightarrow> lib (rfc_send_ua m d s) rfc_wf"
  "rfc_wf s \<Longrightarrow> lib (rfc_send_dm m d pf s) rfc_wf" "rfc_wf s \<Longrightarrow> lib (rfc_send_disc m d s) rfc_wf"
  "rfc_wf s \<Longrightarrow> lib (rfc_send_buf_uih m d b s) rfc_wf" "rfc_wf s \<Longrightarrow> lib (rfc_send_pn m d cmd mt cl k s) rfc_wf"
  "rfc_wf s \<Longrightarrow> lib (rfc_send_fcon m cmd s) rfc_wf" "rfc_wf s \<Longrightarrow> lib (rfc_send_fcoff m cmd s) rfc_wf"
  "rfc_wf s \<Longrightarrow> lib (rfc_send_msc m d cmd pc s) rfc_wf" "rfc_wf s \<Longrightarrow> lib (rfc_send_rls m d cmd st s) rfc_wf"
  "rfc_wf s \<Longrightarrow> lib (rfc_send_nsc m s) rfc_wf" "rfc_wf s \<Longrightarrow> lib (rfc_send_rpn m d cmd ps msk s) rfc_wf"
  "rfc_wf s \<Longrightarrow> lib (rfc_send_test m cmd b s) rfc_wf" "rfc_wf s \<Longrightarrow> lib (rfc_send_credit m d k s) rfc_wf"
  by (auto simp: rfc_send_sabme_def rfc_send_ua_def rfc_send_dm_def rfc_send_disc_def rfc_send_buf_uih_def
    rfc_send_pn_def rfc_send_fcon_def rfc_send_fcoff_def rfc_send_msc_def rfc_send_rls_def rfc_send_nsc_def
    rfc_send_rpn_def rfc_send_test_def rfc_send_credit_def Let_def intro!: wf_intros wf_keeps)

section \<open>Multiplexer and port blocks\<close>

lemma set_handle_wf [wf_keeps]: "rfc_wf s \<Longrightarrow> h \<le> 30 \<Longrightarrow> lib (set_handle m d h s) rfc_wf"
  by (auto simp: set_handle_def wf_mcb_def dest!: set_update_subset_insert [THEN subsetD] intro!: wf_intros)

lemma alloc_scan_less: "rfc_alloc_scan n j s = Some i \<Longrightarrow> i < 16"
  by (induction n j s rule: rfc_alloc_scan.induct) (auto simp: Let_def split: if_splits)

lemma port_alloc_scan_less: "port_alloc_scan n j s = Some i \<Longrightarrow> i < 30"
  by (induction n j s rule: port_alloc_scan.induct) (auto simp: Let_def split: if_splits)

lemma wf_alloc [wf_keeps]:
  "rfc_wf s \<Longrightarrow> lib (rfc_alloc_multiplexer_channel addr i s) (\<lambda>(pm, s). rfc_wf s \<and> (\<forall>m. pm = Some m \<longrightarrow> m < 16))"
  by (auto simp: rfc_alloc_multiplexer_channel_def Let_def dest: alloc_scan_less find_SomeD split: option.split intro!: wf_intros wf_keeps)

lemma wf_detach [wf_intros]: "rfc_wf s \<Longrightarrow> rfc_wf (s\<lparr>ports := map (detach_port m) (ports s)\<rparr>)"
  by (simp add: rfc_wf_def detach_port_def wf_port_def)

lemma wf_release [wf_keeps]: "rfc_wf s \<Longrightarrow> lib (rfc_release_multiplexer_channel m s) rfc_wf"
  unfolding rfc_release_multiplexer_channel_def Let_def by (intro wf_intros wf_keeps) (auto intro!: wf_intros)

lemma wf_mcb_ops [wf_keeps]:
  "rfc_wf s \<Longrightarrow> lib (rfc_mx_sm_close_req m s) rfc_wf"
  by (auto simp: rfc_mx_sm_close_req_def Let_def intro!: wf_intros wf_keeps)

lemma wf_check_active [wf_keeps]:
  "rfc_wf s \<Longrightarrow> lib (rfc_check_mcb_active m s) rfc_wf"
  unfolding rfc_check_mcb_active_def by (intro wf_intros lib_ifI wf_keeps) (auto intro!: wf_intros)

lemma wf_port_defaults: "wf_port p c \<Longrightarrow> wf_port p (port_set_defaults c)"
  by (simp add: wf_port_def port_set_defaults_def)

lemma wf_allocate_port [wf_keeps]:
  "rfc_wf s \<Longrightarrow> port_allocate_port d addr s = (pp, s') \<Longrightarrow> rfc_wf s' \<and> (\<forall>p. pp = Some p \<longrightarrow> p < 30)"
  by (auto simp: port_allocate_port_def wf_port_def port_set_defaults_def zero_port_def dest: port_alloc_scan_less split: option.splits intro!: wf_intros wf_keeps)

lemma wf_select_mtu [wf_keeps]: "rfc_wf s \<Longrightarrow> lib (port_select_mtu E p s) rfc_wf"
  by (auto simp: port_select_mtu_def Let_def intro!: wf_intros)

lemma wf_reinit: "wf_port p c \<Longrightarrow> wf_port p (reinit_port (c\<lparr>tx := t, rx := r\<rparr>))"
  by (simp add: wf_port_def reinit_port_def port_set_defaults_def)

lemma release_wf [wf_keeps]: "rfc_wf s \<Longrightarrow> lib (port_release_port p s) rfc_wf"
  by (auto simp: port_release_port_def clear_queue_def Let_def wf_reinit split: option.split intro!: wf_intros wf_keeps)

lemma find_mcb_less: "rfc_wf s \<Longrightarrow> port_find_mcb addr s = Some m \<Longrightarrow> m < 16"
  by (auto simp: port_find_mcb_def rfc_wf_def dest: find_SomeD)

lemma find_mcb_dlci_less: "rfc_wf s \<Longrightarrow> port_find_mcb_dlci_port pm d s = Some (Some p) \<Longrightarrow> p < 30"
proof -
  assume w: "rfc_wf s" and "port_find_mcb_dlci_port pm d s = Some (Some p)"
  then obtain m c where c: "mget m s = Some c" "unat d < length (port_handles c)" "port_handles c ! unat d \<noteq> 0"
      "p = port_handles c ! unat d - 1"
    by (auto simp: port_find_mcb_dlci_port_def bind_eq_Some_conv split: option.splits if_splits)
  have "port_handles c ! unat d \<le> 30" using wf_mget [OF w c(1)] c(2) by (simp add: wf_mcb_def)
  then show "p < 30" using c(3,4) by simp
qed

lemma find_dlci_wf:
  assumes "rfc_wf s" "port_find_dlci_port d s = (pp, s')"
  shows "rfc_wf s'" "pp = Some p \<Longrightarrow> p < 30"
proof -
  have "s' = s \<or> (\<exists>i. s' = pupd i (dlci_update (\<lambda>x. x + 1)) s)"
    using assms(2) by (auto simp: port_find_dlci_port_def split: option.splits if_splits)
  then show "rfc_wf s'" using assms(1) by (auto intro!: wf_intros)
  show "pp = Some p \<Longrightarrow> p < 30"
    using assms by (auto simp: port_find_dlci_port_def rfc_wf_def split: option.splits dest!: find_SomeD)
qed

lemma lib_find_dlci [wf_intros]:
  "rfc_wf s \<Longrightarrow> (\<And>pp s'. rfc_wf s' \<Longrightarrow> lib (f pp s') Q) \<Longrightarrow> lib (case port_find_dlci_port d s of (pp, s') \<Rightarrow> f pp s') Q"
  using find_dlci_wf(1) by (cases "port_find_dlci_port d s") auto

lemma wf_closed [wf_keeps]: "rfc_wf s \<Longrightarrow> lib (port_rfc_closed p r s) rfc_wf"
  by (auto simp: port_rfc_closed_def drop_signals_def Let_def split: option.split intro!: wf_intros wf_keeps)

lemma wf_port_closed [wf_keeps]: "rfc_wf s \<Longrightarrow> lib (rfc_port_closed p s) rfc_wf"
  by (auto simp: rfc_port_closed_def Let_def split: option.split intro!: wf_intros wf_keeps)

lemma wf_credits [wf_keeps]: "rfc_wf s \<Longrightarrow> lib (rfc_dec_credit p s) rfc_wf" "rfc_wf s \<Longrightarrow> rfc_wf (port_get_credits p k s)"
  by (auto simp: rfc_dec_credit_def port_get_credits_def Let_def intro!: wf_intros)

section \<open>Requests and the data path\<close>

lemmas bind_bool [wf_intros] = lib_bind_eqI [where m = "m :: bool option" for m]

lemma wf_foreach [wf_keeps]: "(\<And>x s. x \<in> set xs \<Longrightarrow> rfc_wf s \<Longrightarrow> lib (f x s) rfc_wf) \<Longrightarrow> rfc_wf s \<Longrightarrow> lib (foreach f xs s) rfc_wf"
  by (rule lib_foreach)

lemma wf_requests [wf_keeps]:
  "rfc_wf s \<Longrightarrow> lib (RFCOMM_ParameterNegotiationRequest m d n1 s) rfc_wf"
  "rfc_wf s \<Longrightarrow> lib (RFCOMM_ParameterNegotiationResponse m d n1 cl k s) rfc_wf"
  "rfc_wf s \<Longrightarrow> lib (RFCOMM_PortParameterNegotiationResponse m d ps pmask s) rfc_wf"
  "rfc_wf s \<Longrightarrow> lib (RFCOMM_ControlReq pm d pars s) rfc_wf"
  "rfc_wf s \<Longrightarrow> lib (RFCOMM_FlowReq m d b s) rfc_wf"
  "rfc_wf s \<Longrightarrow> lib (RFCOMM_LineStatusReq m d st s) rfc_wf"
  by (auto simp: RFCOMM_ParameterNegotiationRequest_def RFCOMM_ParameterNegotiationResponse_def
    RFCOMM_PortParameterNegotiationResponse_def RFCOMM_ControlReq_def RFCOMM_FlowReq_def RFCOMM_LineStatusReq_def Let_def
    split: option.split intro!: wf_intros wf_keeps)

lemma wf_flow [wf_keeps]:
  "rfc_wf s \<Longrightarrow> lib (port_flow_control_user p s) (\<lambda>(x, s). rfc_wf s)"
  "rfc_wf s \<Longrightarrow> lib (port_flow_control_peer p b k s) rfc_wf"
  by (auto simp: port_flow_control_user_def port_flow_control_peer_def Let_def
    split: option.split intro!: wf_intros wf_keeps)

lemma wf_port_down [wf_keeps]:
  "rfc_wf s \<Longrightarrow> lib (rfc_port_sm_open p s) rfc_wf"
  "rfc_wf s \<Longrightarrow> lib (rfc_port_sm_establish_rsp p r s) rfc_wf"
  "rfc_wf s \<Longrightarrow> lib (rfc_port_disc p s) rfc_wf"
  "rfc_wf s \<Longrightarrow> lib (rfc_port_sm_data p b s) rfc_wf"
  by (auto simp: rfc_port_sm_open_def rfc_port_sm_establish_rsp_def rfc_port_disc_def rfc_port_sm_data_def Let_def
    split: option.split intro!: wf_intros wf_keeps)

lemma wf_port_down2 [wf_keeps]:
  "rfc_wf s \<Longrightarrow> lib (rfc_port_sm_close p s) rfc_wf"
  by (auto simp: rfc_port_sm_close_def split: tRFC_PORT_STATE.split intro!: wf_intros wf_keeps)

lemma wf_dlc [wf_keeps]:
  "rfc_wf s \<Longrightarrow> lib (RFCOMM_DlcReleaseReq m d s) rfc_wf"
  "rfc_wf s \<Longrightarrow> lib (RFCOMM_DataReq m d b s) rfc_wf"
  by (auto simp: RFCOMM_DlcReleaseReq_def RFCOMM_DataReq_def intro!: wf_intros wf_keeps)

lemma wf_send_loop [wf_keeps]:
  "rfc_wf s \<Longrightarrow> lib (port_send_loop n p ev s) (\<lambda>(x, s). rfc_wf s)"
  by (induction n arbitrary: ev s) (auto simp: Let_def split: option.split list.split intro!: wf_intros wf_keeps)

lemma wf_send_tx [wf_keeps]:
  "rfc_wf s \<Longrightarrow> lib (port_rfc_send_tx_data p s) (\<lambda>(x, s). rfc_wf s)"
  by (auto simp: port_rfc_send_tx_data_def simp del: port_send_loop.simps intro!: wf_intros wf_keeps)

lemma wf_flow_one [wf_keeps]: "rfc_wf s \<Longrightarrow> lib (port_flow_one p s) rfc_wf"
  by (auto simp: port_flow_one_def intro!: wf_intros wf_keeps)

lemma wf_flow_ind [wf_keeps]: "rfc_wf s \<Longrightarrow> lib (PORT_FlowInd m d b s) rfc_wf"
  by (auto simp: PORT_FlowInd_def split: option.split intro!: wf_intros wf_keeps)

lemma wf_inc_credit [wf_keeps]: "rfc_wf s \<Longrightarrow> lib (rfc_inc_credit p k s) rfc_wf"
  by (auto simp: rfc_inc_credit_def Let_def intro!: wf_intros wf_keeps)

lemma wf_data_ind [wf_keeps]: "rfc_wf s \<Longrightarrow> lib (PORT_DataInd E pm d b s) rfc_wf"
  by (auto simp: PORT_DataInd_def Let_def split: option.split intro!: wf_intros wf_keeps)

section \<open>Indications and confirmations\<close>

lemma wf_establish [wf_keeps]:
  "rfc_wf s \<Longrightarrow> lib (PORT_DlcReleaseInd m d s) rfc_wf"
  "rfc_wf s \<Longrightarrow> lib (PORT_PortNegCnf m d r s) rfc_wf"
  by (auto simp: PORT_DlcReleaseInd_def PORT_PortNegCnf_def split: option.split intro!: wf_intros wf_keeps)

lemma wf_neg_request [wf_keeps]: "rfc_wf s \<Longrightarrow> lib (RFCOMM_PortParameterNegotiationRequest pm d ps s) rfc_wf"
  by (auto simp: RFCOMM_PortParameterNegotiationRequest_def Let_def split: option.split intro!: wf_intros wf_keeps)

lemma wf_establish_cnf [wf_keeps]: "rfc_wf s \<Longrightarrow> lib (PORT_DlcEstablishCnf m d n1 r s) rfc_wf"
  by (auto simp: PORT_DlcEstablishCnf_def Let_def split: option.split intro!: wf_intros wf_keeps)

lemma wf_establish_req [wf_keeps]:
  "rfc_wf s \<Longrightarrow> lib (RFCOMM_DlcEstablishReq m d n1 s) rfc_wf"
  "rfc_wf s \<Longrightarrow> lib (RFCOMM_DlcEstablishRsp m d n1 r s) rfc_wf"
  by (auto simp: RFCOMM_DlcEstablishReq_def RFCOMM_DlcEstablishRsp_def split: option.split intro!: wf_intros wf_keeps)

lemma wf_establish_ind [wf_keeps]: "rfc_wf s \<Longrightarrow> lib (PORT_DlcEstablishInd m d n1 s) rfc_wf"
  by (auto simp: PORT_DlcEstablishInd_def Let_def split: option.split intro!: wf_intros wf_keeps)

lemma wf_par_neg_ind [wf_keeps]: "rfc_wf s \<Longrightarrow> lib (PORT_ParNegInd E m d n1 cl k s) rfc_wf"
  by (auto simp: PORT_ParNegInd_def Let_def split: option.split intro!: wf_intros wf_keeps)

lemma wf_par_neg_cnf [wf_keeps]: "rfc_wf s \<Longrightarrow> lib (PORT_ParNegCnf m d n1 cl k s) rfc_wf"
  by (auto simp: PORT_ParNegCnf_def Let_def split: option.split intro!: wf_intros wf_keeps)

lemma wf_port_neg_ind [wf_keeps]: "rfc_wf s \<Longrightarrow> lib (PORT_PortNegInd m d ps pmask s) rfc_wf"
  by (auto simp: PORT_PortNegInd_def Let_def split: option.split intro!: wf_intros wf_keeps)

lemma wf_control_ind [wf_keeps]: "rfc_wf s \<Longrightarrow> lib (PORT_ControlInd m d pars s) rfc_wf"
  by (auto simp: PORT_ControlInd_def Let_def split: option.split intro!: wf_intros wf_keeps)

lemma wf_control_cnf [wf_keeps]: "rfc_wf s \<Longrightarrow> lib (PORT_ControlCnf pm d s) rfc_wf"
  by (auto simp: PORT_ControlCnf_def Let_def split: option.split intro!: wf_intros wf_keeps)

lemma wf_line_status [wf_keeps]: "rfc_wf s \<Longrightarrow> lib (PORT_LineStatusInd m d st s) rfc_wf"
  by (auto simp: PORT_LineStatusInd_def Let_def split: option.split intro!: wf_intros wf_keeps)

lemma wf_close_ind [wf_keeps]: 
  "rfc_wf s \<Longrightarrow> lib (PORT_CloseInd m s) rfc_wf" "rfc_wf s \<Longrightarrow> lib (PORT_TimeOutCloseMux pm s) rfc_wf"
  by (auto simp: PORT_CloseInd_def PORT_TimeOutCloseMux_def intro!: wf_intros wf_keeps)

lemma wf_start [wf_keeps]:
  "rfc_wf s \<Longrightarrow> lib (port_start_control p s) rfc_wf" "rfc_wf s \<Longrightarrow> lib (port_start_par_neg p s) rfc_wf"
  "rfc_wf s \<Longrightarrow> lib (port_start_close p s) rfc_wf"
  by (auto simp: port_start_control_def port_start_par_neg_def port_start_close_def drop_signals_def Let_def
    split: option.split intro!: wf_intros wf_keeps)

section \<open>The port machine and the control messages\<close>

lemma wf_port_states [wf_keeps]:
  "rfc_wf s \<Longrightarrow> lib (rfc_port_sm_state_closed p ev s) rfc_wf"
  "rfc_wf s \<Longrightarrow> lib (rfc_port_sm_sabme_wait_ua p ev s) rfc_wf"
  "rfc_wf s \<Longrightarrow> lib (rfc_port_sm_term_wait_sec_check p ev s) rfc_wf"
  "rfc_wf s \<Longrightarrow> lib (rfc_port_sm_orig_wait_sec_check p ev s) rfc_wf"
  "rfc_wf s \<Longrightarrow> lib (rfc_port_sm_opened E p ev s) rfc_wf"
  "rfc_wf s \<Longrightarrow> lib (rfc_port_sm_disc_wait_ua E p ev s) rfc_wf"
  by (auto simp: rfc_port_sm_state_closed_def rfc_port_sm_sabme_wait_ua_def rfc_port_sm_term_wait_sec_check_def
    rfc_port_sm_orig_wait_sec_check_def rfc_port_sm_opened_def rfc_port_uplink_data_def rfc_port_sm_disc_wait_ua_def Let_def
    split: tRFC_PORT_EVENT.split option.split intro!: wf_intros wf_keeps)

lemma wf_port_execute [wf_keeps]: "rfc_wf s \<Longrightarrow> lib (rfc_port_sm_execute E p ev s) rfc_wf"
  by (auto simp: rfc_port_sm_execute_def split: tRFC_PORT_STATE.split intro!: wf_intros wf_keeps)

lemma wf_port_events [wf_keeps]:
  "rfc_wf s \<Longrightarrow> lib (rfcomm_port_timer_timeout E p s) rfc_wf"
  "rfc_wf s \<Longrightarrow> lib (rfc_sec_check_complete E p b s) rfc_wf"
  by (auto simp: rfcomm_port_timer_timeout_def rfc_sec_check_complete_def intro!: wf_intros wf_keeps)

lemma wf_pn [wf_keeps]: "rfc_wf s \<Longrightarrow> lib (rfc_process_pn E m b fr s) rfc_wf"
  by (auto simp: rfc_process_pn_def Let_def split: option.split intro!: wf_intros wf_keeps)

lemma wf_rpn_check [wf_keeps]: "rfc_wf s \<Longrightarrow> lib (rfc_rpn_check m p d msk s) rfc_wf"
  by (auto simp: rfc_rpn_check_def Let_def split: option.split intro!: wf_intros wf_keeps)

lemma wf_rpn [wf_keeps]: "rfc_wf s \<Longrightarrow> lib (rfc_process_rpn m b r fr s) rfc_wf"
  by (auto simp: rfc_process_rpn_def Let_def split: option.split intro!: wf_intros wf_keeps)

lemma wf_msc [wf_keeps]: "rfc_wf s \<Longrightarrow> lib (rfc_process_msc m b fr s) rfc_wf"
  by (auto simp: rfc_process_msc_def Let_def split: option.split intro!: wf_intros wf_keeps)

lemma wf_messages [wf_keeps]:
  "rfc_wf s \<Longrightarrow> lib (rfc_process_rls m b fr s) rfc_wf"
  "rfc_wf s \<Longrightarrow> lib (rfc_process_nsc m fr s) rfc_wf"
  "rfc_wf s \<Longrightarrow> lib (rfc_process_test_rsp m bf s) rfc_wf"
  "rfc_wf s \<Longrightarrow> lib (rfc_process_fcon m b s) rfc_wf"
  "rfc_wf s \<Longrightarrow> lib (rfc_process_fcoff m b s) rfc_wf"
  "rfc_wf s \<Longrightarrow> lib (rfc_process_l2cap_congestion m b s) rfc_wf"
  by (auto simp: rfc_process_rls_def rfc_process_nsc_def rfc_process_test_rsp_def rfc_process_fcon_def rfc_process_fcoff_def
    rfc_process_l2cap_congestion_def Let_def split: option.split intro!: wf_intros wf_keeps)

lemmas bind_decode [wf_intros] = lib_bind_eqI [where m = "m :: (mx_action \<times> MX_FRAME) option" for m]

lemma wf_mx_message [wf_keeps]: "rfc_wf s \<Longrightarrow> lib (rfc_process_mx_message E m b s) rfc_wf"
  by (auto simp: rfc_process_mx_message_def Let_def split: mx_action.split intro!: wf_intros wf_keeps)

section \<open>The multiplexer machine and the interface\<close>

lemma wf_start_body: "rfc_wf (snd x) \<Longrightarrow> lib (PORT_StartCnf_body m r p x) (\<lambda>x. rfc_wf (snd x))"
  by (cases x) (auto simp: PORT_StartCnf_body_def Let_def intro!: wf_intros wf_keeps)

lemma wf_start_cnf [wf_keeps]: "rfc_wf s \<Longrightarrow> lib (PORT_StartCnf m r s) rfc_wf"
  unfolding PORT_StartCnf_def
  by (rule lib_bindI [OF lib_foreach [where I = "\<lambda>x. rfc_wf (snd x)", OF wf_start_body]]) (auto intro!: wf_keeps)

lemma wf_start_rsp [wf_keeps]: "rfc_wf s \<Longrightarrow> lib (rfc_mx_sm_start_rsp m r s) rfc_wf"
  by (auto simp: rfc_mx_sm_start_rsp_def Let_def intro!: wf_intros wf_keeps)

lemma wf_start_ind [wf_keeps]: "rfc_wf s \<Longrightarrow> lib (PORT_StartInd m s) rfc_wf"
  unfolding PORT_StartInd_def by (intro lib_ifI wf_keeps)

lemma wf_conf [wf_keeps]:
  "rfc_wf s \<Longrightarrow> lib (rfc_mx_conf_cnf m r s) rfc_wf" "rfc_wf s \<Longrightarrow> lib (rfc_mx_conf_ind m cfg s) rfc_wf"
  by (auto simp: rfc_mx_conf_cnf_def rfc_mx_conf_ind_def Let_def intro!: wf_intros wf_keeps)

lemma wf_idle [wf_keeps]: "rfc_wf s \<Longrightarrow> lib (rfc_mx_sm_state_idle E m ev s) rfc_wf"
  by (auto simp: rfc_mx_sm_state_idle_def Let_def split: tRFC_MX_EVENT.split intro!: wf_intros wf_keeps)

lemma wf_flip: "rfc_wf s \<Longrightarrow> i < 61 \<Longrightarrow> lib (rfc_flip_dlci m i s) rfc_wf"
proof -
  assume w: "rfc_wf s" "i < 61"
  have u: "wf_mcb (port_handles_update (\<lambda>hs. hs[i := 0, Suc i := h]) c)" if "wf_mcb c" "h \<le> 30" for c h
    using that by (auto simp: wf_mcb_def dest!: set_update_subset_insert [THEN subsetD])
  have h: "port_handles c ! i \<le> 30" if "wf_mcb c" for c using that w(2) by (simp add: wf_mcb_def)
  show ?thesis using w(1) by (auto simp: rfc_flip_dlci_def Let_def intro!: wf_intros u h)
qed

lemma wf_direction [wf_keeps]: "rfc_wf s \<Longrightarrow> lib (rfc_update_direction m s) rfc_wf"
  unfolding rfc_update_direction_def by (rule lib_foreach) (auto intro: wf_flip)

lemma wf_wait_conn [wf_keeps]: "rfc_wf s \<Longrightarrow> lib (rfc_mx_sm_state_wait_conn_cnf E m ev s) rfc_wf"
  by (auto simp: rfc_mx_sm_state_wait_conn_cnf_def Let_def split: tRFC_MX_EVENT.split intro!: wf_intros wf_keeps)

lemma wf_configure [wf_keeps]: "rfc_wf s \<Longrightarrow> lib (rfc_mx_sm_state_configure m ev s) rfc_wf"
  by (auto simp: rfc_mx_sm_state_configure_def Let_def split: tRFC_MX_EVENT.split intro!: wf_intros wf_keeps)

lemma wf_mx_ends [wf_keeps]: "rfc_wf s \<Longrightarrow> lib (rfc_mx_give_up m s) rfc_wf"
  "rfc_wf s \<Longrightarrow> lib (rfc_mx_close_l2cap m s) rfc_wf" "rfc_wf s \<Longrightarrow> lib (rfc_mx_disconnect m s) rfc_wf"
  "rfc_wf s \<Longrightarrow> lib (rfc_mx_disc_done E m s) rfc_wf"
  by (auto simp: rfc_mx_give_up_def rfc_mx_close_l2cap_def rfc_mx_disconnect_def rfc_mx_disc_done_def Let_def intro!: wf_intros wf_keeps)

lemma wf_mx_states [wf_keeps]:
  "rfc_wf s \<Longrightarrow> lib (rfc_mx_sm_sabme_wait_ua m ev s) rfc_wf"
  "rfc_wf s \<Longrightarrow> lib (rfc_mx_sm_state_wait_sabme m ev s) rfc_wf"
  "rfc_wf s \<Longrightarrow> lib (rfc_mx_sm_state_connected m ev s) rfc_wf"
  "rfc_wf s \<Longrightarrow> lib (rfc_mx_sm_state_disc_wait_ua E m ev s) rfc_wf"
  by (auto simp: rfc_mx_sm_sabme_wait_ua_def rfc_mx_sm_state_wait_sabme_def rfc_mx_sm_state_connected_def
    rfc_mx_sm_state_disc_wait_ua_def Let_def split: tRFC_MX_EVENT.split intro!: wf_intros wf_keeps)

lemma wf_mx_execute [wf_keeps]: "rfc_wf s \<Longrightarrow> lib (rfc_mx_sm_execute E m ev s) rfc_wf"
  by (auto simp: rfc_mx_sm_execute_def split: tRFC_MX_STATE.split intro!: wf_intros wf_keeps)

lemma find_lcid_less: "rfc_wf s \<Longrightarrow> rfc_find_lcid_mcb l s = Some (Some m) \<Longrightarrow> m < 16"
  by (auto simp: rfc_find_lcid_mcb_def bind_eq_Some_conv split: option.splits if_splits dest: wf_mget)

lemma wf_alloc_weak [wf_keeps]: "rfc_wf s \<Longrightarrow> lib (rfc_alloc_multiplexer_channel addr i s) (\<lambda>(x, s). rfc_wf s)"
  by (rule lib_weaken [OF wf_alloc]) auto

lemma wf_mx_entries [wf_keeps]:
  "rfc_wf s \<Longrightarrow> lib (rfcomm_mcb_timer_timeout E m s) rfc_wf"
  "rfc_wf s \<Longrightarrow> lib (RFCOMM_StartReq E m s) rfc_wf"
  "rfc_wf s \<Longrightarrow> lib (rfc_on_l2cap_error E l r s) rfc_wf"
  "rfc_wf s \<Longrightarrow> lib (RFCOMM_ConnectInd E addr l s) rfc_wf"
  "rfc_wf s \<Longrightarrow> lib (RFCOMM_ConnectCnf E l r s) rfc_wf"
  "rfc_wf s \<Longrightarrow> lib (RFCOMM_ConfigInd E l cfg s) rfc_wf"
  "rfc_wf s \<Longrightarrow> lib (RFCOMM_DisconnectInd E l s) rfc_wf"
  "rfc_wf s \<Longrightarrow> lib (RFCOMM_CongestionStatusInd l b s) rfc_wf"
  by (auto simp: rfcomm_mcb_timer_timeout_def RFCOMM_StartReq_def rfc_on_l2cap_error_def RFCOMM_ConnectInd_def RFCOMM_ConnectCnf_def
    RFCOMM_ConfigInd_def RFCOMM_DisconnectInd_def RFCOMM_CongestionStatusInd_def Let_def split: option.split intro!: wf_intros wf_keeps)

lemmas bind_frame [wf_intros] = lib_bind_eqI [where m = "m :: (tRFC_EVENT \<times> MX_FRAME \<times> BT_HDR) option" for m]

lemma wf_config_cnf [wf_keeps]: "rfc_wf s \<Longrightarrow> lib (RFCOMM_ConfigCnf E l cfg s) rfc_wf"
  by (auto simp: RFCOMM_ConfigCnf_def split: option.split intro!: wf_intros wf_keeps)

lemma wf_port_frame [wf_keeps]: "rfc_wf s \<Longrightarrow> lib (rfc_port_frame E p ev b s) rfc_wf"
  by (auto simp: rfc_port_frame_def intro!: wf_intros wf_keeps)

lemma wf_buf_data [wf_keeps]: "rfc_wf s \<Longrightarrow> lib (RFCOMM_BufDataInd E l b s) rfc_wf"
  by (auto simp: RFCOMM_BufDataInd_def Let_def split: option.split intro!: wf_intros wf_keeps)

lemma wf_open [wf_keeps]: "rfc_wf s \<Longrightarrow> lib (port_open_continue E p s) (\<lambda>(x, s). rfc_wf s)"
  unfolding port_open_continue_def
  by (rule bind_pget, assumption, rule lib_bindI [OF wf_alloc], assumption)
    (auto simp: Let_def split: option.split tRFC_MX_STATE.split intro!: wf_intros wf_keeps)

lemma wf_allocate_case [wf_intros]:
  "rfc_wf s \<Longrightarrow> (\<And>pp s'. rfc_wf s' \<Longrightarrow> lib (f pp s') Q) \<Longrightarrow> lib (case port_allocate_port d addr s of (pp, s') \<Rightarrow> f pp s') Q"
  using wf_allocate_port by (cases "port_allocate_port d addr s") auto

lemma wf_create: "rfc_wf s \<Longrightarrow> lib (RFCOMM_CreateConnectionWithSecurity E uu sc srv mt addr cb msk s) (\<lambda>(r, h, s). rfc_wf s)"
  by (auto simp: RFCOMM_CreateConnectionWithSecurity_def Let_def split: option.split intro!: wf_intros wf_keeps)

lemma wf_remove:
  "rfc_wf s \<Longrightarrow> lib (RFCOMM_RemoveConnection h s) (\<lambda>(r, s). rfc_wf s)" "rfc_wf s \<Longrightarrow> lib (RFCOMM_RemoveServer h s) (\<lambda>(r, s). rfc_wf s)"
  "rfc_wf s \<Longrightarrow> lib (RFCOMM_ControlReqFromBTSOCK d addr ctl s) (\<lambda>(r, s). rfc_wf s)"
  by (auto simp: RFCOMM_RemoveConnection_def RFCOMM_RemoveServer_def RFCOMM_ControlReqFromBTSOCK_def Let_def
    split: option.split intro!: wf_intros wf_keeps)

lemma wf_settings:
  "rfc_wf s \<Longrightarrow> lib (PORT_SetEventMaskAndCallback h evm cb s) (\<lambda>(r, s). rfc_wf s)"
  "rfc_wf s \<Longrightarrow> lib (PORT_ClearKeepHandleFlag h s) (\<lambda>(r, s). rfc_wf s)"
  "rfc_wf s \<Longrightarrow> lib (PORT_SetDataCOCallback h cb s) (\<lambda>(r, s). rfc_wf s)"
  "rfc_wf s \<Longrightarrow> lib (PORT_SetSettings h ps s) (\<lambda>(r, s). rfc_wf s)"
  "rfc_wf s \<Longrightarrow> lib (PORT_FlowControl_MaxCredit h b s) (\<lambda>(r, s). rfc_wf s)"
  by (auto simp: PORT_SetEventMaskAndCallback_def PORT_ClearKeepHandleFlag_def PORT_SetDataCOCallback_def
    PORT_SetSettings_def PORT_FlowControl_MaxCredit_def Let_def split: option.split intro!: wf_intros wf_keeps)

lemma wf_read: "rfc_wf s \<Longrightarrow> lib (PORT_ReadData h n s) (\<lambda>(r, d, s). rfc_wf s)"
  by (auto simp: PORT_ReadData_def Let_def split: option.split list.split prod.split simp del: port_read_loop.simps intro!: wf_intros wf_keeps)

lemma wf_port_write [wf_keeps]: "rfc_wf s \<Longrightarrow> lib (port_write p b s) (\<lambda>(x, s). rfc_wf s)"
  by (auto simp: port_write_def Let_def split: option.split intro!: wf_intros wf_keeps)

lemma wf_write_loop: "rfc_wf s \<Longrightarrow> lib (port_write_loop k p h len data n ev rc s) (\<lambda>(l, n, ev, rc, s). rfc_wf s)"
  by (induction k arbitrary: len data n ev rc s) (auto simp: Let_def intro!: wf_intros wf_keeps)

lemma wf_write: "rfc_wf s \<Longrightarrow> lib (PORT_WriteData h data s) (\<lambda>(r, n, s). rfc_wf s)"
  by (auto simp: PORT_WriteData_def Let_def split: option.split simp del: port_write_loop.simps
    intro!: wf_intros wf_keeps lib_bindI [OF wf_write_loop])

lemma wf_write_co_loop: "rfc_wf s \<Longrightarrow> lib (port_write_co_loop E cb k p h len data n ev rc s) (\<lambda>(b, l, n, ev, rc, s). rfc_wf s)"
  by (induction k arbitrary: len data n ev rc s) (auto simp: Let_def intro!: wf_intros wf_keeps)

lemma wf_write_co: "rfc_wf s \<Longrightarrow> lib (PORT_WriteDataCO E h s) (\<lambda>(r, n, s). rfc_wf s)"
  by (auto simp: PORT_WriteDataCO_def Let_def split: option.split simp del: port_write_co_loop.simps
    intro!: wf_intros wf_keeps lib_bindI [OF wf_write_co_loop])

section \<open>Every reachable state is well formed\<close>

lemma rfc_wf_init: "rfc_wf RFCOMM_Init"
  by (simp add: rfc_wf_def RFCOMM_Init_def del: replicate.simps)

lemma lib_map_option: "lib m Q \<Longrightarrow> (\<And>x. Q x \<Longrightarrow> R (f x)) \<Longrightarrow> lib (map_option f m) R"
  by (cases m) simp_all

lemma rfc_do_wf: "rfc_wf s \<Longrightarrow> lib (rfc_do E call s) rfc_wf"
proof (cases call)
  case (CreateConnection uu sc server mt addr mgmt secm)
  then show "rfc_wf s \<Longrightarrow> ?thesis" by (auto intro!: lib_map_option [OF wf_create])
next
  case (WriteData h d)
  then show "rfc_wf s \<Longrightarrow> ?thesis" by (auto intro!: lib_map_option [OF wf_write])
next
  case (WriteDataCO h)
  then show "rfc_wf s \<Longrightarrow> ?thesis" by (auto intro!: lib_map_option [OF wf_write_co])
next
  case (ReadData h n)
  then show "rfc_wf s \<Longrightarrow> ?thesis" by (auto intro!: lib_map_option [OF wf_read])
qed (auto intro!: wf_keeps lib_map_option [OF wf_remove(1)] lib_map_option [OF wf_remove(2)] lib_map_option [OF wf_remove(3)]
  lib_map_option [OF wf_settings(1)] lib_map_option [OF wf_settings(2)] lib_map_option [OF wf_settings(3)]
  lib_map_option [OF wf_settings(4)] lib_map_option [OF wf_settings(5)])

lemma rfc_reach_wf: "rfc_reach s \<Longrightarrow> rfc_wf s"
proof (induction rule: rfc_reach.induct)
  case (step s E call s')
  then show ?case using rfc_do_wf [of s E call] by simp
qed (rule rfc_wf_init)

text \<open>
  C1: The invariant. Whatever calls, callbacks, frames, timeouts and security answers arrive,
  in whatever order and whatever they carry, the control blocks stay well formed: every
  index stored in one of them is that of a block of the pools, and every port in use has its
  own handle, its queues and its timer.
\<close>

theorem rfc_reachable_wf:
  assumes "rfc_reach s"
  shows "length (ports s) = MAX_RFC_PORTS \<and> length (rfc_mcb s) = MAX_BD_CONNECTIONS \<and>
    (\<forall>p < MAX_RFC_PORTS. wf_port p (ports s ! p)) \<and> (\<forall>m < MAX_BD_CONNECTIONS. wf_mcb (rfc_mcb s ! m)) \<and>
    (\<forall>(l, pm) \<in> set (rfc_lcid_mcb s). \<forall>m. pm = Some m \<longrightarrow> m < MAX_BD_CONNECTIONS)"
  using rfc_reach_wf [OF assms] by (simp add: rfc_wf_def)

theorem rfc_reachable_wf_witness:
  "ok (rfc_do idle_env (ConnectInd 0x112233445566 0x41) RFCOMM_Init) (\<lambda>s. wf_mcb (rfc_mcb s ! 0) \<and> wf_port 29 (ports s ! 29))"
proof -
  obtain s where s: "rfc_do idle_env (ConnectInd 0x112233445566 0x41) RFCOMM_Init = Some s"
  proof -
    have "RFCOMM_ConnectInd idle_env 0x112233445566 0x41 RFCOMM_Init \<noteq> None" by code_simp
    then show ?thesis using that by auto
  qed
  from rfc_reachable_wf [OF rfc_reach.step [OF rfc_reach.init s]] s show ?thesis by simp
qed

text \<open>
  C7: The lookups are safe. In every reachable state, looking up the port of a DLCI on a
  multiplexer of the pool, or the multiplexer of an L2CAP channel, never reads outside an
  array, whatever DLCI a received frame names; what a lookup returns is a block of the pool;
  and no two ports in use share a handle.
\<close>

theorem rfc_reachable_lookups:
  assumes "rfc_reach s" and "m < MAX_BD_CONNECTIONS"
  shows "ok (port_find_mcb_dlci_port (Some m) d s) (\<lambda>r. \<forall>p. r = Some p \<longrightarrow> pget p s \<noteq> None) \<and>
    ok (rfc_find_lcid_mcb l s) (\<lambda>r. \<forall>k. r = Some k \<longrightarrow> mget k s \<noteq> None) \<and>
    (\<forall>i j a b. pget i s = Some a \<longrightarrow> pget j s = Some b \<longrightarrow> in_use a \<longrightarrow> in_use b \<longrightarrow> handle a = handle b \<longrightarrow> i = j)"
proof -
  have w: "rfc_wf s" by (rule rfc_reach_wf [OF assms(1)])
  obtain mc where mc: "mget m s = Some mc" using w assms(2) by (auto simp: rfc_wf_def mget_def)
  have len: "length (port_handles mc) = 62" using wf_mget [OF w mc] by (simp add: wf_mcb_def)
  have lp: "length (ports s) = 30" "length (rfc_mcb s) = 16" using w by (simp_all add: rfc_wf_def)
  have "\<exists>r. port_find_mcb_dlci_port (Some m) d s = Some r" using mc len by (simp add: port_find_mcb_dlci_port_def)
  then have 1: "ok (port_find_mcb_dlci_port (Some m) d s) (\<lambda>r. \<forall>p. r = Some p \<longrightarrow> pget p s \<noteq> None)"
    using find_mcb_dlci_less [OF w] lp by (auto simp: pget_def)
  have t: "k < 16" if "lcid_lookup l s = Some k" for k
    using that w by (auto simp: lcid_lookup_def rfc_wf_def split: option.splits dest!: map_of_SomeD)
  have 2: "ok (rfc_find_lcid_mcb l s) (\<lambda>r. \<forall>k. r = Some k \<longrightarrow> mget k s \<noteq> None)"
    using t lp by (cases "lcid_lookup l s") (auto simp: rfc_find_lcid_mcb_def mget_def)
  have "handle a = i + 1" if "pget i s = Some a" "in_use a" for i a
    using wf_pget [OF w that(1)] that(2) by (simp add: wf_port_def)
  then have 3: "\<forall>i j a b. pget i s = Some a \<longrightarrow> pget j s = Some b \<longrightarrow> in_use a \<longrightarrow> in_use b \<longrightarrow> handle a = handle b \<longrightarrow> i = j"
    by fastforce
  show ?thesis by (intro conjI 1 2 3)
qed

theorem rfc_reachable_lookups_witness:
  "port_find_mcb_dlci_port (Some 3) 200 RFCOMM_Init \<noteq> None"
  using rfc_reachable_lookups [OF rfc_reach.init, of 3 200 0] by (auto simp: ok_iff)

end
