(* ===== verification/Osi_List.thy ===== *)
theory Osi_List
  imports Fluoride_Prelude
begin

text \<open>
  The singly linked list of \<^verbatim>\<open>osi/src/list.cc\<close>, on an explicit heap of nodes. An address is a
  number, zero is the null pointer; following null or a node that is not allocated (never
  allocated, or freed) is an abort, and so is every failed \<^verbatim>\<open>log::assert_that\<close>. A list handle
  is an option because the operations assert that it is not null. \<open>freed_data\<close> records the
  calls of the list's \<^verbatim>\<open>free_cb\<close>, in order.

  The allocator is a parameter: \<open>A\<close> maps the heap to the address of a new node, or to \<open>None\<close>
  when it has no memory. What the list relies on is \<open>fresh_alloc\<close>: a new node is not null and
  not in use. Loops over nodes are partial functions: a loop that does not end is \<open>None\<close>, like
  an abort, and the lemmas show that they end on every well-formed list.

  The refinement relation \<open>list_rep\<close> relates a handle and a heap to the HOL list of the data.
\<close>

section \<open>Data\<close>

record list_node_t =
  node_next :: nat
  node_data :: nat

record list_t =
  list_head :: nat
  list_tail :: nat
  list_len :: "64 word"
  has_free_cb :: bool

record osi_mem =
  nodes :: "nat \<Rightarrow> list_node_t option"
  freed_data :: "nat list"

type_synonym allocator = "(nat \<Rightarrow> list_node_t option) \<Rightarrow> nat option"

definition fresh_alloc :: "allocator \<Rightarrow> bool" where
  "fresh_alloc A \<longleftrightarrow> (\<forall>h a. A h = Some a \<longrightarrow> a \<noteq> 0 \<and> h a = None)"

text \<open>Reading and writing a node through a pointer, and allocating one.\<close>

definition deref :: "nat \<Rightarrow> osi_mem \<Rightarrow> list_node_t option" where
  "deref a h = (if a = 0 then None else nodes h a)"

definition store :: "nat \<Rightarrow> list_node_t \<Rightarrow> osi_mem \<Rightarrow> osi_mem" where
  "store a n h = h\<lparr>nodes := (nodes h)(a := Some n)\<rparr>"

section \<open>Operations\<close>

definition list_new :: "bool \<Rightarrow> list_t" where
  "list_new cb = \<lparr>list_head = 0, list_tail = 0, list_len = 0, has_free_cb = cb\<rparr>"

definition list_is_empty :: "list_t option \<Rightarrow> bool option" where
  "list_is_empty pl = do { l \<leftarrow> pl; Some (list_len l = 0) }"

definition list_length :: "list_t option \<Rightarrow> (64 word) option" where
  "list_length pl = do { l \<leftarrow> pl; Some (list_len l) }"

definition list_begin :: "list_t option \<Rightarrow> nat option" where
  "list_begin pl = do { l \<leftarrow> pl; Some (list_head l) }"

definition list_end :: "list_t option \<Rightarrow> nat option" where
  "list_end pl = do { l \<leftarrow> pl; Some 0 }"

definition list_next :: "nat \<Rightarrow> osi_mem \<Rightarrow> nat option" where
  "list_next a h = do { n \<leftarrow> deref a h; Some (node_next n) }"

definition list_node :: "nat \<Rightarrow> osi_mem \<Rightarrow> nat option" where
  "list_node a h = do { n \<leftarrow> deref a h; Some (node_data n) }"

partial_function (option) list_contains_loop :: "nat \<Rightarrow> nat \<Rightarrow> osi_mem \<Rightarrow> bool option" where
  "list_contains_loop a d h =
     (if a = 0 then Some False
      else do {
        x \<leftarrow> list_node a h;
        if x = d then Some True
        else do { b \<leftarrow> list_next a h; list_contains_loop b d h }
      })"

definition list_contains :: "list_t option \<Rightarrow> nat \<Rightarrow> osi_mem \<Rightarrow> bool option" where
  "list_contains pl d h = do {
     l \<leftarrow> pl;
     if d = 0 then None else do { a \<leftarrow> list_begin pl; list_contains_loop a d h }
   }"

definition list_front :: "list_t option \<Rightarrow> osi_mem \<Rightarrow> nat option" where
  "list_front pl h = do {
     l \<leftarrow> pl;
     e \<leftarrow> list_is_empty pl;
     if e then None else do { n \<leftarrow> deref (list_head l) h; Some (node_data n) }
   }"

definition list_back :: "list_t option \<Rightarrow> osi_mem \<Rightarrow> nat option" where
  "list_back pl h = do {
     l \<leftarrow> pl;
     e \<leftarrow> list_is_empty pl;
     if e then None else do { n \<leftarrow> deref (list_tail l) h; Some (node_data n) }
   }"

definition list_back_node :: "list_t option \<Rightarrow> nat option" where
  "list_back_node pl = do {
     l \<leftarrow> pl;
     e \<leftarrow> list_is_empty pl;
     if e then None else Some (list_tail l)
   }"

text \<open>The operations that change a list return their result, the list and the memory.\<close>

definition list_insert_after ::
    "allocator \<Rightarrow> list_t option \<Rightarrow> nat \<Rightarrow> nat \<Rightarrow> osi_mem \<Rightarrow> (bool \<times> list_t \<times> osi_mem) option" where
  "list_insert_after A pl prev d h = do {
     l \<leftarrow> pl;
     if prev = 0 \<or> d = 0 then None else
     case A (nodes h) of None \<Rightarrow> Some (False, l, h) | Some a \<Rightarrow> do {
       p \<leftarrow> deref prev h;
       let h = store a \<lparr>node_next = node_next p, node_data = d\<rparr> h;
       let h = store prev (p\<lparr>node_next := a\<rparr>) h;
       let l = (if list_tail l = prev then l\<lparr>list_tail := a\<rparr> else l);
       Some (True, l\<lparr>list_len := list_len l + 1\<rparr>, h)
     }
   }"

definition list_prepend ::
    "allocator \<Rightarrow> list_t option \<Rightarrow> nat \<Rightarrow> osi_mem \<Rightarrow> (bool \<times> list_t \<times> osi_mem) option" where
  "list_prepend A pl d h = do {
     l \<leftarrow> pl;
     if d = 0 then None else
     case A (nodes h) of None \<Rightarrow> Some (False, l, h) | Some a \<Rightarrow> do {
       let h = store a \<lparr>node_next = list_head l, node_data = d\<rparr> h;
       let l = l\<lparr>list_head := a\<rparr>;
       let l = (if list_tail l = 0 then l\<lparr>list_tail := list_head l\<rparr> else l);
       Some (True, l\<lparr>list_len := list_len l + 1\<rparr>, h)
     }
   }"

definition list_append ::
    "allocator \<Rightarrow> list_t option \<Rightarrow> nat \<Rightarrow> osi_mem \<Rightarrow> (bool \<times> list_t \<times> osi_mem) option" where
  "list_append A pl d h = do {
     l \<leftarrow> pl;
     if d = 0 then None else
     case A (nodes h) of None \<Rightarrow> Some (False, l, h) | Some a \<Rightarrow> do {
       let h = store a \<lparr>node_next = 0, node_data = d\<rparr> h;
       if list_tail l = 0
       then Some (True, l\<lparr>list_head := a, list_tail := a, list_len := list_len l + 1\<rparr>, h)
       else do {
         t \<leftarrow> deref (list_tail l) h;
         let h = store (list_tail l) (t\<lparr>node_next := a\<rparr>) h;
         Some (True, l\<lparr>list_tail := a, list_len := list_len l + 1\<rparr>, h)
       }
     }
   }"

definition list_free_node :: "list_t \<Rightarrow> nat \<Rightarrow> osi_mem \<Rightarrow> (nat \<times> list_t \<times> osi_mem) option" where
  "list_free_node l a h = do {
     n \<leftarrow> deref a h;
     let h = (if has_free_cb l then h\<lparr>freed_data := freed_data h @ [node_data n]\<rparr> else h);
     let h = h\<lparr>nodes := (nodes h)(a := None)\<rparr>;
     Some (node_next n, l\<lparr>list_len := list_len l - 1\<rparr>, h)
   }"

text \<open>The loop of \<^verbatim>\<open>list_remove\<close>: \<open>prev\<close> and \<open>a\<close> are neighbours, \<open>a\<close> may be null.\<close>

partial_function (option) list_remove_loop ::
    "list_t \<Rightarrow> nat \<Rightarrow> nat \<Rightarrow> nat \<Rightarrow> osi_mem \<Rightarrow> (bool \<times> list_t \<times> osi_mem) option" where
  "list_remove_loop l prev a d h =
     (if a = 0 then Some (False, l, h)
      else do {
        n \<leftarrow> deref a h;
        if node_data n = d then do {
          (b, l, h) \<leftarrow> list_free_node l a h;
          p \<leftarrow> deref prev h;
          let h = store prev (p\<lparr>node_next := b\<rparr>) h;
          Some (True, if list_tail l = a then l\<lparr>list_tail := prev\<rparr> else l, h)
        }
        else list_remove_loop l a (node_next n) d h
      })"

definition list_remove :: "list_t option \<Rightarrow> nat \<Rightarrow> osi_mem \<Rightarrow> (bool \<times> list_t \<times> osi_mem) option" where
  "list_remove pl d h = do {
     l \<leftarrow> pl;
     if d = 0 then None else do {
       e \<leftarrow> list_is_empty pl;
       if e then Some (False, l, h) else do {
         n \<leftarrow> deref (list_head l) h;
         if node_data n = d then do {
           (b, l, h) \<leftarrow> list_free_node l (list_head l) h;
           let l = (if list_tail l = list_head l then l\<lparr>list_tail := b\<rparr> else l);
           Some (True, l\<lparr>list_head := b\<rparr>, h)
         }
         else list_remove_loop l (list_head l) (node_next n) d h
       }
     }
   }"

partial_function (option) list_clear_loop :: "list_t \<Rightarrow> nat \<Rightarrow> osi_mem \<Rightarrow> (list_t \<times> osi_mem) option" where
  "list_clear_loop l a h =
     (if a = 0 then Some (l, h)
      else do { (b, l, h) \<leftarrow> list_free_node l a h; list_clear_loop l b h })"

definition list_clear :: "list_t option \<Rightarrow> osi_mem \<Rightarrow> (list_t \<times> osi_mem) option" where
  "list_clear pl h = do {
     l \<leftarrow> pl;
     (l, h) \<leftarrow> list_clear_loop l (list_head l) h;
     Some (l\<lparr>list_head := 0, list_tail := 0, list_len := 0\<rparr>, h)
   }"

definition list_free :: "list_t option \<Rightarrow> osi_mem \<Rightarrow> osi_mem option" where
  "list_free pl h = (case pl of None \<Rightarrow> Some h | Some l \<Rightarrow> map_option snd (list_clear pl h))"

text \<open>The callback of \<^verbatim>\<open>list_foreach\<close> reads the data and changes its context.\<close>

partial_function (option) list_foreach_loop ::
    "(nat \<Rightarrow> 'c \<Rightarrow> bool \<times> 'c) \<Rightarrow> nat \<Rightarrow> 'c \<Rightarrow> osi_mem \<Rightarrow> (nat \<times> 'c) option" where
  "list_foreach_loop f a c h =
     (if a = 0 then Some (0, c)
      else do {
        n \<leftarrow> deref a h;
        case f (node_data n) c of (go, c) \<Rightarrow>
          if \<not> go then Some (a, c) else list_foreach_loop f (node_next n) c h
      })"

definition list_foreach ::
    "list_t option \<Rightarrow> (nat \<Rightarrow> 'c \<Rightarrow> bool \<times> 'c) \<Rightarrow> 'c \<Rightarrow> osi_mem \<Rightarrow> (nat \<times> 'c) option" where
  "list_foreach pl f c h = do { l \<leftarrow> pl; list_foreach_loop f (list_head l) c h }"

section \<open>The abstract list\<close>

text \<open>
  \<open>lseg h x cs y\<close>: following the nodes from \<open>x\<close> visits the cells \<open>cs\<close> (address and data) and
  ends at \<open>y\<close>. \<open>list_rep l h cs\<close>: the handle \<open>l\<close> and the heap of \<open>h\<close> are a list with these cells.
\<close>

fun lseg :: "(nat \<Rightarrow> list_node_t option) \<Rightarrow> nat \<Rightarrow> (nat \<times> nat) list \<Rightarrow> nat \<Rightarrow> bool" where
  "lseg h x [] y = (x = y)"
| "lseg h x ((a, d) # cs) y = (x \<noteq> 0 \<and> a = x \<and> (\<exists>b. h x = Some \<lparr>node_next = b, node_data = d\<rparr> \<and> lseg h b cs y))"

definition list_rep :: "list_t \<Rightarrow> osi_mem \<Rightarrow> (nat \<times> nat) list \<Rightarrow> bool" where
  "list_rep l h cs \<longleftrightarrow> lseg (nodes h) (list_head l) cs 0 \<and> distinct (map fst cs) \<and>
     list_tail l = (if cs = [] then 0 else fst (last cs)) \<and> list_len l = word_of_nat (length cs) \<and>
     length cs < 2 ^ 64 \<and> 0 \<notin> snd ` set cs"

text \<open>Only the nodes of \<open>as\<close> may differ.\<close>

definition same_but :: "nat set \<Rightarrow> osi_mem \<Rightarrow> osi_mem \<Rightarrow> bool" where
  "same_but as h h' \<longleftrightarrow> (\<forall>x. x \<notin> as \<longrightarrow> nodes h' x = nodes h x)"

text \<open>The cells \<open>cs'\<close> are \<open>cs\<close> without the first one that holds \<open>d\<close>, and that node is free.\<close>

definition cells_removed :: "nat \<Rightarrow> (nat \<times> nat) list \<Rightarrow> (nat \<times> nat) list \<Rightarrow> osi_mem \<Rightarrow> bool" where
  "cells_removed d cs cs' h' \<longleftrightarrow> map snd cs' = remove1 d (map snd cs) \<and> set cs' \<subseteq> set cs \<and>
     (\<forall>x \<in> fst ` set cs - fst ` set cs'. nodes h' x = None)"

text \<open>
  A client's calls, on the model and on HOL lists. The abstract step relates the data and the
  data given to \<^verbatim>\<open>free_cb\<close> before and after to the result of the call; an insertion may fail
  for lack of memory and then changes nothing.
\<close>

datatype list_op = Append nat | Prepend nat | Remove nat | Clear

fun op_args :: "list_op \<Rightarrow> nat list" where
  "op_args (Append d) = [d]"
| "op_args (Prepend d) = [d]"
| "op_args (Remove d) = [d]"
| "op_args Clear = []"

fun list_do :: "allocator \<Rightarrow> list_op \<Rightarrow> list_t \<Rightarrow> osi_mem \<Rightarrow> (bool \<times> list_t \<times> osi_mem) option" where
  "list_do A (Append d) l h = list_append A (Some l) d h"
| "list_do A (Prepend d) l h = list_prepend A (Some l) d h"
| "list_do A (Remove d) l h = list_remove (Some l) d h"
| "list_do A Clear l h = map_option (Pair True) (list_clear (Some l) h)"

fun list_run :: "allocator \<Rightarrow> list_op list \<Rightarrow> list_t \<Rightarrow> osi_mem \<Rightarrow> (bool list \<times> list_t \<times> osi_mem) option" where
  "list_run A [] l h = Some ([], l, h)"
| "list_run A (op # ops) l h = do {
     (b, l, h) \<leftarrow> list_do A op l h;
     (bs, l, h) \<leftarrow> list_run A ops l h;
     Some (b # bs, l, h)
   }"

fun abs_do :: "bool \<Rightarrow> list_op \<Rightarrow> bool \<Rightarrow> nat list \<Rightarrow> nat list \<times> nat list" where
  "abs_do cb (Append d) b xs = (if b then xs @ [d] else xs, [])"
| "abs_do cb (Prepend d) b xs = (if b then d # xs else xs, [])"
| "abs_do cb (Remove d) b xs = (remove1 d xs, if cb \<and> d \<in> set xs then [d] else [])"
| "abs_do cb Clear b xs = ([], if cb then xs else [])"

fun abs_result :: "list_op \<Rightarrow> bool \<Rightarrow> nat list \<Rightarrow> bool" where
  "abs_result (Remove d) b xs = (b \<longleftrightarrow> d \<in> set xs)"
| "abs_result Clear b xs = b"
| "abs_result (Append d) b xs = True"
| "abs_result (Prepend d) b xs = True"

fun abs_run :: "bool \<Rightarrow> list_op list \<Rightarrow> bool list \<Rightarrow> nat list \<Rightarrow> (nat list \<times> nat list) option" where
  "abs_run cb [] [] xs = Some (xs, [])"
| "abs_run cb (op # ops) (b # bs) xs = (if abs_result op b xs then do {
     (ys, fs) \<leftarrow> abs_run cb ops bs (fst (abs_do cb op b xs));
     Some (ys, snd (abs_do cb op b xs) @ fs)
   } else None)"
| "abs_run cb _ _ xs = None"

text \<open>
  Nodes outside the list stay as they are, the nodes that left it are free, and the nodes that
  joined it were free.
\<close>

definition owns :: "(nat \<times> nat) list \<Rightarrow> osi_mem \<Rightarrow> (nat \<times> nat) list \<Rightarrow> osi_mem \<Rightarrow> bool" where
  "owns cs h cs' h' \<longleftrightarrow> (\<forall>x.
     (x \<notin> fst ` set cs \<and> x \<notin> fst ` set cs' \<longrightarrow> nodes h' x = nodes h x) \<and>
     (x \<in> fst ` set cs \<and> x \<notin> fst ` set cs' \<longrightarrow> nodes h' x = None) \<and>
     (x \<notin> fst ` set cs \<and> x \<in> fst ` set cs' \<longrightarrow> nodes h x = None))"

text \<open>What \<^verbatim>\<open>list_foreach\<close> returns, by recursion on the cells.\<close>

fun foreach_ref :: "(nat \<Rightarrow> 'c \<Rightarrow> bool \<times> 'c) \<Rightarrow> (nat \<times> nat) list \<Rightarrow> 'c \<Rightarrow> nat \<times> 'c" where
  "foreach_ref f [] c = (0, c)"
| "foreach_ref f ((a, d) # cs) c = (case f d c of (go, c') \<Rightarrow> if go then foreach_ref f cs c' else (a, c'))"

text \<open>One call on the model is the abstract step on the data.\<close>

definition refines_do :: "list_op \<Rightarrow> list_t \<Rightarrow> osi_mem \<Rightarrow> (nat \<times> nat) list \<Rightarrow> bool \<times> list_t \<times> osi_mem \<Rightarrow> bool" where
  "refines_do op l h cs = (\<lambda>(b, l', h'). abs_result op b (map snd cs) \<and> has_free_cb l' = has_free_cb l \<and>
     (\<exists>cs'. list_rep l' h' cs' \<and> owns cs h cs' h' \<and> length cs' \<le> Suc (length cs) \<and>
       map snd cs' = fst (abs_do (has_free_cb l) op b (map snd cs)) \<and>
       freed_data h' = freed_data h @ snd (abs_do (has_free_cb l) op b (map snd cs))))"

text \<open>A heap with two cells, and an allocator that has two nodes.\<close>

definition two_cells :: osi_mem where
  "two_cells = \<lparr>nodes = [1 \<mapsto> \<lparr>node_next = 2, node_data = 8\<rparr>, 2 \<mapsto> \<lparr>node_next = 0, node_data = 9\<rparr>], freed_data = []\<rparr>"

definition two_nodes :: allocator where
  "two_nodes h = (if h 1 = None then Some 1 else if h 2 = None then Some 2 else None)"

section \<open>Segments\<close>

lemma lseg_append: "lseg h x (cs @ cs') y \<longleftrightarrow> (\<exists>z. lseg h x cs z \<and> lseg h z cs' y)"
  by (induction h x cs y rule: lseg.induct) auto

lemma lseg_upd [simp]: "a \<notin> fst ` set cs \<Longrightarrow> lseg (h(a := v)) x cs y = lseg h x cs y"
  by (induction h x cs y rule: lseg.induct) auto

lemma lseg_cell: "lseg h x cs y \<Longrightarrow> (a, d) \<in> set cs \<Longrightarrow> a \<noteq> 0 \<and> (\<exists>b. h a = Some \<lparr>node_next = b, node_data = d\<rparr>)"
  by (induction h x cs y rule: lseg.induct) auto

lemma lseg_allocated: "lseg h x cs y \<Longrightarrow> h a = None \<Longrightarrow> a \<notin> fst ` set cs"
  by (force dest: lseg_cell)

lemma lseg_null [simp]: "lseg h 0 cs y \<longleftrightarrow> cs = [] \<and> y = 0"
  by (cases cs) auto

lemma lseg_head: "lseg h x cs 0 \<Longrightarrow> x = 0 \<longleftrightarrow> cs = []"
  by (cases cs) auto

lemma lseg_last:
  "lseg h x (cs @ [(a, d)]) y \<longleftrightarrow> lseg h x cs a \<and> a \<noteq> 0 \<and> h a = Some \<lparr>node_next = y, node_data = d\<rparr>"
  by (auto simp: lseg_append)

lemma len_zero: "length cs < 2 ^ 64 \<Longrightarrow> (word_of_nat (length cs) :: 64 word) = 0 \<longleftrightarrow> cs = []"
  by (auto simp: word_of_nat_eq_0_iff dest: nat_dvd_not_less)

section \<open>Queries\<close>

lemma contains_loop: "lseg (nodes h) x cs 0 \<Longrightarrow> list_contains_loop x d h = Some (d \<in> snd ` set cs)"
proof (induction cs arbitrary: x)
  case Nil
  then show ?case by (simp add: list_contains_loop.simps)
next
  case (Cons c cs)
  then show ?case
    by (cases c) (auto simp: list_contains_loop.simps [of x] list_node_def list_next_def deref_def)
qed

lemma list_queries:
  assumes "list_rep l h cs"
  shows "list_is_empty (Some l) = Some (cs = [])" "d \<noteq> 0 \<Longrightarrow> list_contains (Some l) d h = Some (d \<in> snd ` set cs)"
    "list_front (Some l) h = (if cs = [] then None else Some (snd (hd cs)))"
    "list_back (Some l) h = (if cs = [] then None else Some (snd (last cs)))"
proof -
  show e: "list_is_empty (Some l) = Some (cs = [])"
    using assms by (simp add: list_is_empty_def list_rep_def len_zero)
  show "d \<noteq> 0 \<Longrightarrow> list_contains (Some l) d h = Some (d \<in> snd ` set cs)"
    using assms by (simp add: list_contains_def list_begin_def list_rep_def contains_loop)
  show "list_front (Some l) h = (if cs = [] then None else Some (snd (hd cs)))"
    using assms by (cases cs) (auto simp: list_front_def e list_rep_def deref_def)
  show "list_back (Some l) h = (if cs = [] then None else Some (snd (last cs)))"
    using assms by (cases cs rule: rev_cases) (auto simp: list_back_def e list_rep_def deref_def lseg_last)
qed

section \<open>Insertion\<close>

lemma fresh_node:
  assumes "list_rep l h cs" "fresh_alloc A" "A (nodes h) = Some a"
  shows "a \<noteq> 0" "nodes h a = None" "a \<notin> fst ` set cs"
proof -
  show "a \<noteq> 0" and n: "nodes h a = None" using assms(2,3) by (auto simp: fresh_alloc_def)
  have "lseg (nodes h) (list_head l) cs 0" using assms(1) by (simp add: list_rep_def)
  then show "a \<notin> fst ` set cs" using n by (rule lseg_allocated)
qed

lemma list_append_ok:
  assumes "list_rep l h cs" "fresh_alloc A" "A (nodes h) = Some a" "d \<noteq> 0" "Suc (length cs) < 2 ^ 64"
  shows "ok (list_append A (Some l) d h) (\<lambda>(b, l', h'). b \<and> list_rep l' h' (cs @ [(a, d)]) \<and>
    same_but (insert a (fst ` set cs)) h h' \<and> freed_data h' = freed_data h \<and> has_free_cb l' = has_free_cb l)"
proof -
  note a = fresh_node [OF assms(1-3)]
  show ?thesis
  proof (cases cs rule: rev_cases)
    case Nil
    then show ?thesis using assms a by (simp add: list_append_def list_rep_def store_def same_but_def)
  next
    case (snoc cs' c)
    obtain t e where c: "c = (t, e)" by (cases c)
    have t: "t \<noteq> 0" "nodes h t = Some \<lparr>node_next = 0, node_data = e\<rparr>" "list_tail l = t" "t \<noteq> a" "t \<notin> fst ` set cs'"
      using assms(1) a by (auto simp: snoc c list_rep_def lseg_last)
    show ?thesis using assms a t
      by (auto simp: list_append_def deref_def store_def same_but_def snoc c list_rep_def lseg_append)
  qed
qed

lemma list_prepend_ok:
  assumes "list_rep l h cs" "fresh_alloc A" "A (nodes h) = Some a" "d \<noteq> 0" "Suc (length cs) < 2 ^ 64"
  shows "ok (list_prepend A (Some l) d h) (\<lambda>(b, l', h'). b \<and> list_rep l' h' ((a, d) # cs) \<and>
    same_but (insert a (fst ` set cs)) h h' \<and> freed_data h' = freed_data h \<and> has_free_cb l' = has_free_cb l)"
proof -
  note a = fresh_node [OF assms(1-3)]
  have tl: "list_tail l = 0 \<longleftrightarrow> cs = []"
    using assms(1) by (cases cs rule: rev_cases) (auto simp: list_rep_def lseg_last)
  show ?thesis using assms a tl
    by (auto simp: list_prepend_def store_def same_but_def list_rep_def Let_def)
qed

lemma list_insert_after_ok:
  assumes "list_rep l h (cs @ (p, e) # cs')" "fresh_alloc A" "A (nodes h) = Some a" "d \<noteq> 0"
    "Suc (length (cs @ (p, e) # cs')) < 2 ^ 64"
  shows "ok (list_insert_after A (Some l) p d h) (\<lambda>(b, l', h'). b \<and> list_rep l' h' (cs @ (p, e) # (a, d) # cs') \<and>
    same_but {a, p} h h' \<and> freed_data h' = freed_data h \<and> has_free_cb l' = has_free_cb l)"
proof -
  note a = fresh_node [OF assms(1-3)]
  obtain n where p: "p \<noteq> 0" "nodes h p = Some \<lparr>node_next = n, node_data = e\<rparr>" "lseg (nodes h) n cs' 0" "p \<noteq> a"
    using assms(1) a by (auto simp: list_rep_def lseg_append)
  have tl: "list_tail l = p \<longleftrightarrow> cs' = []"
    using assms(1) by (cases cs' rule: rev_cases) (auto simp: list_rep_def)
  show ?thesis using assms a p tl
    by (auto simp: list_insert_after_def deref_def store_def same_but_def list_rep_def lseg_append Let_def image_Un)
qed

section \<open>Removal\<close>

lemma list_rep_len: "list_rep l h cs \<Longrightarrow> cs \<noteq> [] \<Longrightarrow> list_len l - 1 = word_of_nat (length cs - 1)"
  by (cases cs) (simp_all add: list_rep_def)

lemma list_unlink:
  assumes r: "list_rep l h (cs0 @ (p, e) # (a, d) # cs)"
  shows "ok (list_remove_loop l p a d h) (\<lambda>(b, l', h'). b \<and> list_rep l' h' (cs0 @ (p, e) # cs) \<and>
    nodes h' a = None \<and> same_but {p, a} h h' \<and> freed_data h' = freed_data h @ (if has_free_cb l then [d] else []) \<and>
    has_free_cb l' = has_free_cb l)"
proof -
  obtain n where a: "a \<noteq> 0" "nodes h a = Some \<lparr>node_next = n, node_data = d\<rparr>" "lseg (nodes h) n cs 0" "p \<noteq> a" "p \<noteq> 0"
    "nodes h p = Some \<lparr>node_next = a, node_data = e\<rparr>" "a \<notin> fst ` set cs0" "a \<notin> fst ` set cs" "p \<notin> fst ` set cs0" "p \<notin> fst ` set cs"
    using r by (auto simp: list_rep_def lseg_append)
  have tl: "list_tail l = a \<longleftrightarrow> cs = []"
    using r by (cases cs rule: rev_cases) (auto simp: list_rep_def)
  show ?thesis using r a tl
    by (auto simp: list_remove_loop.simps [of l p a] list_free_node_def deref_def store_def same_but_def list_rep_def
        lseg_append Let_def)
qed

lemma cells_removed_Cons:
  "cells_removed d cs cs' h \<Longrightarrow> e \<noteq> d \<Longrightarrow> cells_removed d ((a, e) # cs) ((a, e) # cs') h"
  unfolding cells_removed_def by force

lemma remove_loop:
  assumes "list_rep l h (cs0 @ (p, e) # cs)" "lseg (nodes h) a cs 0"
  shows "ok (list_remove_loop l p a d h) (\<lambda>(b, l', h'). b = (d \<in> snd ` set cs) \<and>
    (\<exists>cs'. list_rep l' h' (cs0 @ (p, e) # cs') \<and> cells_removed d cs cs' h') \<and>
    same_but (insert p (fst ` set cs)) h h' \<and>
    freed_data h' = freed_data h @ (if b \<and> has_free_cb l then [d] else []) \<and>
    has_free_cb l' = has_free_cb l)"
  using assms
proof (induction cs arbitrary: cs0 p e a)
  case Nil
  then show ?case by (simp add: list_remove_loop.simps same_but_def cells_removed_def)
next
  case (Cons c cs)
  obtain d' where c: "c = (a, d')" using Cons.prems(2) by (cases c) simp
  show ?case
  proof (cases "d' = d")
    case True
    have "ok (list_remove_loop l p a d h) (\<lambda>(b, l', h'). b \<and> list_rep l' h' (cs0 @ (p, e) # cs) \<and>
      nodes h' a = None \<and> same_but {p, a} h h' \<and> freed_data h' = freed_data h @ (if has_free_cb l then [d] else []) \<and>
    has_free_cb l' = has_free_cb l)"
      by (rule list_unlink) (use Cons.prems(1) c True in simp)
    then show ?thesis unfolding c True
      by (auto simp: cells_removed_def same_but_def elim!: ok_weaken)
  next
    case False
    obtain n where n: "nodes h a = Some \<lparr>node_next = n, node_data = d'\<rparr>" "lseg (nodes h) n cs 0" "a \<noteq> 0"
      using Cons.prems(2) c by auto
    have "ok (list_remove_loop l a n d h) (\<lambda>(b, l', h'). b = (d \<in> snd ` set cs) \<and>
      (\<exists>cs'. list_rep l' h' ((cs0 @ [(p, e)]) @ (a, d') # cs') \<and> cells_removed d cs cs' h') \<and>
      same_but (insert a (fst ` set cs)) h h' \<and>
      freed_data h' = freed_data h @ (if b \<and> has_free_cb l then [d] else []) \<and>
    has_free_cb l' = has_free_cb l)"
      by (rule Cons.IH) (use Cons.prems(1) c n in simp_all)
    moreover have "list_remove_loop l p a d h = list_remove_loop l a n d h"
      using n False by (simp add: list_remove_loop.simps [of l p a] deref_def)
    ultimately show ?thesis using False unfolding c
      by (auto simp: same_but_def intro!: exI [where x = "(a, d') # xs" for xs] cells_removed_Cons elim!: ok_weaken)
  qed
qed

lemma list_remove_ok:
  assumes r: "list_rep l h cs" and d: "d \<noteq> 0"
  shows "ok (list_remove (Some l) d h) (\<lambda>(b, l', h'). b = (d \<in> snd ` set cs) \<and>
    (\<exists>cs'. list_rep l' h' cs' \<and> cells_removed d cs cs' h') \<and> same_but (fst ` set cs) h h' \<and>
    freed_data h' = freed_data h @ (if b \<and> has_free_cb l then [d] else []) \<and>
    has_free_cb l' = has_free_cb l)"
proof (cases cs)
  case Nil
  with r d show ?thesis by (auto simp: list_remove_def list_queries [OF r] same_but_def cells_removed_def)
next
  case (Cons c cs')
  obtain a e where c: "c = (a, e)" by (cases c)
  obtain n where n: "list_head l = a" "nodes h a = Some \<lparr>node_next = n, node_data = e\<rparr>" "lseg (nodes h) n cs' 0" "a \<noteq> 0" "a \<notin> fst ` set cs'"
    using r by (auto simp: Cons c list_rep_def)
  show ?thesis
  proof (cases "e = d")
    case True
    have tl: "list_tail l = a \<longleftrightarrow> cs' = []"
      using r n(5) by (cases cs' rule: rev_cases) (auto simp: list_rep_def Cons c)
    show ?thesis using r d n tl True unfolding Cons c
      by (auto simp: list_remove_def list_queries [OF r] Cons list_free_node_def deref_def same_but_def cells_removed_def
          list_rep_def Let_def intro!: exI [of _ cs'])
  next
    case False
    have "ok (list_remove_loop l a n d h) (\<lambda>(b, l', h'). b = (d \<in> snd ` set cs') \<and>
      (\<exists>cs2. list_rep l' h' ([] @ (a, e) # cs2) \<and> cells_removed d cs' cs2 h') \<and>
      same_but (insert a (fst ` set cs')) h h' \<and> freed_data h' = freed_data h @ (if b \<and> has_free_cb l then [d] else []) \<and>
    has_free_cb l' = has_free_cb l)"
      by (rule remove_loop) (use r Cons c n in simp_all)
    moreover have "list_remove (Some l) d h = list_remove_loop l a n d h"
      using d n False by (simp add: list_remove_def list_queries [OF r] Cons deref_def)
    ultimately show ?thesis using False unfolding Cons c
      by (auto intro!: exI [where x = "(a, e) # xs" for xs] cells_removed_Cons elim!: ok_weaken)
  qed
qed

lemma clear_loop:
  assumes "lseg (nodes h) x cs 0" "distinct (map fst cs)"
  shows "ok (list_clear_loop l x h) (\<lambda>(l', h'). same_but (fst ` set cs) h h' \<and> (\<forall>a \<in> fst ` set cs. nodes h' a = None) \<and>
    has_free_cb l' = has_free_cb l \<and> freed_data h' = freed_data h @ (if has_free_cb l then map snd cs else []))"
  using assms
proof (induction cs arbitrary: x l h)
  case Nil
  then show ?case by (simp add: list_clear_loop.simps same_but_def)
next
  case (Cons c cs)
  obtain n d where c: "c = (x, d)" "nodes h x = Some \<lparr>node_next = n, node_data = d\<rparr>" "lseg (nodes h) n cs 0" "x \<noteq> 0" "x \<notin> fst ` set cs"
    using Cons.prems by (cases c) auto
  let ?l = "l\<lparr>list_len := list_len l - 1\<rparr>"
  let ?h = "(if has_free_cb l then h\<lparr>freed_data := freed_data h @ [d]\<rparr> else h)\<lparr>nodes := (nodes h)(x := None)\<rparr>"
  have "list_clear_loop l x h = list_clear_loop ?l n ?h"
    using c by (simp add: list_clear_loop.simps [of l x] list_free_node_def deref_def Let_def)
  moreover have "ok (list_clear_loop ?l n ?h) (\<lambda>(l', h'). same_but (fst ` set cs) ?h h' \<and> (\<forall>a \<in> fst ` set cs. nodes h' a = None) \<and>
    has_free_cb l' = has_free_cb ?l \<and> freed_data h' = freed_data ?h @ (if has_free_cb ?l then map snd cs else []))"
    by (rule Cons.IH) (use lseg_upd [OF c(5), of "nodes h" None n 0] c Cons.prems in \<open>simp_all add: fun_upd_def\<close>)
  ultimately show ?case using c(5) unfolding c(1)
    by (auto simp: same_but_def split: if_splits elim!: ok_weaken)
qed

lemma list_clear_ok:
  assumes "list_rep l h cs"
  shows "ok (list_clear (Some l) h) (\<lambda>(l', h'). list_rep l' h' [] \<and> same_but (fst ` set cs) h h' \<and>
    (\<forall>a \<in> fst ` set cs. nodes h' a = None) \<and> freed_data h' = freed_data h @ (if has_free_cb l then map snd cs else []) \<and>
    has_free_cb l' = has_free_cb l)"
proof -
  have "lseg (nodes h) (list_head l) cs 0" "distinct (map fst cs)" using assms by (simp_all add: list_rep_def)
  from clear_loop [OF this, of l] show ?thesis
    by (auto simp: list_clear_def list_rep_def elim!: ok_weaken)
qed

lemma foreach_loop:
  "lseg (nodes h) x cs 0 \<Longrightarrow> list_foreach_loop f x c h = Some (foreach_ref f cs c)"
proof (induction cs arbitrary: x c)
  case Nil
  then show ?case by (simp add: list_foreach_loop.simps)
next
  case (Cons k cs)
  then show ?case
    by (cases k) (auto simp: list_foreach_loop.simps [of f x] deref_def split: prod.split)
qed

section \<open>Sequences of calls\<close>

lemma owns_refl: "owns cs h cs h"
  by (simp add: owns_def)

lemma owns_trans: "owns cs h cs' h' \<Longrightarrow> owns cs' h' cs'' h'' \<Longrightarrow> owns cs h cs'' h''"
  unfolding owns_def by metis

lemma removed_owns:
  assumes "cells_removed d cs cs' h'" "same_but (fst ` set cs) h h'"
  shows "owns cs h cs' h' \<and> length cs' \<le> Suc (length cs) \<and> map snd cs' = remove1 d (map snd cs)"
proof -
  have "length (map snd cs') \<le> length (map snd cs)"
    using assms(1) by (simp add: cells_removed_def length_remove1)
  then show ?thesis using assms by (auto simp: cells_removed_def owns_def same_but_def)
qed

lemma added_owns:
  assumes "same_but (insert a (fst ` set cs)) h h'" "nodes h a = None"
  shows "owns cs h (cs @ [(a, d)]) h'" "owns cs h ((a, d) # cs) h'"
proof -
  have "owns cs h cs' h'" if "fst ` set cs' = insert a (fst ` set cs)" for cs'
    using assms that unfolding owns_def same_but_def by (metis insert_iff)
  then show "owns cs h (cs @ [(a, d)]) h'" "owns cs h ((a, d) # cs) h'" by simp_all
qed

lemma list_do_refines:
  assumes "list_rep l h cs" "fresh_alloc A" "0 \<notin> set (op_args op)" "Suc (length cs) < 2 ^ 64"
  shows "ok (list_do A op l h) (refines_do op l h cs)"
proof (cases op)
  case (Append d)
  show ?thesis
  proof (cases "A (nodes h)")
    case None
    with assms Append show ?thesis by (auto simp: refines_do_def list_append_def intro: owns_refl)
  next
    case (Some a)
    note ap = list_append_ok [OF assms(1,2) Some _ assms(4), of d] and a = fresh_node [OF assms(1,2) Some]
    show ?thesis using ap a assms(3) unfolding Append
      by (auto simp: refines_do_def intro!: exI [of _ "cs @ [(a, d)]"] intro: added_owns elim!: ok_weaken)
  qed
next
  case (Prepend d)
  show ?thesis
  proof (cases "A (nodes h)")
    case None
    with assms Prepend show ?thesis by (auto simp: refines_do_def list_prepend_def intro: owns_refl)
  next
    case (Some a)
    note ap = list_prepend_ok [OF assms(1,2) Some _ assms(4), of d] and a = fresh_node [OF assms(1,2) Some]
    show ?thesis using ap a assms(3) unfolding Prepend
      by (auto simp: refines_do_def intro!: exI [of _ "(a, d) # cs"] intro: added_owns elim!: ok_weaken)
  qed
next
  case (Remove d)
  have "refines_do (Remove d) l h cs (b, l', h')"
    if "b = (d \<in> snd ` set cs)" "list_rep l' h' cs'" "cells_removed d cs cs' h'" "same_but (fst ` set cs) h h'"
      "freed_data h' = freed_data h @ (if b \<and> has_free_cb l then [d] else [])" "has_free_cb l' = has_free_cb l" for b l' h' cs'
    using that removed_owns [OF that(3,4)] by (simp add: refines_do_def conj_commute exI [of _ cs'])
  with Remove assms(3) list_remove_ok [OF assms(1), of d] show ?thesis
    by (fastforce elim!: ok_weaken)
next
  case Clear
  have "ok (map_option (Pair True) m) P = ok m (\<lambda>x. P (True, x))" for m :: "(list_t \<times> osi_mem) option" and P
    by (cases m) auto
  with Clear list_clear_ok [OF assms(1)] show ?thesis
    by (auto simp: refines_do_def owns_def same_but_def intro!: exI [of _ "[]"] elim!: ok_weaken)
qed

lemma list_run_refines:
  assumes "list_rep l h cs" "fresh_alloc A" "\<forall>op \<in> set ops. 0 \<notin> set (op_args op)" "length cs + length ops < 2 ^ 64"
  shows "ok (list_run A ops l h) (\<lambda>(bs, l', h'). \<exists>cs' fs. list_rep l' h' cs' \<and> owns cs h cs' h' \<and>
    abs_run (has_free_cb l) ops bs (map snd cs) = Some (map snd cs', fs) \<and> freed_data h' = freed_data h @ fs)"
  using assms
proof (induction ops arbitrary: l h cs)
  case Nil
  then show ?case by (auto intro: owns_refl)
next
  case (Cons op ops)
  have "ok (list_do A op l h) (refines_do op l h cs)"
    by (rule list_do_refines) (use Cons.prems in auto)
  then show ?case unfolding list_run.simps
  proof (rule ok_bindI, goal_cases)
    case (1 x)
    obtain b l' h' where x: "x = (b, l', h')" by (cases x)
    obtain cs' where c: "list_rep l' h' cs'" "owns cs h cs' h'" "length cs' \<le> Suc (length cs)" "has_free_cb l' = has_free_cb l"
      "abs_result op b (map snd cs)" "map snd cs' = fst (abs_do (has_free_cb l) op b (map snd cs))"
      "freed_data h' = freed_data h @ snd (abs_do (has_free_cb l) op b (map snd cs))"
      using 1 unfolding x refines_do_def by auto
    have "ok (list_run A ops l' h') (\<lambda>(bs, l'', h''). \<exists>cs'' fs. list_rep l'' h'' cs'' \<and> owns cs' h' cs'' h'' \<and>
      abs_run (has_free_cb l') ops bs (map snd cs') = Some (map snd cs'', fs) \<and> freed_data h'' = freed_data h' @ fs)"
      by (rule Cons.IH) (use c Cons.prems in auto)
    then show ?case unfolding x
      by (auto simp: c(4-7) intro!: exI [where P = "\<lambda>cs. _ cs \<and> _ cs"] intro: owns_trans [OF c(2)] elim!: ok_weaken)
  qed
qed

section \<open>Properties\<close>

text \<open>
  C32: Any sequence of \<^verbatim>\<open>list_append\<close>, \<^verbatim>\<open>list_prepend\<close>, \<^verbatim>\<open>list_remove\<close> and \<^verbatim>\<open>list_clear\<close>
  calls on a well-formed list runs to its end: no assert fails, no null or freed node is
  followed and every loop ends. The results and the data are those of the same calls on a HOL
  list, where only an insertion may be refused; \<^verbatim>\<open>free_cb\<close> is called on exactly the data that
  leave the list, in order; the nodes that leave it are freed, and no node outside it changes.
\<close>

theorem list_calls_refine:
  assumes "fresh_alloc A" "list_rep l h cs" "\<forall>op \<in> set ops. 0 \<notin> set (op_args op)"
    "length cs + length ops < 2 ^ 64"
  shows "\<exists>bs l' h' cs' fs. list_run A ops l h = Some (bs, l', h') \<and> list_rep l' h' cs' \<and>
    abs_run (has_free_cb l) ops bs (map snd cs) = Some (map snd cs', fs) \<and>
    freed_data h' = freed_data h @ fs \<and> owns cs h cs' h'"
  using list_run_refines [OF assms(2,1,3,4)] by (auto simp: ok_iff)

theorem list_calls_refine_witness:
  "\<exists>bs l' h' cs' fs. list_run two_nodes [Append 5, Prepend 6, Append 7, Remove 5, Append 7] (list_new True)
      \<lparr>nodes = Map.empty, freed_data = []\<rparr> = Some (bs, l', h') \<and> list_rep l' h' cs' \<and>
    abs_run True [Append 5, Prepend 6, Append 7, Remove 5, Append 7] bs [] = Some (map snd cs', fs) \<and>
    freed_data h' = fs \<and> owns [] \<lparr>nodes = Map.empty, freed_data = []\<rparr> cs' h'"
  using list_calls_refine [of two_nodes "list_new True" "\<lparr>nodes = Map.empty, freed_data = []\<rparr>" "[]"
      "[Append 5, Prepend 6, Append 7, Remove 5, Append 7]"]
  by (simp add: fresh_alloc_def two_nodes_def list_rep_def list_new_def split: if_splits)

text \<open>
  C33: The loops that only read a list end on every well-formed list: \<^verbatim>\<open>list_foreach\<close> calls the
  callback on the data in order, threading its context, and returns the node at which the
  callback first answered false, or null after the last one; \<^verbatim>\<open>list_contains\<close> decides
  membership; front, back and length are those of the data, and the first two assert on an
  empty list.
\<close>

theorem list_reads_exact:
  assumes "list_rep l h cs" "d \<noteq> 0"
  shows "list_foreach (Some l) f c h = Some (foreach_ref f cs c) \<and>
    list_contains (Some l) d h = Some (d \<in> set (map snd cs)) \<and>
    list_front (Some l) h = (if cs = [] then None else Some (hd (map snd cs))) \<and>
    list_back (Some l) h = (if cs = [] then None else Some (last (map snd cs))) \<and>
    list_back_node (Some l) = (if cs = [] then None else Some (fst (last cs))) \<and>
    map_option unat (list_length (Some l)) = Some (length cs)"
proof -
  have "list_foreach (Some l) f c h = Some (foreach_ref f cs c)"
    using assms(1) by (simp add: list_foreach_def list_rep_def foreach_loop)
  moreover have "map_option unat (list_length (Some l)) = Some (length cs)"
    using assms(1) by (simp add: list_length_def list_rep_def unsigned_of_nat take_bit_nat_eq_self)
  moreover have "list_back_node (Some l) = (if cs = [] then None else Some (fst (last cs)))"
    using assms(1) by (simp add: list_back_node_def list_queries [OF assms(1)]) (simp add: list_rep_def)
  ultimately show ?thesis using assms by (simp add: list_queries [OF assms(1)] hd_map last_map)
qed

theorem list_reads_exact_witness:
  "list_foreach (Some \<lparr>list_head = 1, list_tail = 2, list_len = 2, has_free_cb = False\<rparr>)
     (\<lambda>d c. (d \<noteq> 9, c + d)) (0 :: nat) two_cells = Some (2, 17)"
  using list_reads_exact [of "\<lparr>list_head = 1, list_tail = 2, list_len = 2, has_free_cb = False\<rparr>" two_cells
      "[(1, 8), (2, 9)]" 8 "\<lambda>d c. (d \<noteq> 9, c + d)" "0 :: nat"]
  by (simp add: list_rep_def two_cells_def)

end
