(* ===== verification/Osi_Fifo.thy ===== *)
theory Osi_Fifo
  imports Fluoride_Prelude
begin

text \<open>
  What \<^verbatim>\<open>fixed_queue.cc\<close> and \<^verbatim>\<open>ringbuffer.cc\<close> promise their clients: a first-in first-out queue
  of bounded capacity whose insertion is refused when it is full and whose removal finds nothing
  when it is empty. The interface is the locale \<open>bounded_fifo\<close>; the two components interpret it.
  What a client may conclude is proved once, here: any sequence of calls behaves as it does on
  a list (\<open>run_refines\<close>), so what comes out is what was accepted, in order (\<open>run_order\<close>).
\<close>

datatype 'a fifo_op = Put 'a | Get

text \<open>A client's calls on an implementation, with the results of the insertions and of the removals.\<close>

fun fifo_run :: "('a \<Rightarrow> 's \<Rightarrow> (bool \<times> 's) option) \<Rightarrow> ('s \<Rightarrow> ('a option \<times> 's) option) \<Rightarrow> 'a fifo_op list \<Rightarrow> 's \<Rightarrow>
    (bool list \<times> 'a option list \<times> 's) option" where
  "fifo_run put get [] s = Some ([], [], s)"
| "fifo_run put get (Put x # ops) s = do {
     (b, s) \<leftarrow> put x s;
     (bs, out, s) \<leftarrow> fifo_run put get ops s;
     Some (b # bs, out, s)
   }"
| "fifo_run put get (Get # ops) s = do {
     (r, s) \<leftarrow> get s;
     (bs, out, s) \<leftarrow> fifo_run put get ops s;
     Some (bs, r # out, s)
   }"

text \<open>The same calls on a list with room for \<open>n\<close> elements.\<close>

fun fifo_spec :: "nat \<Rightarrow> 'a fifo_op list \<Rightarrow> 'a list \<Rightarrow> bool list \<times> 'a option list \<times> 'a list" where
  "fifo_spec n [] xs = ([], [], xs)"
| "fifo_spec n (Put x # ops) xs = (case fifo_spec n ops (if length xs < n then xs @ [x] else xs) of
     (bs, out, ys) \<Rightarrow> ((length xs < n) # bs, out, ys))"
| "fifo_spec n (Get # ops) xs = (case fifo_spec n ops (tl xs) of
     (bs, out, ys) \<Rightarrow> (bs, (if xs = [] then None else Some (hd xs)) # out, ys))"

fun puts :: "'a fifo_op list \<Rightarrow> 'a list" where
  "puts [] = []"
| "puts (Put x # ops) = x # puts ops"
| "puts (Get # ops) = puts ops"

text \<open>The elements whose insertion succeeded, and the elements that came out.\<close>

fun accepted :: "'a list \<Rightarrow> bool list \<Rightarrow> 'a list" where
  "accepted (x # xs) (b # bs) = (if b then [x] else []) @ accepted xs bs"
| "accepted _ _ = []"

definition delivered :: "'a option list \<Rightarrow> 'a list" where
  "delivered out = concat (map (case_option [] (\<lambda>x. [x])) out)"

lemma fifo_spec_order:
  "fifo_spec n ops xs = (bs, out, ys) \<Longrightarrow> xs @ accepted (puts ops) bs = delivered out @ ys"
proof (induction n ops xs arbitrary: bs out ys rule: fifo_spec.induct)
  case (2 n x ops xs)
  then show ?case by (auto simp: delivered_def split: prod.splits if_splits)
next
  case (3 n ops xs)
  then show ?case by (cases xs) (auto simp: delivered_def split: prod.splits)
qed (simp add: delivered_def)

lemma fifo_spec_bound: "length xs \<le> n \<Longrightarrow> fifo_spec n ops xs = (bs, out, ys) \<Longrightarrow> length ys \<le> n"
proof (induction n ops xs arbitrary: bs out ys rule: fifo_spec.induct)
  case (2 n x ops xs)
  then show ?case by (auto split: prod.splits if_splits)
next
  case (3 n ops xs)
  then show ?case by (auto split: prod.splits)
qed simp

locale bounded_fifo =
  fixes rep :: "'s \<Rightarrow> 'a list \<Rightarrow> bool"
    and cap :: "'s \<Rightarrow> nat"
    and valid :: "'a \<Rightarrow> bool"
    and put :: "'a \<Rightarrow> 's \<Rightarrow> (bool \<times> 's) option"
    and get :: "'s \<Rightarrow> ('a option \<times> 's) option"
  assumes rep_cap: "rep s xs \<Longrightarrow> length xs \<le> cap s"
    and put_ok: "rep s xs \<Longrightarrow> valid x \<Longrightarrow> \<exists>s'. put x s = Some (length xs < cap s, s') \<and>
      rep s' (if length xs < cap s then xs @ [x] else xs) \<and> cap s' = cap s"
    and get_ok: "rep s xs \<Longrightarrow> \<exists>s'. get s = Some (if xs = [] then None else Some (hd xs), s') \<and>
      rep s' (tl xs) \<and> cap s' = cap s"
begin

lemma run_refines:
  assumes "rep s xs" "\<forall>x \<in> set (puts ops). valid x"
  shows "\<exists>s' bs out ys. fifo_run put get ops s = Some (bs, out, s') \<and> fifo_spec (cap s) ops xs = (bs, out, ys) \<and>
    rep s' ys \<and> cap s' = cap s"
  using assms
proof (induction ops arbitrary: s xs)
  case Nil
  then show ?case by simp
next
  case (Cons e ops)
  show ?case
  proof (cases e)
    case (Put x)
    obtain s1 where p: "put x s = Some (length xs < cap s, s1)" "rep s1 (if length xs < cap s then xs @ [x] else xs)" "cap s1 = cap s"
      using put_ok [OF Cons.prems(1)] Cons.prems(2) Put by auto
    from Cons.IH [OF p(2)] Cons.prems(2) Put p show ?thesis by fastforce
  next
    case Get
    obtain s1 where g: "get s = Some (if xs = [] then None else Some (hd xs), s1)" "rep s1 (tl xs)" "cap s1 = cap s"
      using get_ok [OF Cons.prems(1)] by auto
    from Cons.IH [OF g(2)] Cons.prems(2) Get g show ?thesis by fastforce
  qed
qed

lemma run_order:
  assumes "rep s xs" "\<forall>x \<in> set (puts ops). valid x"
  shows "\<exists>s' bs out ys. fifo_run put get ops s = Some (bs, out, s') \<and> rep s' ys \<and>
    xs @ accepted (puts ops) bs = delivered out @ ys \<and> length ys \<le> cap s"
  using run_refines [OF assms] fifo_spec_order fifo_spec_bound [OF rep_cap [OF assms(1)]] by metis

text \<open>What fits comes out again.\<close>

lemma put_get:
  assumes "rep s []" "\<forall>x \<in> set xs. valid x" "length xs \<le> cap s"
  shows "\<exists>s'. fifo_run put get (map Put xs @ replicate (length xs) Get) s =
    Some (replicate (length xs) True, map Some xs, s') \<and> rep s' []"
proof -
  have p: "puts (map Put xs @ replicate n Get) = xs" for xs :: "'a list" and n
  proof (induction xs)
    case Nil
    then show ?case by (induction n) simp_all
  qed simp
  have g: "fifo_spec n (replicate (length ys) Get) ys = ([], map Some ys, [])" for n and ys :: "'a list"
    by (induction ys) simp_all
  have "fifo_spec n (map Put ys @ ops) zs = (case fifo_spec n ops (zs @ ys) of (bs, out, ws) \<Rightarrow> (replicate (length ys) True @ bs, out, ws))"
    if "length zs + length ys \<le> n" for n ops ys and zs :: "'a list"
    using that by (induction ys arbitrary: zs) (auto split: prod.split)
  from this [of "[]" xs "cap s"] run_refines [OF assms(1), of "map Put xs @ replicate (length xs) Get"] assms p g
  show ?thesis by auto
qed

end

end
