(* ===== verification/Osi_Queue.thy ===== *)
theory Osi_Queue
  imports Osi_List Osi_Fifo "HOL-Library.Multiset"
begin

text \<open>
  The bounded queue of \<^verbatim>\<open>osi/src/fixed_queue.cc\<close> over the list of \<open>Osi_List\<close> and the counting
  semaphores of \<^verbatim>\<open>osi/src/internal/semaphore.cc\<close>.

  A semaphore is an \<^verbatim>\<open>eventfd\<close> in semaphore mode: a counter and the \<^verbatim>\<open>O_NONBLOCK\<close> flag of its
  descriptor, which all threads share. Reading a zero counter waits, or fails when the flag is
  set; here \<open>None\<close> is waiting.

  The operations are modelled twice, from the same pieces. The functions \<open>fixed_queue_try_enqueue\<close>
  and so on are what a call does when no other thread touches the queue. The machine
  \<open>fq_machine\<close> has any number of threads inside calls at once, each at a program counter
  \<open>fq_pc\<close>; a step is one access to a semaphore or one section under the queue's mutex, and
  \<open>fq_reach\<close> interleaves the steps of all threads in every order. \<open>m_appended\<close> and
  \<open>m_removed\<close> are history variables, which no step reads.

  The nodes come from \<^verbatim>\<open>osi_calloc\<close>, which aborts instead of returning null; \<open>calloc_ok\<close> says
  that it finds a node as long as finitely many are in use.
\<close>

section \<open>Semaphores\<close>

record semaphore_t =
  sem_count :: nat
  sem_nonblock :: bool

definition eventfd_read :: "semaphore_t \<Rightarrow> (bool \<times> semaphore_t) option" where
  "eventfd_read s =
     (if 0 < sem_count s then Some (True, s\<lparr>sem_count := sem_count s - 1\<rparr>)
      else if sem_nonblock s then Some (False, s) else None)"

definition eventfd_write :: "semaphore_t \<Rightarrow> semaphore_t option" where
  "eventfd_write s =
     (if sem_count s < 2 ^ 64 - 2 then Some (s\<lparr>sem_count := sem_count s + 1\<rparr>)
      else if sem_nonblock s then Some s else None)"

text \<open>\<open>fd_ok\<close>: the kernel had a descriptor for the new semaphore.\<close>

definition semaphore_new :: "bool \<Rightarrow> 32 word \<Rightarrow> semaphore_t option" where
  "semaphore_new fd_ok v = (if fd_ok then Some \<lparr>sem_count = unat v, sem_nonblock = False\<rparr> else None)"

definition semaphore_wait :: "semaphore_t \<Rightarrow> semaphore_t option" where
  "semaphore_wait s = map_option snd (eventfd_read s)"

definition semaphore_post :: "semaphore_t \<Rightarrow> semaphore_t option" where
  "semaphore_post s = eventfd_write s"

text \<open>
  \<^verbatim>\<open>semaphore_try_wait\<close> is four system calls; the saved flags and the result are its locals.
\<close>

datatype try_wait = GetFlags | SetNonblock bool | TryRead bool | Restore bool bool

fun try_wait_step :: "try_wait \<Rightarrow> semaphore_t \<Rightarrow> ((try_wait + bool) \<times> semaphore_t) option" where
  "try_wait_step GetFlags s = Some (Inl (SetNonblock (sem_nonblock s)), s)"
| "try_wait_step (SetNonblock flags) s = Some (Inl (TryRead flags), s\<lparr>sem_nonblock := True\<rparr>)"
| "try_wait_step (TryRead flags) s = map_option (\<lambda>(rc, s). (Inl (Restore flags rc), s)) (eventfd_read s)"
| "try_wait_step (Restore flags rc) s = Some (Inr rc, s\<lparr>sem_nonblock := flags\<rparr>)"

fun try_wait_run :: "nat \<Rightarrow> try_wait \<Rightarrow> semaphore_t \<Rightarrow> (bool \<times> semaphore_t) option" where
  "try_wait_run 0 t s = None"
| "try_wait_run (Suc n) t s = (case try_wait_step t s of
     None \<Rightarrow> None
   | Some (Inl t', s') \<Rightarrow> try_wait_run n t' s'
   | Some (Inr rc, s') \<Rightarrow> Some (rc, s'))"

definition semaphore_try_wait :: "semaphore_t \<Rightarrow> (bool \<times> semaphore_t) option" where
  "semaphore_try_wait s = try_wait_run 4 GetFlags s"

section \<open>The queue\<close>

record fixed_queue_t =
  q_list :: list_t
  enqueue_sem :: semaphore_t
  dequeue_sem :: semaphore_t
  q_capacity :: "64 word"
  dequeue_object :: bool
  dequeue_ready :: nat
  dequeue_context :: nat

text \<open>\<^verbatim>\<open>semaphore_new\<close> takes an \<^verbatim>\<open>unsigned int\<close>: the capacity loses its upper half.\<close>

definition fixed_queue_new :: "bool \<Rightarrow> bool \<Rightarrow> 64 word \<Rightarrow> fixed_queue_t option" where
  "fixed_queue_new fd1 fd2 capacity = do {
     es \<leftarrow> semaphore_new fd1 (ucast capacity);
     ds \<leftarrow> semaphore_new fd2 0;
     Some \<lparr>q_list = list_new False, enqueue_sem = es, dequeue_sem = ds, q_capacity = capacity,
       dequeue_object = False, dequeue_ready = 0, dequeue_context = 0\<rparr>
   }"

definition fixed_queue_is_empty :: "fixed_queue_t option \<Rightarrow> bool option" where
  "fixed_queue_is_empty pq = (case pq of None \<Rightarrow> Some True | Some q \<Rightarrow> list_is_empty (Some (q_list q)))"

definition fixed_queue_length :: "fixed_queue_t option \<Rightarrow> (64 word) option" where
  "fixed_queue_length pq = (case pq of None \<Rightarrow> Some 0 | Some q \<Rightarrow> list_length (Some (q_list q)))"

definition fixed_queue_capacity :: "fixed_queue_t option \<Rightarrow> (64 word) option" where
  "fixed_queue_capacity pq = map_option q_capacity pq"

text \<open>The two sections under the mutex: append, and take the front.\<close>

definition locked_append :: "allocator \<Rightarrow> nat \<Rightarrow> fixed_queue_t \<Rightarrow> osi_mem \<Rightarrow> (bool \<times> fixed_queue_t \<times> osi_mem) option" where
  "locked_append A d q h = do {
     (b, l, h) \<leftarrow> list_append A (Some (q_list q)) d h;
     Some (b, q\<lparr>q_list := l\<rparr>, h)
   }"

definition locked_take :: "fixed_queue_t \<Rightarrow> osi_mem \<Rightarrow> (nat \<times> fixed_queue_t \<times> osi_mem) option" where
  "locked_take q h = do {
     ret \<leftarrow> list_front (Some (q_list q)) h;
     (b, l, h) \<leftarrow> list_remove (Some (q_list q)) ret h;
     Some (ret, q\<lparr>q_list := l\<rparr>, h)
   }"

definition fixed_queue_enqueue ::
    "allocator \<Rightarrow> fixed_queue_t option \<Rightarrow> nat \<Rightarrow> osi_mem \<Rightarrow> (fixed_queue_t \<times> osi_mem) option" where
  "fixed_queue_enqueue A pq d h = do {
     q \<leftarrow> pq;
     if d = 0 then None else do {
       s \<leftarrow> semaphore_wait (enqueue_sem q);
       (b, q, h) \<leftarrow> locked_append A d (q\<lparr>enqueue_sem := s\<rparr>) h;
       s \<leftarrow> semaphore_post (dequeue_sem q);
       Some (q\<lparr>dequeue_sem := s\<rparr>, h)
     }
   }"

definition fixed_queue_dequeue ::
    "fixed_queue_t option \<Rightarrow> osi_mem \<Rightarrow> (nat \<times> fixed_queue_t \<times> osi_mem) option" where
  "fixed_queue_dequeue pq h = do {
     q \<leftarrow> pq;
     s \<leftarrow> semaphore_wait (dequeue_sem q);
     (ret, q, h) \<leftarrow> locked_take (q\<lparr>dequeue_sem := s\<rparr>) h;
     s \<leftarrow> semaphore_post (enqueue_sem q);
     Some (ret, q\<lparr>enqueue_sem := s\<rparr>, h)
   }"

definition fixed_queue_try_enqueue ::
    "allocator \<Rightarrow> fixed_queue_t option \<Rightarrow> nat \<Rightarrow> osi_mem \<Rightarrow> (bool \<times> fixed_queue_t \<times> osi_mem) option" where
  "fixed_queue_try_enqueue A pq d h = do {
     q \<leftarrow> pq;
     if d = 0 then None else do {
       (rc, s) \<leftarrow> semaphore_try_wait (enqueue_sem q);
       if \<not> rc then Some (False, q\<lparr>enqueue_sem := s\<rparr>, h) else do {
         (b, q, h) \<leftarrow> locked_append A d (q\<lparr>enqueue_sem := s\<rparr>) h;
         s \<leftarrow> semaphore_post (dequeue_sem q);
         Some (True, q\<lparr>dequeue_sem := s\<rparr>, h)
       }
     }
   }"

text \<open>The operations below accept a null queue; then \<open>None\<close> stands in the place of the queue.\<close>

definition fixed_queue_try_dequeue ::
    "fixed_queue_t option \<Rightarrow> osi_mem \<Rightarrow> (nat \<times> fixed_queue_t option \<times> osi_mem) option" where
  "fixed_queue_try_dequeue pq h = (case pq of None \<Rightarrow> Some (0, None, h) | Some q \<Rightarrow> do {
     (rc, s) \<leftarrow> semaphore_try_wait (dequeue_sem q);
     if \<not> rc then Some (0, Some (q\<lparr>dequeue_sem := s\<rparr>), h) else do {
       (ret, q, h) \<leftarrow> locked_take (q\<lparr>dequeue_sem := s\<rparr>) h;
       s \<leftarrow> semaphore_post (enqueue_sem q);
       Some (ret, Some (q\<lparr>enqueue_sem := s\<rparr>), h)
     }
   })"

definition fixed_queue_try_peek_first :: "fixed_queue_t option \<Rightarrow> osi_mem \<Rightarrow> nat option" where
  "fixed_queue_try_peek_first pq h = (case pq of None \<Rightarrow> Some 0 | Some q \<Rightarrow> do {
     e \<leftarrow> list_is_empty (Some (q_list q));
     if e then Some 0 else list_front (Some (q_list q)) h
   })"

definition fixed_queue_try_peek_last :: "fixed_queue_t option \<Rightarrow> osi_mem \<Rightarrow> nat option" where
  "fixed_queue_try_peek_last pq h = (case pq of None \<Rightarrow> Some 0 | Some q \<Rightarrow> do {
     e \<leftarrow> list_is_empty (Some (q_list q));
     if e then Some 0 else list_back (Some (q_list q)) h
   })"

definition fixed_queue_try_remove_from_queue ::
    "fixed_queue_t option \<Rightarrow> nat \<Rightarrow> osi_mem \<Rightarrow> (nat \<times> fixed_queue_t option \<times> osi_mem) option" where
  "fixed_queue_try_remove_from_queue pq d h = (case pq of None \<Rightarrow> Some (0, None, h) | Some q \<Rightarrow> do {
     c \<leftarrow> list_contains (Some (q_list q)) d h;
     if \<not> c then Some (0, Some q, h) else do {
       (rc, s) \<leftarrow> semaphore_try_wait (dequeue_sem q);
       let q = q\<lparr>dequeue_sem := s\<rparr>;
       if \<not> rc then Some (0, Some q, h) else do {
         (removed, l, h) \<leftarrow> list_remove (Some (q_list q)) d h;
         if \<not> removed then None else do {
           s \<leftarrow> semaphore_post (enqueue_sem q);
           Some (d, Some (q\<lparr>q_list := l, enqueue_sem := s\<rparr>), h)
         }
       }
     }
   })"

text \<open>The data given to \<^verbatim>\<open>free_cb\<close>, if there is one, are returned as a list.\<close>

partial_function (option) fixed_queue_flush_loop ::
    "bool \<Rightarrow> fixed_queue_t \<Rightarrow> osi_mem \<Rightarrow> (nat list \<times> fixed_queue_t \<times> osi_mem) option" where
  "fixed_queue_flush_loop cb q h = do {
     e \<leftarrow> fixed_queue_is_empty (Some q);
     if e then Some ([], q, h) else do {
       (data, pq, h) \<leftarrow> fixed_queue_try_dequeue (Some q) h;
       q \<leftarrow> pq;
       (fs, q, h) \<leftarrow> fixed_queue_flush_loop cb q h;
       Some (if cb then data # fs else fs, q, h)
     }
   }"

definition fixed_queue_flush ::
    "bool \<Rightarrow> fixed_queue_t option \<Rightarrow> osi_mem \<Rightarrow> (nat list \<times> fixed_queue_t option \<times> osi_mem) option" where
  "fixed_queue_flush cb pq h = (case pq of None \<Rightarrow> Some ([], None, h) | Some q \<Rightarrow> do {
     (fs, q, h) \<leftarrow> fixed_queue_flush_loop cb q h;
     Some (fs, Some q, h)
   })"

definition fixed_queue_unregister_dequeue :: "fixed_queue_t option \<Rightarrow> fixed_queue_t option" where
  "fixed_queue_unregister_dequeue pq = do {
     q \<leftarrow> pq;
     Some (if dequeue_object q then q\<lparr>dequeue_object := False\<rparr> else q)
   }"

definition fixed_queue_register_dequeue :: "fixed_queue_t option \<Rightarrow> nat \<Rightarrow> nat \<Rightarrow> nat \<Rightarrow> fixed_queue_t option" where
  "fixed_queue_register_dequeue pq reactor ready_cb ctx = do {
     q \<leftarrow> pq;
     if reactor = 0 \<or> ready_cb = 0 then None else do {
       q \<leftarrow> fixed_queue_unregister_dequeue (Some q);
       Some (q\<lparr>dequeue_ready := ready_cb, dequeue_context := ctx, dequeue_object := True\<rparr>)
     }
   }"

partial_function (option) fixed_queue_free_loop :: "nat \<Rightarrow> osi_mem \<Rightarrow> nat list option" where
  "fixed_queue_free_loop a h =
     (if a = 0 then Some []
      else do {
        d \<leftarrow> list_node a h;
        b \<leftarrow> list_next a h;
        fs \<leftarrow> fixed_queue_free_loop b h;
        Some (d # fs)
      })"

definition fixed_queue_free :: "bool \<Rightarrow> fixed_queue_t option \<Rightarrow> osi_mem \<Rightarrow> (nat list \<times> osi_mem) option" where
  "fixed_queue_free cb pq h = (case pq of None \<Rightarrow> Some ([], h) | Some q \<Rightarrow> do {
     q \<leftarrow> fixed_queue_unregister_dequeue (Some q);
     fs \<leftarrow> (if cb then do { a \<leftarrow> list_begin (Some (q_list q)); fixed_queue_free_loop a h } else Some []);
     h \<leftarrow> list_free (Some (q_list q)) h;
     Some (fs, h)
   })"

section \<open>Threads\<close>

text \<open>
  Where a thread is inside a call: \<open>EnqWait\<close>, \<open>EnqTry\<close> before the semaphore of
  \<^verbatim>\<open>fixed_queue_enqueue\<close> and \<^verbatim>\<open>fixed_queue_try_enqueue\<close>, \<open>EnqAppend\<close> before the section under
  the mutex, \<open>EnqPost\<close> after it; likewise for the two dequeue operations; \<open>RemLock\<close> to
  \<open>RemPost\<close> for \<^verbatim>\<open>fixed_queue_try_remove_from_queue\<close>, which holds the mutex from \<open>RemTry\<close> to
  \<open>RemRemove\<close>.
\<close>

datatype fq_call = Enqueue nat | Dequeue | TryEnqueue nat | TryDequeue | TryRemove nat

datatype fq_pc = Idle
  | EnqWait nat | EnqTry nat try_wait | EnqAppend nat | EnqPost
  | DeqWait | DeqTry try_wait | DeqRemove | DeqPost nat
  | RemLock nat | RemTry nat try_wait | RemRemove nat | RemPost nat

record fq_machine =
  m_queue :: fixed_queue_t
  m_mem :: osi_mem
  m_mutex :: "nat option"
  m_pcs :: "fq_pc list"
  m_appended :: "nat list"
  m_removed :: "nat list"

datatype outcome = Runs fq_machine | Blocks | Aborts

fun fq_begin :: "fq_call \<Rightarrow> fq_pc" where
  "fq_begin (Enqueue d) = EnqWait d"
| "fq_begin Dequeue = DeqWait"
| "fq_begin (TryEnqueue d) = EnqTry d GetFlags"
| "fq_begin TryDequeue = DeqTry GetFlags"
| "fq_begin (TryRemove d) = RemLock d"

definition goto :: "nat \<Rightarrow> fq_pc \<Rightarrow> fq_machine \<Rightarrow> fq_machine" where
  "goto i pc m = m\<lparr>m_pcs := (m_pcs m)[i := pc]\<rparr>"

abbreviation set_enq :: "semaphore_t \<Rightarrow> fq_machine \<Rightarrow> fq_machine" where
  "set_enq s m \<equiv> m\<lparr>m_queue := (m_queue m)\<lparr>enqueue_sem := s\<rparr>\<rparr>"

abbreviation set_deq :: "semaphore_t \<Rightarrow> fq_machine \<Rightarrow> fq_machine" where
  "set_deq s m \<equiv> m\<lparr>m_queue := (m_queue m)\<lparr>dequeue_sem := s\<rparr>\<rparr>"

text \<open>The next step of thread \<open>i\<close>, which is at the given program counter.\<close>

fun fq_thread :: "allocator \<Rightarrow> nat \<Rightarrow> fq_pc \<Rightarrow> fq_machine \<Rightarrow> outcome" where
  "fq_thread A i Idle m = Blocks"
| "fq_thread A i (EnqWait d) m = (case semaphore_wait (enqueue_sem (m_queue m)) of
     None \<Rightarrow> Blocks | Some s \<Rightarrow> Runs (goto i (EnqAppend d) (set_enq s m)))"
| "fq_thread A i (EnqTry d t) m = (case try_wait_step t (enqueue_sem (m_queue m)) of
     None \<Rightarrow> Blocks
   | Some (Inl t', s) \<Rightarrow> Runs (goto i (EnqTry d t') (set_enq s m))
   | Some (Inr rc, s) \<Rightarrow> Runs (goto i (if rc then EnqAppend d else Idle) (set_enq s m)))"
| "fq_thread A i (EnqAppend d) m = (if m_mutex m \<noteq> None then Blocks else
     case locked_append A d (m_queue m) (m_mem m) of
       None \<Rightarrow> Aborts
     | Some (b, q, h) \<Rightarrow> Runs (goto i EnqPost
         (m\<lparr>m_queue := q, m_mem := h, m_appended := m_appended m @ (if b then [d] else [])\<rparr>)))"
| "fq_thread A i EnqPost m = (case semaphore_post (dequeue_sem (m_queue m)) of
     None \<Rightarrow> Blocks | Some s \<Rightarrow> Runs (goto i Idle (set_deq s m)))"
| "fq_thread A i DeqWait m = (case semaphore_wait (dequeue_sem (m_queue m)) of
     None \<Rightarrow> Blocks | Some s \<Rightarrow> Runs (goto i DeqRemove (set_deq s m)))"
| "fq_thread A i (DeqTry t) m = (case try_wait_step t (dequeue_sem (m_queue m)) of
     None \<Rightarrow> Blocks
   | Some (Inl t', s) \<Rightarrow> Runs (goto i (DeqTry t') (set_deq s m))
   | Some (Inr rc, s) \<Rightarrow> Runs (goto i (if rc then DeqRemove else Idle) (set_deq s m)))"
| "fq_thread A i DeqRemove m = (if m_mutex m \<noteq> None then Blocks else
     case locked_take (m_queue m) (m_mem m) of
       None \<Rightarrow> Aborts
     | Some (ret, q, h) \<Rightarrow> Runs (goto i (DeqPost ret) (m\<lparr>m_queue := q, m_mem := h, m_removed := m_removed m @ [ret]\<rparr>)))"
| "fq_thread A i (DeqPost ret) m = (case semaphore_post (enqueue_sem (m_queue m)) of
     None \<Rightarrow> Blocks | Some s \<Rightarrow> Runs (goto i Idle (set_enq s m)))"
| "fq_thread A i (RemLock d) m = (if m_mutex m \<noteq> None then Blocks else
     case list_contains (Some (q_list (m_queue m))) d (m_mem m) of
       None \<Rightarrow> Aborts
     | Some False \<Rightarrow> Runs (goto i Idle m)
     | Some True \<Rightarrow> Runs (goto i (RemTry d GetFlags) (m\<lparr>m_mutex := Some i\<rparr>)))"
| "fq_thread A i (RemTry d t) m = (case try_wait_step t (dequeue_sem (m_queue m)) of
     None \<Rightarrow> Blocks
   | Some (Inl t', s) \<Rightarrow> Runs (goto i (RemTry d t') (set_deq s m))
   | Some (Inr True, s) \<Rightarrow> Runs (goto i (RemRemove d) (set_deq s m))
   | Some (Inr False, s) \<Rightarrow> Runs (goto i Idle ((set_deq s m)\<lparr>m_mutex := None\<rparr>)))"
| "fq_thread A i (RemRemove d) m = (case list_remove (Some (q_list (m_queue m))) d (m_mem m) of
     None \<Rightarrow> Aborts
   | Some (removed, l, h) \<Rightarrow> if \<not> removed then Aborts else
       Runs (goto i (RemPost d) (m\<lparr>m_queue := (m_queue m)\<lparr>q_list := l\<rparr>, m_mem := h, m_mutex := None,
         m_removed := m_removed m @ [d]\<rparr>)))"
| "fq_thread A i (RemPost d) m = (case semaphore_post (enqueue_sem (m_queue m)) of
     None \<Rightarrow> Blocks | Some s \<Rightarrow> Runs (goto i Idle (set_enq s m)))"

definition fq_step :: "allocator \<Rightarrow> nat \<Rightarrow> fq_machine \<Rightarrow> outcome" where
  "fq_step A i m = (if i < length (m_pcs m) then fq_thread A i (m_pcs m ! i) m else Blocks)"

definition fq_start :: "fixed_queue_t \<Rightarrow> osi_mem \<Rightarrow> nat \<Rightarrow> fq_machine" where
  "fq_start q h n = \<lparr>m_queue = q, m_mem = h, m_mutex = None, m_pcs = replicate n Idle, m_appended = [], m_removed = []\<rparr>"

text \<open>
  The states that threads reach from \<open>m0\<close> when each call is one of \<open>C\<close>: an idle thread begins
  a call, or a thread takes its next step.
\<close>

inductive fq_reach :: "allocator \<Rightarrow> (fq_call \<Rightarrow> bool) \<Rightarrow> fq_machine \<Rightarrow> fq_machine \<Rightarrow> bool"
  for A C m0 where
  start: "fq_reach A C m0 m0"
| call: "fq_reach A C m0 m \<Longrightarrow> i < length (m_pcs m) \<Longrightarrow> m_pcs m ! i = Idle \<Longrightarrow> C c \<Longrightarrow>
    fq_reach A C m0 (goto i (fq_begin c) m)"
| step: "fq_reach A C m0 m \<Longrightarrow> fq_step A i m = Runs m' \<Longrightarrow> fq_reach A C m0 m'"

section \<open>Specification\<close>

definition calloc_ok :: "allocator \<Rightarrow> bool" where
  "calloc_ok A \<longleftrightarrow> fresh_alloc A \<and> (\<forall>h. finite (dom h) \<longrightarrow> A h \<noteq> None)"

text \<open>A queue that no thread is inside of, and its content.\<close>

definition fq_rep :: "fixed_queue_t \<Rightarrow> osi_mem \<Rightarrow> nat list \<Rightarrow> bool" where
  "fq_rep q h xs \<longleftrightarrow> (\<exists>cs. list_rep (q_list q) h cs \<and> xs = map snd cs) \<and> \<not> has_free_cb (q_list q) \<and>
     finite (dom (nodes h)) \<and> sem_count (dequeue_sem q) = length xs \<and>
     sem_count (enqueue_sem q) + length xs = unat (ucast (q_capacity q) :: 32 word) \<and>
     \<not> sem_nonblock (enqueue_sem q) \<and> \<not> sem_nonblock (dequeue_sem q)"

text \<open>
  Which calls the threads make. On each semaphore either all threads wait or all threads try:
  \<open>wait_enq\<close> and \<open>wait_deq\<close> say which.
\<close>

record fq_policy =
  wait_enq :: bool
  wait_deq :: bool
  may_remove :: bool

fun permits :: "fq_policy \<Rightarrow> fq_call \<Rightarrow> bool" where
  "permits P (Enqueue d) = (wait_enq P \<and> d \<noteq> 0)"
| "permits P (TryEnqueue d) = (\<not> wait_enq P \<and> d \<noteq> 0)"
| "permits P Dequeue = wait_deq P"
| "permits P TryDequeue = (\<not> wait_deq P)"
| "permits P (TryRemove d) = (\<not> wait_deq P \<and> may_remove P \<and> d \<noteq> 0)"

fun permits_pc :: "fq_policy \<Rightarrow> fq_pc \<Rightarrow> bool" where
  "permits_pc P (EnqWait d) = (wait_enq P \<and> d \<noteq> 0)"
| "permits_pc P (EnqTry d t) = (\<not> wait_enq P \<and> d \<noteq> 0)"
| "permits_pc P (EnqAppend d) = (d \<noteq> 0)"
| "permits_pc P DeqWait = wait_deq P"
| "permits_pc P (DeqTry t) = (\<not> wait_deq P)"
| "permits_pc P (RemLock d) = (\<not> wait_deq P \<and> may_remove P \<and> d \<noteq> 0)"
| "permits_pc P (RemTry d t) = (\<not> wait_deq P \<and> may_remove P \<and> d \<noteq> 0)"
| "permits_pc P (RemRemove d) = (may_remove P \<and> d \<noteq> 0)"
| "permits_pc P _ = True"

text \<open>Units of the two semaphores that a thread holds between its accesses.\<close>

fun took :: "try_wait \<Rightarrow> int" where
  "took (Restore f rc) = (if rc then 1 else 0)"
| "took _ = 0"

fun enq_units :: "fq_pc \<Rightarrow> int" where
  "enq_units (EnqTry d t) = took t"
| "enq_units (EnqAppend d) = 1"
| "enq_units (DeqPost d) = 1"
| "enq_units (RemPost d) = 1"
| "enq_units _ = 0"

fun deq_units :: "fq_pc \<Rightarrow> int" where
  "deq_units EnqPost = 1"
| "deq_units (DeqTry t) = took t"
| "deq_units DeqRemove = 1"
| "deq_units (RemTry d t) = took t"
| "deq_units (RemRemove d) = 1"
| "deq_units _ = 0"

text \<open>The datum that a thread inside \<^verbatim>\<open>fixed_queue_try_remove_from_queue\<close> found under the mutex.\<close>

fun found :: "fq_pc \<Rightarrow> nat option" where
  "found (RemTry d t) = Some d"
| "found (RemRemove d) = Some d"
| "found _ = None"

text \<open>The mutex is held by the thread that found a datum, and the datum is still there.\<close>

definition fq_lock :: "nat option \<Rightarrow> fq_pc list \<Rightarrow> nat list \<Rightarrow> bool" where
  "fq_lock mutex pcs xs \<longleftrightarrow>
     (\<forall>i < length pcs. case found (pcs ! i) of None \<Rightarrow> mutex \<noteq> Some i | Some d \<Rightarrow> mutex = Some i \<and> d \<in> set xs) \<and>
     (\<forall>i. mutex = Some i \<longrightarrow> i < length pcs)"

text \<open>Every unit is in a semaphore or with a thread: free places are \<open>N\<close> less the length.\<close>

definition fq_counts :: "nat \<Rightarrow> fixed_queue_t \<Rightarrow> fq_pc list \<Rightarrow> nat \<Rightarrow> bool" where
  "fq_counts N q pcs n \<longleftrightarrow> N < 2 ^ 32 \<and>
     int (sem_count (enqueue_sem q)) + int n + sum_list (map enq_units pcs) = int N \<and>
     int n = int (sem_count (dequeue_sem q)) + sum_list (map deq_units pcs)"

definition fq_flags :: "fq_policy \<Rightarrow> fixed_queue_t \<Rightarrow> bool" where
  "fq_flags P q \<longleftrightarrow> (wait_enq P \<longrightarrow> \<not> sem_nonblock (enqueue_sem q)) \<and> (wait_deq P \<longrightarrow> \<not> sem_nonblock (dequeue_sem q))"

definition fq_history :: "fq_policy \<Rightarrow> nat list \<Rightarrow> nat list \<Rightarrow> nat list \<Rightarrow> bool" where
  "fq_history P added removed xs \<longleftrightarrow> mset added = mset removed + mset xs \<and> (may_remove P \<or> added = removed @ xs)"

definition fq_inv :: "fq_policy \<Rightarrow> nat \<Rightarrow> fq_machine \<Rightarrow> (nat \<times> nat) list \<Rightarrow> bool" where
  "fq_inv P N m cs \<longleftrightarrow> list_rep (q_list (m_queue m)) (m_mem m) cs \<and> finite (dom (nodes (m_mem m))) \<and>
     fq_counts N (m_queue m) (m_pcs m) (length cs) \<and> fq_flags P (m_queue m) \<and> list_all (permits_pc P) (m_pcs m) \<and>
     fq_lock (m_mutex m) (m_pcs m) (map snd cs) \<and> fq_history P (m_appended m) (m_removed m) (map snd cs)"

text \<open>Schedules: which thread begins a call or takes its next step.\<close>

datatype fq_event = Begin nat fq_call | Next nat

fun fq_sched :: "allocator \<Rightarrow> fq_event list \<Rightarrow> fq_machine \<Rightarrow> fq_machine option" where
  "fq_sched A [] m = Some m"
| "fq_sched A (Begin i c # es) m =
     (if i < length (m_pcs m) \<and> m_pcs m ! i = Idle then fq_sched A es (goto i (fq_begin c) m) else None)"
| "fq_sched A (Next i # es) m = (case fq_step A i m of Runs m' \<Rightarrow> fq_sched A es m' | _ \<Rightarrow> None)"

text \<open>Threads before the semaphore of an enqueue or of a dequeue.\<close>

fun at_enqueue :: "fq_pc \<Rightarrow> bool" where
  "at_enqueue (EnqWait d) = True"
| "at_enqueue (EnqTry d t) = True"
| "at_enqueue _ = False"

fun at_dequeue :: "fq_pc \<Rightarrow> bool" where
  "at_dequeue DeqWait = True"
| "at_dequeue (DeqTry t) = True"
| "at_dequeue _ = False"

text \<open>A step does not abort, and if it runs it ends in a state with \<open>Q\<close>.\<close>

definition out_ok :: "(fq_machine \<Rightarrow> bool) \<Rightarrow> outcome \<Rightarrow> bool" where
  "out_ok Q r = (case r of Runs m \<Rightarrow> Q m | Blocks \<Rightarrow> True | Aborts \<Rightarrow> False)"

text \<open>The room of a queue: the part of the capacity that reaches the semaphore.\<close>

definition fq_cap :: "fixed_queue_t \<Rightarrow> nat" where
  "fq_cap q = unat (ucast (q_capacity q) :: 32 word)"

text \<open>The queue as an implementation of \<open>bounded_fifo\<close>: the state of a client is the allocator, the queue and the memory.\<close>

type_synonym fq_client = "allocator \<times> fixed_queue_t \<times> osi_mem"

fun fqc_rep :: "fq_client \<Rightarrow> nat list \<Rightarrow> bool" where
  "fqc_rep (A, q, h) xs = (calloc_ok A \<and> fq_rep q h xs)"

fun fqc_cap :: "fq_client \<Rightarrow> nat" where
  "fqc_cap (A, q, h) = fq_cap q"

fun fqc_put :: "nat \<Rightarrow> fq_client \<Rightarrow> (bool \<times> fq_client) option" where
  "fqc_put d (A, q, h) = do { (b, q, h) \<leftarrow> fixed_queue_try_enqueue A (Some q) d h; Some (b, A, q, h) }"

fun fqc_get :: "fq_client \<Rightarrow> (nat option \<times> fq_client) option" where
  "fqc_get (A, q, h) = do {
     (d, pq, h) \<leftarrow> fixed_queue_try_dequeue (Some q) h;
     q \<leftarrow> pq;
     Some (if d = 0 then None else Some d, A, q, h)
   }"

text \<open>An allocator that takes the first free address, and a queue of capacity four with one datum.\<close>

definition least_free :: allocator where
  "least_free h = (if \<exists>a. a \<noteq> 0 \<and> h a = None then Some (LEAST a. a \<noteq> 0 \<and> h a = None) else None)"

definition one_datum :: "fixed_queue_t \<times> osi_mem" where
  "one_datum = (\<lparr>q_list = \<lparr>list_head = 1, list_tail = 1, list_len = 1, has_free_cb = False\<rparr>,
      enqueue_sem = \<lparr>sem_count = 3, sem_nonblock = False\<rparr>, dequeue_sem = \<lparr>sem_count = 1, sem_nonblock = False\<rparr>,
      q_capacity = 4, dequeue_object = False, dequeue_ready = 0, dequeue_context = 0\<rparr>,
    \<lparr>nodes = [1 \<mapsto> \<lparr>node_next = 0, node_data = 7\<rparr>], freed_data = []\<rparr>)"

section \<open>Counting\<close>

lemma sum_list_upd:
  "i < length xs \<Longrightarrow> sum_list (map f (xs[i := x])) = sum_list (map f xs) + f x - (f (xs ! i) :: int)"
proof (induction xs arbitrary: i)
  case (Cons y ys)
  then show ?case by (cases i) auto
qed simp

lemma units_nonneg: "0 \<le> took t" "0 \<le> enq_units pc" "0 \<le> deq_units pc"
proof -
  show t: "0 \<le> took t" for t by (cases t) auto
  show "0 \<le> enq_units pc" "0 \<le> deq_units pc" by (cases pc; simp add: t)+
qed

lemma units_le_sum:
  "i < length pcs \<Longrightarrow> enq_units (pcs ! i) \<le> sum_list (map enq_units pcs)"
  "i < length pcs \<Longrightarrow> deq_units (pcs ! i) \<le> sum_list (map deq_units pcs)"
  by (auto intro!: member_le_sum_list simp: units_nonneg)

lemma try_wait_Inl:
  "try_wait_step t s = Some (Inl t', s') \<Longrightarrow> int (sem_count s') + took t' = int (sem_count s) + took t"
  by (cases t) (simp_all add: eventfd_read_def split: if_splits, auto)

lemma try_wait_Inr:
  "try_wait_step t s = Some (Inr rc, s') \<Longrightarrow> sem_count s' = sem_count s \<and> took t = (if rc then 1 else 0)"
  by (cases t) (auto simp: eventfd_read_def split: if_splits)

lemma goto_simps [simp]:
  "m_queue (goto i pc m) = m_queue m" "m_mem (goto i pc m) = m_mem m" "m_mutex (goto i pc m) = m_mutex m"
  "m_pcs (goto i pc m) = (m_pcs m)[i := pc]" "m_appended (goto i pc m) = m_appended m" "m_removed (goto i pc m) = m_removed m"
  by (simp_all add: goto_def)

lemma list_all_upd: "list_all P xs \<Longrightarrow> P x \<Longrightarrow> list_all P (xs[i := x])"
  by (auto simp: list_all_iff dest: set_update_subset_insert [THEN subsetD])

lemma wait_took: "semaphore_wait s = Some s' \<Longrightarrow> \<not> sem_nonblock s \<Longrightarrow>
    int (sem_count s') + 1 = int (sem_count s) \<and> sem_nonblock s' = sem_nonblock s"
  by (auto simp: semaphore_wait_def eventfd_read_def split: if_splits)

lemma post_gave: "semaphore_post s = Some s' \<Longrightarrow> sem_count s < 2 ^ 64 - 2 \<Longrightarrow>
    int (sem_count s') = int (sem_count s) + 1 \<and> sem_nonblock s' = sem_nonblock s"
  by (auto simp: semaphore_post_def eventfd_write_def)

lemma fq_lock_same:
  assumes "i < length pcs" "found pc = found (pcs ! i)"
  shows "fq_lock mu (pcs[i := pc]) xs \<longleftrightarrow> fq_lock mu pcs xs"
proof -
  have "found (pcs[i := pc] ! j) = found (pcs ! j)" for j
    using assms by (cases "j = i") simp_all
  then show ?thesis by (simp add: fq_lock_def)
qed

lemma fq_counts_bounds:
  assumes "fq_counts N q pcs n"
  shows "n \<le> N" "n < 2 ^ 32" "sem_count (enqueue_sem q) < 2 ^ 64 - 2" "sem_count (dequeue_sem q) < 2 ^ 64 - 2"
proof -
  have nn: "0 \<le> sum_list (map enq_units pcs)" "0 \<le> sum_list (map deq_units pcs)"
    by (auto intro!: sum_list_nonneg simp: units_nonneg)
  show "n \<le> N" using assms nn unfolding fq_counts_def by linarith
  then show "n < 2 ^ 32" using assms unfolding fq_counts_def by linarith
  have "sem_count (enqueue_sem q) < 2 ^ 32" "sem_count (dequeue_sem q) < 2 ^ 32"
    using assms nn unfolding fq_counts_def by linarith+
  then show "sem_count (enqueue_sem q) < 2 ^ 64 - 2" "sem_count (dequeue_sem q) < 2 ^ 64 - 2" by simp_all
qed

lemma fq_counts_move:
  assumes "fq_counts N q pcs n" "i < length pcs"
    "int (sem_count (enqueue_sem q')) + int n' + enq_units pc = int (sem_count (enqueue_sem q)) + int n + enq_units (pcs ! i)"
    "int (sem_count (dequeue_sem q')) + deq_units pc - int n' = int (sem_count (dequeue_sem q)) + deq_units (pcs ! i) - int n"
  shows "fq_counts N q' (pcs[i := pc]) n'"
  using assms by (simp add: fq_counts_def sum_list_upd)

text \<open>A step that leaves the list and the mutex alone keeps the invariant if it moves units.\<close>

lemma fq_inv_sems:
  assumes "fq_inv P N m cs" "i < length (m_pcs m)" "permits_pc P pc" "found pc = found (m_pcs m ! i)"
    "int (sem_count es) + enq_units pc = int (sem_count (enqueue_sem (m_queue m))) + enq_units (m_pcs m ! i)"
    "int (sem_count ds) + deq_units pc = int (sem_count (dequeue_sem (m_queue m))) + deq_units (m_pcs m ! i)"
    "wait_enq P \<Longrightarrow> \<not> sem_nonblock es" "wait_deq P \<Longrightarrow> \<not> sem_nonblock ds"
  shows "fq_inv P N (goto i pc (m\<lparr>m_queue := (m_queue m)\<lparr>enqueue_sem := es, dequeue_sem := ds\<rparr>\<rparr>)) cs"
  using assms unfolding fq_inv_def
  by (auto simp: fq_lock_same list_all_upd fq_flags_def elim!: fq_counts_move)

lemma fq_inv_enq:
  assumes "fq_inv P N m cs" "i < length (m_pcs m)" "permits_pc P pc" "found pc = found (m_pcs m ! i)"
    "int (sem_count es) + enq_units pc = int (sem_count (enqueue_sem (m_queue m))) + enq_units (m_pcs m ! i)"
    "deq_units pc = deq_units (m_pcs m ! i)" "wait_enq P \<Longrightarrow> \<not> sem_nonblock es"
  shows "fq_inv P N (goto i pc (set_enq es m)) cs"
  using fq_inv_sems [OF assms(1-5), of "dequeue_sem (m_queue m)"] assms
  by (simp add: fq_inv_def fq_flags_def)

lemma fq_inv_deq:
  assumes "fq_inv P N m cs" "i < length (m_pcs m)" "permits_pc P pc" "found pc = found (m_pcs m ! i)"
    "int (sem_count ds) + deq_units pc = int (sem_count (dequeue_sem (m_queue m))) + deq_units (m_pcs m ! i)"
    "enq_units pc = enq_units (m_pcs m ! i)" "wait_deq P \<Longrightarrow> \<not> sem_nonblock ds"
  shows "fq_inv P N (goto i pc (set_deq ds m)) cs"
  using fq_inv_sems [OF assms(1-4) _ assms(5), of "enqueue_sem (m_queue m)"] assms
  by (simp add: fq_inv_def fq_flags_def)

lemma list_append_alloc:
  assumes "list_rep l h cs" "calloc_ok A" "finite (dom (nodes h))" "d \<noteq> 0" "length cs < 2 ^ 32"
  shows "\<exists>a l' h'. list_append A (Some l) d h = Some (True, l', h') \<and> list_rep l' h' (cs @ [(a, d)]) \<and>
    finite (dom (nodes h')) \<and> has_free_cb l' = has_free_cb l"
proof -
  obtain a where a: "A (nodes h) = Some a" using assms(2,3) unfolding calloc_ok_def by blast
  have f: "fresh_alloc A" using assms(2) by (simp add: calloc_ok_def)
  have "Suc (length cs) < 2 ^ 64" using assms(5) by simp
  from list_append_ok [OF assms(1) f a assms(4) this]
  obtain l' h' where r: "list_append A (Some l) d h = Some (True, l', h')" "list_rep l' h' (cs @ [(a, d)])"
    "same_but (insert a (fst ` set cs)) h h'" "has_free_cb l' = has_free_cb l" by (auto simp: ok_iff)
  have "dom (nodes h') \<subseteq> dom (nodes h) \<union> insert a (fst ` set cs)"
    using r(3) by (force simp: same_but_def dom_def)
  then have "finite (dom (nodes h'))" by (rule finite_subset) (simp add: assms(3))
  with r show ?thesis by blast
qed

lemma list_remove_mem:
  assumes "list_rep l h cs" "d \<in> snd ` set cs" "finite (dom (nodes h))"
  shows "\<exists>cs' l' h'. list_remove (Some l) d h = Some (True, l', h') \<and> list_rep l' h' cs' \<and>
    map snd cs' = remove1 d (map snd cs) \<and> finite (dom (nodes h')) \<and> has_free_cb l' = has_free_cb l"
proof -
  have d: "d \<noteq> 0" using assms(1,2) unfolding list_rep_def by metis
  from list_remove_ok [OF assms(1) d] assms(2)
  obtain l' h' cs' where r: "list_remove (Some l) d h = Some (True, l', h')" "list_rep l' h' cs'"
    "cells_removed d cs cs' h'" "same_but (fst ` set cs) h h'" "has_free_cb l' = has_free_cb l" by (auto simp: ok_iff)
  have "dom (nodes h') \<subseteq> dom (nodes h) \<union> fst ` set cs"
    using r(4) by (force simp: same_but_def dom_def)
  then have "finite (dom (nodes h'))" by (rule finite_subset) (simp add: assms(3))
  with r show ?thesis unfolding cells_removed_def by blast
qed

lemma locked_take_ok:
  assumes "list_rep (q_list q) h cs" "cs \<noteq> []" "finite (dom (nodes h))"
  shows "\<exists>cs' l' h'. locked_take q h = Some (snd (hd cs), q\<lparr>q_list := l'\<rparr>, h') \<and> list_rep l' h' cs' \<and>
    map snd cs' = tl (map snd cs) \<and> finite (dom (nodes h')) \<and> has_free_cb l' = has_free_cb (q_list q)"
proof -
  have "snd (hd cs) \<in> snd ` set cs" using assms(2) by simp
  from list_remove_mem [OF assms(1) this assms(3)]
  obtain cs' l' h' where r: "list_remove (Some (q_list q)) (snd (hd cs)) h = Some (True, l', h')" "list_rep l' h' cs'"
    "map snd cs' = remove1 (snd (hd cs)) (map snd cs)" "finite (dom (nodes h'))" "has_free_cb l' = has_free_cb (q_list q)"
    by blast
  have "locked_take q h = Some (snd (hd cs), q\<lparr>q_list := l'\<rparr>, h')"
    using assms(2) r(1) by (simp add: locked_take_def list_queries [OF assms(1)])
  moreover have "map snd cs' = tl (map snd cs)" using r(3) assms(2) by (cases cs) simp_all
  ultimately show ?thesis using r(2,4,5) by (intro exI conjI)
qed

section \<open>Every step keeps the invariant\<close>

lemma out_ok_simps [simp]:
  "out_ok Q (Runs m) = Q m" "out_ok Q Blocks" "\<not> out_ok Q Aborts"
  by (simp_all add: out_ok_def)

lemma fq_step_posts:
  assumes inv: "fq_inv P N m cs" and i: "i < length (m_pcs m)" "m_pcs m ! i = pc" and pc: "\<exists>d. pc \<in> {EnqPost, DeqPost d, RemPost d}"
  shows "out_ok (\<lambda>m'. fq_inv P N m' cs) (fq_thread A i pc m)"
proof -
  note b = fq_counts_bounds [of N "m_queue m" "m_pcs m" "length cs"]
  have f: "fq_counts N (m_queue m) (m_pcs m) (length cs)" "fq_flags P (m_queue m)" using inv by (simp_all add: fq_inv_def)
  show ?thesis using pc i f b(3,4) [OF f(1)]
    by (auto split: option.split dest!: post_gave simp: fq_flags_def intro!: fq_inv_enq [OF inv i(1)] fq_inv_deq [OF inv i(1)])
qed

lemma fq_step_waits:
  assumes inv: "fq_inv P N m cs" and i: "i < length (m_pcs m)" "m_pcs m ! i = pc" and pc: "\<exists>d. pc \<in> {EnqWait d, DeqWait}"
  shows "out_ok (\<lambda>m'. fq_inv P N m' cs) (fq_thread A i pc m)"
proof -
  have f: "fq_flags P (m_queue m)" "permits_pc P pc" using inv i by (auto simp: fq_inv_def list_all_length)
  show ?thesis using pc i f
    by (auto split: option.split dest!: wait_took simp: fq_flags_def intro!: fq_inv_enq [OF inv i(1)] fq_inv_deq [OF inv i(1)])
qed

lemma fq_lock_found:
  "fq_lock mu pcs xs \<Longrightarrow> i < length pcs \<Longrightarrow> found (pcs ! i) = Some d \<Longrightarrow> mu = Some i \<and> d \<in> set xs"
  unfolding fq_lock_def by (metis option.simps(5))

lemma fq_lock_free: "fq_lock None pcs xs \<longleftrightarrow> (\<forall>i < length pcs. found (pcs ! i) = None)"
  by (auto simp: fq_lock_def split: option.split)

lemma fq_lock_release:
  assumes "fq_lock mu pcs xs" "i < length pcs" "found (pcs ! i) = Some d" "found pc = None"
  shows "fq_lock None (pcs[i := pc]) ys"
proof -
  have "found (pcs ! j) = None" if "j < length pcs" "j \<noteq> i" for j
    using fq_lock_found [OF assms(1-3)] fq_lock_found [OF assms(1) that(1)] that(2) by (cases "found (pcs ! j)") auto
  then show ?thesis using assms(2,4) by (auto simp: fq_lock_free nth_list_update)
qed

lemma fq_lock_take:
  "fq_lock None pcs xs \<Longrightarrow> i < length pcs \<Longrightarrow> found pc = Some d \<Longrightarrow> d \<in> set xs \<Longrightarrow> fq_lock (Some i) (pcs[i := pc]) xs"
  unfolding fq_lock_free by (auto simp: fq_lock_def nth_list_update)

lemma fq_lock_keep:
  "fq_lock None pcs xs \<Longrightarrow> i < length pcs \<Longrightarrow> found pc = None \<Longrightarrow> fq_lock None (pcs[i := pc]) ys"
  by (auto simp: fq_lock_free nth_list_update)

lemma fq_step_tries:
  assumes inv: "fq_inv P N m cs" and i: "i < length (m_pcs m)" "m_pcs m ! i = pc"
    and pc: "\<exists>d t. pc \<in> {EnqTry d t, DeqTry t, RemTry d t}"
  shows "out_ok (\<lambda>m'. fq_inv P N m' cs) (fq_thread A i pc m)"
proof -
  have f: "permits_pc P pc" using inv i by (auto simp: fq_inv_def list_all_length)
  have u: "fq_inv P N (goto i Idle ((set_deq s m)\<lparr>m_mutex := None\<rparr>)) cs"
    if "sem_count s = sem_count (dequeue_sem (m_queue m))" "took t = 0" "m_pcs m ! i = RemTry d t" for s t d
    using inv i f that by (auto simp: fq_inv_def fq_flags_def list_all_upd elim!: fq_counts_move fq_lock_release)
  show ?thesis using pc i f
    by (auto split: option.split sum.split bool.split dest!: try_wait_Inl try_wait_Inr
       intro!: fq_inv_enq [OF inv i(1)] fq_inv_deq [OF inv i(1)] u)
qed

lemma fq_step_append:
  assumes inv: "fq_inv P N m cs" and i: "i < length (m_pcs m)" "m_pcs m ! i = EnqAppend d" and A: "calloc_ok A"
  shows "out_ok (\<lambda>m'. \<exists>cs'. fq_inv P N m' cs') (fq_thread A i (EnqAppend d) m)"
proof (cases "m_mutex m = None")
  case True
  have f: "list_rep (q_list (m_queue m)) (m_mem m) cs" "finite (dom (nodes (m_mem m)))" "d \<noteq> 0"
    "fq_counts N (m_queue m) (m_pcs m) (length cs)" using inv i by (auto simp: fq_inv_def list_all_length)
  obtain a l h where r: "list_append A (Some (q_list (m_queue m))) d (m_mem m) = Some (True, l, h)"
    "list_rep l h (cs @ [(a, d)])" "finite (dom (nodes h))"
    using list_append_alloc [OF f(1) A f(2,3) fq_counts_bounds(2) [OF f(4)]] by blast
  let ?m = "goto i EnqPost (m\<lparr>m_queue := (m_queue m)\<lparr>q_list := l\<rparr>, m_mem := h, m_appended := m_appended m @ [d]\<rparr>)"
  have "fq_counts N (m_queue ?m) (m_pcs ?m) (length (cs @ [(a, d)]))"
    by (simp, rule fq_counts_move [OF f(4) i(1)]) (simp_all add: i(2))
  then have "fq_inv P N ?m (cs @ [(a, d)])"
    using inv i r(2,3) True by (auto simp: fq_inv_def fq_flags_def fq_history_def list_all_upd elim!: fq_lock_keep)
  then show ?thesis by (auto simp: True locked_append_def r(1))
qed simp

lemma fq_step_remove:
  assumes inv: "fq_inv P N m cs" and i: "i < length (m_pcs m)" "m_pcs m ! i = DeqRemove"
  shows "out_ok (\<lambda>m'. \<exists>cs'. fq_inv P N m' cs') (fq_thread A i DeqRemove m)"
proof (cases "m_mutex m = None")
  case True
  have f: "list_rep (q_list (m_queue m)) (m_mem m) cs" "finite (dom (nodes (m_mem m)))"
    "fq_counts N (m_queue m) (m_pcs m) (length cs)" using inv i by (auto simp: fq_inv_def)
  have ne: "cs \<noteq> []" using f(3) units_le_sum(2) [OF i(1)] i(2) by (auto simp: fq_counts_def)
  obtain cs' l h where r: "locked_take (m_queue m) (m_mem m) = Some (snd (hd cs), (m_queue m)\<lparr>q_list := l\<rparr>, h)"
    "list_rep l h cs'" "map snd cs' = tl (map snd cs)" "finite (dom (nodes h))"
    using locked_take_ok [OF f(1) ne f(2)] by blast
  let ?m = "goto i (DeqPost (snd (hd cs))) (m\<lparr>m_queue := (m_queue m)\<lparr>q_list := l\<rparr>, m_mem := h,
    m_removed := m_removed m @ [snd (hd cs)]\<rparr>)"
  have xs: "map snd cs = snd (hd cs) # map snd cs'" using r(3) ne by (cases cs) auto
  then have n: "length cs = Suc (length cs')" by (metis length_Cons length_map)
  have "fq_counts N (m_queue ?m) (m_pcs ?m) (length cs')"
    by (simp, rule fq_counts_move [OF f(3) i(1)]) (simp_all add: i(2) n)
  then have "fq_inv P N ?m cs'"
    using inv i r(2,4) True xs by (auto simp: fq_inv_def fq_flags_def fq_history_def list_all_upd simp flip: mset_map elim!: fq_lock_keep)
  then show ?thesis by (auto simp: True r(1))
qed simp

lemma fq_step_rem_lock:
  assumes inv: "fq_inv P N m cs" and i: "i < length (m_pcs m)" "m_pcs m ! i = RemLock d"
  shows "out_ok (\<lambda>m'. fq_inv P N m' cs) (fq_thread A i (RemLock d) m)"
proof (cases "m_mutex m = None")
  case True
  have f: "list_rep (q_list (m_queue m)) (m_mem m) cs" "d \<noteq> 0" "permits_pc P (RemLock d)"
    using inv i by (auto simp: fq_inv_def list_all_length)
  have "fq_inv P N (goto i Idle m) cs"
    using inv i f True by (auto simp: fq_inv_def fq_flags_def list_all_upd elim!: fq_lock_keep fq_counts_move)
  moreover have "fq_inv P N (goto i (RemTry d GetFlags) (m\<lparr>m_mutex := Some i\<rparr>)) cs" if "d \<in> snd ` set cs"
  proof -
    have "fq_counts N (m_queue m) ((m_pcs m)[i := RemTry d GetFlags]) (length cs)"
      using inv i by (auto simp: fq_inv_def elim!: fq_counts_move)
    then show ?thesis using inv i f that True by (simp add: fq_inv_def fq_flags_def list_all_upd fq_lock_take)
  qed
  ultimately show ?thesis using list_queries(2) [OF f(1,2)] by (auto simp: True split: bool.split)
qed simp

lemma fq_step_rem_remove:
  assumes inv: "fq_inv P N m cs" and i: "i < length (m_pcs m)" "m_pcs m ! i = RemRemove d"
  shows "out_ok (\<lambda>m'. \<exists>cs'. fq_inv P N m' cs') (fq_thread A i (RemRemove d) m)"
proof -
  have f: "list_rep (q_list (m_queue m)) (m_mem m) cs" "finite (dom (nodes (m_mem m)))" "permits_pc P (RemRemove d)"
    "fq_counts N (m_queue m) (m_pcs m) (length cs)" "fq_lock (m_mutex m) (m_pcs m) (map snd cs)"
    using inv i by (auto simp: fq_inv_def list_all_length)
  have d: "d \<in> snd ` set cs" using fq_lock_found [OF f(5) i(1)] i(2) by simp
  obtain cs' l h where r: "list_remove (Some (q_list (m_queue m))) d (m_mem m) = Some (True, l, h)" "list_rep l h cs'"
    "map snd cs' = remove1 d (map snd cs)" "finite (dom (nodes h))"
    using list_remove_mem [OF f(1) d f(2)] by blast
  let ?m = "goto i (RemPost d) (m\<lparr>m_queue := (m_queue m)\<lparr>q_list := l\<rparr>, m_mem := h, m_mutex := None,
    m_removed := m_removed m @ [d]\<rparr>)"
  have xs: "mset (map snd cs) = add_mset d (mset (map snd cs'))" using r(3) d by simp
  then have n: "length cs = Suc (length cs')" by (metis length_map size_add_mset size_mset)
  have "fq_counts N (m_queue ?m) (m_pcs ?m) (length cs')"
    by (simp, rule fq_counts_move [OF f(4) i(1)]) (simp_all add: i(2) n)
  moreover have "fq_lock None (m_pcs ?m) (map snd cs')" by (simp, rule fq_lock_release [OF f(5) i(1)]) (simp_all add: i(2))
  moreover have "fq_history P (m_appended ?m) (m_removed ?m) (map snd cs')"
    using inv xs f(3) by (simp add: fq_inv_def fq_history_def del: mset_map)
  ultimately have "fq_inv P N ?m cs'" using inv i r(2,4) f(3) by (simp add: fq_inv_def fq_flags_def list_all_upd)
  then show ?thesis by (auto simp: r(1))
qed

lemma fq_thread_inv:
  assumes inv: "fq_inv P N m cs" and i: "i < length (m_pcs m)" and A: "calloc_ok A"
  shows "out_ok (\<lambda>m'. \<exists>cs'. fq_inv P N m' cs') (fq_thread A i (m_pcs m ! i) m)"
proof -
  have w: "out_ok (\<lambda>m'. \<exists>cs'. fq_inv P N m' cs') r" if "out_ok (\<lambda>m'. fq_inv P N m' cs) r" for r
    using that by (cases r) auto
  show ?thesis
  proof (cases "m_pcs m ! i")
    case Idle
    then show ?thesis by simp
  next
    case (EnqAppend d)
    with fq_step_append [OF inv i _ A] show ?thesis by simp
  next
    case DeqRemove
    with fq_step_remove [OF inv i] show ?thesis by simp
  next
    case (RemRemove d)
    with fq_step_rem_remove [OF inv i] show ?thesis by simp
  qed (simp_all add: w fq_step_posts [OF inv i] fq_step_waits [OF inv i] fq_step_tries [OF inv i] fq_step_rem_lock [OF inv i] del: fq_thread.simps)
qed

lemma fq_begin_units [simp]:
  "enq_units (fq_begin c) = 0" "deq_units (fq_begin c) = 0" "found (fq_begin c) = None"
  "permits P c \<Longrightarrow> permits_pc P (fq_begin c)"
  by (cases c; simp)+

lemma fq_reach_inv:
  assumes "fq_reach A (permits P) m0 m" "calloc_ok A" "\<exists>cs. fq_inv P N m0 cs"
  shows "\<exists>cs. fq_inv P N m cs"
  using assms(1)
proof induction
  case start
  then show ?case by (rule assms(3))
next
  case (call m i c)
  then obtain cs where inv: "fq_inv P N m cs" by blast
  have "fq_inv P N (goto i (fq_begin c) m) cs"
    using inv call.hyps(2-4) by (auto simp: fq_inv_def fq_flags_def list_all_upd fq_lock_same elim!: fq_counts_move)
  then show ?case by blast
next
  case (step m i m')
  then obtain cs where inv: "fq_inv P N m cs" by blast
  have "out_ok (\<lambda>m'. \<exists>cs'. fq_inv P N m' cs') (fq_step A i m)"
    using fq_thread_inv [OF inv _ assms(2), of i] by (auto simp: fq_step_def)
  with step.hyps(2) show ?case by simp
qed

lemma fq_start_inv:
  assumes "fq_rep q h []"
  shows "fq_inv P (fq_cap q) (fq_start q h n) []"
  using assms unsigned_less [of "ucast (q_capacity q) :: 32 word"]
  by (auto simp: fq_inv_def fq_start_def fq_rep_def fq_counts_def fq_flags_def fq_history_def fq_lock_free list_all_length
      map_replicate_const sum_list_replicate fq_cap_def)

lemma sum_map_zero: "(\<And>j. j < length xs \<Longrightarrow> f (xs ! j) = 0) \<Longrightarrow> sum_list (map f xs) = (0 :: int)"
  by (simp add: sum_list_nonneg_eq_0_iff in_set_conv_nth sum_list_sum_nth)

text \<open>Where a thread can wait while nobody holds the mutex: at a semaphore with no units.\<close>

lemma try_wait_blocks: "try_wait_step t s = None \<Longrightarrow> sem_count s = 0 \<and> took t = 0"
  by (cases t) (auto simp: eventfd_read_def split: if_splits)

lemma fq_thread_blocks:
  assumes "fq_thread A i pc m = Blocks" "m_mutex m = None" "sem_count (enqueue_sem (m_queue m)) < 2 ^ 64 - 2"
    "sem_count (dequeue_sem (m_queue m)) < 2 ^ 64 - 2" "found pc = None"
  shows "enq_units pc = 0 \<and> deq_units pc = 0 \<and>
    (pc = Idle \<or> at_enqueue pc \<and> sem_count (enqueue_sem (m_queue m)) = 0 \<or> at_dequeue pc \<and> sem_count (dequeue_sem (m_queue m)) = 0)"
  using assms
  by (cases pc) (auto simp: semaphore_post_def eventfd_write_def semaphore_wait_def eventfd_read_def dest!: try_wait_blocks
    split: option.splits sum.splits bool.splits if_splits)

text \<open>When the threads never remove from the middle, a thread that waits has a reason to.\<close>

lemma fq_inv_waiting:
  assumes inv: "fq_inv P N m cs" and P: "\<not> may_remove P"
    and b: "\<And>i. i < length (m_pcs m) \<Longrightarrow> fq_step A i m = Blocks" and i: "i < length (m_pcs m)"
  shows "m_pcs m ! i = Idle \<or> at_enqueue (m_pcs m ! i) \<and> length cs = N \<or> at_dequeue (m_pcs m ! i) \<and> cs = []"
proof -
  have f: "fq_counts N (m_queue m) (m_pcs m) (length cs)" "fq_lock (m_mutex m) (m_pcs m) (map snd cs)"
    "list_all (permits_pc P) (m_pcs m)" using inv by (simp_all add: fq_inv_def)
  have nf: "found (m_pcs m ! j) = None" if "j < length (m_pcs m)" for j
    using f(3) P that by (cases "m_pcs m ! j") (auto simp: list_all_length dest!: spec [of _ j])
  then have mu: "m_mutex m = None" using f(2) by (cases "m_mutex m") (auto simp: fq_lock_def)
  have bl: "enq_units (m_pcs m ! j) = 0 \<and> deq_units (m_pcs m ! j) = 0 \<and> (m_pcs m ! j = Idle \<or>
      at_enqueue (m_pcs m ! j) \<and> sem_count (enqueue_sem (m_queue m)) = 0 \<or>
      at_dequeue (m_pcs m ! j) \<and> sem_count (dequeue_sem (m_queue m)) = 0)" if "j < length (m_pcs m)" for j
    using fq_thread_blocks [OF _ mu fq_counts_bounds(3,4) [OF f(1)] nf [OF that]] b [OF that] that by (simp add: fq_step_def)
  have "sum_list (map enq_units (m_pcs m)) = 0" "sum_list (map deq_units (m_pcs m)) = 0"
    using bl by (auto intro!: sum_map_zero)
  then show ?thesis using bl [OF i] f(1) by (auto simp: fq_counts_def)
qed

section \<open>Schedules\<close>

text \<open>Running a given schedule, to reach states by computation.\<close>

lemma fq_sched_reach:
  "fq_sched A es m = Some m' \<Longrightarrow> fq_reach A C m0 m \<Longrightarrow> \<forall>c i. Begin i c \<in> set es \<longrightarrow> C c \<Longrightarrow> fq_reach A C m0 m'"
proof (induction es arbitrary: m)
  case (Cons e es)
  show ?case
  proof (cases e)
    case (Begin i c)
    with Cons.prems have g: "i < length (m_pcs m)" "m_pcs m ! i = Idle" "C c" "fq_sched A es (goto i (fq_begin c) m) = Some m'"
      by (auto split: if_splits)
    show ?thesis by (rule Cons.IH [OF g(4) fq_reach.call [OF Cons.prems(2) g(1-3)]]) (use Cons.prems(3) in auto)
  next
    case (Next i)
    with Cons.prems obtain m1 where g: "fq_step A i m = Runs m1" "fq_sched A es m1 = Some m'"
      by (auto split: outcome.splits)
    show ?thesis by (rule Cons.IH [OF g(2) fq_reach.step [OF Cons.prems(2) g(1)]]) (use Cons.prems(3) in auto)
  qed
qed simp

lemmas fq_run_simps = fq_step_def fq_start_def semaphore_wait_def semaphore_post_def eventfd_read_def eventfd_write_def goto_def
  fixed_queue_new_def semaphore_new_def list_new_def list_front_def list_is_empty_def locked_take_def

lemma dequeue_race:
  assumes "fixed_queue_new True True capacity = Some q"
  shows "\<exists>m. fq_sched A [Begin 0 TryDequeue, Next 0, Next 0, Begin 1 Dequeue, Next 1] (fq_start q h 2) = Some m \<and>
    fq_step A 1 m = Aborts"
  using assms by (auto simp: fq_run_simps nth_list_update)

lemma try_remove_race:
  assumes "fq_rep q h [d]" "d \<noteq> 0"
  shows "\<exists>m. fq_sched A [Begin 0 TryDequeue, Next 0, Next 0, Next 0, Begin 1 (TryRemove d), Next 1, Next 1, Next 1, Next 0] (fq_start q h 2) = Some m \<and>
    fq_step A 0 m = Blocks \<and> fq_step A 1 m = Blocks \<and> m_pcs m ! 0 \<noteq> Idle \<and> m_pcs m ! 1 \<noteq> Idle"
proof -
  have q: "list_contains (Some (q_list q)) d h = Some True" "sem_count (dequeue_sem q) = 1" "\<not> sem_nonblock (dequeue_sem q)"
    using assms list_queries(2) [of "q_list q" h _ d] by (auto simp: fq_rep_def)
  show ?thesis using q by (simp add: fq_run_simps)
qed

section \<open>One thread\<close>

lemma try_wait_alone:
  "semaphore_try_wait s = Some (0 < sem_count s, s\<lparr>sem_count := sem_count s - 1\<rparr>)"
  by (cases s) (simp add: semaphore_try_wait_def eval_nat_numeral eventfd_read_def)

lemma fq_cap_lt: "fq_cap q < 2 ^ 32"
  using unsigned_less [of "ucast (q_capacity q) :: 32 word"] by (simp add: fq_cap_def)

lemma fq_repE:
  assumes "fq_rep q h xs"
  obtains cs where "list_rep (q_list q) h cs" "xs = map snd cs" "finite (dom (nodes h))" "length cs < 2 ^ 32"
    "sem_count (dequeue_sem q) = length cs" "sem_count (enqueue_sem q) + length cs = fq_cap q"
    "\<not> sem_nonblock (enqueue_sem q)" "\<not> sem_nonblock (dequeue_sem q)" "\<not> has_free_cb (q_list q)"
proof -
  from assms obtain cs where c: "list_rep (q_list q) h cs" "xs = map snd cs" unfolding fq_rep_def by blast
  have s: "sem_count (enqueue_sem q) + length cs = fq_cap q" using assms c(2) by (simp add: fq_rep_def fq_cap_def)
  then have "length cs < 2 ^ 32" using fq_cap_lt [of q] by linarith
  with that [OF c] assms c(2) s show ?thesis by (simp add: fq_rep_def)
qed

lemma fq_rep_new:
  "finite (dom (nodes h)) \<Longrightarrow> fixed_queue_new True True c = Some q \<Longrightarrow> fq_rep q h [] \<and> q_capacity q = c"
  by (auto simp: fixed_queue_new_def semaphore_new_def fq_rep_def list_rep_def list_new_def)

lemma fq_locked_append:
  assumes "list_rep (q_list q) h cs" "calloc_ok A" "finite (dom (nodes h))" "d \<noteq> 0" "length cs < 2 ^ 32"
  shows "\<exists>a l' h'. locked_append A d q h = Some (True, q\<lparr>q_list := l'\<rparr>, h') \<and> list_rep l' h' (cs @ [(a, d)]) \<and>
    finite (dom (nodes h')) \<and> has_free_cb l' = has_free_cb (q_list q)"
proof -
  obtain a l' h' where r: "list_append A (Some (q_list q)) d h = Some (True, l', h')" "list_rep l' h' (cs @ [(a, d)])"
    "finite (dom (nodes h'))" "has_free_cb l' = has_free_cb (q_list q)" using list_append_alloc [OF assms] by blast
  have "locked_append A d q h = Some (True, q\<lparr>q_list := l'\<rparr>, h')" by (simp add: locked_append_def r(1))
  with r(2-4) show ?thesis by (intro exI conjI)
qed

lemma post_small: "sem_count s < 2 ^ 32 \<Longrightarrow> semaphore_post s = Some (s\<lparr>sem_count := sem_count s + 1\<rparr>)"
  by (simp add: semaphore_post_def eventfd_write_def)

lemma wait_some: "0 < sem_count s \<Longrightarrow> semaphore_wait s = Some (s\<lparr>sem_count := sem_count s - 1\<rparr>)"
  by (simp add: semaphore_wait_def eventfd_read_def)

lemma wait_none: "sem_count s = 0 \<Longrightarrow> \<not> sem_nonblock s \<Longrightarrow> semaphore_wait s = None"
  by (simp add: semaphore_wait_def eventfd_read_def)

text \<open>Moving a unit to the other semaphore together with a change of the list by one element.\<close>

lemma fq_rep_put:
  assumes "fq_rep q h xs" "list_rep l h' (cs @ [(a, d)])" "xs = map snd cs" "finite (dom (nodes h'))" "\<not> has_free_cb l"
    "length xs < fq_cap q"
  shows "fq_rep (q\<lparr>q_list := l, enqueue_sem := (enqueue_sem q)\<lparr>sem_count := sem_count (enqueue_sem q) - 1\<rparr>,
    dequeue_sem := (dequeue_sem q)\<lparr>sem_count := sem_count (dequeue_sem q) + 1\<rparr>\<rparr>) h' (xs @ [d])"
  using assms by (auto simp: fq_rep_def fq_cap_def intro!: exI [of _ "cs @ [(a, d)]"])

lemma fq_rep_take:
  assumes "fq_rep q h xs" "list_rep l h' cs'" "length xs = Suc (length cs')" "finite (dom (nodes h'))" "\<not> has_free_cb l"
  shows "fq_rep (q\<lparr>q_list := l, dequeue_sem := (dequeue_sem q)\<lparr>sem_count := sem_count (dequeue_sem q) - 1\<rparr>,
    enqueue_sem := (enqueue_sem q)\<lparr>sem_count := sem_count (enqueue_sem q) + 1\<rparr>\<rparr>) h' (map snd cs')"
  using assms by (auto simp: fq_rep_def)

lemma try_enqueue_ok:
  assumes r: "fq_rep q h xs" and A: "calloc_ok A" and d: "d \<noteq> 0"
  shows "\<exists>q' h'. fixed_queue_try_enqueue A (Some q) d h = Some (length xs < fq_cap q, q', h') \<and>
    fq_rep q' h' (if length xs < fq_cap q then xs @ [d] else xs) \<and> q_capacity q' = q_capacity q"
proof -
  obtain cs where c: "list_rep (q_list q) h cs" "xs = map snd cs" "finite (dom (nodes h))" "length cs < 2 ^ 32"
    "sem_count (dequeue_sem q) = length cs" "sem_count (enqueue_sem q) + length cs = fq_cap q" "\<not> has_free_cb (q_list q)"
    using r by (rule fq_repE)
  show ?thesis
  proof (cases "length xs < fq_cap q")
    case True
    let ?q = "q\<lparr>enqueue_sem := (enqueue_sem q)\<lparr>sem_count := sem_count (enqueue_sem q) - 1\<rparr>\<rparr>"
    have "list_rep (q_list ?q) h cs" using c(1) by simp
    then obtain a l h' where l: "locked_append A d ?q h = Some (True, ?q\<lparr>q_list := l\<rparr>, h')" "list_rep l h' (cs @ [(a, d)])"
      "finite (dom (nodes h'))" "has_free_cb l = has_free_cb (q_list ?q)" using fq_locked_append [OF _ A c(3) d c(4)] by blast
    have "0 < sem_count (enqueue_sem q)" using True c by simp
    with l(1) d c(4,5) have "fixed_queue_try_enqueue A (Some q) d h = Some (True, q\<lparr>q_list := l,
      enqueue_sem := (enqueue_sem q)\<lparr>sem_count := sem_count (enqueue_sem q) - 1\<rparr>,
      dequeue_sem := (dequeue_sem q)\<lparr>sem_count := sem_count (dequeue_sem q) + 1\<rparr>\<rparr>, h')"
      by (simp add: fixed_queue_try_enqueue_def try_wait_alone post_small)
    with fq_rep_put [OF r l(2) c(2) l(3) _ True] l(4) c(7) True show ?thesis by simp
  next
    case False
    with r c d show ?thesis by (auto simp: fixed_queue_try_enqueue_def try_wait_alone fq_rep_def)
  qed
qed

lemma try_dequeue_ok:
  assumes r: "fq_rep q h xs"
  shows "\<exists>q' h'. fixed_queue_try_dequeue (Some q) h = Some (if xs = [] then 0 else hd xs, Some q', h') \<and>
    fq_rep q' h' (tl xs) \<and> q_capacity q' = q_capacity q"
proof -
  obtain cs where c: "list_rep (q_list q) h cs" "xs = map snd cs" "finite (dom (nodes h))" "length cs < 2 ^ 32"
    "sem_count (dequeue_sem q) = length cs" "sem_count (enqueue_sem q) + length cs = fq_cap q" "\<not> has_free_cb (q_list q)"
    using r by (rule fq_repE)
  show ?thesis
  proof (cases "cs = []")
    case True
    with r c show ?thesis by (auto simp: fixed_queue_try_dequeue_def try_wait_alone fq_rep_def)
  next
    case False
    let ?q = "q\<lparr>dequeue_sem := (dequeue_sem q)\<lparr>sem_count := sem_count (dequeue_sem q) - 1\<rparr>\<rparr>"
    have "list_rep (q_list ?q) h cs" using c(1) by simp
    from locked_take_ok [OF this False c(3)]
    obtain cs' l h' where l: "locked_take ?q h = Some (snd (hd cs), ?q\<lparr>q_list := l\<rparr>, h')" "list_rep l h' cs'"
      "map snd cs' = tl (map snd cs)" "finite (dom (nodes h'))" "has_free_cb l = has_free_cb (q_list ?q)" by blast
    have n: "length xs = Suc (length cs')" "xs \<noteq> []" "snd (hd cs) = hd xs"
      using False arg_cong [OF l(3), of length] c(2) by (simp_all add: hd_map)
    have "sem_count (enqueue_sem q) < 2 ^ 32" using c(6) fq_cap_lt [of q] by linarith
    with l(1) c(5) False have "fixed_queue_try_dequeue (Some q) h = Some (snd (hd cs), Some (q\<lparr>q_list := l,
      dequeue_sem := (dequeue_sem q)\<lparr>sem_count := sem_count (dequeue_sem q) - 1\<rparr>,
      enqueue_sem := (enqueue_sem q)\<lparr>sem_count := sem_count (enqueue_sem q) + 1\<rparr>\<rparr>), h')"
      by (simp add: fixed_queue_try_dequeue_def try_wait_alone post_small)
    with fq_rep_take [OF r l(2) n(1) l(4)] l(3,5) c(2,7) n show ?thesis by simp
  qed
qed

lemma flush_loop_ok:
  assumes "fq_rep q h xs"
  shows "\<exists>q' h'. fixed_queue_flush_loop cb q h = Some (if cb then xs else [], q', h') \<and> fq_rep q' h' [] \<and> q_capacity q' = q_capacity q"
  using assms
proof (induction xs arbitrary: q h)
  case Nil
  then have "fixed_queue_is_empty (Some q) = Some True"
    by (auto simp: fixed_queue_is_empty_def list_queries elim: fq_repE)
  with Nil show ?case by (simp add: fixed_queue_flush_loop.simps)
next
  case (Cons x xs)
  have e: "fixed_queue_is_empty (Some q) = Some False"
    using Cons.prems by (auto simp: fixed_queue_is_empty_def list_queries elim: fq_repE)
  obtain q1 h1 where d: "fixed_queue_try_dequeue (Some q) h = Some (x, Some q1, h1)" "fq_rep q1 h1 xs" "q_capacity q1 = q_capacity q"
    using try_dequeue_ok [OF Cons.prems] by auto
  from Cons.IH [OF d(2)] e d show ?case by (auto simp: fixed_queue_flush_loop.simps [of cb q])
qed

lemma try_remove_ok:
  assumes r: "fq_rep q h xs" and d: "d \<noteq> 0"
  shows "\<exists>q' h'. fixed_queue_try_remove_from_queue (Some q) d h = Some (if d \<in> set xs then d else 0, Some q', h') \<and>
    fq_rep q' h' (remove1 d xs) \<and> q_capacity q' = q_capacity q"
proof -
  obtain cs where c: "list_rep (q_list q) h cs" "xs = map snd cs" "finite (dom (nodes h))" "length cs < 2 ^ 32"
    "sem_count (dequeue_sem q) = length cs" "sem_count (enqueue_sem q) + length cs = fq_cap q" "\<not> has_free_cb (q_list q)"
    using r by (rule fq_repE)
  have k: "list_contains (Some (q_list q)) d h = Some (d \<in> set xs)" using list_queries(2) [OF c(1) d] c(2) by simp
  show ?thesis
  proof (cases "d \<in> set xs")
    case True
    with c(2) have "d \<in> snd ` set cs" by simp
    from list_remove_mem [OF c(1) this c(3)]
    obtain cs' l h' where l: "list_remove (Some (q_list q)) d h = Some (True, l, h')" "list_rep l h' cs'"
      "map snd cs' = remove1 d (map snd cs)" "finite (dom (nodes h'))" "has_free_cb l = has_free_cb (q_list q)" by blast
    have "length xs > 0" using True by (cases xs) auto
    then have n: "length xs = Suc (length cs')" "0 < length cs"
      using arg_cong [OF l(3), of length] True c(2) by (simp_all add: length_remove1)
    have "sem_count (enqueue_sem q) < 2 ^ 32" using c(6) fq_cap_lt [of q] by linarith
    with l(1) c(5) n k True have "fixed_queue_try_remove_from_queue (Some q) d h = Some (d, Some (q\<lparr>q_list := l,
      dequeue_sem := (dequeue_sem q)\<lparr>sem_count := sem_count (dequeue_sem q) - 1\<rparr>,
      enqueue_sem := (enqueue_sem q)\<lparr>sem_count := sem_count (enqueue_sem q) + 1\<rparr>\<rparr>), h')"
      by (simp add: fixed_queue_try_remove_from_queue_def try_wait_alone post_small)
    with fq_rep_take [OF r l(2) n(1) l(4)] l(3,5) c(2,7) True show ?thesis by simp
  next
    case False
    with r k show ?thesis by (simp add: fixed_queue_try_remove_from_queue_def remove1_idem)
  qed
qed

text \<open>The operations that wait differ from those that try only where these are refused.\<close>

lemma enqueue_waits:
  assumes "\<not> sem_nonblock (enqueue_sem q)"
  shows "fixed_queue_enqueue A (Some q) d h =
    do { (b, r) \<leftarrow> fixed_queue_try_enqueue A (Some q) d h; if b then Some r else None }"
  using assms
  by (cases "sem_count (enqueue_sem q) = 0")
    (auto simp: fixed_queue_enqueue_def fixed_queue_try_enqueue_def try_wait_alone wait_some wait_none
      intro!: arg_cong [where f = "Option.bind _"] ext split: prod.split)

lemma dequeue_waits:
  assumes "fq_rep q h xs"
  shows "fixed_queue_dequeue (Some q) h = (if xs = [] then None else
    do { (d, pq, h) \<leftarrow> fixed_queue_try_dequeue (Some q) h; q \<leftarrow> pq; Some (d, q, h) })"
  using assms
  by (rule fq_repE) (auto simp: fixed_queue_dequeue_def fixed_queue_try_dequeue_def try_wait_alone wait_some wait_none
      intro!: arg_cong [where f = "Option.bind _"] ext split: prod.split)

lemma free_loop_ok: "lseg (nodes h) x cs 0 \<Longrightarrow> fixed_queue_free_loop x h = Some (map snd cs)"
proof (induction cs arbitrary: x)
  case Nil
  then show ?case by (simp add: fixed_queue_free_loop.simps)
next
  case (Cons c cs)
  then show ?case by (cases c) (auto simp: fixed_queue_free_loop.simps [of x] list_node_def list_next_def deref_def)
qed

lemma free_ok:
  assumes "list_rep (q_list q) h cs" "\<not> has_free_cb (q_list q)"
  shows "\<exists>h'. fixed_queue_free cb (Some q) h = Some (if cb then map snd cs else [], h') \<and> owns cs h [] h' \<and> freed_data h' = freed_data h"
proof -
  obtain l' h' where c: "list_clear (Some (q_list q)) h = Some (l', h')" "same_but (fst ` set cs) h h'"
    "\<forall>a \<in> fst ` set cs. nodes h' a = None" "freed_data h' = freed_data h"
    using list_clear_ok [OF assms(1)] assms(2) by (auto simp: ok_iff)
  have "owns cs h [] h'" using c(2,3) unfolding owns_def same_but_def by auto
  moreover have "fixed_queue_free_loop (list_head (q_list q)) h = Some (map snd cs)"
    using assms(1) by (simp add: free_loop_ok list_rep_def)
  ultimately show ?thesis using c(1,4)
    by (simp add: fixed_queue_free_def fixed_queue_unregister_dequeue_def list_begin_def list_free_def)
qed

text \<open>A thread that runs alone does what the sequential function says.\<close>

lemma steps_of_call: "replicate 4 e = [e, e, e, e]" "replicate 6 e = [e, e, e, e, e, e]"
  by (simp_all add: eval_nat_numeral)

lemma alone_try_enqueue:
  assumes "fixed_queue_try_enqueue A (Some q) d h = Some (b, q', h')"
  shows "\<exists>m. fq_sched A (Begin 0 (TryEnqueue d) # replicate (if b then 6 else 4) (Next 0)) (fq_start q h 1) = Some m \<and>
    m_queue m = q' \<and> m_mem m = h' \<and> m_pcs m = [Idle]"
proof (cases "0 < sem_count (enqueue_sem q)")
  case True
  with assms show ?thesis
    by (auto simp: fixed_queue_try_enqueue_def try_wait_alone steps_of_call fq_step_def fq_start_def eventfd_read_def goto_def
        bind_eq_Some_conv split: if_splits prod.splits)
next
  case False
  with assms show ?thesis
    by (auto simp: fixed_queue_try_enqueue_def try_wait_alone steps_of_call fq_step_def fq_start_def eventfd_read_def goto_def
        split: if_splits)
qed

lemma least_free_ok: "calloc_ok least_free"
proof -
  have "(LEAST a. a \<noteq> 0 \<and> h a = None) \<noteq> 0 \<and> h (LEAST a. a \<noteq> 0 \<and> h a = None) = None" if "\<exists>a. a \<noteq> 0 \<and> h a = None"
    for h :: "nat \<Rightarrow> list_node_t option"
    using that by (rule LeastI_ex)
  moreover have "\<exists>a. a \<noteq> 0 \<and> h a = None" if "finite (dom h)" for h :: "nat \<Rightarrow> list_node_t option"
    using ex_new_if_finite [OF infinite_UNIV_nat, of "insert 0 (dom h)"] that by auto
  ultimately show ?thesis by (auto simp: calloc_ok_def fresh_alloc_def least_free_def split: if_splits)
qed

lemma one_datum_rep: "fq_rep (fst one_datum) (snd one_datum) [7]"
  by (auto simp: one_datum_def fq_rep_def list_rep_def intro!: exI [of _ "[(1, 7)]"])

lemma fq_rep_no_null: "fq_rep q h xs \<Longrightarrow> 0 \<notin> set xs"
  by (auto simp: fq_rep_def list_rep_def)

interpretation fq: bounded_fifo fqc_rep fqc_cap "\<lambda>d. d \<noteq> 0" fqc_put fqc_get
proof
  fix s xs assume "fqc_rep s xs"
  then show "length xs \<le> fqc_cap s" by (cases s) (auto elim!: fq_repE)
next
  fix s xs and x :: nat assume "fqc_rep s xs" "x \<noteq> 0"
  then show "\<exists>s'. fqc_put x s = Some (length xs < fqc_cap s, s') \<and>
      fqc_rep s' (if length xs < fqc_cap s then xs @ [x] else xs) \<and> fqc_cap s' = fqc_cap s"
    using try_enqueue_ok [of "fst (snd s)" "snd (snd s)" xs "fst s" x] by (cases s) (auto simp: fq_cap_def)
next
  fix s xs assume r: "fqc_rep s xs"
  then have "xs \<noteq> [] \<Longrightarrow> hd xs \<noteq> 0" using fq_rep_no_null by (cases s) (metis fqc_rep.simps hd_in_set)
  with r show "\<exists>s'. fqc_get s = Some (if xs = [] then None else Some (hd xs), s') \<and> fqc_rep s' (tl xs) \<and> fqc_cap s' = fqc_cap s"
    using try_dequeue_ok [of "fst (snd s)" "snd (snd s)" xs] by (cases s) (auto simp: fq_cap_def)
qed

lemma fqc_run_alloc: "fifo_run fqc_put fqc_get ops s = Some (bs, out, s') \<Longrightarrow> fst s' = fst s"
proof (induction ops arbitrary: s bs out)
  case (Cons e ops)
  then show ?case by (cases e; cases s) (fastforce simp: bind_eq_Some_conv)+
qed simp

section \<open>Properties\<close>

text \<open>
  C26: Any number of threads calling one queue at once, in any interleaving of their accesses to
  the semaphores and the mutex, keep it correct as long as no semaphore is both waited for and
  tried: no assert fails and no dangling node is followed, the list never holds more than the
  capacity, no datum is lost or duplicated, and without removals from the middle the data leave
  in the order in which they entered.
\<close>

theorem fq_interleavings_safe:
  assumes "calloc_ok A" "fixed_queue_new True True capacity = Some q" "finite (dom (nodes h))"
    "fq_reach A (permits P) (fq_start q h n) m"
  shows "fq_step A i m \<noteq> Aborts \<and>
    (\<exists>cs. list_rep (q_list (m_queue m)) (m_mem m) cs \<and> length cs \<le> fq_cap q \<and>
      mset (m_appended m) = mset (m_removed m) + mset (map snd cs) \<and>
      (may_remove P \<or> m_appended m = m_removed m @ map snd cs))"
proof -
  have "fq_rep q h []" using fq_rep_new [OF assms(3,2)] by simp
  then have "\<exists>cs. fq_inv P (fq_cap q) (fq_start q h n) cs" by (blast intro: fq_start_inv)
  from fq_reach_inv [OF assms(4,1) this] obtain cs where inv: "fq_inv P (fq_cap q) m cs" by blast
  have "fq_step A i m \<noteq> Aborts" using fq_thread_inv [OF inv _ assms(1), of i] by (auto simp: fq_step_def)
  moreover have "length cs \<le> fq_cap q" using inv fq_counts_bounds(1) unfolding fq_inv_def by blast
  ultimately show ?thesis using inv unfolding fq_inv_def fq_history_def by blast
qed

theorem fq_interleavings_safe_witness:
  "\<exists>m. fq_sched least_free [Begin 0 (Enqueue 7), Begin 1 TryDequeue, Next 0, Next 1]
      (fq_start (the (fixed_queue_new True True 4)) \<lparr>nodes = Map.empty, freed_data = []\<rparr> 2) = Some m \<and>
    fq_step least_free 0 m \<noteq> Aborts"
proof -
  let ?q = "the (fixed_queue_new True True 4)" and ?h = "\<lparr>nodes = Map.empty, freed_data = []\<rparr>"
  let ?P = "\<lparr>wait_enq = True, wait_deq = False, may_remove = False\<rparr>"
  have q: "fixed_queue_new True True 4 = Some ?q" by (simp add: fixed_queue_new_def semaphore_new_def)
  obtain m where m: "fq_sched least_free [Begin 0 (Enqueue 7), Begin 1 TryDequeue, Next 0, Next 1] (fq_start ?q ?h 2) = Some m"
    by (simp add: fq_run_simps nth_list_update)
  have "fq_reach least_free (permits ?P) (fq_start ?q ?h 2) m" by (rule fq_sched_reach [OF m fq_reach.start]) auto
  from m fq_interleavings_safe [OF least_free_ok q _ this] show ?thesis by simp
qed



text \<open>
  C28: A dequeue that waits and one that tries cannot be mixed: while one thread is inside
  \<^verbatim>\<open>semaphore_try_wait\<close>, the descriptor that all threads share does not block, so the
  \<^verbatim>\<open>semaphore_wait\<close> of another returns without a unit, and \<^verbatim>\<open>fixed_queue_dequeue\<close> goes on to
  the front of an empty list, whose assert ends the process.
\<close>

theorem fq_dequeue_race_aborts:
  assumes "fixed_queue_new True True capacity = Some q"
  shows "\<exists>m. fq_reach A (\<lambda>c. c = TryDequeue \<or> c = Dequeue) (fq_start q h 2) m \<and> fq_step A 1 m = Aborts"
proof -
  obtain m where m: "fq_sched A [Begin 0 TryDequeue, Next 0, Next 0, Begin 1 Dequeue, Next 1] (fq_start q h 2) = Some m"
    "fq_step A 1 m = Aborts" using dequeue_race [OF assms] by blast
  have "fq_reach A (\<lambda>c. c = TryDequeue \<or> c = Dequeue) (fq_start q h 2) m" by (rule fq_sched_reach [OF m(1) fq_reach.start]) auto
  with m(2) show ?thesis by blast
qed

theorem fq_dequeue_race_aborts_witness:
  "\<exists>m. fq_reach least_free (\<lambda>c. c = TryDequeue \<or> c = Dequeue)
      (fq_start (the (fixed_queue_new True True 4)) \<lparr>nodes = Map.empty, freed_data = []\<rparr> 2) m \<and> fq_step least_free 1 m = Aborts"
  by (rule fq_dequeue_race_aborts [of 4]) (simp add: fixed_queue_new_def semaphore_new_def)

text \<open>
  C29: A dequeue that tries and a removal can deadlock, though neither is meant to wait: both save
  and restore the flags of the same descriptor, so one can make it block again while the other,
  which holds the mutex, is about to read it; the first then waits for the mutex and the second
  for a unit that nobody can give any more.
\<close>

theorem fq_try_remove_deadlocks:
  assumes "fq_rep q h [d]" "d \<noteq> 0"
  shows "\<exists>m. fq_reach A (\<lambda>c. c = TryDequeue \<or> c = TryRemove d) (fq_start q h 2) m \<and>
    m_pcs m ! 0 \<noteq> Idle \<and> m_pcs m ! 1 \<noteq> Idle \<and> fq_step A 0 m = Blocks \<and> fq_step A 1 m = Blocks"
proof -
  obtain m where m: "fq_sched A [Begin 0 TryDequeue, Next 0, Next 0, Next 0, Begin 1 (TryRemove d), Next 1, Next 1, Next 1, Next 0]
      (fq_start q h 2) = Some m" "fq_step A 0 m = Blocks" "fq_step A 1 m = Blocks" "m_pcs m ! 0 \<noteq> Idle" "m_pcs m ! 1 \<noteq> Idle"
    using try_remove_race [OF assms] by blast
  have "fq_reach A (\<lambda>c. c = TryDequeue \<or> c = TryRemove d) (fq_start q h 2) m" by (rule fq_sched_reach [OF m(1) fq_reach.start]) auto
  with m(2-5) show ?thesis by blast
qed

theorem fq_try_remove_deadlocks_witness:
  "\<exists>m. fq_reach least_free (\<lambda>c. c = TryDequeue \<or> c = TryRemove 7) (fq_start (fst one_datum) (snd one_datum) 2) m \<and>
    m_pcs m ! 0 \<noteq> Idle \<and> m_pcs m ! 1 \<noteq> Idle \<and> fq_step least_free 0 m = Blocks \<and> fq_step least_free 1 m = Blocks"
  by (rule fq_try_remove_deadlocks [OF one_datum_rep]) simp

text \<open>
  C30: A queue used by one thread is a first-in first-out list whose room is the lower half of
  the capacity it was made with: any sequence of \<^verbatim>\<open>fixed_queue_try_enqueue\<close> and
  \<^verbatim>\<open>fixed_queue_try_dequeue\<close> calls returns, with the results that the same calls have on such a
  list, and leaves the queue representing what the list holds.
\<close>

theorem fixed_queue_calls_refine:
  assumes "calloc_ok A" "fq_rep q h xs" "0 \<notin> set (puts ops)"
  shows "\<exists>q' h' bs out ys. fifo_run fqc_put fqc_get ops (A, q, h) = Some (bs, out, A, q', h') \<and>
    fifo_spec (unat (ucast (q_capacity q) :: 32 word)) ops xs = (bs, out, ys) \<and> fq_rep q' h' ys"
proof -
  have "fqc_rep (A, q, h) xs" using assms by simp
  moreover have "\<forall>x \<in> set (puts ops). x \<noteq> 0" using assms(3) by metis
  ultimately obtain s bs out ys where r: "fifo_run fqc_put fqc_get ops (A, q, h) = Some (bs, out, s)"
    "fifo_spec (fq_cap q) ops xs = (bs, out, ys)" "fqc_rep s ys" using fq.run_refines [of "(A, q, h)" xs ops] by auto
  have "fst s = A" using fqc_run_alloc [OF r(1)] by simp
  with r show ?thesis by (cases s) (auto simp: fq_cap_def)
qed

theorem fixed_queue_calls_refine_witness:
  "\<exists>q' h' bs out ys. fifo_run fqc_put fqc_get [Put 9, Get, Get, Get] (least_free, one_datum) = Some (bs, out, least_free, q', h') \<and>
    fifo_spec 4 [Put 9, Get, Get, Get] [7] = (bs, out, ys) \<and> fq_rep q' h' ys"
  using fixed_queue_calls_refine [OF least_free_ok one_datum_rep, of "[Put 9, Get, Get, Get]"]
  by (simp add: one_datum_def del: fifo_run.simps fifo_spec.simps)

text \<open>
  C31: Flushing ends: on every queue \<^verbatim>\<open>fixed_queue_flush\<close> returns, having given each datum to
  \<^verbatim>\<open>free_cb\<close> once and in order, and leaves the queue empty with all of its room; and
  \<^verbatim>\<open>fixed_queue_free\<close> gives the same data to its callback and frees every node of the list and
  nothing else.
\<close>

theorem fixed_queue_flush_free:
  assumes "fq_rep q h xs"
  shows "(\<exists>q' h'. fixed_queue_flush cb (Some q) h = Some (if cb then xs else [], Some q', h') \<and> fq_rep q' h' [] \<and>
      sem_count (enqueue_sem q') = fq_cap q) \<and>
    (\<exists>cs h'. list_rep (q_list q) h cs \<and> fixed_queue_free cb (Some q) h = Some (if cb then xs else [], h') \<and> owns cs h [] h')"
proof (rule conjI)
  obtain q' h' where "fixed_queue_flush_loop cb q h = Some (if cb then xs else [], q', h')" "fq_rep q' h' []" "q_capacity q' = q_capacity q"
    using flush_loop_ok [OF assms] by blast
  then show "\<exists>q' h'. fixed_queue_flush cb (Some q) h = Some (if cb then xs else [], Some q', h') \<and> fq_rep q' h' [] \<and>
      sem_count (enqueue_sem q') = fq_cap q" by (auto simp: fixed_queue_flush_def fq_rep_def fq_cap_def)
next
  obtain cs where c: "list_rep (q_list q) h cs" "xs = map snd cs" "\<not> has_free_cb (q_list q)" using assms by (rule fq_repE)
  with free_ok [OF c(1,3)]
  show "\<exists>cs h'. list_rep (q_list q) h cs \<and> fixed_queue_free cb (Some q) h = Some (if cb then xs else [], h') \<and> owns cs h [] h'"
    by blast
qed

theorem fixed_queue_flush_free_witness:
  "\<exists>q' h'. fixed_queue_flush True (Some (fst one_datum)) (snd one_datum) = Some ([7], Some q', h') \<and> fq_rep q' h' []"
  using fixed_queue_flush_free [OF one_datum_rep, of True] by auto

end
