(* ===== verification/Osi_Ringbuffer.thy ===== *)
theory Osi_Ringbuffer
  imports Osi_Fifo
begin

text \<open>
  The byte ring of \<^verbatim>\<open>osi/src/ringbuffer.cc\<close>. The pointers \<^verbatim>\<open>head\<close> and \<^verbatim>\<open>tail\<close> are offsets from
  \<^verbatim>\<open>base\<close>, sizes are 64-bit words, and a read or write outside an array is an abort: of the
  source of \<^verbatim>\<open>ringbuffer_insert\<close>, of the destination of \<^verbatim>\<open>ringbuffer_peek\<close> (which has \<open>room\<close>
  bytes), or of the ring. So is the remainder by a total of zero.

  \<open>rb_rep\<close> relates a ring to the list of the bytes it holds.
\<close>

section \<open>Data\<close>

record ringbuffer_t =
  rb_total :: "64 word"
  rb_available :: "64 word"
  rb_base :: "8 word list"
  rb_head :: nat
  rb_tail :: nat

section \<open>Operations\<close>

text \<open>\<^verbatim>\<open>osi_calloc\<close> asserts that the size is not negative as a signed number, and fills with zeros.\<close>

definition ringbuffer_init :: "64 word \<Rightarrow> ringbuffer_t option" where
  "ringbuffer_init sz = (if unat sz < 2 ^ 63
     then Some \<lparr>rb_total = sz, rb_available = sz, rb_base = replicate (unat sz) 0, rb_head = 0, rb_tail = 0\<rparr>
     else None)"

definition ringbuffer_available :: "ringbuffer_t option \<Rightarrow> (64 word) option" where
  "ringbuffer_available prb = map_option rb_available prb"

definition ringbuffer_size :: "ringbuffer_t option \<Rightarrow> (64 word) option" where
  "ringbuffer_size prb = map_option (\<lambda>rb. rb_total rb - rb_available rb) prb"

fun insert_loop :: "nat \<Rightarrow> 8 word list \<Rightarrow> ringbuffer_t \<Rightarrow> ringbuffer_t option" where
  "insert_loop 0 p rb = Some rb"
| "insert_loop (Suc n) [] rb = None"
| "insert_loop (Suc n) (b # p) rb =
     (if rb_tail rb < length (rb_base rb)
      then let rb = rb\<lparr>rb_base := (rb_base rb)[rb_tail rb := b], rb_tail := rb_tail rb + 1\<rparr>;
               rb = (if unat (rb_total rb) \<le> rb_tail rb then rb\<lparr>rb_tail := 0\<rparr> else rb)
           in insert_loop n p rb
      else None)"

definition ringbuffer_insert :: "ringbuffer_t option \<Rightarrow> 8 word list \<Rightarrow> 64 word \<Rightarrow> (64 word \<times> ringbuffer_t) option" where
  "ringbuffer_insert prb p len = do {
     rb \<leftarrow> prb;
     avail \<leftarrow> ringbuffer_available (Some rb);
     let len = (if len > avail then avail else len);
     rb \<leftarrow> insert_loop (unat len) p rb;
     Some (len, rb\<lparr>rb_available := rb_available rb - len\<rparr>)
   }"

text \<open>Moving \<^verbatim>\<open>head\<close> forward, as \<^verbatim>\<open>ringbuffer_delete\<close> and \<^verbatim>\<open>ringbuffer_pop\<close> do.\<close>

definition advance_head :: "64 word \<Rightarrow> ringbuffer_t \<Rightarrow> ringbuffer_t" where
  "advance_head len rb =
     (let rb = rb\<lparr>rb_head := rb_head rb + unat len\<rparr>;
          rb = (if unat (rb_total rb) \<le> rb_head rb then rb\<lparr>rb_head := rb_head rb - unat (rb_total rb)\<rparr> else rb)
      in rb\<lparr>rb_available := rb_available rb + len\<rparr>)"

definition ringbuffer_delete :: "ringbuffer_t option \<Rightarrow> 64 word \<Rightarrow> (64 word \<times> ringbuffer_t) option" where
  "ringbuffer_delete prb len = do {
     rb \<leftarrow> prb;
     sz \<leftarrow> ringbuffer_size (Some rb);
     let len = (if len > sz then sz else len);
     Some (len, advance_head len rb)
   }"

fun peek_loop :: "nat \<Rightarrow> nat \<Rightarrow> nat \<Rightarrow> ringbuffer_t \<Rightarrow> 8 word list option" where
  "peek_loop 0 room b rb = Some []"
| "peek_loop (Suc n) 0 b rb = None"
| "peek_loop (Suc n) (Suc room) b rb =
     (if b < length (rb_base rb)
      then do {
        bs \<leftarrow> peek_loop n room (if unat (rb_total rb) \<le> b + 1 then 0 else b + 1) rb;
        Some (rb_base rb ! b # bs)
      }
      else None)"

text \<open>\<^verbatim>\<open>offset\<close> is a signed 64-bit number; \<^verbatim>\<open>offset + length\<close> is unsigned and may wrap.\<close>

definition peek_count :: "64 word \<Rightarrow> 64 word \<Rightarrow> 64 word \<Rightarrow> 64 word" where
  "peek_count offset len sz = (if offset + len > sz then sz - offset else len)"

definition ringbuffer_peek :: "ringbuffer_t option \<Rightarrow> 64 word \<Rightarrow> nat \<Rightarrow> 64 word \<Rightarrow> 8 word list option" where
  "ringbuffer_peek prb offset room len = do {
     rb \<leftarrow> prb;
     sz \<leftarrow> ringbuffer_size (Some rb);
     if sint offset < 0 \<or> offset > sz \<or> rb_total rb = 0 then None
     else peek_loop (unat (peek_count offset len sz)) room ((rb_head rb + unat offset) mod unat (rb_total rb)) rb
   }"

definition ringbuffer_pop :: "ringbuffer_t option \<Rightarrow> nat \<Rightarrow> 64 word \<Rightarrow> (8 word list \<times> ringbuffer_t) option" where
  "ringbuffer_pop prb room len = do {
     rb \<leftarrow> prb;
     bs \<leftarrow> ringbuffer_peek (Some rb) 0 room len;
     Some (bs, advance_head (word_of_nat (length bs)) rb)
   }"

section \<open>Specification\<close>

definition rb_rep :: "ringbuffer_t \<Rightarrow> 8 word list \<Rightarrow> bool" where
  "rb_rep rb xs \<longleftrightarrow> 0 < unat (rb_total rb) \<and> unat (rb_total rb) < 2 ^ 63 \<and> length (rb_base rb) = unat (rb_total rb) \<and>
     rb_head rb < unat (rb_total rb) \<and> unat (rb_available rb) + length xs = unat (rb_total rb) \<and>
     rb_tail rb = (rb_head rb + length xs) mod unat (rb_total rb) \<and>
     (\<forall>i < length xs. rb_base rb ! ((rb_head rb + i) mod unat (rb_total rb)) = xs ! i)"

text \<open>One byte in, one byte out: the ring as an implementation of \<open>bounded_fifo\<close>.\<close>

definition rb_cap :: "ringbuffer_t \<Rightarrow> nat" where
  "rb_cap rb = unat (rb_total rb)"

definition rb_put :: "8 word \<Rightarrow> ringbuffer_t \<Rightarrow> (bool \<times> ringbuffer_t) option" where
  "rb_put b rb = do { (n, rb) \<leftarrow> ringbuffer_insert (Some rb) [b] 1; Some (n = 1, rb) }"

definition rb_get :: "ringbuffer_t \<Rightarrow> (8 word option \<times> ringbuffer_t) option" where
  "rb_get rb = do { (bs, rb) \<leftarrow> ringbuffer_pop (Some rb) 1 1; Some (if bs = [] then None else Some (hd bs), rb) }"

section \<open>Lemmas\<close>

lemma unat_min: "unat (if len > a then a else len :: 64 word) = min (unat len) (unat a)"
  by (auto simp: word_less_nat_alt min_def)

lemma unat_sub_le: "unat (b :: 64 word) \<le> unat a \<Longrightarrow> unat (a - b) = unat a - unat b"
  by (simp add: unat_sub word_le_nat_alt)

lemma unat_add_lt: "unat (a :: 64 word) + unat b < 2 ^ 64 \<Longrightarrow> unat (a + b) = unat a + unat b"
  by (simp add: unat_word_ariths)

lemma word_of_unat: "unat w = n \<Longrightarrow> w = word_of_nat n"
  by auto

lemma rb_size:
  assumes "rb_rep rb xs"
  shows "ringbuffer_size (Some rb) = Some (word_of_nat (length xs))" "length xs < 2 ^ 63" "length xs \<le> unat (rb_total rb)"
proof -
  show l: "length xs < 2 ^ 63" "length xs \<le> unat (rb_total rb)" using assms by (auto simp: rb_rep_def)
  have "unat (rb_available rb) + length xs = unat (rb_total rb)" using assms by (simp add: rb_rep_def)
  then have "unat (rb_total rb - rb_available rb) = length xs" by (simp add: unat_sub_le)
  then have "rb_total rb - rb_available rb = word_of_nat (length xs)" by (rule word_of_unat)
  then show "ringbuffer_size (Some rb) = Some (word_of_nat (length xs))" by (simp add: ringbuffer_size_def)
qed

lemma wrap_next: "t < n \<Longrightarrow> (if n \<le> t + 1 then 0 else t + 1) = (t + 1) mod (n :: nat)"
  by (cases "n = t + 1") auto

lemma ring_inj:
  assumes "(h + i) mod n = (h + j) mod (n :: nat)" "i < n" "j < n"
  shows "i = j"
proof -
  have *: "i = j" if "(h + i) mod n = (h + j) mod n" "j < n" "i \<le> j" for i j
  proof -
    have "n dvd (h + j) - (h + i)" using that(1,3) mod_eq_dvd_iff_nat [of "h + i" "h + j" n] by auto
    then show ?thesis using that by (auto dest: dvd_imp_le)
  qed
  show ?thesis using * [of i j] * [of j i] assms by (cases "i \<le> j") auto
qed

text \<open>One turn of the loop of \<^verbatim>\<open>ringbuffer_insert\<close>.\<close>

lemma rb_snoc:
  assumes r: "rb_rep (rb\<lparr>rb_available := a\<rparr>) xs" and a: "0 < unat a"
  shows "rb_rep (rb\<lparr>rb_base := (rb_base rb)[rb_tail rb := b], rb_tail := (rb_tail rb + 1) mod unat (rb_total rb),
    rb_available := a - 1\<rparr>) (xs @ [b])"
proof -
  let ?n = "unat (rb_total rb)" and ?h = "rb_head rb"
  have f: "0 < ?n" "length (rb_base rb) = ?n" "rb_tail rb = (?h + length xs) mod ?n" "unat a + length xs = ?n"
    "\<And>i. i < length xs \<Longrightarrow> rb_base rb ! ((?h + i) mod ?n) = xs ! i"
    using r by (auto simp: rb_rep_def)
  have u: "unat (a - 1) = unat a - 1" using a by (intro unat_minus_one) auto
  have "(rb_base rb)[rb_tail rb := b] ! ((?h + i) mod ?n) = (xs @ [b]) ! i" if "i < length (xs @ [b])" for i
  proof (cases "i = length xs")
    case True
    then show ?thesis using f(1-3) by simp
  next
    case False
    with that have i: "i < length xs" by simp
    then have "(?h + i) mod ?n \<noteq> rb_tail rb" using ring_inj [of ?h i ?n "length xs"] f(3,4) a by auto
    then show ?thesis using f(5) [OF i] i by (simp add: nth_append)
  qed
  then show ?thesis using r a u f(3,4) by (auto simp: rb_rep_def mod_Suc_eq)
qed

lemma insert_loop_ok:
  assumes "rb_rep (rb\<lparr>rb_available := a\<rparr>) xs" "n \<le> unat a" "n \<le> length p"
  shows "\<exists>rb'. insert_loop n p rb = Some rb' \<and> rb_available rb' = rb_available rb \<and> rb_total rb' = rb_total rb \<and>
    rb_rep (rb'\<lparr>rb_available := a - word_of_nat n\<rparr>) (xs @ take n p)"
  using assms
proof (induction n arbitrary: p rb a xs)
  case (Suc n)
  obtain b p' where p: "p = b # p'" using Suc.prems(3) by (cases p) auto
  let ?rb = "rb\<lparr>rb_base := (rb_base rb)[rb_tail rb := b], rb_tail := (rb_tail rb + 1) mod unat (rb_total rb)\<rparr>"
  have t: "rb_tail rb < length (rb_base rb)" "rb_tail rb < unat (rb_total rb)" using Suc.prems(1) by (auto simp: rb_rep_def)
  have s: "rb_rep (?rb\<lparr>rb_available := a - 1\<rparr>) (xs @ [b])" using rb_snoc [OF Suc.prems(1)] Suc.prems(2) by simp
  have u: "unat (a - 1) = unat a - 1" using Suc.prems(2) by (intro unat_minus_one) auto
  have e: "insert_loop (Suc n) p rb = insert_loop n p' ?rb"
    using t wrap_next [OF t(2)] by (auto simp: Let_def p)
  from Suc.IH [OF s, of p'] u Suc.prems(2,3) e show ?case by (simp add: algebra_simps p)
qed simp

lemma ringbuffer_insert_ok:
  assumes "rb_rep rb xs" "min (unat len) (rb_cap rb - length xs) \<le> length p"
  shows "\<exists>rb'. ringbuffer_insert (Some rb) p len = Some (word_of_nat (min (unat len) (rb_cap rb - length xs)), rb') \<and>
    rb_rep rb' (xs @ take (min (unat len) (rb_cap rb - length xs)) p) \<and> rb_total rb' = rb_total rb"
proof -
  let ?n = "min (unat len) (rb_cap rb - length xs)"
  have a: "unat (rb_available rb) = rb_cap rb - length xs" using assms(1) by (auto simp: rb_rep_def rb_cap_def)
  have n: "unat (if len > rb_available rb then rb_available rb else len) = ?n" by (simp only: unat_min a)
  then have w: "(if len > rb_available rb then rb_available rb else len) = word_of_nat ?n" by (rule word_of_unat)
  obtain rb' where r: "insert_loop ?n p rb = Some rb'" "rb_available rb' = rb_available rb" "rb_total rb' = rb_total rb"
    "rb_rep (rb'\<lparr>rb_available := rb_available rb - word_of_nat ?n\<rparr>) (xs @ take ?n p)"
    using insert_loop_ok [where rb = rb and a = "rb_available rb" and xs = xs and n = ?n and p = p] assms a by auto
  have "ringbuffer_insert (Some rb) p len = Some (word_of_nat ?n, rb'\<lparr>rb_available := rb_available rb - word_of_nat ?n\<rparr>)"
    using n r(1,2) by (simp only: ringbuffer_insert_def ringbuffer_available_def option.map Option.bind.simps Let_def) (simp add: w)
  with r(3,4) show ?thesis by simp
qed

lemma peek_loop_ok:
  assumes "rb_rep rb xs" "k + n \<le> length xs" "n \<le> room"
  shows "peek_loop n room ((rb_head rb + k) mod unat (rb_total rb)) rb = Some (take n (drop k xs))"
  using assms(2,3)
proof (induction n arbitrary: k room)
  case (Suc n)
  obtain room' where room: "room = Suc room'" using Suc.prems(2) by (cases room) auto
  let ?t = "unat (rb_total rb)"
  have f: "0 < ?t" "length (rb_base rb) = ?t" "rb_base rb ! ((rb_head rb + k) mod ?t) = xs ! k"
    using assms(1) Suc.prems(1) by (auto simp: rb_rep_def)
  have b: "(rb_head rb + k) mod ?t < ?t" using f(1) by simp
  have "take (Suc n) (drop k xs) = xs ! k # take n (drop (Suc k) xs)"
    using Suc.prems(1) by (simp add: Cons_nth_drop_Suc [symmetric])
  with Suc.IH [of "Suc k" room'] Suc.prems f b wrap_next [OF b] show ?case
    by (simp add: room mod_Suc_eq)
qed simp

lemma peek_loop_short: "room < n \<Longrightarrow> peek_loop n room b rb = None"
  by (induction n room b rb rule: peek_loop.induct) auto

lemma peek_count_ok:
  assumes "offset \<le> n" "n < 2 ^ 63" "offset + unat len < 2 ^ 64"
  shows "unat (peek_count (word_of_nat offset) len (word_of_nat n)) = min (unat len) (n - offset)"
proof -
  have o: "unat (word_of_nat offset :: 64 word) = offset" "unat (word_of_nat n :: 64 word) = n"
    using assms by (simp_all add: unsigned_of_nat take_bit_nat_eq_self)
  have "unat (word_of_nat offset + len) = offset + unat len" using unat_add_lt [of "word_of_nat offset" len] o(1) assms(3) by simp
  with o assms(1) show ?thesis by (auto simp: peek_count_def word_less_nat_alt unat_sub_le)
qed

lemma sint_small: "n < 2 ^ 63 \<Longrightarrow> \<not> sint (word_of_nat n :: 64 word) < 0"
  by (simp add: signed_of_nat signed_take_bit_int_eq_self)

lemma ringbuffer_peek_ok:
  assumes "rb_rep rb xs" "offset \<le> length xs" "offset + unat len < 2 ^ 64" "min (unat len) (length xs - offset) \<le> room"
  shows "ringbuffer_peek (Some rb) (word_of_nat offset) room len = Some (take (unat len) (drop offset xs))"
proof -
  note n = rb_size(2) [OF assms(1)]
  have o: "unat (word_of_nat offset :: 64 word) = offset" "unat (word_of_nat (length xs) :: 64 word) = length xs"
    using assms(2) n by (simp_all add: unsigned_of_nat take_bit_nat_eq_self)
  have "\<not> sint (word_of_nat offset :: 64 word) < 0"
    using n assms(2) by (intro sint_small) simp
  moreover have "rb_total rb \<noteq> 0" using assms(1) by (auto simp: rb_rep_def)
  moreover have "peek_loop (min (unat len) (length xs - offset)) room ((rb_head rb + offset) mod unat (rb_total rb)) rb =
    Some (take (min (unat len) (length xs - offset)) (drop offset xs))"
    by (rule peek_loop_ok [OF assms(1)]) (use assms(2,4) in auto)
  moreover have "take (min (unat len) (length xs - offset)) (drop offset xs) = take (unat len) (drop offset xs)"
    by (simp add: min_def)
  ultimately show ?thesis using assms(2) o
    by (simp add: ringbuffer_peek_def rb_size [OF assms(1)] peek_count_ok [OF assms(2) n assms(3)] word_less_nat_alt)
qed

lemma advance_head_ok:
  assumes "rb_rep rb xs" "n \<le> length xs"
  shows "rb_rep (advance_head (word_of_nat n) rb) (drop n xs) \<and> rb_total (advance_head (word_of_nat n) rb) = rb_total rb"
proof -
  let ?t = "unat (rb_total rb)"
  have f: "?t < 2 ^ 63" "rb_head rb < ?t" "unat (rb_available rb) + length xs = ?t" using assms(1) by (auto simp: rb_rep_def)
  have n: "unat (word_of_nat n :: 64 word) = n" using f assms(2) by (simp add: unsigned_of_nat take_bit_nat_eq_self)
  have a: "unat (rb_available rb + word_of_nat n) = unat (rb_available rb) + n"
    using f assms(2) n unat_add_lt [of "rb_available rb" "word_of_nat n"] by simp
  have h: "rb_head (advance_head (word_of_nat n) rb) = (rb_head rb + n) mod ?t"
    using f assms(2) n by (simp add: advance_head_def Let_def mod_if [of "rb_head rb + n"])
  have s: "rb_total (advance_head (word_of_nat n) rb) = rb_total rb" "rb_base (advance_head (word_of_nat n) rb) = rb_base rb"
    "rb_tail (advance_head (word_of_nat n) rb) = rb_tail rb" "rb_available (advance_head (word_of_nat n) rb) = rb_available rb + word_of_nat n"
    by (simp_all add: advance_head_def Let_def)
  have m: "((rb_head rb + n) mod ?t + i) mod ?t = (rb_head rb + (n + i)) mod ?t" for i by (simp add: mod_add_left_eq add.assoc)
  have "((rb_head rb + n) mod ?t + length (drop n xs)) mod ?t = (rb_head rb + length xs) mod ?t"
    using assms(2) by (simp add: m del: add_diff_assoc)
  then show ?thesis using assms unfolding rb_rep_def s h a by (auto simp: m)
qed

lemma ringbuffer_pop_ok:
  assumes "rb_rep rb xs" "min (unat len) (length xs) \<le> room"
  shows "\<exists>rb'. ringbuffer_pop (Some rb) room len = Some (take (unat len) xs, rb') \<and> rb_rep rb' (drop (unat len) xs) \<and>
    rb_total rb' = rb_total rb"
proof -
  have "ringbuffer_peek (Some rb) 0 room len = Some (take (unat len) xs)"
    using ringbuffer_peek_ok [OF assms(1), of 0 len room] assms(2) unsigned_less [of len] by simp
  moreover have "drop (length (take (unat len) xs)) xs = drop (unat len) xs" by (simp add: min_def)
  moreover have "length (take (unat len) xs) \<le> length xs" by simp
  ultimately show ?thesis using advance_head_ok [OF assms(1), of "length (take (unat len) xs)"]
    by (simp add: ringbuffer_pop_def del: length_take)
qed

lemma ringbuffer_delete_ok:
  assumes "rb_rep rb xs"
  shows "\<exists>rb'. ringbuffer_delete (Some rb) len = Some (word_of_nat (min (unat len) (length xs)), rb') \<and>
    rb_rep rb' (drop (unat len) xs) \<and> rb_total rb' = rb_total rb"
proof -
  have o: "unat (word_of_nat (length xs) :: 64 word) = length xs"
    using rb_size(2) [OF assms] by (simp add: unsigned_of_nat take_bit_nat_eq_self)
  have "unat (if len > word_of_nat (length xs) then word_of_nat (length xs) else len) = min (unat len) (length xs)"
    by (simp only: unat_min o)
  then have w: "(if len > word_of_nat (length xs) then word_of_nat (length xs) else len) = word_of_nat (min (unat len) (length xs))"
    by (rule word_of_unat)
  have "drop (min (unat len) (length xs)) xs = drop (unat len) xs" by (simp add: min_def)
  with advance_head_ok [OF assms, of "min (unat len) (length xs)"] show ?thesis
    by (simp add: ringbuffer_delete_def rb_size [OF assms] Let_def w)
qed

lemma ringbuffer_init_ok: "ringbuffer_init sz = Some rb \<Longrightarrow> 0 < unat sz \<Longrightarrow> rb_rep rb [] \<and> rb_cap rb = unat sz"
  by (auto simp: ringbuffer_init_def rb_rep_def rb_cap_def split: if_splits)

interpretation rb: bounded_fifo rb_rep rb_cap "\<lambda>_. True" rb_put rb_get
proof
  fix s xs assume "rb_rep s xs"
  then show "length xs \<le> rb_cap s" by (simp add: rb_size(3) rb_cap_def)
next
  fix s xs and x :: "8 word" assume r: "rb_rep s xs"
  note i = ringbuffer_insert_ok [OF r, of 1 "[x]"]
  show "\<exists>s'. rb_put x s = Some (length xs < rb_cap s, s') \<and> rb_rep s' (if length xs < rb_cap s then xs @ [x] else xs) \<and>
    rb_cap s' = rb_cap s"
  proof (cases "length xs < rb_cap s")
    case True
    then have "min (unat (1 :: 64 word)) (rb_cap s - length xs) = 1" by simp
    with i True show ?thesis by (auto simp: rb_put_def rb_cap_def)
  next
    case False
    with i show ?thesis by (auto simp: rb_put_def rb_cap_def)
  qed
next
  fix s xs assume r: "rb_rep s xs"
  show "\<exists>s'. rb_get s = Some (if xs = [] then None else Some (hd xs), s') \<and> rb_rep s' (tl xs) \<and> rb_cap s' = rb_cap s"
    using ringbuffer_pop_ok [OF r, of 1 1] by (cases xs) (auto simp: rb_get_def rb_cap_def)
qed

section \<open>Properties\<close>

text \<open>
  C34: Every operation of the ring does on the bytes it holds what its name says on a list, at any
  position of the head and with any wrap-around: \<^verbatim>\<open>ringbuffer_insert\<close> appends as many bytes as
  fit, \<^verbatim>\<open>ringbuffer_peek\<close> copies a slice, \<^verbatim>\<open>ringbuffer_pop\<close> takes a prefix away and
  \<^verbatim>\<open>ringbuffer_delete\<close> drops one. None reads or writes outside the ring, the source or the
  destination, and each returns how many bytes it moved.
\<close>

theorem ringbuffer_refines:
  assumes "rb_rep rb xs" "min (unat len) (rb_cap rb - length xs) \<le> length p" "min (unat len) (length xs) \<le> room"
    "offset \<le> length xs" "offset + unat len < 2 ^ 64"
  shows "(\<exists>rb'. ringbuffer_insert (Some rb) p len = Some (word_of_nat (min (unat len) (rb_cap rb - length xs)), rb') \<and>
      rb_rep rb' (xs @ take (min (unat len) (rb_cap rb - length xs)) p) \<and> rb_total rb' = rb_total rb) \<and>
    ringbuffer_peek (Some rb) (word_of_nat offset) room len = Some (take (unat len) (drop offset xs)) \<and>
    (\<exists>rb'. ringbuffer_pop (Some rb) room len = Some (take (unat len) xs, rb') \<and>
      rb_rep rb' (drop (unat len) xs) \<and> rb_total rb' = rb_total rb) \<and>
    (\<exists>rb'. ringbuffer_delete (Some rb) len = Some (word_of_nat (min (unat len) (length xs)), rb') \<and>
      rb_rep rb' (drop (unat len) xs) \<and> rb_total rb' = rb_total rb)"
proof -
  have "min (unat len) (length xs - offset) \<le> room" using assms(3) by linarith
  with ringbuffer_insert_ok [OF assms(1,2)] ringbuffer_peek_ok [OF assms(1,4,5)] ringbuffer_pop_ok [OF assms(1,3)]
    ringbuffer_delete_ok [OF assms(1)] show ?thesis by blast
qed

theorem ringbuffer_refines_witness:
  "ringbuffer_peek (Some \<lparr>rb_total = 3, rb_available = 1, rb_base = [12, 99, 11], rb_head = 2, rb_tail = 1\<rparr>) 1 5 4 = Some [12]"
  using ringbuffer_refines [of "\<lparr>rb_total = 3, rb_available = 1, rb_base = [12, 99, 11], rb_head = 2, rb_tail = 1\<rparr>"
      "[11, 12]" 4 "[1, 2, 3, 4]" 5 1]
  by (simp add: rb_rep_def rb_cap_def less_Suc_eq)

text \<open>
  C35: A ring is a byte stream: in any sequence of one-byte insertions and removals from a fresh
  ring, what has come out followed by what is still inside is what was accepted, in order; an
  insertion is refused only when the ring is full and the ring never holds more than its size.
\<close>

theorem ringbuffer_stream:
  assumes "ringbuffer_init sz = Some rb" "0 < unat sz"
  shows "\<exists>rb' bs out ys. fifo_run rb_put rb_get ops rb = Some (bs, out, rb') \<and> rb_rep rb' ys \<and>
    fifo_spec (unat sz) ops [] = (bs, out, ys) \<and> accepted (puts ops) bs = delivered out @ ys \<and> length ys \<le> unat sz"
proof -
  have r: "rb_rep rb []" "rb_cap rb = unat sz" using ringbuffer_init_ok [OF assms] by simp_all
  from rb.run_refines [OF r(1), of ops] obtain rb' bs out ys where run: "fifo_run rb_put rb_get ops rb = Some (bs, out, rb')"
    "fifo_spec (unat sz) ops [] = (bs, out, ys)" "rb_rep rb' ys" using r(2) by auto
  with fifo_spec_order [OF run(2)] fifo_spec_bound [OF _ run(2)] show ?thesis by auto
qed

theorem ringbuffer_stream_witness:
  "\<exists>rb' bs out ys. fifo_run rb_put rb_get [Put 1, Put 2, Put 3, Get] (the (ringbuffer_init 2)) = Some (bs, out, rb') \<and>
    rb_rep rb' ys \<and> fifo_spec 2 [Put 1, Put 2, Put 3, Get] [] = (bs, out, ys) \<and>
    accepted [1, 2, 3] bs = delivered out @ ys \<and> length ys \<le> 2"
  using ringbuffer_stream [of 2 "the (ringbuffer_init 2)" "[Put 1, Put 2, Put 3, Get]"]
  by (simp add: ringbuffer_init_def del: fifo_run.simps fifo_spec.simps)

text \<open>
  C36: The bound check of \<^verbatim>\<open>ringbuffer_peek\<close> adds the offset and the length before it compares,
  and the sum wraps: with the largest length and any offset but zero it asks for all of that
  length, whatever the ring holds, so no destination is large enough.
\<close>

theorem ringbuffer_peek_wraps:
  assumes "rb_rep rb xs" "0 < offset" "offset \<le> length xs" "room < 2 ^ 64 - 1"
  shows "ringbuffer_peek (Some rb) (word_of_nat offset) room (-1) = None"
proof -
  have o: "unat (word_of_nat offset :: 64 word) = offset" "unat (word_of_nat (length xs) :: 64 word) = length xs"
    using assms(3) rb_size(2) [OF assms(1)] by (simp_all add: unsigned_of_nat take_bit_nat_eq_self)
  have "unat (word_of_nat offset - 1 :: 64 word) = offset - 1"
    using unat_sub_le [of 1 "word_of_nat offset"] o(1) assms(2) by simp
  then have "peek_count (word_of_nat offset) (- 1) (word_of_nat (length xs)) = - 1"
    using o(2) assms(3) by (auto simp: peek_count_def word_less_nat_alt)
  moreover have "unat (- 1 :: 64 word) = 2 ^ 64 - 1" by (simp add: unsigned_minus_1_eq_mask mask_eq_exp_minus_1)
  ultimately show ?thesis using peek_loop_short [of room "2 ^ 64 - 1"] assms(4)
    by (simp add: ringbuffer_peek_def rb_size [OF assms(1)])
qed

theorem ringbuffer_peek_wraps_witness:
  "ringbuffer_peek (Some \<lparr>rb_total = 3, rb_available = 1, rb_base = [12, 99, 11], rb_head = 2, rb_tail = 1\<rparr>) 1 1000 (-1) = None"
  using ringbuffer_peek_wraps [of "\<lparr>rb_total = 3, rb_available = 1, rb_base = [12, 99, 11], rb_head = 2, rb_tail = 1\<rparr>"
      "[11, 12]" 1 1000]
  by (simp add: rb_rep_def less_Suc_eq)

end
